(* ===== verification/Prelude.thy ===== *)
theory Prelude
  imports Main "HOL-Library.AList" "HOL-Library.List_Lexorder" "HOL-Library.Char_ord"
    "HOL-Library.Sublist" "HOL-Library.Multiset" "HOL-Library.Word"
begin

text \<open>
  Shared vocabulary of the development: outcomes of Go calls (return or panic), Go maps as
  association lists, nil-able values as options, decimal rendering of integers, and the few
  functions of Go's \<open>strings\<close> and \<open>sort\<close> packages the operator calls, with the lemmas that
  the component theories share.

  A Go map is an association list \<open>gomap\<close>: the order of the list is the order in which a
  \<open>range\<close> loop visits the entries. Go leaves that order open, so a statement that holds for
  every association list with distinct keys holds for every iteration order.
\<close>

named_theorems go_simps \<open>unfolding rules of the modelled Go helpers\<close>
named_theorems obj_simps \<open>projections of Kubernetes objects\<close>

subsection \<open>Outcomes: a Go call returns or panics\<close>

datatype ('e, 'a) outcome = Ret 'a | Panic 'e

fun bind_outcome :: "('e, 'a) outcome \<Rightarrow> ('a \<Rightarrow> ('e, 'b) outcome) \<Rightarrow> ('e, 'b) outcome" where
  "bind_outcome (Ret x) f = f x"
| "bind_outcome (Panic p) f = Panic p"

fun returns :: "('e, 'a) outcome \<Rightarrow> bool" where
  "returns (Ret _) = True"
| "returns (Panic _) = False"

lemma bind_outcome_Ret_iff [simp]:
  "bind_outcome m f = Ret y \<longleftrightarrow> (\<exists>x. m = Ret x \<and> f x = Ret y)"
  by (cases m) auto

lemma returns_iff: "returns m \<longleftrightarrow> (\<exists>x. m = Ret x)"
  by (cases m) auto

subsection \<open>Go maps\<close>

type_synonym ('k, 'v) gomap = "('k \<times> 'v) list"
type_synonym strmap = "(string, string) gomap"

abbreviation gm_get :: "('k, 'v) gomap \<Rightarrow> 'k \<Rightarrow> 'v option" where
  "gm_get m k \<equiv> map_of m k"

abbreviation gm_put :: "'k \<Rightarrow> 'v \<Rightarrow> ('k, 'v) gomap \<Rightarrow> ('k, 'v) gomap" where
  "gm_put k v m \<equiv> AList.update k v m"

abbreviation gm_del :: "'k \<Rightarrow> ('k, 'v) gomap \<Rightarrow> ('k, 'v) gomap" where
  "gm_del k m \<equiv> AList.delete k m"

abbreviation gm_wf :: "('k, 'v) gomap \<Rightarrow> bool" where
  "gm_wf m \<equiv> distinct (map fst m)"

text \<open>Copying the entries of one map over another (\<open>maps.Copy\<close>): later entries win.\<close>

fun gm_copy :: "('k, 'v) gomap \<Rightarrow> ('k, 'v) gomap \<Rightarrow> ('k, 'v) gomap" where
  "gm_copy dst [] = dst"
| "gm_copy dst ((k, v) # src) = gm_copy (gm_put k v dst) src"

lemma gm_get_put [simp]: "gm_get (gm_put k v m) k' = (if k' = k then Some v else gm_get m k')"
  by (simp add: update_conv)

lemma gm_get_del [simp]: "gm_get (gm_del k m) k' = (if k' = k then None else gm_get m k')"
  by (simp add: delete_conv)

lemma gm_wf_put [simp]: "gm_wf m \<Longrightarrow> gm_wf (gm_put k v m)"
  by (rule distinct_update)

lemma gm_wf_del [simp]: "gm_wf m \<Longrightarrow> gm_wf (gm_del k m)"
  by (simp add: distinct_delete)

lemma gm_keys_put [simp]: "fst ` set (gm_put k v m) = insert k (fst ` set m)"
  by (induction m) auto

lemma gm_wf_copy [simp]: "gm_wf dst \<Longrightarrow> gm_wf (gm_copy dst src)"
  by (induction dst src rule: gm_copy.induct) auto

lemma gm_get_copy:
  "gm_wf src \<Longrightarrow> gm_get (gm_copy dst src) k =
     (case gm_get src k of Some v \<Rightarrow> Some v | None \<Rightarrow> gm_get dst k)"
  by (induction dst src rule: gm_copy.induct)
    (auto split: option.splits dest: map_of_SomeD simp: rev_image_eqI)

lemma gm_get_mem: "gm_wf m \<Longrightarrow> gm_get m k = Some v \<longleftrightarrow> (k, v) \<in> set m"
  by (simp add: map_of_eq_Some_iff)

lemma gm_get_None_iff: "gm_get m k = None \<longleftrightarrow> k \<notin> fst ` set m"
  by (rule map_of_eq_None_iff)

subsection \<open>Decimal rendering (\<open>strconv.Itoa\<close>, the verb \<open>%d\<close>)\<close>

definition digit_char :: "nat \<Rightarrow> char" where
  "digit_char d = char_of (48 + d)"

fun itoa_nat :: "nat \<Rightarrow> string" where
  "itoa_nat n = (if n < 10 then [digit_char n] else itoa_nat (n div 10) @ [digit_char (n mod 10)])"

declare itoa_nat.simps [simp del]

definition itoa :: "int \<Rightarrow> string" where
  "itoa i = (if i < 0 then CHR ''-'' # itoa_nat (nat (- i)) else itoa_nat (nat i))"

lemma digit_char_inject: "a < 10 \<Longrightarrow> b < 10 \<Longrightarrow> digit_char a = digit_char b \<longleftrightarrow> a = b"
  by (simp add: digit_char_def char_of_eq_iff take_bit_nat_eq_self)

lemma itoa_nat_ne_Nil [simp]: "itoa_nat n \<noteq> []"
  by (subst itoa_nat.simps) simp

lemma itoa_nat_inject: "itoa_nat m = itoa_nat n \<Longrightarrow> m = n"
proof (induction m arbitrary: n rule: itoa_nat.induct)
  case (1 m)
  show ?case
  proof (cases "m < 10")
    case True
    with "1.prems" have "itoa_nat n = [digit_char m]" by (simp add: itoa_nat.simps [of m])
    then have "n < 10 \<and> digit_char n = digit_char m"
      by (subst (asm) itoa_nat.simps) (auto split: if_splits)
    with True show ?thesis using digit_char_inject by auto
  next
    case False
    then have m: "itoa_nat m = itoa_nat (m div 10) @ [digit_char (m mod 10)]"
      by (simp add: itoa_nat.simps [of m])
    have "\<not> n < 10"
    proof
      assume "n < 10"
      then have "itoa_nat n = [digit_char n]" by (simp add: itoa_nat.simps [of n])
      with "1.prems" m show False by simp
    qed
    then have n: "itoa_nat n = itoa_nat (n div 10) @ [digit_char (n mod 10)]"
      by (simp add: itoa_nat.simps [of n])
    from "1.prems" m n have "itoa_nat (m div 10) = itoa_nat (n div 10)"
      and d: "digit_char (m mod 10) = digit_char (n mod 10)" by simp_all
    with "1.IH" [OF False] have "m div 10 = n div 10" by blast
    moreover from d have "m mod 10 = n mod 10" by (simp add: digit_char_inject)
    ultimately show ?thesis by (metis div_mult_mod_eq)
  qed
qed

lemma itoa_inject_nonneg: "0 \<le> a \<Longrightarrow> 0 \<le> b \<Longrightarrow> itoa a = itoa b \<longleftrightarrow> a = b"
  by (auto simp: itoa_def dest: itoa_nat_inject)

subsection \<open>The conversion \<open>int32(n)\<close>\<close>

definition toInt32 :: "int \<Rightarrow> int" where
  "toInt32 n = signed_take_bit 31 n"

lemma toInt32_word: "toInt32 n = sint (word_of_int n :: 32 word)"
  unfolding toInt32_def by transfer simp

lemma toInt32_range: "- (2 ^ 31) \<le> toInt32 n" "toInt32 n < 2 ^ 31"
  by (simp_all only: toInt32_def signed_take_bit_int_greater_eq_minus_exp signed_take_bit_int_less_exp)

lemma toInt32_id: "- (2 ^ 31) \<le> n \<Longrightarrow> n < 2 ^ 31 \<Longrightarrow> toInt32 n = n"
  by (simp only: toInt32_def signed_take_bit_int_eq_self)

subsection \<open>Strings\<close>

text \<open>\<open>strings.Join\<close>.\<close>

fun join_strings :: "string \<Rightarrow> string list \<Rightarrow> string" where
  "join_strings sep [] = ''''"
| "join_strings sep [x] = x"
| "join_strings sep (x # y # xs) = x @ sep @ join_strings sep (y # xs)"

text \<open>\<open>strings.Split\<close> with a one-character separator: always at least one field.\<close>

fun split_string :: "char \<Rightarrow> string \<Rightarrow> string list" where
  "split_string c [] = ['''']"
| "split_string c (x # s) =
     (if x = c then '''' # split_string c s
      else (case split_string c s of [] \<Rightarrow> [[x]] | f # fs \<Rightarrow> (x # f) # fs))"

lemma split_string_ne_Nil [simp]: "split_string c s \<noteq> []"
  by (induction s) (auto split: list.splits)

lemma split_string_append_sep:
  "c \<notin> set x \<Longrightarrow> split_string c (x @ c # s) = x # split_string c s"
  by (induction x) auto

lemma split_string_no_sep: "c \<notin> set x \<Longrightarrow> split_string c x = [x]"
  by (induction x) auto

lemma split_join_strings:
  "xs \<noteq> [] \<Longrightarrow> \<forall>x\<in>set xs. c \<notin> set x \<Longrightarrow> split_string c (join_strings [c] xs) = xs"
  by (induction "[c]" xs rule: join_strings.induct)
    (auto simp: split_string_no_sep split_string_append_sep)

lemma join_split_string: "join_strings [c] (split_string c s) = s"
proof (induction s)
  case Nil
  then show ?case by simp
next
  case (Cons x s)
  obtain f fs where f: "split_string c s = f # fs" by (cases "split_string c s") auto
  show ?case
  proof (cases "x = c")
    case True
    with f Cons show ?thesis by simp
  next
    case False
    with f Cons show ?thesis by (cases fs) auto
  qed
qed

lemma join_strings_eq_Nil_iff:
  "join_strings [c] xs = [] \<longleftrightarrow> xs = [] \<or> xs = ['''']"
  by (cases "([c], xs)" rule: join_strings.cases) auto

text \<open>\<open>strings.HasPrefix\<close> and \<open>strings.Contains\<close>.\<close>

definition has_prefix :: "string \<Rightarrow> string \<Rightarrow> bool" where
  "has_prefix s p = (take (length p) s = p)"

fun str_contains :: "string \<Rightarrow> string \<Rightarrow> bool" where
  "str_contains [] p = (p = [])"
| "str_contains (x # s) p = (has_prefix (x # s) p \<or> str_contains s p)"

lemma has_prefix_iff: "has_prefix s p \<longleftrightarrow> prefix p s"
  by (auto simp: has_prefix_def prefix_def) (metis append_take_drop_id)

lemma str_contains_iff: "str_contains s p \<longleftrightarrow> sublist p s"
  by (induction s) (auto simp: has_prefix_iff sublist_Cons_right)

subsection \<open>Lists\<close>

text \<open>A left-to-right loop whose body threads a state.\<close>

fun for_each :: "('a \<Rightarrow> 's \<Rightarrow> 's) \<Rightarrow> 'a list \<Rightarrow> 's \<Rightarrow> 's" where
  "for_each body [] s = s"
| "for_each body (x # xs) s = for_each body xs (body x s)"

lemma for_each_append [simp]: "for_each f (xs @ ys) s = for_each f ys (for_each f xs s)"
  by (induction xs arbitrary: s) auto

lemma for_each_invariant:
  assumes "I s" and "\<And>x s. x \<in> set xs \<Longrightarrow> I s \<Longrightarrow> I (f x s)"
  shows "I (for_each f xs s)"
  using assms by (induction xs arbitrary: s) auto

lemma sort_key_unique:
  fixes f :: "'a \<Rightarrow> 'b::linorder"
  assumes "mset xs = mset ys" and "distinct (map f xs)"
  shows "sort_key f xs = sort_key f ys"
  using assms by (intro sort_key_inj_key_eq) (auto simp: distinct_map)

end
