(* ===== verification/Go_Util.thy ===== *)
theory Go_Util
  imports Prelude
begin

text \<open>
  The operator's own utility packages under \<open>src/pkg\<close>: \<open>multierror\<close>, \<open>recovery\<close>, \<open>or_die\<close>,
  \<open>json_or_die\<close>, \<open>hash\<close>, \<open>optional\<close>, \<open>result\<close>, \<open>pointer\<close>, \<open>env\<close>, \<open>map_defaulter\<close> and the two
  \<open>collections\<close> packages. A Go \<open>error\<close> is an option (\<open>None\<close> is \<open>nil\<close>) of the datatype
  \<open>goerr\<close>, whose constructors are the error values the operator meets: API errors that carry
  a status reason, plain errors, \<open>fmt.Errorf\<close> wrappers, \<open>multiError\<close> and \<open>caughtPanic\<close>.
\<close>

subsection \<open>Errors\<close>

datatype reason = NotFound | Conflict | OtherReason string

datatype goerr =
    EStatus reason string
  | EPlain string
  | EWrapf string goerr string
  | EMulti "goerr list"
  | ECaught goerr

type_synonym error = "goerr option"

text \<open>The \<open>Error()\<close> method.\<close>

fun err_msg :: "goerr \<Rightarrow> string" where
  "err_msg (EStatus r m) = m"
| "err_msg (EPlain m) = m"
| "err_msg (EWrapf pre e suf) = pre @ err_msg e @ suf"
| "err_msg (EMulti es) =
     (case es of [e] \<Rightarrow> err_msg e
      | _ \<Rightarrow> ''Multiple Errors:'' @ [CHR 0x0A] @ concat (map (\<lambda>e. err_msg e @ [CHR 0x0A]) es))"
| "err_msg (ECaught e) = err_msg e"

text \<open>
  The tree that \<open>errors.Is\<close> and \<open>errors.As\<close> walk through the \<open>Unwrap\<close> methods, in their
  order (depth first, the error itself before what it wraps).
\<close>

fun err_tree :: "goerr \<Rightarrow> goerr list" where
  "err_tree (EWrapf pre e suf) = EWrapf pre e suf # err_tree e"
| "err_tree (EMulti es) = EMulti es # concat (map err_tree es)"
| "err_tree (ECaught e) = ECaught e # err_tree e"
| "err_tree e = [e]"

lemma err_tree_self [simp]: "e \<in> set (err_tree e)"
  by (cases e) auto

fun is_status :: "goerr \<Rightarrow> bool" where
  "is_status (EStatus r m) = True"
| "is_status _ = False"

text \<open>
  \<open>k8serrors.ReasonForError\<close>: the reason of the first error of the tree that carries an API
  status. \<open>IsNotFound\<close> and \<open>IsConflict\<close> compare it.
\<close>

definition reason_for_error :: "goerr \<Rightarrow> reason option" where
  "reason_for_error e =
     (case filter is_status (err_tree e) of EStatus r m # _ \<Rightarrow> Some r | _ \<Rightarrow> None)"

definition isNotFound :: "error \<Rightarrow> bool" where
  "isNotFound err = (case err of None \<Rightarrow> False | Some e \<Rightarrow> reason_for_error e = Some NotFound)"

definition isConflict :: "error \<Rightarrow> bool" where
  "isConflict err = (case err of None \<Rightarrow> False | Some e \<Rightarrow> reason_for_error e = Some Conflict)"

text \<open>\<open>client.IgnoreNotFound\<close>.\<close>

definition ignoreNotFound :: "error \<Rightarrow> error" where
  "ignoreNotFound err = (if isNotFound err then None else err)"

lemma isNotFound_None [simp]: "\<not> isNotFound None"
  by (simp add: isNotFound_def)

lemma isConflict_None [simp]: "\<not> isConflict None"
  by (simp add: isConflict_def)

lemma isNotFound_status [simp]: "isNotFound (Some (EStatus r m)) \<longleftrightarrow> r = NotFound"
  by (simp add: isNotFound_def reason_for_error_def)

lemma isConflict_status [simp]: "isConflict (Some (EStatus r m)) \<longleftrightarrow> r = Conflict"
  by (simp add: isConflict_def reason_for_error_def)

lemma isNotFound_plain [simp]: "\<not> isNotFound (Some (EPlain m))"
  by (simp add: isNotFound_def reason_for_error_def)

lemma isConflict_plain [simp]: "\<not> isConflict (Some (EPlain m))"
  by (simp add: isConflict_def reason_for_error_def)

lemma reason_for_error_single [simp]: "reason_for_error (EMulti [e]) = reason_for_error e"
  by (simp add: reason_for_error_def)

subsection \<open>\<open>pkg/multierror\<close>\<close>

text \<open>The builder's state is the list of errors added so far, \<open>nil\<close> entries included.\<close>

type_synonym multiErrorBuilder = "error list"

definition newMultiErrorBuilder :: "error list \<Rightarrow> multiErrorBuilder" where
  "newMultiErrorBuilder errs = errs"

definition meb_add :: "error list \<Rightarrow> multiErrorBuilder \<Rightarrow> multiErrorBuilder" where
  "meb_add errs m = m @ errs"

definition meb_addSingle :: "error \<Rightarrow> multiErrorBuilder \<Rightarrow> multiErrorBuilder" where
  "meb_addSingle err m = meb_add [err] m"

definition meb_all :: "multiErrorBuilder \<Rightarrow> error list" where
  "meb_all m = m"

definition meb_allNonNil :: "multiErrorBuilder \<Rightarrow> error list" where
  "meb_allNonNil m = filter (\<lambda>err. err \<noteq> None) m"

definition meb_build :: "multiErrorBuilder \<Rightarrow> error" where
  "meb_build m =
     (let errs = meb_allNonNil m in
      case errs of
        [] \<Rightarrow> None
      | [e] \<Rightarrow> Some (EMulti [the e])
      | _ \<Rightarrow> Some (EMulti (map the errs)))"

fun is_multi :: "goerr \<Rightarrow> bool" where
  "is_multi (EMulti _) = True"
| "is_multi _ = False"

definition asMultiError :: "goerr \<Rightarrow> bool" where
  "asMultiError e = list_ex is_multi (err_tree e)"

lemmas meb_defs = newMultiErrorBuilder_def meb_add_def meb_addSingle_def meb_all_def
  meb_allNonNil_def

lemma meb_build_eq:
  "meb_build m = (if \<forall>err\<in>set m. err = None then None
                  else Some (EMulti (map the (filter (\<lambda>err. err \<noteq> None) m))))"
  by (auto simp: meb_build_def meb_defs Let_def filter_empty_conv split: list.splits)

lemma meb_build_None_iff [simp]: "meb_build m = None \<longleftrightarrow> (\<forall>err\<in>set m. err = None)"
  by (simp add: meb_build_eq)

lemma meb_build_Nil [simp]: "meb_build [] = None"
  by simp

lemma meb_build_single [simp]: "meb_build [Some e] = Some (EMulti [e])"
  by (simp add: meb_build_eq)

lemma meb_build_tree:
  assumes "meb_build m = Some b" and "Some e \<in> set m" and "x \<in> set (err_tree e)"
  shows "x \<in> set (err_tree b)"
proof -
  from assms(1,2) have b: "b = EMulti (map the (filter (\<lambda>err. err \<noteq> None) m))"
    by (auto simp: meb_build_eq split: if_splits)
  from assms(2) have "e \<in> set (map the (filter (\<lambda>err. err \<noteq> None) m))" by force
  with assms(3) show ?thesis by (auto simp: b)
qed

lemma err_msg_multi_sublist: "e \<in> set es \<Longrightarrow> sublist (err_msg e) (err_msg (EMulti es))"
proof (cases "\<exists>x. es = [x]")
  case True
  assume "e \<in> set es"
  with True show ?thesis by auto
next
  case False
  assume "e \<in> set es"
  then obtain xs ys where es: "es = xs @ e # ys" by (auto dest: split_list)
  from False have "err_msg (EMulti es) = ''Multiple Errors:'' @ [CHR 0x0A] @
      concat (map (\<lambda>e. err_msg e @ [CHR 0x0A]) es)"
    by (auto split: list.splits)
  also have "\<dots> = (''Multiple Errors:'' @ [CHR 0x0A] @
      concat (map (\<lambda>e. err_msg e @ [CHR 0x0A]) xs)) @ err_msg e @
      ([CHR 0x0A] @ concat (map (\<lambda>e. err_msg e @ [CHR 0x0A]) ys))"
    by (simp add: es)
  finally show ?thesis by (metis sublist_appendI)
qed

subsection \<open>\<open>pkg/recovery\<close>, \<open>pkg/or_die\<close>, \<open>pkg/json_or_die\<close>, \<open>pkg/hash\<close>\<close>

text \<open>What a panic carries: an \<open>error\<close> or any other value (its \<open>%v\<close> rendering).\<close>

datatype panicval = PErr goerr | PVal string

type_synonym 'a go = "(panicval, 'a) outcome"

text \<open>
  \<open>recovery.Catch\<close> when the deferred call recovers the panic \<open>p\<close>: \<open>err\<close> is the value of the
  named result, \<open>stack\<close> the text of \<open>debug.Stack()\<close>.
\<close>

definition recovery_Catch :: "string \<Rightarrow> panicval \<Rightarrow> error \<Rightarrow> error" where
  "recovery_Catch stack p err =
     (let errBuilder = newMultiErrorBuilder [err];
          wrapped = (case p of
             PErr e \<Rightarrow> EWrapf ''caught panic: '' e (CHR 0x0A # stack)
           | PVal v \<Rightarrow> EPlain (''caught panic: '' @ v @ CHR 0x0A # stack));
          errBuilder = meb_addSingle (Some wrapped) errBuilder
      in map_option ECaught (meb_build errBuilder))"

fun is_caught :: "goerr \<Rightarrow> bool" where
  "is_caught (ECaught _) = True"
| "is_caught _ = False"

definition asCaughtPanic :: "goerr \<Rightarrow> bool" where
  "asCaughtPanic e = list_ex is_caught (err_tree e)"

lemma recovery_Catch_Some: "\<exists>e. recovery_Catch stack p err = Some (ECaught e)"
  by (auto simp: recovery_Catch_def Let_def meb_build_eq meb_defs)

definition resultOrDie :: "'a \<times> error \<Rightarrow> 'a go" where
  "resultOrDie re = (case re of (res, err) \<Rightarrow>
     (case err of None \<Rightarrow> Ret res | Some e \<Rightarrow> Panic (PErr e)))"

text \<open>\<open>json.Marshal\<close>, \<open>md5.Sum\<close> and the base64 encoder are arguments.\<close>

definition marshalOrDie :: "('a \<Rightarrow> string \<times> error) \<Rightarrow> 'a \<Rightarrow> string go" where
  "marshalOrDie json_marshal obj = resultOrDie (json_marshal obj)"

definition unMarshalOrDie :: "(string \<Rightarrow> 'a \<Rightarrow> 'a \<times> error) \<Rightarrow> 'a \<Rightarrow> string \<Rightarrow> 'a go" where
  "unMarshalOrDie json_unmarshal newEmptyObject raw =
     resultOrDie (json_unmarshal raw newEmptyObject)"

definition hashJsonOrDie ::
  "('a \<Rightarrow> string \<times> error) \<Rightarrow> (string \<Rightarrow> string) \<Rightarrow> (string \<Rightarrow> string) \<Rightarrow> 'a \<Rightarrow> string go" where
  "hashJsonOrDie json_marshal md5_sum base64_encode obj =
     bind_outcome (resultOrDie (json_marshal obj)) (\<lambda>jsonStr. Ret (base64_encode (md5_sum jsonStr)))"

subsection \<open>\<open>pkg/optional\<close>\<close>

text \<open>
  \<open>Optional[T]\<close> wraps a value and calls it absent when \<open>reflect\<close> says it is the zero value of
  its type; the zero value is the first field.
\<close>

record 'a optional =
  optZero :: 'a
  optVal :: 'a

definition optional_Empty :: "'a \<Rightarrow> 'a optional" where
  "optional_Empty z = \<lparr>optZero = z, optVal = z\<rparr>"

definition optional_Of :: "'a \<Rightarrow> 'a \<Rightarrow> 'a optional" where
  "optional_Of z v = \<lparr>optZero = z, optVal = v\<rparr>"

definition isNotPresent :: "'a optional \<Rightarrow> bool" where
  "isNotPresent o' = (optVal o' = optZero o')"

definition isPresent :: "'a optional \<Rightarrow> bool" where
  "isPresent o' = (\<not> isNotPresent o')"

definition optional_Get :: "'a optional \<Rightarrow> 'a" where
  "optional_Get o' = optVal o'"

definition optional_GetOrElse :: "'a optional \<Rightarrow> (unit \<Rightarrow> 'a) \<Rightarrow> 'a" where
  "optional_GetOrElse o' f = (if isNotPresent o' then f () else optVal o')"

definition optional_GetOrDefault :: "'a optional \<Rightarrow> 'a \<Rightarrow> 'a" where
  "optional_GetOrDefault o' val = optional_GetOrElse o' (\<lambda>_. val)"

definition optional_IfPresent :: "'a optional \<Rightarrow> ('a \<Rightarrow> 's \<Rightarrow> 's) \<Rightarrow> 's \<Rightarrow> 's" where
  "optional_IfPresent o' do s = (if isPresent o' then do (optional_Get o') s else s)"

definition optional_Map :: "'b \<Rightarrow> 'a optional \<Rightarrow> ('a \<Rightarrow> 'b) \<Rightarrow> 'b optional" where
  "optional_Map z in' transform =
     (if isNotPresent in' then optional_Empty z else optional_Of z (transform (optional_Get in')))"

definition valueOrDefault :: "'a \<Rightarrow> 'a \<Rightarrow> 'a \<Rightarrow> 'a" where
  "valueOrDefault z val def = optional_GetOrDefault (optional_Of z val) def"

lemmas optional_defs = optional_Empty_def optional_Of_def isNotPresent_def isPresent_def
  optional_Get_def optional_GetOrElse_def optional_GetOrDefault_def

lemma getOrDefault_Of [simp]: "optional_GetOrDefault (optional_Of z v) d = (if v = z then d else v)"
  by (simp add: optional_defs)

lemma valueOrDefault_eq [simp]: "valueOrDefault z v d = (if v = z then d else v)"
  by (simp add: valueOrDefault_def)

lemma ifPresent_Of [simp]:
  "optional_IfPresent (optional_Of z v) f s = (if v = z then s else f v s)"
  by (simp add: optional_IfPresent_def optional_defs)

lemma isPresent_Of [simp]: "isPresent (optional_Of z v) \<longleftrightarrow> v \<noteq> z"
  by (simp add: optional_defs)

lemma isPresent_Empty [simp]: "\<not> isPresent (optional_Empty z)"
  by (simp add: optional_defs)

lemma optional_Get_Of [simp]: "optional_Get (optional_Of z v) = v"
  by (simp add: optional_defs)

subsection \<open>\<open>pkg/pointer\<close> and \<open>pkg/env\<close>\<close>

definition derefOrElse :: "'a option \<Rightarrow> (unit \<Rightarrow> 'a) \<Rightarrow> 'a" where
  "derefOrElse p do = (case p of None \<Rightarrow> do () | Some v \<Rightarrow> v)"

definition derefOrDefault :: "'a option \<Rightarrow> 'a \<Rightarrow> 'a" where
  "derefOrDefault p def = derefOrElse p (\<lambda>_. def)"

definition derefOrEmpty :: "'a \<Rightarrow> 'a option \<Rightarrow> 'a" where
  "derefOrEmpty zero p = derefOrElse p (\<lambda>_. zero)"

lemmas deref_defs = derefOrElse_def derefOrDefault_def derefOrEmpty_def

lemma derefOrDefault_simps [simp]:
  "derefOrDefault None d = d" "derefOrDefault (Some v) d = v"
  by (simp_all add: deref_defs)

lemma derefOrEmpty_simps [simp]: "derefOrEmpty z None = z" "derefOrEmpty z (Some v) = v"
  by (simp_all add: deref_defs)

text \<open>\<open>env.GetOperatorVersion\<close>; the argument is the value of \<open>OPERATOR_VERSION\<close>.\<close>

definition getOperatorVersion :: "string \<Rightarrow> string" where
  "getOperatorVersion operatorVersionEnv =
     (if operatorVersionEnv \<noteq> '''' then operatorVersionEnv else ''v0.0.1-dev'')"

subsection \<open>\<open>pkg/result\<close>\<close>

record 'a result =
  res :: 'a
  err :: error

definition result_Of :: "'a \<Rightarrow> error \<Rightarrow> 'a result" where
  "result_Of r e = \<lparr>res = r, err = e\<rparr>"

definition result_OfSuccess :: "'a \<Rightarrow> 'a result" where
  "result_OfSuccess r = result_Of r None"

definition result_OfFailure :: "'a \<Rightarrow> error \<Rightarrow> 'a result" where
  "result_OfFailure zero e = \<lparr>res = zero, err = e\<rparr>"

definition isSuccess :: "'a result \<Rightarrow> bool" where
  "isSuccess r = (err r = None)"

definition isFailure :: "'a result \<Rightarrow> bool" where
  "isFailure r = (\<not> isSuccess r)"

definition result_Get :: "'a result \<Rightarrow> 'a \<times> error" where
  "result_Get r = (res r, err r)"

definition toOptional :: "'a \<Rightarrow> 'a result \<Rightarrow> 'a optional" where
  "toOptional zero r = (if isSuccess r then optional_Of zero (res r) else optional_Empty zero)"

text \<open>The callbacks of \<open>OnSuccess\<close> and \<open>OnFailure\<close> act on some state \<open>s\<close>.\<close>

definition onSuccess :: "'a result \<Rightarrow> ('a \<Rightarrow> 's \<Rightarrow> 's) \<Rightarrow> 's \<Rightarrow> 's" where
  "onSuccess r do s = (if isSuccess r then do (res r) s else s)"

definition onFailure :: "'a result \<Rightarrow> (error \<Rightarrow> 's \<Rightarrow> 's) \<Rightarrow> 's \<Rightarrow> 's" where
  "onFailure r do s = (if isFailure r then do (err r) s else s)"

definition result_recover :: "'a result \<Rightarrow> (unit \<Rightarrow> 'a result) \<Rightarrow> 'a result" where
  "result_recover r getRecoveredResult = (if isFailure r then getRecoveredResult () else r)"

definition result_Recover :: "'a result \<Rightarrow> (error \<Rightarrow> 'a \<times> error) \<Rightarrow> 'a result" where
  "result_Recover r do =
     result_recover r (\<lambda>_. (case do (err r) of (v, e) \<Rightarrow> result_Of v e))"

definition ofInlineCatchingPanic :: "string \<Rightarrow> 'a \<Rightarrow> ('a \<times> error) go \<Rightarrow> 'a result" where
  "ofInlineCatchingPanic stack zero do =
     (case do of
        Ret (v, e) \<Rightarrow> result_Of v e
      | Panic p \<Rightarrow> result_Of zero (recovery_Catch stack p None))"

definition recoverCatching ::
  "string \<Rightarrow> 'a \<Rightarrow> 'a result \<Rightarrow> (error \<Rightarrow> ('a \<times> error) go) \<Rightarrow> 'a result" where
  "recoverCatching stack zero r do =
     result_recover r (\<lambda>_. ofInlineCatchingPanic stack zero (do (err r)))"

definition result_Map :: "'b \<Rightarrow> 'a result \<Rightarrow> ('a \<Rightarrow> 'b result) \<Rightarrow> 'b result" where
  "result_Map zero original mapper =
     (case result_Get original of (v, e) \<Rightarrow>
        if isSuccess original then mapper v else result_OfFailure zero e)"

lemmas result_defs = result_Of_def result_OfSuccess_def result_OfFailure_def isSuccess_def
  isFailure_def result_Get_def toOptional_def onSuccess_def onFailure_def result_recover_def
  result_Recover_def result_Map_def

lemma result_Map_success: "isSuccess r \<Longrightarrow> result_Map z r f = f (res r)"
  by (simp add: result_defs)

lemma result_Map_failure: "isFailure r \<Longrightarrow> result_Map z r f = \<lparr>res = z, err = err r\<rparr>"
  by (auto simp: result_defs)

subsection \<open>\<open>pkg/collections\<close>\<close>

definition list_All :: "('a \<Rightarrow> bool) \<Rightarrow> 'a list \<Rightarrow> bool" where
  "list_All condition xs = list_all condition xs"

definition list_Any :: "('a \<Rightarrow> bool) \<Rightarrow> 'a list \<Rightarrow> bool" where
  "list_Any condition xs = list_ex condition xs"

definition list_Filter :: "'a list \<Rightarrow> ('a \<Rightarrow> bool) \<Rightarrow> 'a list" where
  "list_Filter in' shouldBeIncluded =
     for_each (\<lambda>v res. if shouldBeIncluded v then res @ [v] else res) in' []"

definition list_MapTo :: "'a list \<Rightarrow> ('a \<Rightarrow> 'b) \<Rightarrow> 'b list" where
  "list_MapTo in' mapItemTo = for_each (\<lambda>v res. res @ [mapItemTo v]) in' []"

definition toSet :: "'a list \<Rightarrow> ('a, bool) gomap" where
  "toSet xs = for_each (\<lambda>item res. gm_put item True res) xs []"

definition set_Contains :: "('a, bool) gomap \<Rightarrow> 'a \<Rightarrow> bool" where
  "set_Contains c expected = (gm_get c expected \<noteq> None)"

text \<open>\<open>reflect.DeepEqual\<close> on the modelled values is equality.\<close>

fun deep_Contains :: "'a list \<Rightarrow> 'a \<Rightarrow> bool" where
  "deep_Contains [] expected = False"
| "deep_Contains (item # xs) expected = (if expected = item then True else deep_Contains xs expected)"

definition newDeepChecker :: "'a list \<Rightarrow> 'a list" where
  "newDeepChecker in' = in'"

definition list_Diff ::
  "('a list \<Rightarrow> 'c) \<Rightarrow> ('c \<Rightarrow> 'a \<Rightarrow> bool) \<Rightarrow> 'a list \<Rightarrow> 'a list \<Rightarrow> 'a list" where
  "list_Diff newContainsElementChecker contains old new =
     (let newSet = newContainsElementChecker new
      in for_each (\<lambda>item res. if \<not> contains newSet item then res @ [item] else res) old [])"

abbreviation newDiff :: "'a list \<Rightarrow> 'a list \<Rightarrow> 'a list" where
  "newDiff \<equiv> list_Diff toSet set_Contains"

abbreviation newDeepDiff :: "'a list \<Rightarrow> 'a list \<Rightarrow> 'a list" where
  "newDeepDiff \<equiv> list_Diff newDeepChecker deep_Contains"

definition map_ToList :: "('k, 'v) gomap \<Rightarrow> ('k \<Rightarrow> 'v \<Rightarrow> 'o) \<Rightarrow> 'o list" where
  "map_ToList in' mapItemTo = for_each (\<lambda>(k, v) res. res @ [mapItemTo k v]) in' []"

definition map_Copy :: "('k, 'v) gomap \<Rightarrow> ('k, 'v) gomap" where
  "map_Copy m = gm_copy [] m"

text \<open>
  \<open>map_defaulter\<close>: \<open>NewMapDefaulter\<close> replaces a \<open>nil\<close> map by an empty one, \<open>SetIfEmpty\<close> stores
  the default where the entry is missing or holds the zero value.
\<close>

definition newMapDefaulter :: "('k, 'v) gomap option \<Rightarrow> ('k, 'v) gomap" where
  "newMapDefaulter m = the (optional_GetOrDefault (optional_Of None m) (Some []))"

definition setIfEmpty :: "'v \<Rightarrow> 'k \<Rightarrow> 'v \<Rightarrow> ('k, 'v) gomap \<Rightarrow> ('k, 'v) gomap" where
  "setIfEmpty zero key def m =
     gm_put key (optional_GetOrDefault (optional_Of zero (derefOrEmpty zero (gm_get m key))) def) m"

text \<open>\<open>optional.AllNonEmpty\<close>: drop the absent ones, then unwrap.\<close>

definition allNonEmpty :: "'a optional list \<Rightarrow> 'a list" where
  "allNonEmpty in' =
     (let withoutEmpties = list_Filter in' (\<lambda>val. \<not> isNotPresent val)
      in list_MapTo withoutEmpties optional_Get)"

subsection \<open>Lemmas on the collections\<close>

lemma for_each_filter:
  "for_each (\<lambda>v res. if P v then res @ [v] else res) xs acc = acc @ filter P xs"
  by (induction xs arbitrary: acc) auto

lemma for_each_map: "for_each (\<lambda>v res. res @ [f v]) xs acc = acc @ map f xs"
  by (induction xs arbitrary: acc) auto

lemma list_Filter_eq [simp]: "list_Filter xs P = filter P xs"
  by (simp add: list_Filter_def for_each_filter)

lemma list_MapTo_eq [simp]: "list_MapTo xs f = map f xs"
  by (simp add: list_MapTo_def for_each_map)

lemma allNonEmpty_eq: "allNonEmpty xs = map optional_Get (filter isPresent xs)"
  by (simp add: allNonEmpty_def isPresent_def [abs_def])

lemma set_Contains_for_each:
  "set_Contains (for_each (\<lambda>item res. gm_put item True res) xs m) x \<longleftrightarrow>
     x \<in> set xs \<or> set_Contains m x"
  by (induction xs arbitrary: m) (auto simp: set_Contains_def)

lemma set_Contains_toSet: "set_Contains (toSet xs) x \<longleftrightarrow> x \<in> set xs"
  by (simp add: toSet_def set_Contains_for_each) (simp add: set_Contains_def)

lemma deep_Contains_eq [simp]: "deep_Contains xs x \<longleftrightarrow> x \<in> set xs"
  by (induction xs) auto

lemma gm_get_map_Copy: "gm_wf m \<Longrightarrow> gm_get (map_Copy m) k = gm_get m k"
  by (simp add: map_Copy_def gm_get_copy split: option.splits)

lemma gm_wf_map_Copy [simp]: "gm_wf (map_Copy m)"
  by (simp add: map_Copy_def)

lemma gm_get_setIfEmpty:
  "gm_get (setIfEmpty z k d m) k' =
     (if k' = k then Some (case gm_get m k of None \<Rightarrow> d | Some v \<Rightarrow> if v = z then d else v)
      else gm_get m k')"
  by (auto simp: setIfEmpty_def split: option.splits)

lemma newMapDefaulter_simps [simp]: "newMapDefaulter None = []" "newMapDefaulter (Some m) = m"
  by (simp_all add: newMapDefaulter_def)

subsection \<open>The \<open>ContainsElementChecker\<close> interface\<close>

text \<open>
  The contract \<open>list.Diff\<close> relies on: a checker built from a list answers membership in it.
  Both implementations, the hash set over comparable keys and the linear \<open>DeepEqual\<close> scan,
  satisfy it, so they compute the same difference.
\<close>

locale element_checker =
  fixes new_checker :: "'a list \<Rightarrow> 'c"
    and contains :: "'c \<Rightarrow> 'a \<Rightarrow> bool"
  assumes contains_new: "contains (new_checker xs) x \<longleftrightarrow> x \<in> set xs"
begin

lemma diff_eq_filter: "list_Diff new_checker contains old new = filter (\<lambda>x. x \<notin> set new) old"
  by (simp add: list_Diff_def for_each_filter contains_new)

lemma diff_set: "set (list_Diff new_checker contains old new) = set old - set new"
  by (auto simp: diff_eq_filter)

lemma diff_Nil_iff: "list_Diff new_checker contains old new = [] \<longleftrightarrow> set old \<subseteq> set new"
  by (auto simp: diff_eq_filter filter_empty_conv)

end

interpretation hash_checker: element_checker toSet set_Contains
  by unfold_locales (rule set_Contains_toSet)

interpretation deep_checker: element_checker newDeepChecker deep_Contains
  by unfold_locales (simp add: newDeepChecker_def)

end
