(* ===== verification/K8s_Types.thy ===== *)
theory K8s_Types
  imports Go_Util
begin

text \<open>
  The Kubernetes data the operator builds and reads, restricted to the fields its source sets
  or inspects. Values that the operator only passes on (tolerations, quantities, user supplied
  affinities and volume sources) are opaque strings; \<open>''''\<close> is their zero value. A field that
  Go compares with \<open>nil\<close> is an option. An object is its type and object metadata with a body;
  \<open>client.Object\<close>'s accessors are the functions \<open>get_...\<close> below.
\<close>

type_synonym opaque = string

subsection \<open>Object metadata\<close>

record ownerReference =
  or_APIVersion :: string
  or_Kind :: string
  or_Name :: string
  or_UID :: string
  or_Controller :: "bool option"
  or_BlockOwnerDeletion :: "bool option"

record managedFieldsEntry =
  mfe_Manager :: string
  mfe_Operation :: string
  mfe_Time :: "int option"
  mfe_Subresource :: string
  mfe_Fields :: opaque

record objMeta =
  om_Name :: string
  om_Namespace :: string
  om_Labels :: "strmap option"
  om_Annotations :: "strmap option"
  om_OwnerReferences :: "ownerReference list"
  om_UID :: string
  om_Generation :: int
  om_ResourceVersion :: string
  om_ManagedFields :: "managedFieldsEntry list"
  om_Finalizers :: "string list"
  om_DeletionTimestamp :: "int option"

definition emptyMeta :: objMeta where
  "emptyMeta = \<lparr>om_Name = '''', om_Namespace = '''', om_Labels = None, om_Annotations = None,
     om_OwnerReferences = [], om_UID = '''', om_Generation = 0, om_ResourceVersion = '''',
     om_ManagedFields = [], om_Finalizers = [], om_DeletionTimestamp = None\<rparr>"

text \<open>\<open>types.NamespacedName\<close> and \<open>schema.GroupVersionKind\<close>.\<close>

record namespacedName =
  nn_Namespace :: string
  nn_Name :: string

record groupVersionKind =
  gvk_Group :: string
  gvk_Version :: string
  gvk_Kind :: string

text \<open>
  \<open>schema.FromAPIVersionAndKind\<close>: no slash gives the core group, one slash splits group and
  version; a malformed string gives only the kind.
\<close>

definition fromAPIVersionAndKind :: "string \<Rightarrow> string \<Rightarrow> groupVersionKind" where
  "fromAPIVersionAndKind apiVersion kind =
     (case split_string (CHR ''/'') apiVersion of
        [v] \<Rightarrow> \<lparr>gvk_Group = '''', gvk_Version = v, gvk_Kind = kind\<rparr>
      | [g, v] \<Rightarrow> \<lparr>gvk_Group = g, gvk_Version = v, gvk_Kind = kind\<rparr>
      | _ \<Rightarrow> \<lparr>gvk_Group = '''', gvk_Version = '''', gvk_Kind = kind\<rparr>)"

subsection \<open>Pods\<close>

datatype envVarSource =
    FieldRef string
  | SecretKeyRef string string "bool option"
  | ConfigMapKeyRef string string
  | OtherEnvSource opaque

record envVar =
  ev_Name :: string
  ev_Value :: string
  ev_ValueFrom :: "envVarSource option"

record keyToPath =
  kp_Key :: string
  kp_Path :: string

datatype volumeSource =
    HostPath string "string option"
  | SecretVolume string "int option" "keyToPath list" "bool option"
  | ConfigMapVolume string "int option" "keyToPath list"
  | PersistentVolumeClaim string
  | OtherVolumeSource opaque

record volume =
  vol_Name :: string
  vol_Source :: volumeSource

record volumeMount =
  vm_Name :: string
  vm_MountPath :: string
  vm_ReadOnly :: bool
  vm_MountPropagation :: "string option"
  vm_Rest :: opaque

record containerPort =
  cp_Name :: string
  cp_ContainerPort :: int
  cp_Protocol :: string

record servicePort =
  sp_Name :: string
  sp_Protocol :: string
  sp_Port :: int
  sp_TargetPort :: int

datatype probe =
    HTTPGetProbe string string int int int int int
  | OtherProbe opaque

text \<open>
  The zero affinity, one supplied by the user, and the spreading preference of the k8sensor
  (weight, label key, operator, values, topology key).
\<close>

datatype affinity =
    NoAffinity
  | UserAffinity opaque
  | PreferredPodAntiAffinity int string string "string list" string

record resourceRequirements =
  rr_Requests :: "(string, opaque) gomap option"
  rr_Limits :: "(string, opaque) gomap option"

record container =
  c_Name :: string
  c_Image :: string
  c_ImagePullPolicy :: string
  c_Command :: "string list"
  c_Args :: "string list"
  c_Env :: "envVar list"
  c_VolumeMounts :: "volumeMount list"
  c_Resources :: resourceRequirements
  c_Ports :: "containerPort list"
  c_Privileged :: "bool option"
  c_LivenessProbe :: "probe option"

record podSpec =
  ps_ServiceAccountName :: string
  ps_NodeSelector :: "strmap option"
  ps_PriorityClassName :: string
  ps_ImagePullSecrets :: "string list option"
  ps_Containers :: "container list"
  ps_FSGroup :: "int option"
  ps_Volumes :: "volume list"
  ps_Tolerations :: "opaque list"
  ps_Affinity :: "affinity option"
  ps_HostNetwork :: bool
  ps_HostPID :: bool
  ps_DNSPolicy :: string
  ps_Hostname :: string

record podTemplateSpec =
  pt_Labels :: "strmap option"
  pt_Annotations :: "strmap option"
  pt_Spec :: podSpec

subsection \<open>Workloads and their status\<close>

datatype intOrString = IntVal int | StrVal string

record rollingUpdateDaemonSet =
  ru_MaxUnavailable :: "intOrString option"
  ru_MaxSurge :: "intOrString option"

record daemonSetUpdateStrategy =
  us_Type :: string
  us_RollingUpdate :: "rollingUpdateDaemonSet option"

record daemonSetSpec =
  dss_MinReadySeconds :: int
  dss_Selector :: "strmap option"
  dss_Template :: podTemplateSpec
  dss_UpdateStrategy :: daemonSetUpdateStrategy

record daemonSetStatus =
  dst_ObservedGeneration :: int
  dst_DesiredNumberScheduled :: int
  dst_NumberMisscheduled :: int
  dst_NumberReady :: int
  dst_NumberAvailable :: int
  dst_NumberUnavailable :: int
  dst_UpdatedNumberScheduled :: int
  dst_CollisionCount :: "int option"
  dst_Conditions :: "opaque list"

record deploymentSpec =
  dps_Replicas :: "int option"
  dps_MinReadySeconds :: int
  dps_Selector :: "strmap option"
  dps_Template :: podTemplateSpec
  dps_StrategyType :: string

record deploymentCondition =
  dc_Type :: string
  dc_Status :: string
  dc_Reason :: string

record deploymentStatus =
  dpst_ObservedGeneration :: int
  dpst_Replicas :: int
  dpst_UpdatedReplicas :: int
  dpst_ReadyReplicas :: int
  dpst_AvailableReplicas :: int
  dpst_UnavailableReplicas :: int
  dpst_Conditions :: "deploymentCondition list"

text \<open>Zero values of the structures the operator fills in.\<close>

definition emptyPodSpec :: podSpec where
  "emptyPodSpec = \<lparr>ps_ServiceAccountName = '''', ps_NodeSelector = None, ps_PriorityClassName = '''',
     ps_ImagePullSecrets = None, ps_Containers = [], ps_FSGroup = None, ps_Volumes = [],
     ps_Tolerations = [], ps_Affinity = None, ps_HostNetwork = False, ps_HostPID = False,
     ps_DNSPolicy = '''', ps_Hostname = ''''\<rparr>"

definition emptyPodTemplate :: podTemplateSpec where
  "emptyPodTemplate = \<lparr>pt_Labels = None, pt_Annotations = None, pt_Spec = emptyPodSpec\<rparr>"

definition emptyDaemonSetSpec :: daemonSetSpec where
  "emptyDaemonSetSpec = \<lparr>dss_MinReadySeconds = 0, dss_Selector = None, dss_Template = emptyPodTemplate,
     dss_UpdateStrategy = \<lparr>us_Type = '''', us_RollingUpdate = None\<rparr>\<rparr>"

definition emptyDaemonSetStatus :: daemonSetStatus where
  "emptyDaemonSetStatus = \<lparr>dst_ObservedGeneration = 0, dst_DesiredNumberScheduled = 0,
     dst_NumberMisscheduled = 0, dst_NumberReady = 0, dst_NumberAvailable = 0,
     dst_NumberUnavailable = 0, dst_UpdatedNumberScheduled = 0,
     dst_CollisionCount = None, dst_Conditions = []\<rparr>"

definition emptyDeploymentSpec :: deploymentSpec where
  "emptyDeploymentSpec = \<lparr>dps_Replicas = None, dps_MinReadySeconds = 0, dps_Selector = None,
     dps_Template = emptyPodTemplate, dps_StrategyType = ''''\<rparr>"

definition emptyDeploymentStatus :: deploymentStatus where
  "emptyDeploymentStatus = \<lparr>dpst_ObservedGeneration = 0, dpst_Replicas = 0, dpst_UpdatedReplicas = 0,
     dpst_ReadyReplicas = 0, dpst_AvailableReplicas = 0, dpst_UnavailableReplicas = 0,
     dpst_Conditions = []\<rparr>"

record serviceSpec =
  ss_ClusterIP :: string
  ss_Selector :: "strmap option"
  ss_Ports :: "servicePort list"
  ss_InternalTrafficPolicy :: "string option"

record policyRule =
  pr_APIGroups :: "string list"
  pr_Resources :: "string list"
  pr_ResourceNames :: "string list"
  pr_NonResourceURLs :: "string list"
  pr_Verbs :: "string list"

record subject =
  sub_Kind :: string
  sub_Name :: string
  sub_Namespace :: string

record roleRef =
  rref_APIGroup :: string
  rref_Kind :: string
  rref_Name :: string

datatype body =
    ConfigMapBody "strmap option"
  | SecretBody string "strmap option"
  | ServiceBody serviceSpec
  | ServiceAccountBody
  | DaemonSetBody daemonSetSpec daemonSetStatus
  | DeploymentBody deploymentSpec deploymentStatus
  | ClusterRoleBody "policyRule list"
  | RoleBody "policyRule list"
  | ClusterRoleBindingBody roleRef "subject list"
  | RoleBindingBody roleRef "subject list"
  | PodDisruptionBudgetBody "strmap option" "intOrString option"
  | UnstructuredBody

record k8sObject =
  ko_APIVersion :: string
  ko_Kind :: string
  ko_Meta :: objMeta
  ko_Body :: body

subsection \<open>Accessors of \<open>client.Object\<close>\<close>

definition get_name :: "k8sObject \<Rightarrow> string" where
  "get_name obj = om_Name (ko_Meta obj)"

definition get_namespace :: "k8sObject \<Rightarrow> string" where
  "get_namespace obj = om_Namespace (ko_Meta obj)"

definition get_labels :: "k8sObject \<Rightarrow> strmap option" where
  "get_labels obj = om_Labels (ko_Meta obj)"

definition set_labels :: "strmap option \<Rightarrow> k8sObject \<Rightarrow> k8sObject" where
  "set_labels l obj = obj\<lparr>ko_Meta := (ko_Meta obj)\<lparr>om_Labels := l\<rparr>\<rparr>"

definition get_ownerRefs :: "k8sObject \<Rightarrow> ownerReference list" where
  "get_ownerRefs obj = om_OwnerReferences (ko_Meta obj)"

definition set_ownerRefs :: "ownerReference list \<Rightarrow> k8sObject \<Rightarrow> k8sObject" where
  "set_ownerRefs refs obj = obj\<lparr>ko_Meta := (ko_Meta obj)\<lparr>om_OwnerReferences := refs\<rparr>\<rparr>"

definition set_managedFields :: "managedFieldsEntry list \<Rightarrow> k8sObject \<Rightarrow> k8sObject" where
  "set_managedFields fs obj = obj\<lparr>ko_Meta := (ko_Meta obj)\<lparr>om_ManagedFields := fs\<rparr>\<rparr>"

definition get_gvk :: "k8sObject \<Rightarrow> groupVersionKind" where
  "get_gvk obj = fromAPIVersionAndKind (ko_APIVersion obj) (ko_Kind obj)"

definition objectKeyFromObject :: "k8sObject \<Rightarrow> namespacedName" where
  "objectKeyFromObject obj = \<lparr>nn_Namespace = get_namespace obj, nn_Name = get_name obj\<rparr>"

lemmas obj_accessors = get_name_def get_namespace_def get_labels_def set_labels_def
  get_ownerRefs_def set_ownerRefs_def set_managedFields_def get_gvk_def objectKeyFromObject_def

lemma obj_get_set [simp, obj_simps]:
  "get_name (set_labels l obj) = get_name obj"
  "get_name (set_ownerRefs r obj) = get_name obj"
  "get_name (set_managedFields f obj) = get_name obj"
  "get_namespace (set_labels l obj) = get_namespace obj"
  "get_namespace (set_ownerRefs r obj) = get_namespace obj"
  "get_namespace (set_managedFields f obj) = get_namespace obj"
  "get_labels (set_labels l obj) = l"
  "get_labels (set_ownerRefs r obj) = get_labels obj"
  "get_labels (set_managedFields f obj) = get_labels obj"
  "get_ownerRefs (set_labels l obj) = get_ownerRefs obj"
  "get_ownerRefs (set_ownerRefs r obj) = r"
  "get_ownerRefs (set_managedFields f obj) = get_ownerRefs obj"
  "get_gvk (set_labels l obj) = get_gvk obj"
  "get_gvk (set_ownerRefs r obj) = get_gvk obj"
  "get_gvk (set_managedFields f obj) = get_gvk obj"
  "ko_Body (set_labels l obj) = ko_Body obj"
  "ko_Body (set_ownerRefs r obj) = ko_Body obj"
  "ko_Body (set_managedFields f obj) = ko_Body obj"
  by (simp_all add: obj_accessors)

subsection \<open>Unstructured references\<close>

text \<open>
  The \<open>unstructured.Unstructured\<close> values of the lifecycle manager hold only apiVersion, kind,
  name and namespace, so they are that record and \<open>reflect.DeepEqual\<close> is equality.
\<close>

record unstructured =
  un_GVK :: groupVersionKind
  un_Name :: string
  un_Namespace :: string

definition gvk_apiVersion :: "groupVersionKind \<Rightarrow> string" where
  "gvk_apiVersion g = (if gvk_Group g = '''' then gvk_Version g
     else gvk_Group g @ ''/'' @ gvk_Version g)"

definition emptyObject :: k8sObject where
  "emptyObject = \<lparr>ko_APIVersion = '''', ko_Kind = '''', ko_Meta = emptyMeta, ko_Body = UnstructuredBody\<rparr>"

text \<open>Metadata literals \<open>metav1.ObjectMeta{Name: ..., Namespace: ...}\<close>.\<close>

definition named :: "string \<Rightarrow> string \<Rightarrow> objMeta" where
  "named n ns = emptyMeta\<lparr>om_Name := n, om_Namespace := ns\<rparr>"

lemma named_simps [simp]:
  "om_Name (named n ns) = n" "om_Namespace (named n ns) = ns" "om_Labels (named n ns) = None"
  "om_OwnerReferences (named n ns) = []"
  by (simp_all add: named_def emptyMeta_def)

definition mkObject :: "string \<Rightarrow> string \<Rightarrow> objMeta \<Rightarrow> body \<Rightarrow> k8sObject" where
  "mkObject apiVersion kind meta body' =
     \<lparr>ko_APIVersion = apiVersion, ko_Kind = kind, ko_Meta = meta, ko_Body = body'\<rparr>"

lemma mkObject_simps [simp]:
  "get_name (mkObject a k m b) = om_Name m"
  "get_namespace (mkObject a k m b) = om_Namespace m"
  "get_labels (mkObject a k m b) = om_Labels m"
  "get_ownerRefs (mkObject a k m b) = om_OwnerReferences m"
  "ko_Body (mkObject a k m b) = b"
  "ko_Kind (mkObject a k m b) = k"
  "ko_APIVersion (mkObject a k m b) = a"
  by (simp_all add: mkObject_def obj_accessors)

end
