(* ===== verification/Api_Types.thy ===== *)
theory Api_Types
  imports K8s_Types
begin

text \<open>
  The custom resources (\<open>src/api/v1\<close>): the spec and status structures of \<open>InstanaAgent\<close> and
  \<open>InstanaAgentRemote\<close>, field by field, with the methods of the package: \<open>Image\<close>,
  \<open>GetOrDefault\<close>, \<open>Enabled.String\<close> and the two \<open>Default\<close> functions. Single-field embedded
  structures (\<open>Name\<close>, \<open>Create\<close>, \<open>Enabled\<close>, \<open>HostSpec\<close>, \<open>ServiceMeshSpec\<close>) are their field.
  Go \<open>int\<close> fields are \<open>int\<close>; the conversions to \<open>int32\<close> are made where the code makes them.
\<close>

subsection \<open>Inline types\<close>

definition enabled_String :: "bool option \<Rightarrow> string" where
  "enabled_String e = (case e of None \<Rightarrow> ''nil'' | Some b \<Rightarrow> if b then ''true'' else ''false'')"

record backendSpec =
  bs_EndpointHost :: string
  bs_EndpointPort :: string
  bs_Key :: string

record tlsSpec =
  tls_SecretName :: string
  tls_Certificate :: string
  tls_Key :: string

record imageSpec =
  im_Name :: string
  im_Digest :: string
  im_Tag :: string
  im_PullPolicy :: string

definition Image :: "imageSpec \<Rightarrow> string" where
  "Image i = (if im_Digest i \<noteq> '''' then im_Name i @ ''@'' @ im_Digest i
              else if im_Tag i \<noteq> '''' then im_Name i @ '':'' @ im_Tag i
              else im_Name i)"

record agentPodSpec =
  ap_Annotations :: "strmap option"
  ap_Labels :: "strmap option"
  ap_Tolerations :: "opaque list"
  ap_Affinity :: affinity
  ap_PriorityClassName :: string
  ap_ResourceRequirements :: resourceRequirements
  ap_NodeSelector :: "strmap option"
  ap_Volumes :: "volume list"
  ap_VolumeMounts :: "volumeMount list"
  ap_Env :: "envVar list"
  ap_LivenessProbe :: "probe option"

definition emptyResourceRequirements :: resourceRequirements where
  "emptyResourceRequirements = \<lparr>rr_Requests = None, rr_Limits = None\<rparr>"

text \<open>
  \<open>ResourceRequirements.GetOrDefault\<close>; the quantities are the texts \<open>resource.MustParse\<close> reads.
\<close>

definition resources_GetOrDefault :: "resourceRequirements \<Rightarrow> resourceRequirements" where
  "resources_GetOrDefault r =
     (let requests = newMapDefaulter (rr_Requests r);
          requests = setIfEmpty '''' ''memory'' ''768Mi'' requests;
          requests = setIfEmpty '''' ''cpu'' ''0.5'' requests;
          limits = newMapDefaulter (rr_Limits r);
          limits = setIfEmpty '''' ''memory'' ''768Mi'' limits;
          limits = setIfEmpty '''' ''cpu'' ''1.5'' limits
      in \<lparr>rr_Requests = Some requests, rr_Limits = Some limits\<rparr>)"

record baseAgentSpec =
  ba_Mode :: string
  ba_Key :: string
  ba_DownloadKey :: string
  ba_KeysSecret :: string
  ba_ListenAddress :: string
  ba_EndpointHost :: string
  ba_EndpointPort :: string
  ba_MinReadySeconds :: int
  ba_AdditionalBackends :: "backendSpec list"
  ba_TlsSpec :: tlsSpec
  ba_ImageSpec :: imageSpec
  ba_PullSecrets :: "string list option"
  ba_UpdateStrategy :: daemonSetUpdateStrategy
  ba_Pod :: agentPodSpec
  ba_ProxyHost :: string
  ba_ProxyPort :: string
  ba_ProxyProtocol :: string
  ba_ProxyUser :: string
  ba_ProxyPassword :: string
  ba_ProxyUseDNS :: bool
  ba_Env :: strmap
  ba_ConfigurationYaml :: string
  ba_RedactKubernetesSecrets :: string
  ba_HostRepository :: string
  ba_ServiceMeshEnabled :: bool
  ba_MvnRepoUrl :: string
  ba_MvnRepoFeaturesPath :: string
  ba_MvnRepoSharedPath :: string
  ba_MirrorReleaseRepoUrl :: string
  ba_MirrorReleaseRepoUsername :: string
  ba_MirrorReleaseRepoPassword :: string
  ba_MirrorSharedRepoUrl :: string
  ba_MirrorSharedRepoUsername :: string
  ba_MirrorSharedRepoPassword :: string

record serviceAccountSpec =
  sa_Create :: "bool option"
  sa_Name :: string
  sa_Annotations :: "strmap option"

record caSpec =
  ca_MountPath :: string
  ca_SecretName :: string
  ca_Filename :: string

record etcdSpec =
  etcd_Insecure :: "bool option"
  etcd_CA :: caSpec
  etcd_Targets :: "string list"

record restClientSpec =
  rc_HostAllowlist :: "string list"
  rc_CA :: caSpec

record kubernetesPodSpec =
  kp_ResourceRequirements :: resourceRequirements
  kp_NodeSelector :: "strmap option"
  kp_PriorityClassName :: string
  kp_Tolerations :: "opaque list"
  kp_Affinity :: affinity

record kubernetesDeploymentSpec =
  kd_Enabled :: "bool option"
  kd_MinReadySeconds :: int
  kd_Replicas :: int
  kd_Pod :: kubernetesPodSpec

record k8sSpec =
  ks_DeploymentSpec :: kubernetesDeploymentSpec
  ks_ImageSpec :: imageSpec
  ks_PodDisruptionBudget :: "bool option"
  ks_ETCD :: etcdSpec
  ks_RestClient :: restClientSpec
  ks_PollRate :: string
  ks_CrdMonitoring :: "bool option"

record otelPortConfig =
  ot_Enabled :: "bool option"
  ot_Port :: "int option"

record openTelemetry =
  otel_Enabled :: "bool option"
  otel_GRPC :: otelPortConfig
  otel_HTTP :: otelPortConfig

record zone =
  zone_Name :: string
  zone_Tolerations :: "opaque list"
  zone_Affinity :: affinity
  zone_Mode :: string

subsection \<open>\<open>InstanaAgent\<close>\<close>

record instanaAgentSpec =
  sp_UseSecretMounts :: "bool option"
  sp_Agent :: baseAgentSpec
  sp_ClusterName :: string
  sp_ZoneName :: string
  sp_OpenShift :: "bool option"
  sp_RbacCreate :: "bool option"
  sp_ServiceCreate :: "bool option"
  sp_OpenTelemetry :: openTelemetry
  sp_PrometheusRemoteWrite :: "bool option"
  sp_ServiceAccount :: serviceAccountSpec
  sp_K8sSensor :: k8sSpec
  sp_PinnedChartVersion :: string
  sp_Zones :: "zone list"

record resourceInfo =
  ri_Name :: string
  ri_UID :: string

record condition =
  cond_Type :: string
  cond_Status :: string
  cond_ObservedGeneration :: int
  cond_LastTransitionTime :: int
  cond_Reason :: string
  cond_Message :: string

record instanaAgentStatus =
  st_ConfigSecret :: resourceInfo
  st_NamespacesConfigMap :: resourceInfo
  st_Status :: string
  st_Reason :: string
  st_LastUpdate :: int
  st_OldVersionsUpdated :: bool
  st_DaemonSet :: resourceInfo
  st_Conditions :: "condition list"
  st_ObservedGeneration :: "int option"
  st_OperatorVersion :: "string option"

record instanaAgent =
  ag_APIVersion :: string
  ag_Kind :: string
  ag_Meta :: objMeta
  ag_Spec :: instanaAgentSpec
  ag_Status :: instanaAgentStatus

abbreviation ag_Name :: "instanaAgent \<Rightarrow> string" where
  "ag_Name a \<equiv> om_Name (ag_Meta a)"
abbreviation ag_Namespace :: "instanaAgent \<Rightarrow> string" where
  "ag_Namespace a \<equiv> om_Namespace (ag_Meta a)"
abbreviation ag_Agent :: "instanaAgent \<Rightarrow> baseAgentSpec" where
  "ag_Agent a \<equiv> sp_Agent (ag_Spec a)"
abbreviation ag_K8sSensor :: "instanaAgent \<Rightarrow> k8sSpec" where
  "ag_K8sSensor a \<equiv> sp_K8sSensor (ag_Spec a)"
abbreviation ag_ETCD :: "instanaAgent \<Rightarrow> etcdSpec" where
  "ag_ETCD a \<equiv> ks_ETCD (ag_K8sSensor a)"

text \<open>
  \<open>Default\<close>. The chain of \<open>optional.ValueOrDefault\<close> calls, in order, each on one field; the
  helper functions below update one nested structure each.
\<close>

definition defaultImage :: "string \<Rightarrow> imageSpec \<Rightarrow> imageSpec" where
  "defaultImage n i =
     i\<lparr>im_Name := valueOrDefault '''' (im_Name i) n,
       im_Tag := valueOrDefault '''' (im_Tag i) ''latest'',
       im_PullPolicy := valueOrDefault '''' (im_PullPolicy i) ''Always''\<rparr>"

definition defaultUpdateStrategy :: "daemonSetUpdateStrategy \<Rightarrow> daemonSetUpdateStrategy" where
  "defaultUpdateStrategy u =
     (let u = u\<lparr>us_Type := valueOrDefault '''' (us_Type u) ''RollingUpdate''\<rparr>;
          u = u\<lparr>us_RollingUpdate := valueOrDefault None (us_RollingUpdate u)
                 (Some \<lparr>ru_MaxUnavailable = None, ru_MaxSurge = None\<rparr>)\<rparr>
      in u\<lparr>us_RollingUpdate := map_option (\<lambda>ru. ru\<lparr>ru_MaxUnavailable :=
            valueOrDefault None (ru_MaxUnavailable ru) (Some (IntVal 1))\<rparr>) (us_RollingUpdate u)\<rparr>)"

definition defaultK8sSensor :: "k8sSpec \<Rightarrow> k8sSpec" where
  "defaultK8sSensor k =
     k\<lparr>ks_ImageSpec := defaultImage ''icr.io/instana/k8sensor'' (ks_ImageSpec k),
       ks_DeploymentSpec := (ks_DeploymentSpec k)\<lparr>kd_Replicas :=
         valueOrDefault 0 (kd_Replicas (ks_DeploymentSpec k)) 3\<rparr>,
       ks_ETCD := (ks_ETCD k)\<lparr>
         etcd_Insecure := valueOrDefault None (etcd_Insecure (ks_ETCD k)) (Some False),
         etcd_CA := (etcd_CA (ks_ETCD k))\<lparr>ca_MountPath :=
           valueOrDefault '''' (ca_MountPath (etcd_CA (ks_ETCD k)))
             ''/var/run/secrets/kubernetes.io/serviceaccount''\<rparr>\<rparr>,
       ks_PollRate := valueOrDefault '''' (ks_PollRate k) ''10s''\<rparr>"

definition defaultOpenTelemetry :: "openTelemetry \<Rightarrow> openTelemetry" where
  "defaultOpenTelemetry t =
     (let t = t\<lparr>otel_Enabled := valueOrDefault None (otel_Enabled t) (Some True)\<rparr>;
          t = t\<lparr>otel_GRPC := (otel_GRPC t)\<lparr>ot_Enabled :=
                valueOrDefault None (ot_Enabled (otel_GRPC t)) (otel_Enabled t)\<rparr>\<rparr>
      in t\<lparr>otel_HTTP := (otel_HTTP t)\<lparr>ot_Enabled :=
                valueOrDefault None (ot_Enabled (otel_HTTP t)) (otel_Enabled t)\<rparr>\<rparr>)"

definition defaultBaseAgent :: "baseAgentSpec \<Rightarrow> baseAgentSpec" where
  "defaultBaseAgent b =
     b\<lparr>ba_EndpointHost := valueOrDefault '''' (ba_EndpointHost b) ''ingress-red-saas.instana.io'',
       ba_EndpointPort := valueOrDefault '''' (ba_EndpointPort b) ''443'',
       ba_ImageSpec := defaultImage ''icr.io/instana/agent'' (ba_ImageSpec b)\<rparr>"

definition agent_Default :: "instanaAgent \<Rightarrow> instanaAgent" where
  "agent_Default a =
     (let s = ag_Spec a; b = defaultBaseAgent (sp_Agent s)
      in a\<lparr>ag_Spec := s\<lparr>
           sp_Agent := b\<lparr>ba_UpdateStrategy := defaultUpdateStrategy (ba_UpdateStrategy b)\<rparr>,
           sp_RbacCreate := valueOrDefault None (sp_RbacCreate s) (Some True),
           sp_ServiceCreate := valueOrDefault None (sp_ServiceCreate s) (Some True),
           sp_ServiceAccount := (sp_ServiceAccount s)\<lparr>sa_Create :=
             valueOrDefault None (sa_Create (sp_ServiceAccount s)) (Some True)\<rparr>,
           sp_K8sSensor := defaultK8sSensor (sp_K8sSensor s),
           sp_OpenTelemetry := defaultOpenTelemetry (sp_OpenTelemetry s),
           sp_UseSecretMounts := valueOrDefault None (sp_UseSecretMounts s) (Some True)\<rparr>\<rparr>)"

subsection \<open>\<open>InstanaAgentRemote\<close>\<close>

record instanaAgentRemoteSpec =
  rs_UseSecretMounts :: "bool option"
  rs_Agent :: baseAgentSpec
  rs_ZoneName :: string
  rs_RbacCreate :: "bool option"
  rs_ServiceAccount :: serviceAccountSpec
  rs_Hostname :: "string option"

record instanaAgentRemoteStatus =
  rst_ConfigSecret :: resourceInfo
  rst_Conditions :: "condition list"
  rst_ObservedGeneration :: "int option"
  rst_OperatorVersion :: "string option"
  rst_Deployment :: resourceInfo

record instanaAgentRemote =
  ra_APIVersion :: string
  ra_Kind :: string
  ra_Meta :: objMeta
  ra_Spec :: instanaAgentRemoteSpec
  ra_Status :: instanaAgentRemoteStatus

abbreviation ra_Name :: "instanaAgentRemote \<Rightarrow> string" where
  "ra_Name a \<equiv> om_Name (ra_Meta a)"
abbreviation ra_Namespace :: "instanaAgentRemote \<Rightarrow> string" where
  "ra_Namespace a \<equiv> om_Namespace (ra_Meta a)"
abbreviation ra_Agent :: "instanaAgentRemote \<Rightarrow> baseAgentSpec" where
  "ra_Agent a \<equiv> rs_Agent (ra_Spec a)"

definition remote_Default :: "instanaAgentRemote \<Rightarrow> instanaAgentRemote" where
  "remote_Default a =
     (let s = ra_Spec a
      in a\<lparr>ra_Spec := s\<lparr>
           rs_Agent := defaultBaseAgent (rs_Agent s),
           rs_RbacCreate := valueOrDefault None (rs_RbacCreate s) (Some True),
           rs_ServiceAccount := (rs_ServiceAccount s)\<lparr>sa_Create :=
             valueOrDefault None (sa_Create (rs_ServiceAccount s)) (Some True)\<rparr>,
           rs_UseSecretMounts := valueOrDefault None (rs_UseSecretMounts s) (Some True)\<rparr>\<rparr>)"

subsection \<open>Defaults are stable\<close>

lemma valueOrDefault_idem [simp]:
  "d \<noteq> z \<Longrightarrow> valueOrDefault z (valueOrDefault z v d) d' = valueOrDefault z v d"
  by (simp add: valueOrDefault_def optional_defs)

lemma defaults_idem:
  "n \<noteq> '''' \<Longrightarrow> defaultImage n (defaultImage n i) = defaultImage n i"
  "defaultUpdateStrategy (defaultUpdateStrategy u) = defaultUpdateStrategy u"
  "defaultK8sSensor (defaultK8sSensor k) = defaultK8sSensor k"
  "defaultOpenTelemetry (defaultOpenTelemetry t) = defaultOpenTelemetry t"
  "defaultBaseAgent (defaultBaseAgent b) = defaultBaseAgent b"
proof -
  show 1: "n \<noteq> '''' \<Longrightarrow> defaultImage n (defaultImage n i) = defaultImage n i" for n i
    by (simp add: defaultImage_def)
  show "defaultUpdateStrategy (defaultUpdateStrategy u) = defaultUpdateStrategy u"
    by (cases "us_RollingUpdate u") (simp_all add: defaultUpdateStrategy_def Let_def valueOrDefault_def optional_defs)
  show "defaultK8sSensor (defaultK8sSensor k) = defaultK8sSensor k"
    by (simp add: defaultK8sSensor_def 1)
  show "defaultOpenTelemetry (defaultOpenTelemetry t) = defaultOpenTelemetry t"
    by (simp add: defaultOpenTelemetry_def Let_def valueOrDefault_def optional_defs)
  show "defaultBaseAgent (defaultBaseAgent b) = defaultBaseAgent b"
    by (simp add: defaultBaseAgent_def 1)
qed

lemma defaultBaseAgent_strategy:
  "defaultBaseAgent (b\<lparr>ba_UpdateStrategy := u\<rparr>) = (defaultBaseAgent b)\<lparr>ba_UpdateStrategy := u\<rparr>"
  by (simp add: defaultBaseAgent_def)

lemma agent_spec_default:
  "ag_Spec (agent_Default a) = (ag_Spec a)\<lparr>
     sp_Agent := (defaultBaseAgent (ag_Agent a))\<lparr>ba_UpdateStrategy := defaultUpdateStrategy (ba_UpdateStrategy (defaultBaseAgent (ag_Agent a)))\<rparr>,
     sp_RbacCreate := valueOrDefault None (sp_RbacCreate (ag_Spec a)) (Some True),
     sp_ServiceCreate := valueOrDefault None (sp_ServiceCreate (ag_Spec a)) (Some True),
     sp_ServiceAccount := (sp_ServiceAccount (ag_Spec a))\<lparr>sa_Create :=
       valueOrDefault None (sa_Create (sp_ServiceAccount (ag_Spec a))) (Some True)\<rparr>,
     sp_K8sSensor := defaultK8sSensor (sp_K8sSensor (ag_Spec a)),
     sp_OpenTelemetry := defaultOpenTelemetry (sp_OpenTelemetry (ag_Spec a)),
     sp_UseSecretMounts := valueOrDefault None (sp_UseSecretMounts (ag_Spec a)) (Some True)\<rparr>"
  by (simp add: agent_Default_def Let_def)

lemma ba_UpdateStrategy_default: "ba_UpdateStrategy (defaultBaseAgent b) = ba_UpdateStrategy b"
  by (simp add: defaultBaseAgent_def)

lemma agent_Default_idem: "agent_Default (agent_Default a) = agent_Default a"
proof -
  have "ag_Spec (agent_Default (agent_Default a)) = ag_Spec (agent_Default a)"
    unfolding agent_spec_default [of "agent_Default a"]
    by (simp add: agent_spec_default [of a] defaultBaseAgent_strategy ba_UpdateStrategy_default defaults_idem)
  then show ?thesis by (simp add: agent_Default_def Let_def)
qed

lemma remote_Default_idem: "remote_Default (remote_Default r) = remote_Default r"
  by (simp add: remote_Default_def Let_def defaults_idem)

text \<open>
  the defaults are stable. Applying them to a custom resource that already has them changes
  nothing, so reconciliations that start from a stored, defaulted resource see the same spec; and
  they touch nothing but the spec.
\<close>

theorem Default_idempotent:
  "agent_Default (agent_Default a) = agent_Default a \<and>
   remote_Default (remote_Default r) = remote_Default r \<and>
   (\<exists>spec. agent_Default a = a\<lparr>ag_Spec := spec\<rparr>) \<and> (\<exists>spec. remote_Default r = r\<lparr>ra_Spec := spec\<rparr>)"
proof -
  have "agent_Default a = a\<lparr>ag_Spec := ag_Spec (agent_Default a)\<rparr>" by (simp add: agent_Default_def Let_def)
  moreover have "remote_Default r = r\<lparr>ra_Spec := ra_Spec (remote_Default r)\<rparr>"
    by (simp add: remote_Default_def Let_def)
  ultimately show ?thesis using agent_Default_idem remote_Default_idem by blast
qed

end
