(* ===== verification/Transform.thy ===== *)
theory Transform
  imports Api_Types
begin

text \<open>
  Object transformations and the helpers shared by the builders:
  \<open>pkg/k8s/object/transformations\<close> (common labels, owner references, pod selector labels),
  \<open>builders/common/builder\<close> (the \<open>ObjectBuilder\<close> interface and the transformer applied to
  every built object), \<open>builders/common/helpers\<close>, \<open>backends\<close> and \<open>ports\<close>. The operator
  version, a process-wide variable of the source, is the argument \<open>ver\<close>.
\<close>

subsection \<open>Labels\<close>

abbreviation NameLabel :: string where "NameLabel \<equiv> ''app.kubernetes.io/name''"
abbreviation InstanceLabel :: string where "InstanceLabel \<equiv> ''app.kubernetes.io/instance''"
abbreviation VersionLabel :: string where "VersionLabel \<equiv> ''app.kubernetes.io/version''"
abbreviation ComponentLabel :: string where "ComponentLabel \<equiv> ''app.kubernetes.io/component''"
abbreviation PartOfLabel :: string where "PartOfLabel \<equiv> ''app.kubernetes.io/part-of''"
abbreviation ManagedByLabel :: string where "ManagedByLabel \<equiv> ''app.kubernetes.io/managed-by''"
abbreviation GenerationLabel :: string where "GenerationLabel \<equiv> ''agent.instana.io/generation''"
abbreviation ZoneLabel :: string where "ZoneLabel \<equiv> ''io.instana/zone''"
abbreviation LabelAgentMode :: string where "LabelAgentMode \<equiv> ''instana/agent-mode''"

abbreviation labelName :: string where "labelName \<equiv> ''instana-agent''"
abbreviation labelNameRemote :: string where "labelNameRemote \<equiv> ''instana-agent-remote''"
abbreviation partOf :: string where "partOf \<equiv> ''instana''"
abbreviation managedBy :: string where "managedBy \<equiv> ''instana-agent-operator''"

abbreviation ComponentInstanaAgent :: string where "ComponentInstanaAgent \<equiv> ''instana-agent''"
abbreviation ComponentInstanaAgentRemote :: string where
  "ComponentInstanaAgentRemote \<equiv> ''instana-agent-remote''"
abbreviation ComponentK8Sensor :: string where "ComponentK8Sensor \<equiv> ''k8sensor''"

subsection \<open>\<open>transformations\<close>\<close>

record transformations =
  tr_OwnerReference :: ownerReference
  tr_generation :: string

definition newTransformations :: "instanaAgent \<Rightarrow> transformations" where
  "newTransformations agent =
     \<lparr>tr_OwnerReference = \<lparr>or_APIVersion = ag_APIVersion agent, or_Kind = ag_Kind agent,
        or_Name = ag_Name agent, or_UID = om_UID (ag_Meta agent),
        or_Controller = Some True, or_BlockOwnerDeletion = Some True\<rparr>,
      tr_generation = itoa (om_Generation (ag_Meta agent))\<rparr>"

definition newTransformationsRemote :: "instanaAgentRemote \<Rightarrow> transformations" where
  "newTransformationsRemote agent =
     \<lparr>tr_OwnerReference = \<lparr>or_APIVersion = ra_APIVersion agent, or_Kind = ra_Kind agent,
        or_Name = ra_Name agent, or_UID = om_UID (ra_Meta agent),
        or_Controller = Some True, or_BlockOwnerDeletion = Some True\<rparr>,
      tr_generation = itoa (om_Generation (ra_Meta agent))\<rparr>"

definition addCommonLabels :: "string \<Rightarrow> transformations \<Rightarrow> k8sObject \<Rightarrow> string \<Rightarrow> k8sObject" where
  "addCommonLabels ver t obj component =
     (let objLabels = newMapDefaulter (get_labels obj);
          objLabels = gm_put NameLabel labelName objLabels;
          objLabels = gm_put InstanceLabel (or_Name (tr_OwnerReference t)) objLabels;
          objLabels = gm_put VersionLabel ver objLabels;
          objLabels = gm_put ComponentLabel component objLabels;
          objLabels = gm_put PartOfLabel partOf objLabels;
          objLabels = gm_put ManagedByLabel managedBy objLabels;
          objLabels = gm_put GenerationLabel (tr_generation t) objLabels
      in set_labels (Some objLabels) obj)"

datatype selectorOp = OpIn | OpNotIn

text \<open>\<open>metav1.LabelSelectorAsSelector\<close> is an argument: it may reject the requirements.\<close>

definition previousGenerationsSelector ::
  "((string \<times> selectorOp \<times> string list) list \<Rightarrow> 'sel \<times> error) \<Rightarrow> transformations \<Rightarrow> 'sel go" where
  "previousGenerationsSelector labelSelectorAsSelector t =
     resultOrDie (labelSelectorAsSelector
       [(NameLabel, OpIn, [labelName]),
        (InstanceLabel, OpIn, [or_Name (tr_OwnerReference t)]),
        (GenerationLabel, OpNotIn, [tr_generation t])])"

text \<open>The loop body of \<open>AddOwnerReference\<close> on \<open>(newRefs, found)\<close>.\<close>

definition ownerRefStep ::
  "ownerReference \<Rightarrow> ownerReference \<Rightarrow> ownerReference list \<times> bool \<Rightarrow> ownerReference list \<times> bool" where
  "ownerRefStep own ref s = (case s of (newRefs, found) \<Rightarrow>
     if or_Name ref = or_Name own
     then (if or_UID ref = or_UID own then (newRefs @ [ref], True) else (newRefs, found))
     else (newRefs @ [ref], found))"

definition addOwnerReference :: "transformations \<Rightarrow> k8sObject \<Rightarrow> k8sObject" where
  "addOwnerReference t obj =
     (let own = tr_OwnerReference t;
          (newRefs, found) = for_each (ownerRefStep own) (get_ownerRefs obj) ([], False);
          newRefs = (if \<not> found then newRefs @ [own] else newRefs)
      in set_ownerRefs newRefs obj)"

lemma ownerRef_loop:
  "for_each (ownerRefStep own) refs (acc, b) =
     (acc @ filter (\<lambda>r. or_Name r = or_Name own \<longrightarrow> or_UID r = or_UID own) refs,
      b \<or> (\<exists>r\<in>set refs. or_Name r = or_Name own \<and> or_UID r = or_UID own))"
  by (induction refs arbitrary: acc b) (auto simp: ownerRefStep_def)

lemma addOwnerReference_refs:
  "get_ownerRefs (addOwnerReference t obj) =
     (let own = tr_OwnerReference t;
          kept = filter (\<lambda>r. or_Name r = or_Name own \<longrightarrow> or_UID r = or_UID own) (get_ownerRefs obj)
      in if \<exists>r\<in>set (get_ownerRefs obj). or_Name r = or_Name own \<and> or_UID r = or_UID own
         then kept else kept @ [own])"
  by (simp add: addOwnerReference_def ownerRef_loop Let_def)

lemma addOwnerReference_obj [simp, obj_simps]:
  "get_name (addOwnerReference t obj) = get_name obj"
  "get_namespace (addOwnerReference t obj) = get_namespace obj"
  "get_labels (addOwnerReference t obj) = get_labels obj"
  "get_gvk (addOwnerReference t obj) = get_gvk obj"
  "ko_Body (addOwnerReference t obj) = ko_Body obj"
  by (simp_all add: addOwnerReference_def Let_def split: prod.splits)

lemma addCommonLabels_obj [simp, obj_simps]:
  "get_name (addCommonLabels ver t obj c) = get_name obj"
  "get_namespace (addCommonLabels ver t obj c) = get_namespace obj"
  "get_ownerRefs (addCommonLabels ver t obj c) = get_ownerRefs obj"
  "get_gvk (addCommonLabels ver t obj c) = get_gvk obj"
  "ko_Body (addCommonLabels ver t obj c) = ko_Body obj"
  by (simp_all add: addCommonLabels_def Let_def)

definition commonLabels :: "string \<Rightarrow> transformations \<Rightarrow> string \<Rightarrow> strmap" where
  "commonLabels ver t component =
     [(NameLabel, labelName), (InstanceLabel, or_Name (tr_OwnerReference t)), (VersionLabel, ver),
      (ComponentLabel, component), (PartOfLabel, partOf), (ManagedByLabel, managedBy),
      (GenerationLabel, tr_generation t)]"

lemma addCommonLabels_labels:
  "get_labels (addCommonLabels ver t obj c) =
     Some (gm_copy (newMapDefaulter (get_labels obj)) (commonLabels ver t c))"
  by (simp add: addCommonLabels_def commonLabels_def Let_def)

lemma gm_wf_commonLabels [simp]: "gm_wf (commonLabels ver t c)"
  by (simp add: commonLabels_def)

subsection \<open>Pod selector labels\<close>

text \<open>
  The two generators differ in the agent type and in the name label; a generator is the
  instance name, the zone's name, the component and that label's value.
\<close>

record podSelectorLabelGenerator =
  psl_name :: string
  psl_instance :: string
  psl_zone :: "string option"
  psl_component :: string

definition podSelectorLabelsWithZoneInfo ::
  "instanaAgent \<Rightarrow> string \<Rightarrow> zone option \<Rightarrow> podSelectorLabelGenerator" where
  "podSelectorLabelsWithZoneInfo agent component z =
     \<lparr>psl_name = labelName, psl_instance = ag_Name agent, psl_zone = map_option zone_Name z,
      psl_component = component\<rparr>"

definition podSelectorLabels :: "instanaAgent \<Rightarrow> string \<Rightarrow> podSelectorLabelGenerator" where
  "podSelectorLabels agent component = podSelectorLabelsWithZoneInfo agent component None"

definition podSelectorLabelsWithZoneInfoRemote ::
  "instanaAgentRemote \<Rightarrow> string \<Rightarrow> zone option \<Rightarrow> podSelectorLabelGenerator" where
  "podSelectorLabelsWithZoneInfoRemote agent component z =
     \<lparr>psl_name = labelNameRemote, psl_instance = ra_Name agent, psl_zone = map_option zone_Name z,
      psl_component = component\<rparr>"

definition podSelectorLabelsRemote :: "instanaAgentRemote \<Rightarrow> string \<Rightarrow> podSelectorLabelGenerator" where
  "podSelectorLabelsRemote agent component = podSelectorLabelsWithZoneInfoRemote agent component None"

definition getPodLabels :: "podSelectorLabelGenerator \<Rightarrow> strmap option \<Rightarrow> strmap" where
  "getPodLabels p userLabels =
     (let podLabels = newMapDefaulter (map_option map_Copy userLabels);
          podLabels = gm_put NameLabel (psl_name p) podLabels;
          podLabels = gm_put InstanceLabel (psl_instance p) podLabels;
          podLabels = gm_put ComponentLabel (psl_component p) podLabels;
          podLabels = gm_put PartOfLabel partOf podLabels;
          podLabels = gm_put ManagedByLabel managedBy podLabels
      in case psl_zone p of None \<Rightarrow> podLabels | Some z \<Rightarrow> gm_put ZoneLabel z podLabels)"

definition getPodSelectorLabels :: "podSelectorLabelGenerator \<Rightarrow> strmap" where
  "getPodSelectorLabels p =
     (let labels = [(NameLabel, psl_name p), (InstanceLabel, psl_instance p),
                    (ComponentLabel, psl_component p)]
      in case psl_zone p of None \<Rightarrow> labels | Some z \<Rightarrow> gm_put ZoneLabel z labels)"

text \<open>What the API server asks of a workload: its selector matches its pod template's labels.\<close>

definition selector_matches :: "strmap \<Rightarrow> strmap \<Rightarrow> bool" where
  "selector_matches sel labels = list_all (\<lambda>(k, v). gm_get labels k = Some v) sel"

lemma selector_matches_iff:
  "gm_wf sel \<Longrightarrow>
     selector_matches sel labels \<longleftrightarrow> (\<forall>k v. gm_get sel k = Some v \<longrightarrow> gm_get labels k = Some v)"
  by (fastforce simp: selector_matches_def list_all_iff gm_get_mem)

lemma gm_wf_getPodSelectorLabels [simp]: "gm_wf (getPodSelectorLabels p)"
  by (simp add: getPodSelectorLabels_def Let_def split: option.splits)

lemma gm_wf_getPodLabels [simp]: "gm_wf (getPodLabels p u)"
  by (cases u) (simp_all add: getPodLabels_def Let_def split: option.splits)

lemma getPodSelectorLabels_subset:
  "gm_get (getPodSelectorLabels p) k = Some v \<Longrightarrow> gm_get (getPodLabels p u) k = Some v"
  by (auto simp: getPodSelectorLabels_def getPodLabels_def Let_def split: option.splits if_splits)

text \<open>
  The interface \<open>PodSelectorLabelGenerator\<close>: whatever the user labels are, the selector labels
  are among the pod labels, so a workload that uses both is accepted by the API server.
\<close>

locale pod_selector_label_generator =
  fixes selector_labels :: strmap
    and pod_labels :: "strmap option \<Rightarrow> strmap"
  assumes wf_selector: "gm_wf selector_labels"
    and selector_subset:
      "gm_get selector_labels k = Some v \<Longrightarrow> gm_get (pod_labels u) k = Some v"
begin

lemma selector_matches_pods: "selector_matches selector_labels (pod_labels u)"
  by (simp add: selector_matches_iff wf_selector selector_subset)

lemma selector_matches_superset:
  assumes "\<And>k v. gm_get (pod_labels u) k = Some v \<Longrightarrow> gm_get labels k = Some v"
  shows "selector_matches selector_labels labels"
  using assms by (simp add: selector_matches_iff wf_selector selector_subset)

end

interpretation psl: pod_selector_label_generator "getPodSelectorLabels p" "getPodLabels p" for p
  by unfold_locales (simp_all add: getPodSelectorLabels_subset)

subsection \<open>Builders and the builder transformer\<close>

text \<open>
  An \<open>ObjectBuilder\<close>: \<open>Build\<close> may panic and may record the object with the status manager,
  whose state is \<open>'s\<close>; an absent optional is \<open>None\<close>.
\<close>

record 's objectBuilder =
  ob_Build :: "'s \<Rightarrow> k8sObject option go \<times> 's"
  ob_ComponentName :: string
  ob_IsNamespaced :: bool

definition builderTransformer_Apply ::
  "string \<Rightarrow> transformations \<Rightarrow> 's objectBuilder \<Rightarrow> 's \<Rightarrow> k8sObject option go \<times> 's" where
  "builderTransformer_Apply ver t builder s =
     (case ob_Build builder s of
        (Ret (Some obj), s1) \<Rightarrow>
          (let obj = addCommonLabels ver t obj (ob_ComponentName builder);
               obj = (if ob_IsNamespaced builder then addOwnerReference t obj else obj)
           in (Ret (Some obj), s1))
      | (Ret None, s1) \<Rightarrow> (Ret None, s1)
      | (Panic p, s1) \<Rightarrow> (Panic p, s1))"

subsection \<open>\<open>helpers\<close>\<close>

abbreviation ContainersInstanaIORegistry :: string where
  "ContainersInstanaIORegistry \<equiv> ''containers.instana.io''"

definition serviceAccountNameDefault :: "serviceAccountSpec \<Rightarrow> string \<Rightarrow> string" where
  "serviceAccountNameDefault sa name =
     (if derefOrEmpty False (sa_Create sa) then name else ''default'')"

definition serviceAccountName :: "instanaAgent \<Rightarrow> string" where
  "serviceAccountName h =
     (let sa = sp_ServiceAccount (ag_Spec h)
      in optional_GetOrDefault (optional_Of '''' (sa_Name sa)) (serviceAccountNameDefault sa (ag_Name h)))"

definition tlsIsEnabled :: "baseAgentSpec \<Rightarrow> bool" where
  "tlsIsEnabled b =
     (tls_SecretName (ba_TlsSpec b) \<noteq> '''' \<or>
      (length (tls_Certificate (ba_TlsSpec b)) > 0 \<and> length (tls_Key (ba_TlsSpec b)) > 0))"

definition tlsSecretName :: "string \<Rightarrow> baseAgentSpec \<Rightarrow> string" where
  "tlsSecretName name b =
     optional_GetOrDefault (optional_Of '''' (tls_SecretName (ba_TlsSpec b))) (name @ ''-tls'')"

definition headlessServiceName :: "instanaAgent \<Rightarrow> string" where
  "headlessServiceName h = ag_Name h @ ''-headless''"

definition k8sSensorResourcesName :: "instanaAgent \<Rightarrow> string" where
  "k8sSensorResourcesName h = ag_Name h @ ''-k8sensor''"

definition containersSecretName :: "instanaAgent \<Rightarrow> string" where
  "containersSecretName h = ag_Name h @ ''-containers-instana-io''"

definition useContainersSecret :: "baseAgentSpec \<Rightarrow> bool" where
  "useContainersSecret b =
     (ba_PullSecrets b = None \<and> has_prefix (im_Name (ba_ImageSpec b)) ContainersInstanaIORegistry)"

definition imagePullSecrets :: "instanaAgent \<Rightarrow> string list option" where
  "imagePullSecrets h =
     (if useContainersSecret (ag_Agent h) then Some [containersSecretName h]
      else ba_PullSecrets (ag_Agent h))"

text \<open>
  \<open>SortEnvVarsByName\<close>. \<open>sort.Slice\<close> leaves the order of entries with equal names open; the
  model keeps them in their order, and the lemmas rely only on the result being a sorted
  permutation.
\<close>

definition sortEnvVarsByName :: "envVar list \<Rightarrow> envVar list" where
  "sortEnvVarsByName envVars = sort_key ev_Name envVars"

definition remote_serviceAccountName :: "instanaAgentRemote \<Rightarrow> string" where
  "remote_serviceAccountName h =
     (let sa = rs_ServiceAccount (ra_Spec h)
      in optional_GetOrDefault (optional_Of '''' (sa_Name sa)) (serviceAccountNameDefault sa (ra_Name h)))"

definition remote_containersSecretName :: "instanaAgentRemote \<Rightarrow> string" where
  "remote_containersSecretName h = ''instana-agent-r-'' @ ra_Name h @ ''-containers-instana-io''"

definition remote_imagePullSecrets :: "instanaAgentRemote \<Rightarrow> string list option" where
  "remote_imagePullSecrets h =
     (if useContainersSecret (ra_Agent h) then Some [remote_containersSecretName h]
      else ba_PullSecrets (ra_Agent h))"

definition remoteResourcesName :: "instanaAgentRemote \<Rightarrow> string" where
  "remoteResourcesName h = ra_Name h @ ''-remote''"

subsection \<open>\<open>ports\<close>\<close>

record instanaAgentPortConfig =
  pc_Name :: string
  pc_Port :: int

definition InstanaAgentAPIPortConfig :: instanaAgentPortConfig where
  "InstanaAgentAPIPortConfig = \<lparr>pc_Name = ''agent-apis'', pc_Port = 42699\<rparr>"

definition OpenTelemetryLegacyPortConfig :: instanaAgentPortConfig where
  "OpenTelemetryLegacyPortConfig = \<lparr>pc_Name = ''otlp-legacy'', pc_Port = 55680\<rparr>"

definition DefaultOpenTelemetryGRPCPortConfig :: instanaAgentPortConfig where
  "DefaultOpenTelemetryGRPCPortConfig = \<lparr>pc_Name = ''otlp-grpc'', pc_Port = 4317\<rparr>"

definition DefaultOpenTelemetryHTTPPortConfig :: instanaAgentPortConfig where
  "DefaultOpenTelemetryHTTPPortConfig = \<lparr>pc_Name = ''otlp-http'', pc_Port = 4318\<rparr>"

definition asServicePort :: "instanaAgentPortConfig \<Rightarrow> servicePort" where
  "asServicePort i = \<lparr>sp_Name = pc_Name i, sp_Protocol = ''TCP'', sp_Port = pc_Port i,
     sp_TargetPort = pc_Port i\<rparr>"

definition asContainerPort :: "instanaAgentPortConfig \<Rightarrow> containerPort" where
  "asContainerPort i = \<lparr>cp_Name = pc_Name i, cp_ContainerPort = pc_Port i, cp_Protocol = ''TCP''\<rparr>"

text \<open>
  The two loops of \<open>ports_builder.go\<close> differ only in the conversion. A \<open>nil\<close> \<open>Enabled\<close> under
  an enabled OpenTelemetry is a \<open>nil\<close> dereference, hence the panic.
\<close>

definition nilDeref :: panicval where
  "nilDeref = PErr (EPlain ''runtime error: invalid memory address or nil pointer dereference'')"

definition overridePort :: "instanaAgentPortConfig \<Rightarrow> int option \<Rightarrow> instanaAgentPortConfig" where
  "overridePort cfg p = (case p of None \<Rightarrow> cfg | Some n \<Rightarrow> cfg\<lparr>pc_Port := n\<rparr>)"

definition getPorts :: "(instanaAgentPortConfig \<Rightarrow> 'p) \<Rightarrow> openTelemetry \<Rightarrow> 'p list go" where
  "getPorts conv otel =
     (if otel_Enabled otel = Some True
      then (case ot_Enabled (otel_GRPC otel) of
              None \<Rightarrow> Panic nilDeref
            | Some grpc \<Rightarrow>
              (case ot_Enabled (otel_HTTP otel) of
                 None \<Rightarrow> Panic nilDeref
               | Some http \<Rightarrow>
                 Ret ([conv InstanaAgentAPIPortConfig] @
                   (if grpc then [conv (overridePort DefaultOpenTelemetryGRPCPortConfig
                                          (ot_Port (otel_GRPC otel))),
                                  conv OpenTelemetryLegacyPortConfig] else []) @
                   (if http then [conv (overridePort DefaultOpenTelemetryHTTPPortConfig
                                          (ot_Port (otel_HTTP otel)))] else []))))
      else Ret [conv InstanaAgentAPIPortConfig])"

definition getServicePorts :: "openTelemetry \<Rightarrow> servicePort list go" where
  "getServicePorts otel = getPorts asServicePort otel"

definition getContainerPorts :: "openTelemetry \<Rightarrow> containerPort list go" where
  "getContainerPorts otel = getPorts asContainerPort otel"

end
