(* ===== verification/World.thy ===== *)
theory World
  imports Transform
begin

text \<open>
  Everything outside the operator (the API server, other writers, the clock, \<open>kubectl\<close>, Helm)
  is a parameter: a record \<open>world\<close> of response functions. Each of them sees the history of the
  calls made so far, so a theorem about an arbitrary \<open>world\<close> covers every interleaving with
  other actors. The operator's calls append to that history; statements about the order of its
  effects are statements about the appended calls.

  Time: every call takes at least one tick plus an arbitrary latency, \<open>time.Sleep d\<close> at least
  \<open>d\<close> ticks. A context made by \<open>context.WithTimeout\<close> is done once its deadline has passed, or
  when its parent is done.
\<close>

subsection \<open>Calls and the outside world\<close>

datatype call =
    CGet groupVersionKind namespacedName
  | CList groupVersionKind strmap
  | CApply k8sObject bool
  | CDelete k8sObject
  | CPatchAgent instanaAgent instanaAgent
  | CPatchRemote instanaAgentRemote instanaAgentRemote
  | CStatusPatchAgent instanaAgent instanaAgent
  | CStatusPatchRemote instanaAgentRemote instanaAgentRemote
  | CEvent string string string
  | CRunCommand string
  | CHelmInit
  | CHelmUninstall string
  | CSleep nat

type_synonym history = "call list"

record endpointPort =
  ep_Name :: "string option"
  ep_Port :: "int option"

record endpoint =
  ept_Addresses :: "string list"
  ept_Ready :: "bool option"

record endpointSlice =
  es_Ports :: "endpointPort list"
  es_Endpoints :: "endpoint list"

record endpointSubset =
  esub_Addresses :: "string list"
  esub_Ports :: "(string \<times> int) list"

record world =
  sv_get :: "history \<Rightarrow> groupVersionKind \<Rightarrow> namespacedName \<Rightarrow> k8sObject \<times> error"
  sv_getAgent :: "history \<Rightarrow> namespacedName \<Rightarrow> instanaAgent \<times> error"
  sv_getRemote :: "history \<Rightarrow> namespacedName \<Rightarrow> instanaAgentRemote \<times> error"
  sv_getEndpoints :: "history \<Rightarrow> namespacedName \<Rightarrow> endpointSubset list \<times> error"
  sv_listEndpointSlices :: "history \<Rightarrow> string \<Rightarrow> strmap \<Rightarrow> endpointSlice list \<times> error"
  sv_listNamespaces :: "history \<Rightarrow> string \<Rightarrow> objMeta list \<times> error"
  sv_apply :: "history \<Rightarrow> k8sObject \<Rightarrow> bool \<Rightarrow> k8sObject \<times> error"
  sv_delete :: "history \<Rightarrow> k8sObject \<Rightarrow> error"
  sv_patchAgent :: "history \<Rightarrow> instanaAgent \<Rightarrow> instanaAgent \<Rightarrow> error"
  sv_patchRemote :: "history \<Rightarrow> instanaAgentRemote \<Rightarrow> instanaAgentRemote \<Rightarrow> error"
  sv_statusPatchAgent :: "history \<Rightarrow> instanaAgent \<Rightarrow> instanaAgent \<Rightarrow> error"
  sv_statusPatchRemote :: "history \<Rightarrow> instanaAgentRemote \<Rightarrow> instanaAgentRemote \<Rightarrow> error"
  sv_helmInit :: "history \<Rightarrow> error"
  sv_helmUninstall :: "history \<Rightarrow> string \<Rightarrow> bool \<times> error"
  sv_ctxErr :: "history \<Rightarrow> error"
  sv_latency :: "nat \<Rightarrow> nat"
  sv_now :: "history \<Rightarrow> int"

fun call_duration :: "call \<Rightarrow> nat" where
  "call_duration (CSleep d) = d"
| "call_duration _ = 0"

text \<open>The clock after a history, in ticks (nanoseconds) since the start.\<close>

definition clock :: "world \<Rightarrow> history \<Rightarrow> nat" where
  "clock w h = (\<Sum>i<length h. Suc (call_duration (h ! i) + sv_latency w i))"

lemma clock_snoc:
  "clock w (h @ [c]) = clock w h + Suc (call_duration c + sv_latency w (length h))"
proof -
  have "(\<Sum>i<length h. Suc (call_duration ((h @ [c]) ! i) + sv_latency w i)) = clock w h"
    unfolding clock_def by (rule sum.cong) (simp_all add: nth_append)
  then show ?thesis by (simp add: clock_def)
qed

lemma clock_append_le: "clock w h \<le> clock w (h @ g)"
  by (induction g rule: rev_induct) (simp_all add: clock_snoc flip: append_assoc)

lemma clock_append_Sleep: "clock w h + d < clock w (h @ g @ [CSleep d])"
  using clock_append_le [of w h g] by (simp add: clock_snoc flip: append_assoc)

subsection \<open>Kinds of the objects that are fetched\<close>

definition gvk_ConfigMap :: groupVersionKind where
  "gvk_ConfigMap = \<lparr>gvk_Group = '''', gvk_Version = ''v1'', gvk_Kind = ''ConfigMap''\<rparr>"
definition gvk_Secret :: groupVersionKind where
  "gvk_Secret = \<lparr>gvk_Group = '''', gvk_Version = ''v1'', gvk_Kind = ''Secret''\<rparr>"
definition gvk_Service :: groupVersionKind where
  "gvk_Service = \<lparr>gvk_Group = '''', gvk_Version = ''v1'', gvk_Kind = ''Service''\<rparr>"
definition gvk_Endpoints :: groupVersionKind where
  "gvk_Endpoints = \<lparr>gvk_Group = '''', gvk_Version = ''v1'', gvk_Kind = ''Endpoints''\<rparr>"
definition gvk_Namespace :: groupVersionKind where
  "gvk_Namespace = \<lparr>gvk_Group = '''', gvk_Version = ''v1'', gvk_Kind = ''Namespace''\<rparr>"
definition gvk_EndpointSlice :: groupVersionKind where
  "gvk_EndpointSlice =
     \<lparr>gvk_Group = ''discovery.k8s.io'', gvk_Version = ''v1'', gvk_Kind = ''EndpointSlice''\<rparr>"
definition gvk_DaemonSet :: groupVersionKind where
  "gvk_DaemonSet = \<lparr>gvk_Group = ''apps'', gvk_Version = ''v1'', gvk_Kind = ''DaemonSet''\<rparr>"
definition gvk_Deployment :: groupVersionKind where
  "gvk_Deployment = \<lparr>gvk_Group = ''apps'', gvk_Version = ''v1'', gvk_Kind = ''Deployment''\<rparr>"
definition gvk_InstanaAgent :: groupVersionKind where
  "gvk_InstanaAgent = \<lparr>gvk_Group = ''instana.io'', gvk_Version = ''v1'', gvk_Kind = ''InstanaAgent''\<rparr>"
definition gvk_InstanaAgentRemote :: groupVersionKind where
  "gvk_InstanaAgentRemote =
     \<lparr>gvk_Group = ''instana.io'', gvk_Version = ''v1'', gvk_Kind = ''InstanaAgentRemote''\<rparr>"

subsection \<open>Which calls an operation can make\<close>

text \<open>
  \<open>emits P f\<close>: whatever the history and the world's answers are, \<open>f\<close> only appends calls that
  satisfy \<open>P\<close>.
\<close>

definition emits :: "(call \<Rightarrow> bool) \<Rightarrow> (history \<Rightarrow> 'a \<times> history) \<Rightarrow> bool" where
  "emits P f = (\<forall>h. \<exists>tr. snd (f h) = h @ tr \<and> list_all P tr)"

lemma emitsI: "(\<And>h. \<exists>tr. snd (f h) = h @ tr \<and> list_all P tr) \<Longrightarrow> emits P f"
  by (simp add: emits_def)

lemma emitsE:
  assumes "emits P f" obtains tr where "snd (f h) = h @ tr" "list_all P tr"
  using assms by (auto simp: emits_def)

lemma emits_return [intro]: "emits P (\<lambda>h. (x, h))"
  by (simp add: emits_def)

lemma emits_call: "P c \<Longrightarrow> emits P (\<lambda>h. (g h, h @ [c]))"
  by (simp add: emits_def)

lemma emits_bind:
  assumes f: "emits P f" and g: "\<And>x. emits P (g x)"
  shows "emits P (\<lambda>h. case f h of (x, h1) \<Rightarrow> g x h1)"
proof (rule emitsI)
  fix h
  obtain tr where 1: "snd (f h) = h @ tr" "list_all P tr" using f by (rule emitsE)
  obtain tr' where 2: "snd (g (fst (f h)) (snd (f h))) = snd (f h) @ tr'" "list_all P tr'"
    using g by (rule emitsE)
  from 1 2 show "\<exists>tr. snd (case f h of (x, h1) \<Rightarrow> g x h1) = h @ tr \<and> list_all P tr"
    by (intro exI [of _ "tr @ tr'"]) (simp add: split_beta)
qed

lemma emits_mono: "emits P f \<Longrightarrow> (\<And>c. P c \<Longrightarrow> Q c) \<Longrightarrow> emits Q f"
  unfolding emits_def by (meson list.pred_mono_strong)

lemma emits_result:
  assumes "emits P f" shows "emits P (\<lambda>h. case f h of (x, h1) \<Rightarrow> (r x, h1))"
  by (rule emits_bind [OF assms]) (rule emits_return)

text \<open>Rules that follow the shape of a definition: results, calls, sequences and branches.\<close>

lemma emits_pair: "(\<And>a b. emits P (f a b)) \<Longrightarrow> emits P (\<lambda>h. case x of (a, b) \<Rightarrow> f a b h)"
  by (cases x) simp

lemma emits_if: "emits P f \<Longrightarrow> emits P g \<Longrightarrow> emits P (\<lambda>h. if b h then f h else g h)"
  by (simp add: emits_def)

lemma emits_option:
  "emits P f \<Longrightarrow> (\<And>y. emits P (g y)) \<Longrightarrow> emits P (\<lambda>h. case x h of None \<Rightarrow> f h | Some y \<Rightarrow> g y h)"
  by (auto simp: emits_def split: option.split)

lemma emits_go:
  "(\<And>y. emits P (f y)) \<Longrightarrow> (\<And>p. emits P (g p)) \<Longrightarrow> emits P (\<lambda>h. case x of Ret y \<Rightarrow> f y h | Panic p \<Rightarrow> g p h)"
  by (auto simp: emits_def split: outcome.split)

lemma emits_after: "emits P f \<Longrightarrow> P c \<Longrightarrow> emits P (\<lambda>h. f (h @ [c]))"
  unfolding emits_def by (metis append_Cons append_assoc append_Nil list.pred_inject(2))

lemma emits_response: "(\<And>a b. emits P (f a b)) \<Longrightarrow> emits P (\<lambda>h. case x h of (a, b) \<Rightarrow> f a b h)"
  by (simp add: emits_def split_beta)

lemmas emits_rules = emits_return emits_if emits_option emits_go emits_pair

end
