(* ===== verification/Sim_World.thy ===== *)
theory Sim_World
  imports World
begin

text \<open>
  An in-memory API server: an instance of the parameter \<open>world\<close> that answers from the calls
  made so far. It is the concrete world of the witnesses, and shows that the laws named as
  hypotheses elsewhere (\<open>keeps_identity\<close>, reads that see the last write) hold together.
\<close>

text \<open>The object stored under a kind and a key after the calls \<open>rev h\<close>, newest first.\<close>

fun sim_stored :: "k8sObject list \<Rightarrow> call list \<Rightarrow> groupVersionKind \<Rightarrow> namespacedName \<Rightarrow> k8sObject option" where
  "sim_stored initial [] gvk key =
     List.find (\<lambda>obj. get_gvk obj = gvk \<and> objectKeyFromObject obj = key) initial"
| "sim_stored initial (c # h) gvk key =
     (case c of
        CApply obj dryRun \<Rightarrow>
          if \<not> dryRun \<and> get_gvk obj = gvk \<and> objectKeyFromObject obj = key then Some obj
          else sim_stored initial h gvk key
      | CDelete obj \<Rightarrow>
          if get_gvk obj = gvk \<and> objectKeyFromObject obj = key then None
          else sim_stored initial h gvk key
      | _ \<Rightarrow> sim_stored initial h gvk key)"

lemma sim_stored_key:
  "sim_stored initial h gvk key = Some obj \<Longrightarrow> get_gvk obj = gvk \<and> objectKeyFromObject obj = key"
  by (induction initial h gvk key rule: sim_stored.induct)
    (auto simp: find_Some_iff split: call.splits if_splits)

definition notFoundErr :: goerr where
  "notFoundErr = EStatus NotFound ''not found''"

definition simWorld :: "k8sObject list \<Rightarrow> instanaAgent \<Rightarrow> instanaAgentRemote \<Rightarrow> world" where
  "simWorld initial agent remote =
     \<lparr>sv_get = (\<lambda>h gvk key. case sim_stored initial (rev h) gvk key of
                  Some obj \<Rightarrow> (obj, None) | None \<Rightarrow> (emptyObject, Some notFoundErr)),
      sv_getAgent = (\<lambda>h key. (agent, None)),
      sv_getRemote = (\<lambda>h key. (remote, None)),
      sv_getEndpoints = (\<lambda>h key. ([], Some notFoundErr)),
      sv_listEndpointSlices = (\<lambda>h ns labels. ([], None)),
      sv_listNamespaces = (\<lambda>h label. ([], None)),
      sv_apply = (\<lambda>h obj dryRun. (obj, None)),
      sv_delete = (\<lambda>h obj. case sim_stored initial (rev h) (get_gvk obj) (objectKeyFromObject obj) of
                     Some _ \<Rightarrow> None | None \<Rightarrow> Some notFoundErr),
      sv_patchAgent = (\<lambda>h old new. None),
      sv_patchRemote = (\<lambda>h old new. None),
      sv_statusPatchAgent = (\<lambda>h old new. None),
      sv_statusPatchRemote = (\<lambda>h old new. None),
      sv_helmInit = (\<lambda>h. None),
      sv_helmUninstall = (\<lambda>h name. (False, None)),
      sv_ctxErr = (\<lambda>h. None),
      sv_latency = (\<lambda>i. 0),
      sv_now = (\<lambda>h. 0)\<rparr>"

text \<open>
  The answer to an apply is the applied object: its kind, name and namespace do not change.
  The client restores the kind after decoding the answer.
\<close>

definition keeps_identity :: "world \<Rightarrow> bool" where
  "keeps_identity w \<longleftrightarrow> (\<forall>h obj dryRun.
     get_gvk (fst (sv_apply w h obj dryRun)) = get_gvk obj \<and>
     get_name (fst (sv_apply w h obj dryRun)) = get_name obj \<and>
     get_namespace (fst (sv_apply w h obj dryRun)) = get_namespace obj)"

lemma keeps_identity_simWorld [simp]: "keeps_identity (simWorld initial agent remote)"
  by (simp add: keeps_identity_def simWorld_def)

text \<open>Concrete values for witnesses: an agent with a name, a key and a zone, all else zero.\<close>

definition exampleMeta :: objMeta where
  "exampleMeta = (named ''agent'' ''ns'')\<lparr>om_UID := ''uid'', om_Generation := 1\<rparr>"

definition emptyImage :: imageSpec where
  "emptyImage = \<lparr>im_Name = '''', im_Digest = '''', im_Tag = '''', im_PullPolicy = ''''\<rparr>"

definition emptyPod :: agentPodSpec where
  "emptyPod = \<lparr>ap_Annotations = None, ap_Labels = None, ap_Tolerations = [], ap_Affinity = NoAffinity,
     ap_PriorityClassName = '''', ap_ResourceRequirements = emptyResourceRequirements,
     ap_NodeSelector = None, ap_Volumes = [], ap_VolumeMounts = [], ap_Env = [],
     ap_LivenessProbe = None\<rparr>"

definition exampleBase :: baseAgentSpec where
  "exampleBase = \<lparr>ba_Mode = '''', ba_Key = ''secret'', ba_DownloadKey = '''', ba_KeysSecret = '''',
     ba_ListenAddress = '''', ba_EndpointHost = '''', ba_EndpointPort = '''', ba_MinReadySeconds = 0,
     ba_AdditionalBackends = [],
     ba_TlsSpec = \<lparr>tls_SecretName = '''', tls_Certificate = '''', tls_Key = ''''\<rparr>,
     ba_ImageSpec = emptyImage, ba_PullSecrets = None,
     ba_UpdateStrategy = \<lparr>us_Type = '''', us_RollingUpdate = None\<rparr>, ba_Pod = emptyPod,
     ba_ProxyHost = '''', ba_ProxyPort = '''', ba_ProxyProtocol = '''', ba_ProxyUser = '''',
     ba_ProxyPassword = '''', ba_ProxyUseDNS = False, ba_Env = [], ba_ConfigurationYaml = '''',
     ba_RedactKubernetesSecrets = '''', ba_HostRepository = '''', ba_ServiceMeshEnabled = False,
     ba_MvnRepoUrl = '''', ba_MvnRepoFeaturesPath = '''', ba_MvnRepoSharedPath = '''',
     ba_MirrorReleaseRepoUrl = '''', ba_MirrorReleaseRepoUsername = '''',
     ba_MirrorReleaseRepoPassword = '''', ba_MirrorSharedRepoUrl = '''',
     ba_MirrorSharedRepoUsername = '''', ba_MirrorSharedRepoPassword = ''''\<rparr>"

definition emptyCA :: caSpec where
  "emptyCA = \<lparr>ca_MountPath = '''', ca_SecretName = '''', ca_Filename = ''''\<rparr>"

definition emptyK8sSensor :: k8sSpec where
  "emptyK8sSensor = \<lparr>ks_DeploymentSpec = \<lparr>kd_Enabled = None, kd_MinReadySeconds = 0, kd_Replicas = 0,
       kd_Pod = \<lparr>kp_ResourceRequirements = emptyResourceRequirements, kp_NodeSelector = None,
         kp_PriorityClassName = '''', kp_Tolerations = [], kp_Affinity = NoAffinity\<rparr>\<rparr>,
     ks_ImageSpec = emptyImage, ks_PodDisruptionBudget = None,
     ks_ETCD = \<lparr>etcd_Insecure = None, etcd_CA = emptyCA, etcd_Targets = []\<rparr>,
     ks_RestClient = \<lparr>rc_HostAllowlist = [], rc_CA = emptyCA\<rparr>, ks_PollRate = '''',
     ks_CrdMonitoring = None\<rparr>"

definition emptyOtelPort :: otelPortConfig where
  "emptyOtelPort = \<lparr>ot_Enabled = None, ot_Port = None\<rparr>"

definition emptyInfo :: resourceInfo where
  "emptyInfo = \<lparr>ri_Name = '''', ri_UID = ''''\<rparr>"

definition emptyStatus :: instanaAgentStatus where
  "emptyStatus = \<lparr>st_ConfigSecret = emptyInfo, st_NamespacesConfigMap = emptyInfo, st_Status = '''',
     st_Reason = '''', st_LastUpdate = 0, st_OldVersionsUpdated = False, st_DaemonSet = emptyInfo,
     st_Conditions = [], st_ObservedGeneration = None, st_OperatorVersion = None\<rparr>"

definition exampleAgent :: instanaAgent where
  "exampleAgent = \<lparr>ag_APIVersion = ''instana.io/v1'', ag_Kind = ''InstanaAgent'', ag_Meta = exampleMeta,
     ag_Spec = \<lparr>sp_UseSecretMounts = None, sp_Agent = exampleBase, sp_ClusterName = '''',
       sp_ZoneName = ''z'', sp_OpenShift = Some False, sp_RbacCreate = None, sp_ServiceCreate = None,
       sp_OpenTelemetry = \<lparr>otel_Enabled = None, otel_GRPC = emptyOtelPort, otel_HTTP = emptyOtelPort\<rparr>,
       sp_PrometheusRemoteWrite = None,
       sp_ServiceAccount = \<lparr>sa_Create = None, sa_Name = '''', sa_Annotations = None\<rparr>,
       sp_K8sSensor = emptyK8sSensor, sp_PinnedChartVersion = '''', sp_Zones = []\<rparr>,
     ag_Status = emptyStatus\<rparr>"

definition exampleRemote :: instanaAgentRemote where
  "exampleRemote = \<lparr>ra_APIVersion = ''instana.io/v1'', ra_Kind = ''InstanaAgentRemote'',
     ra_Meta = exampleMeta,
     ra_Spec = \<lparr>rs_UseSecretMounts = None, rs_Agent = exampleBase, rs_ZoneName = ''z'',
       rs_RbacCreate = None, rs_ServiceAccount = \<lparr>sa_Create = None, sa_Name = '''', sa_Annotations = None\<rparr>,
       rs_Hostname = None\<rparr>,
     ra_Status = \<lparr>rst_ConfigSecret = emptyInfo, rst_Conditions = [], rst_ObservedGeneration = None,
       rst_OperatorVersion = None, rst_Deployment = emptyInfo\<rparr>\<rparr>"

lemmas example_defs = exampleMeta_def emptyImage_def emptyPod_def exampleBase_def emptyCA_def
  emptyK8sSensor_def emptyOtelPort_def emptyInfo_def emptyStatus_def exampleAgent_def exampleRemote_def
  emptyResourceRequirements_def named_def emptyMeta_def

end
