(* ===== verification/Client.thy ===== *)
theory Client
  imports Sim_World
begin

text \<open>
  The Kubernetes client wrapper (\<open>src/pkg/k8s/client\<close>): get, server-side apply, existence
  checks, and deletion of a batch of objects that waits, within a time limit, until they are
  gone.
\<close>

subsection \<open>\<open>client.go\<close>\<close>

definition client_Get ::
  "world \<Rightarrow> groupVersionKind \<Rightarrow> namespacedName \<Rightarrow> history \<Rightarrow> (k8sObject \<times> error) \<times> history" where
  "client_Get w gvk key h = (sv_get w h gvk key, h @ [CGet gvk key])"

definition client_GetAsResult ::
  "world \<Rightarrow> groupVersionKind \<Rightarrow> namespacedName \<Rightarrow> history \<Rightarrow> k8sObject result \<times> history" where
  "client_GetAsResult w gvk key h =
     (case client_Get w gvk key h of ((obj, e), h1) \<Rightarrow> (result_Of obj e, h1))"

text \<open>
  \<open>Apply\<close>: a forced server-side apply under the operator's field owner; the patched object is
  decoded into \<open>obj\<close>. The flag stands for the option \<open>DryRunAll\<close>.
\<close>

definition client_Apply ::
  "world \<Rightarrow> k8sObject \<Rightarrow> bool \<Rightarrow> history \<Rightarrow> k8sObject result \<times> history" where
  "client_Apply w obj dryRun h =
     (let obj = set_managedFields [] obj
      in case sv_apply w h obj dryRun of (obj1, e) \<Rightarrow> (result_Of obj1 e, h @ [CApply obj dryRun]))"

definition client_Delete :: "world \<Rightarrow> k8sObject \<Rightarrow> history \<Rightarrow> error \<times> history" where
  "client_Delete w obj h = (sv_delete w h obj, h @ [CDelete obj])"

definition wasRetrieved :: "k8sObject \<Rightarrow> bool result" where
  "wasRetrieved obj = result_OfSuccess True"

definition ifNotFound :: "error \<Rightarrow> bool \<times> error" where
  "ifNotFound e = (False, ignoreNotFound e)"

definition doNotExist :: "bool result \<Rightarrow> bool" where
  "doNotExist r = (isSuccess r \<and> \<not> optional_Get (toOptional False r))"

definition client_Exists ::
  "world \<Rightarrow> groupVersionKind \<Rightarrow> namespacedName \<Rightarrow> history \<Rightarrow> bool result \<times> history" where
  "client_Exists w gvk key h =
     (case client_GetAsResult w gvk key h of
        (r, h1) \<Rightarrow> (result_Recover (result_Map False r wasRetrieved) ifNotFound, h1))"

fun objectsExist :: "world \<Rightarrow> k8sObject list \<Rightarrow> history \<Rightarrow> bool result list \<times> history" where
  "objectsExist w [] h = ([], h)"
| "objectsExist w (obj # objects) h =
     (case client_Exists w (get_gvk obj) (objectKeyFromObject obj) h of (r, h1) \<Rightarrow>
      case objectsExist w objects h1 of (rs, h2) \<Rightarrow> (r # rs, h2))"

text \<open>
  A context with a deadline: done with the parent's error, or with \<open>DeadlineExceeded\<close>.
\<close>

definition DeadlineExceeded :: goerr where
  "DeadlineExceeded = EPlain ''context deadline exceeded''"

definition ctx_Err :: "world \<Rightarrow> nat \<Rightarrow> history \<Rightarrow> error" where
  "ctx_Err w deadline h =
     (if sv_ctxErr w h \<noteq> None then sv_ctxErr w h
      else if deadline \<le> clock w h then Some DeadlineExceeded else None)"

abbreviation existence_check :: "k8sObject \<Rightarrow> call" where
  "existence_check obj \<equiv> CGet (get_gvk obj) (objectKeyFromObject obj)"

lemma client_Exists_history [simp]: "snd (client_Exists w gvk key h) = h @ [CGet gvk key]"
  by (simp add: client_Exists_def client_GetAsResult_def client_Get_def split: prod.splits)

lemma objectsExist_history [simp]:
  "snd (objectsExist w objects h) = h @ map existence_check objects"
proof (induction objects arbitrary: h)
  case (Cons obj objects)
  have "snd (client_Exists w (get_gvk obj) (objectKeyFromObject obj) h) = h @ [existence_check obj]"
    by simp
  then show ?case using Cons by (simp add: split_beta del: client_Exists_history)
qed simp

text \<open>
  \<open>verifyDeletion\<close> and \<open>verifyDeletionStep\<close> call each other; they are one recursive function,
  which ends because each round sleeps and the deadline is fixed.
\<close>

function verifyDeletion ::
  "world \<Rightarrow> nat \<Rightarrow> k8sObject list \<Rightarrow> nat \<Rightarrow> history \<Rightarrow> error \<times> history" where
  "verifyDeletion w deadline objects waitTime h =
     (if ctx_Err w deadline h \<noteq> None then (ctx_Err w deadline h, h)
      else (case objectsExist w objects h of (objectsExistResults, h1) \<Rightarrow>
        if list_All doNotExist objectsExistResults then (None, h1)
        else verifyDeletion w deadline objects waitTime (h1 @ [CSleep waitTime])))"
  by pat_completeness auto
termination
proof (relation "measure (\<lambda>(w, deadline, _, _, h). deadline - clock w h)", goal_cases)
  case (2 w deadline objects waitTime h rs h1)
  from 2(1) have lt: "clock w h < deadline" by (auto simp: ctx_Err_def split: if_splits)
  have "h1 = h @ map existence_check objects"
    using objectsExist_history [of w objects h] 2(2) by (metis snd_conv)
  then have "clock w h < clock w (h1 @ [CSleep waitTime])"
    using clock_append_Sleep [of w h waitTime "map existence_check objects"] by simp
  with lt show ?case by simp
qed simp

declare verifyDeletion.simps [simp del]

fun deleteAll :: "world \<Rightarrow> k8sObject list \<Rightarrow> multiErrorBuilder \<Rightarrow> history \<Rightarrow> error \<times> history" where
  "deleteAll w [] errBuilder h = (meb_build errBuilder, h)"
| "deleteAll w (obj # objects) errBuilder h =
     (case client_Delete w obj h of (e, h1) \<Rightarrow>
      deleteAll w objects (meb_add [ignoreNotFound e] errBuilder) h1)"

definition deleteAllInTimeLimit ::
  "world \<Rightarrow> k8sObject list \<Rightarrow> nat \<Rightarrow> nat \<Rightarrow> history \<Rightarrow> error \<times> history" where
  "deleteAllInTimeLimit w objects timeout waitTime h =
     (let deadline = clock w h + timeout
      in case deleteAll w objects (newMultiErrorBuilder []) h of (e, h1) \<Rightarrow>
           if e = None then verifyDeletion w deadline objects waitTime h1 else (e, h1))"

definition client_DeleteAllInTimeLimit ::
  "world \<Rightarrow> k8sObject list \<Rightarrow> nat \<Rightarrow> nat \<Rightarrow> history \<Rightarrow> k8sObject list result \<times> history" where
  "client_DeleteAllInTimeLimit w objects timeout waitTime h =
     (case deleteAllInTimeLimit w objects timeout waitTime h of (e, h1) \<Rightarrow> (result_Of objects e, h1))"

record namespaceMetadata =
  nm_Labels :: strmap

record namespacesDetails =
  nd_Version :: int
  nd_Namespaces :: "(string, namespaceMetadata) gomap"

abbreviation workloadMonitoringLabel :: string where
  "workloadMonitoringLabel \<equiv> ''instana-workload-monitoring''"

definition getNamespacesWithLabels :: "world \<Rightarrow> history \<Rightarrow> (namespacesDetails \<times> error) \<times> history" where
  "getNamespacesWithLabels w h =
     (let h1 = h @ [CList gvk_Namespace [(workloadMonitoringLabel, '''')]]
      in case sv_listNamespaces w h workloadMonitoringLabel of (items, e) \<Rightarrow>
         (case e of
            Some e \<Rightarrow> ((\<lparr>nd_Version = 0, nd_Namespaces = []\<rparr>,
                        Some (EWrapf ''failed to list namespaces: '' e '''')), h1)
          | None \<Rightarrow>
            ((\<lparr>nd_Version = 1,
               nd_Namespaces = for_each (\<lambda>ns m. gm_put (om_Name ns)
                 \<lparr>nm_Labels = [(workloadMonitoringLabel,
                    derefOrEmpty '''' (gm_get (derefOrEmpty [] (om_Labels ns)) workloadMonitoringLabel))]\<rparr> m)
                 items []\<rparr>, None), h1)))"

subsection \<open>What existence checks and deletions mean\<close>

lemma client_Exists_result:
  "fst (client_Exists w gvk key h) =
     (case snd (sv_get w h gvk key) of
        None \<Rightarrow> \<lparr>res = True, err = None\<rparr>
      | Some e \<Rightarrow> if isNotFound (Some e) then \<lparr>res = False, err = None\<rparr>
                  else \<lparr>res = False, err = Some e\<rparr>)"
  by (auto simp: client_Exists_def client_GetAsResult_def client_Get_def result_defs
      wasRetrieved_def ifNotFound_def ignoreNotFound_def split: prod.splits option.splits)

lemma doNotExist_iff: "doNotExist r \<longleftrightarrow> err r = None \<and> \<not> res r"
  by (auto simp: doNotExist_def result_defs optional_defs)

text \<open>The object was reported absent at the moment of the \<open>i\<close>-th check of a round.\<close>

definition absent_at :: "world \<Rightarrow> history \<Rightarrow> k8sObject \<Rightarrow> bool" where
  "absent_at w h obj = isNotFound (snd (sv_get w h (get_gvk obj) (objectKeyFromObject obj)))"

lemma doNotExist_client_Exists:
  "doNotExist (fst (client_Exists w (get_gvk obj) (objectKeyFromObject obj) h)) \<longleftrightarrow> absent_at w h obj"
  by (auto simp: client_Exists_result absent_at_def doNotExist_iff split: option.splits)

lemma objectsExist_all:
  "list_All doNotExist (fst (objectsExist w objects h)) \<longleftrightarrow>
     (\<forall>i<length objects. absent_at w (h @ map existence_check (take i objects)) (objects ! i))"
proof (induction objects arbitrary: h)
  case (Cons obj objects)
  let ?h1 = "h @ [existence_check obj]"
  have "list_All doNotExist (fst (objectsExist w (obj # objects) h)) \<longleftrightarrow>
      absent_at w h obj \<and> list_All doNotExist (fst (objectsExist w objects ?h1))"
    by (simp add: split_beta list_All_def flip: doNotExist_client_Exists)
  with Cons [of ?h1] show ?case by (simp add: All_less_Suc2)
qed (simp add: list_All_def)

text \<open>The calls of \<open>n\<close> unsuccessful verification rounds.\<close>

definition verify_rounds :: "k8sObject list \<Rightarrow> nat \<Rightarrow> nat \<Rightarrow> history" where
  "verify_rounds objects waitTime n =
     concat (replicate n (map existence_check objects @ [CSleep waitTime]))"

lemma verify_rounds_Suc:
  "verify_rounds objects waitTime (Suc n) =
     (map existence_check objects @ [CSleep waitTime]) @ verify_rounds objects waitTime n"
  by (simp add: verify_rounds_def)

lemma verifyDeletion_trace:
  assumes "verifyDeletion w deadline objects waitTime h = (e, h')"
  shows "\<exists>n. (n = 0 \<or> clock w h + (n - 1) * Suc waitTime < deadline) \<and>
    (e = None \<longrightarrow> h' = h @ verify_rounds objects waitTime n @ map existence_check objects \<and>
       list_All doNotExist (fst (objectsExist w objects (h @ verify_rounds objects waitTime n)))) \<and>
    (e \<noteq> None \<longrightarrow> h' = h @ verify_rounds objects waitTime n \<and> e = ctx_Err w deadline h')"
  using assms
proof (induction w deadline objects waitTime h rule: verifyDeletion.induct)
  case (1 w deadline objects waitTime h)
  let ?checks = "map existence_check objects"
  let ?h2 = "(h @ ?checks) @ [CSleep waitTime]"
  show ?case
  proof (cases "ctx_Err w deadline h = None")
    case False
    with 1(2) show ?thesis
      by (intro exI [of _ 0]) (auto simp: verifyDeletion.simps [of w deadline objects waitTime h]
          verify_rounds_def)
  next
    case True
    have ex: "objectsExist w objects h = (fst (objectsExist w objects h), h @ ?checks)"
      by (metis objectsExist_history prod.collapse)
    show ?thesis
    proof (cases "list_All doNotExist (fst (objectsExist w objects h))")
      case True': True
      with True 1(2) ex have "e = None \<and> h' = h @ ?checks"
        by (subst (asm) verifyDeletion.simps) (auto split: prod.splits)
      with True' show ?thesis by (intro exI [of _ 0]) (auto simp: verify_rounds_def)
    next
      case False
      with True 1(2) ex have rec: "verifyDeletion w deadline objects waitTime ?h2 = (e, h')"
        by (subst (asm) verifyDeletion.simps) (auto split: prod.splits)
      have lt: "clock w h < deadline" using True by (auto simp: ctx_Err_def split: if_splits)
      have step: "clock w h + Suc waitTime \<le> clock w ?h2"
        using clock_append_Sleep [of w h waitTime ?checks] by simp
      from 1(1) [OF _ ex [symmetric] False rec] True obtain n where
        n: "n = 0 \<or> clock w ?h2 + (n - 1) * Suc waitTime < deadline" and
        ok: "e = None \<longrightarrow> h' = ?h2 @ verify_rounds objects waitTime n @ ?checks \<and>
          list_All doNotExist (fst (objectsExist w objects (?h2 @ verify_rounds objects waitTime n)))" and
        bad: "e \<noteq> None \<longrightarrow> h' = ?h2 @ verify_rounds objects waitTime n \<and> e = ctx_Err w deadline h'"
        by auto
      have "clock w h + (Suc n - 1) * Suc waitTime < deadline"
        using n lt step by (cases n) (auto simp: algebra_simps)
      with ok bad show ?thesis
        by (intro exI [of _ "Suc n"]) (auto simp: verify_rounds_Suc)
    qed
  qed
qed

text \<open>The response to the \<open>i\<close>-th deletion of a batch, made after \<open>h\<close>.\<close>

definition delete_response :: "world \<Rightarrow> k8sObject list \<Rightarrow> history \<Rightarrow> nat \<Rightarrow> error" where
  "delete_response w objects h i = sv_delete w (h @ map CDelete (take i objects)) (objects ! i)"

lemma delete_response_Suc:
  "delete_response w (obj # objects) h (Suc i) = delete_response w objects (h @ [CDelete obj]) i"
  by (simp add: delete_response_def)

lemma deleteAll_eq:
  "deleteAll w objects m h =
     (meb_build (m @ map (\<lambda>i. ignoreNotFound (delete_response w objects h i)) [0..<length objects]),
      h @ map CDelete objects)"
proof (induction objects arbitrary: m h)
  case (Cons obj objects)
  let ?h1 = "h @ [CDelete obj]"
  have "map (\<lambda>i. ignoreNotFound (delete_response w (obj # objects) h i)) [0..<Suc (length objects)] =
      ignoreNotFound (sv_delete w h obj) #
      map (\<lambda>i. ignoreNotFound (delete_response w objects ?h1 i)) [0..<length objects]"
    by (subst upt_conv_Cons)
      (simp_all add: map_Suc_upt [symmetric] delete_response_Suc delete_response_def comp_def
        del: upt_Suc)
  then show ?case by (simp add: client_Delete_def Cons meb_add_def del: upt_Suc)
qed simp

lemma deleteAll_None_iff:
  "fst (deleteAll w objects [] h) = None \<longleftrightarrow>
     (\<forall>i<length objects. delete_response w objects h i = None \<or> isNotFound (delete_response w objects h i))"
  by (auto simp: deleteAll_eq ignoreNotFound_def split: if_splits)

lemma deleteAllInTimeLimit_success:
  assumes "deleteAllInTimeLimit w objects timeout waitTime h = (None, h')"
  obtains n where
    "h' = (h @ map CDelete objects) @ verify_rounds objects waitTime n @ map existence_check objects"
    "n = 0 \<or> (n - 1) * Suc waitTime < timeout"
    "\<forall>i<length objects. delete_response w objects h i = None \<or> isNotFound (delete_response w objects h i)"
    "\<forall>i<length objects. absent_at w
       ((h @ map CDelete objects) @ verify_rounds objects waitTime n @
        map existence_check (take i objects)) (objects ! i)"
proof -
  let ?h1 = "h @ map CDelete objects"
  have fst: "fst (deleteAll w objects [] h) = None" and snd: "snd (deleteAll w objects [] h) = ?h1"
    and v: "verifyDeletion w (clock w h + timeout) objects waitTime ?h1 = (None, h')"
    using assms by (auto simp: deleteAllInTimeLimit_def deleteAll_eq newMultiErrorBuilder_def Let_def
        split: if_splits)
  have le: "clock w h \<le> clock w ?h1" by (rule clock_append_le)
  from verifyDeletion_trace [OF v] obtain n where
    "n = 0 \<or> clock w ?h1 + (n - 1) * Suc waitTime < clock w h + timeout"
    "h' = ?h1 @ verify_rounds objects waitTime n @ map existence_check objects"
    "list_All doNotExist (fst (objectsExist w objects (?h1 @ verify_rounds objects waitTime n)))"
    by auto
  with le fst show ?thesis
    by (intro that [of n]) (auto simp: deleteAll_None_iff objectsExist_all)
qed

text \<open>Every call that \<open>deleteAllInTimeLimit\<close> makes, also when it fails.\<close>

lemma set_verify_rounds:
  "c \<in> set (verify_rounds objects waitTime n) \<Longrightarrow>
     c \<in> set (map existence_check objects) \<or> c = CSleep waitTime"
  by (induction n) (auto simp: verify_rounds_Suc, auto simp: verify_rounds_def)

lemma deleteAllInTimeLimit_calls:
  "\<exists>tr. snd (deleteAllInTimeLimit w objects timeout waitTime h) = h @ map CDelete objects @ tr \<and>
     list_all (\<lambda>c. c \<in> set (map existence_check objects) \<or> c = CSleep waitTime) tr"
proof -
  let ?h1 = "h @ map CDelete objects" and ?d = "clock w h + timeout"
  obtain e h' where v: "verifyDeletion w ?d objects waitTime ?h1 = (e, h')" by force
  let ?P = "\<lambda>c. c \<in> set (map existence_check objects) \<or> c = CSleep waitTime"
  have vr: "list_all ?P (verify_rounds objects waitTime n)" for n
    using set_verify_rounds by (fastforce simp: list_all_iff)
  have "\<exists>tr. h' = ?h1 @ tr \<and> list_all ?P tr"
  proof (cases e)
    case None
    with verifyDeletion_trace [OF v] obtain n where
      "h' = ?h1 @ verify_rounds objects waitTime n @ map existence_check objects" by auto
    moreover have "list_all ?P (verify_rounds objects waitTime n @ map existence_check objects)"
      using vr [of n] by (simp add: list_all_append) (simp add: list_all_iff)
    ultimately show ?thesis by blast
  next
    case (Some x)
    with verifyDeletion_trace [OF v] obtain n where
      "h' = ?h1 @ verify_rounds objects waitTime n" by auto
    with vr show ?thesis by blast
  qed
  with v show ?thesis
    by (auto simp: deleteAllInTimeLimit_def deleteAll_eq Let_def split: if_splits)
qed

subsection \<open>Which calls the client makes\<close>

lemma emits_client_Get: "P (CGet gvk key) \<Longrightarrow> emits P (client_Get w gvk key)"
  unfolding client_Get_def by (rule emits_call)

lemma emits_client_GetAsResult: "P (CGet gvk key) \<Longrightarrow> emits P (client_GetAsResult w gvk key)"
  by (simp add: emits_def client_GetAsResult_def client_Get_def split: prod.splits)

lemma emits_client_Exists: "P (CGet gvk key) \<Longrightarrow> emits P (client_Exists w gvk key)"
  by (simp add: emits_def)

lemma emits_client_Apply:
  "P (CApply (set_managedFields [] obj) dryRun) \<Longrightarrow> emits P (client_Apply w obj dryRun)"
  by (simp add: emits_def client_Apply_def Let_def split: prod.splits)

lemma emits_client_Delete: "P (CDelete obj) \<Longrightarrow> emits P (client_Delete w obj)"
  unfolding client_Delete_def by (rule emits_call)

lemma emits_deleteAllInTimeLimit:
  assumes "\<And>obj. obj \<in> set objects \<Longrightarrow> P (CDelete obj)"
    and "\<And>obj. obj \<in> set objects \<Longrightarrow> P (existence_check obj)" and "P (CSleep waitTime)"
  shows "emits P (deleteAllInTimeLimit w objects timeout waitTime)"
proof (rule emitsI)
  fix h
  from deleteAllInTimeLimit_calls [of w objects timeout waitTime h] obtain tr where
    tr: "snd (deleteAllInTimeLimit w objects timeout waitTime h) = h @ map CDelete objects @ tr"
    "list_all (\<lambda>c. c \<in> set (map existence_check objects) \<or> c = CSleep waitTime) tr" by auto
  moreover have "list_all P (map CDelete objects @ tr)"
    using tr(2) assms by (auto simp: list_all_iff)
  ultimately show "\<exists>tr. snd (deleteAllInTimeLimit w objects timeout waitTime h) = h @ tr \<and> list_all P tr"
    by blast
qed

lemmas emits_client = emits_client_Get emits_client_GetAsResult emits_client_Exists
  emits_client_Apply emits_client_Delete

subsection \<open>Properties\<close>


definition exampleSecret :: k8sObject where
  "exampleSecret = mkObject ''v1'' ''Secret'' (named ''agent'' ''ns'') (SecretBody ''Opaque'' None)"

lemma exampleSecret_gvk [simp]: "get_gvk exampleSecret = gvk_Secret"
  by (simp add: exampleSecret_def get_gvk_def mkObject_def fromAPIVersionAndKind_def gvk_Secret_def)

lemma exampleSecret_deleted:
  "deleteAllInTimeLimit (simWorld [exampleSecret] exampleAgent exampleRemote) [exampleSecret] 30 5 [] =
     (None, [CDelete exampleSecret, existence_check exampleSecret])"
  by (simp add: deleteAllInTimeLimit_def deleteAll_eq delete_response_def newMultiErrorBuilder_def
      Let_def clock_def simWorld_def ignoreNotFound_def verifyDeletion.simps ctx_Err_def notFoundErr_def
      list_All_def doNotExist_iff client_Exists_result split_beta eval_nat_numeral)


lemma filter_sleep_verify_rounds:
  "filter (\<lambda>c. c = CSleep t) (verify_rounds objects t n) = replicate n (CSleep t)"
  by (induction n) (simp_all add: verify_rounds_def comp_def)

text \<open>
  C13: the deletion never waits longer than its limit allows: whatever the server answers, the
  number of pauses is at most one more than fits into the timeout, so the recursion ends.
\<close>

theorem deleteAllInTimeLimit_pauses:
  "length (filter (\<lambda>c. c = CSleep waitTime)
      (drop (length h) (snd (deleteAllInTimeLimit w objects timeout waitTime h)))) * Suc waitTime
     < timeout + Suc waitTime"
proof -
  let ?h1 = "h @ map CDelete objects" and ?d = "clock w h + timeout"
  obtain e h' where v: "verifyDeletion w ?d objects waitTime ?h1 = (e, h')" by force
  have le: "clock w h \<le> clock w ?h1" by (rule clock_append_le)
  from verifyDeletion_trace [OF v] obtain n where
    n: "n = 0 \<or> clock w ?h1 + (n - 1) * Suc waitTime < ?d" and
    h': "h' = ?h1 @ verify_rounds objects waitTime n @ (if e = None then map existence_check objects else [])"
    by (cases "e = None") auto
  have "filter (\<lambda>c. c = CSleep waitTime) (drop (length h) h') = replicate n (CSleep waitTime)"
    by (simp add: h' filter_sleep_verify_rounds comp_def)
  moreover have "n * Suc waitTime < timeout + Suc waitTime"
    using n le by (cases n) (auto simp: algebra_simps)
  ultimately show ?thesis
    using v by (auto simp: deleteAllInTimeLimit_def deleteAll_eq Let_def comp_def)
qed

end
