(* ===== verification/Event_Filter.thy ===== *)
theory Event_Filter
  imports Client
begin

text \<open>
  The event filter (\<open>src/controllers/event_filter.go\<close>): which watch events start a
  reconciliation. A \<open>time.Time\<close> is an integer whose zero value is \<open>0\<close>; the Go type of a watched
  object, on which the predicates switch, is \<open>goType\<close>.
\<close>

abbreviation FieldOwnerName :: string where "FieldOwnerName \<equiv> ''instana-agent-operator''"

text \<open>The first loop: the time of the first own entry that has one, the zero time without any.\<close>

fun lastModifiedBySelf :: "managedFieldsEntry list \<Rightarrow> int" where
  "lastModifiedBySelf [] = 0"
| "lastModifiedBySelf (mfe # mfes) =
     (if mfe_Manager mfe = FieldOwnerName
      then (case mfe_Time mfe of None \<Rightarrow> lastModifiedBySelf mfes | Some t \<Rightarrow> t)
      else lastModifiedBySelf mfes)"

text \<open>
  The second loop. A \<open>nil\<close> time that the first condition does not catch is dereferenced.
\<close>

fun modifiedByOtherSince :: "int \<Rightarrow> managedFieldsEntry list \<Rightarrow> managedFieldsEntry list \<Rightarrow> bool go" where
  "modifiedByOtherSince t old [] = Ret False"
| "modifiedByOtherSince t old (mfe # mfes) =
     (if mfe_Manager mfe = FieldOwnerName then modifiedByOtherSince t old mfes
      else if mfe_Time mfe = None \<and> \<not> deep_Contains (newDeepChecker old) mfe then Ret True
      else (case mfe_Time mfe of
              None \<Rightarrow> Panic nilDeref
            | Some t' \<Rightarrow> if t < t' then Ret True else modifiedByOtherSince t old mfes))"

definition wasModifiedByOther :: "objMeta \<Rightarrow> objMeta \<Rightarrow> bool go" where
  "wasModifiedByOther objectNew objectOld =
     (let t = lastModifiedBySelf (om_ManagedFields objectNew) in
      if t = 0 then Ret True
      else modifiedByOtherSince t (om_ManagedFields objectOld) (om_ManagedFields objectNew))"

datatype goType = TInstanaAgent | TInstanaAgentRemote | TOther

datatype event =
    CreateEvent goType objMeta
  | UpdateEvent goType objMeta objMeta
  | DeleteEvent goType objMeta bool
  | GenericEvent goType objMeta

definition filterPredicate :: "event \<Rightarrow> bool go" where
  "filterPredicate e =
     (case e of
        CreateEvent ty obj \<Rightarrow> (case ty of TInstanaAgent \<Rightarrow> Ret True | _ \<Rightarrow> Ret False)
      | UpdateEvent ty old new \<Rightarrow>
          (case ty of TInstanaAgent \<Rightarrow> Ret (om_Generation old \<noteq> om_Generation new)
           | _ \<Rightarrow> wasModifiedByOther new old)
      | DeleteEvent ty obj stateUnknown \<Rightarrow>
          (case ty of TInstanaAgent \<Rightarrow> Ret (\<not> stateUnknown) | _ \<Rightarrow> Ret True)
      | GenericEvent ty obj \<Rightarrow> Ret True)"

definition filterPredicateRemote :: "event \<Rightarrow> bool go" where
  "filterPredicateRemote e =
     (case e of
        CreateEvent ty obj \<Rightarrow> (case ty of TInstanaAgentRemote \<Rightarrow> Ret True | _ \<Rightarrow> Ret False)
      | UpdateEvent ty old new \<Rightarrow>
          (case ty of TInstanaAgentRemote \<Rightarrow> Ret (om_Generation old \<noteq> om_Generation new)
           | _ \<Rightarrow> wasModifiedByOther new old)
      | DeleteEvent ty obj stateUnknown \<Rightarrow>
          (case ty of TInstanaAgentRemote \<Rightarrow> Ret (\<not> stateUnknown) | _ \<Rightarrow> Ret True)
      | GenericEvent ty obj \<Rightarrow> Ret True)"

subsection \<open>Lemmas\<close>

abbreviation others :: "managedFieldsEntry list \<Rightarrow> managedFieldsEntry list" where
  "others mfes \<equiv> filter (\<lambda>mfe. mfe_Manager mfe \<noteq> FieldOwnerName) mfes"

lemma modifiedByOtherSince_prefix:
  assumes "\<forall>mfe\<in>set pre. mfe_Manager mfe = FieldOwnerName \<or> (\<exists>t'. mfe_Time mfe = Some t' \<and> t' \<le> t)"
  shows "modifiedByOtherSince t old (pre @ mfes) = modifiedByOtherSince t old mfes"
  using assms by (induction pre) auto

subsection \<open>Properties\<close>

text \<open>
  What the filter is to decide about an update of a dependent, from the managed fields alone. The
  operator's time is the one of its first entry that has a time.
\<close>

definition operatorTimes :: "managedFieldsEntry list \<Rightarrow> int list" where
  "operatorTimes mfes =
     map (\<lambda>mfe. the (mfe_Time mfe)) (filter (\<lambda>mfe. mfe_Manager mfe = FieldOwnerName \<and> mfe_Time mfe \<noteq> None) mfes)"

definition dependentUpdate :: "objMeta \<Rightarrow> objMeta \<Rightarrow> bool go" where
  "dependentUpdate old new =
     (case operatorTimes (om_ManagedFields new) of
        [] \<Rightarrow> Ret True
      | t # _ \<Rightarrow>
          if t = 0 then Ret True
          else (case List.find (\<lambda>mfe. mfe_Time mfe = None \<or> t < the (mfe_Time mfe)) (others (om_ManagedFields new)) of
                  None \<Rightarrow> Ret False
                | Some mfe \<Rightarrow> if mfe_Time mfe = None \<and> mfe \<in> set (om_ManagedFields old)
                              then Panic nilDeref else Ret True))"

lemma lastModifiedBySelf_times:
  "lastModifiedBySelf mfes = (case operatorTimes mfes of [] \<Rightarrow> 0 | t # _ \<Rightarrow> t)"
  by (induction mfes) (auto simp: operatorTimes_def)

lemma modifiedByOtherSince_find:
  "modifiedByOtherSince t old mfes =
     (case List.find (\<lambda>mfe. mfe_Time mfe = None \<or> t < the (mfe_Time mfe)) (others mfes) of
        None \<Rightarrow> Ret False
      | Some mfe \<Rightarrow> if mfe_Time mfe = None \<and> mfe \<in> set old then Panic nilDeref else Ret True)"
  by (induction mfes) (auto simp: newDeepChecker_def split: option.splits)

lemma wasModifiedByOther_eq: "wasModifiedByOther new old = dependentUpdate old new"
  by (simp add: wasModifiedByOther_def dependentUpdate_def Let_def lastModifiedBySelf_times
      modifiedByOtherSince_find split: list.split)

text \<open>The same for every event on an object that is not a custom resource.\<close>

fun eventType :: "event \<Rightarrow> goType" where
  "eventType (CreateEvent ty obj) = ty"
| "eventType (UpdateEvent ty old new) = ty"
| "eventType (DeleteEvent ty obj stateUnknown) = ty"
| "eventType (GenericEvent ty obj) = ty"

fun dependentPasses :: "event \<Rightarrow> bool go" where
  "dependentPasses (CreateEvent ty obj) = Ret False"
| "dependentPasses (UpdateEvent ty old new) = dependentUpdate old new"
| "dependentPasses (DeleteEvent ty obj stateUnknown) = Ret True"
| "dependentPasses (GenericEvent ty obj) = Ret True"

lemma filterPredicate_dependent:
  assumes "eventType e = TOther"
  shows "filterPredicate e = dependentPasses e" "filterPredicateRemote e = dependentPasses e"
  using assms by (cases e; simp add: filterPredicate_def filterPredicateRemote_def wasModifiedByOther_eq)+

text \<open>
  C40: what both event filters decide about an update of an object that is not a custom resource. It
  starts a reconciliation when the operator has no entry with a time among the managed fields (or its
  first one is the zero time). Otherwise the first entry of another manager that has no time, or a
  time after the operator's first one, decides: the update starts a reconciliation, but the filter
  panics when that entry has no time and was there before the update. Without such an entry the
  update is dropped.
\<close>

theorem dependent_update_filter:
  "filterPredicate (UpdateEvent TOther old new) = dependentUpdate old new \<and>
   filterPredicateRemote (UpdateEvent TOther old new) = dependentUpdate old new"
  by (simp add: filterPredicate_dependent)

definition mfeEntry :: "string \<Rightarrow> int option \<Rightarrow> managedFieldsEntry" where
  "mfeEntry manager t = \<lparr>mfe_Manager = manager, mfe_Operation = ''Apply'', mfe_Time = t,
     mfe_Subresource = '''', mfe_Fields = ''''\<rparr>"

text \<open>
  the filter panics on an update in which another manager's entry has no time and was already
  present, unchanged, in the old object, unless an entry before it decides first: the \<open>nil\<close>
  time is dereferenced.
\<close>

theorem wasModifiedByOther_nil_time_panics:
  assumes "om_ManagedFields objectNew = pre @ mfe # mfes"
    and "lastModifiedBySelf (om_ManagedFields objectNew) = t" and "t \<noteq> 0"
    and "\<forall>x\<in>set pre. mfe_Manager x = FieldOwnerName \<or> (\<exists>t'. mfe_Time x = Some t' \<and> t' \<le> t)"
    and "mfe_Manager mfe \<noteq> FieldOwnerName" and "mfe_Time mfe = None"
    and "mfe \<in> set (om_ManagedFields objectOld)"
  shows "wasModifiedByOther objectNew objectOld = Panic nilDeref"
  using assms modifiedByOtherSince_prefix [of pre t "om_ManagedFields objectOld" "mfe # mfes"]
  by (simp add: wasModifiedByOther_def newDeepChecker_def)

theorem wasModifiedByOther_nil_time_panics_witness:
  "let m = emptyMeta\<lparr>om_ManagedFields := [mfeEntry FieldOwnerName (Some 5), mfeEntry ''kubectl'' None]\<rparr>
   in wasModifiedByOther m m = Panic nilDeref"
  using wasModifiedByOther_nil_time_panics
    [of "emptyMeta\<lparr>om_ManagedFields := [mfeEntry FieldOwnerName (Some 5), mfeEntry ''kubectl'' None]\<rparr>"
      "[mfeEntry FieldOwnerName (Some 5)]" "mfeEntry ''kubectl'' None" "[]" 5
      "emptyMeta\<lparr>om_ManagedFields := [mfeEntry FieldOwnerName (Some 5), mfeEntry ''kubectl'' None]\<rparr>"]
  by (simp add: mfeEntry_def)

text \<open>
  no status update restarts a reconciliation of its own resource: for both controllers an
  update of the custom resource passes exactly when its generation changed, its creation
  always passes, its deletion passes unless the final state is unknown, and the creation of a
  dependent never does.
\<close>

theorem filterPredicate_custom_resource:
  "filterPredicate (UpdateEvent TInstanaAgent old new) = Ret (om_Generation old \<noteq> om_Generation new) \<and>
   filterPredicateRemote (UpdateEvent TInstanaAgentRemote old new) = Ret (om_Generation old \<noteq> om_Generation new) \<and>
   filterPredicate (CreateEvent ty obj) = Ret (ty = TInstanaAgent) \<and>
   filterPredicateRemote (CreateEvent ty obj) = Ret (ty = TInstanaAgentRemote) \<and>
   filterPredicate (DeleteEvent ty obj u) = Ret (\<not> (ty = TInstanaAgent \<and> u)) \<and>
   filterPredicateRemote (DeleteEvent ty obj u) = Ret (\<not> (ty = TInstanaAgentRemote \<and> u))"
  by (cases ty) (simp_all add: filterPredicate_def filterPredicateRemote_def)

end
