(* ===== verification/Watch.thy ===== *)
theory Watch
  imports Event_Filter
begin

text \<open>
  What the controllers register with controller-runtime (\<open>Add\<close> in \<open>instanaagent_controller.go\<close>,
  \<open>AddRemote\<close> in \<open>remoteagent_controller.go\<close>) and which watch events give which reconcile requests.

  The handlers and predicates of controller-runtime are the parameter \<open>runtime\<close>; what their
  documentation promises is the predicate \<open>runtime_laws\<close>. The list of agents that the map function
  of the namespace watch asks for is the parameter \<open>agentLister\<close>.
\<close>

subsection \<open>Kinds\<close>

definition gvk_ServiceAccount :: groupVersionKind where
  "gvk_ServiceAccount = \<lparr>gvk_Group = '''', gvk_Version = ''v1'', gvk_Kind = ''ServiceAccount''\<rparr>"
definition gvk_PodDisruptionBudget :: groupVersionKind where
  "gvk_PodDisruptionBudget = \<lparr>gvk_Group = ''policy'', gvk_Version = ''v1'', gvk_Kind = ''PodDisruptionBudget''\<rparr>"
definition gvk_ClusterRole :: groupVersionKind where
  "gvk_ClusterRole =
     \<lparr>gvk_Group = ''rbac.authorization.k8s.io'', gvk_Version = ''v1'', gvk_Kind = ''ClusterRole''\<rparr>"
definition gvk_ClusterRoleBinding :: groupVersionKind where
  "gvk_ClusterRoleBinding =
     \<lparr>gvk_Group = ''rbac.authorization.k8s.io'', gvk_Version = ''v1'', gvk_Kind = ''ClusterRoleBinding''\<rparr>"

lemmas gvk_defs = gvk_ServiceAccount_def gvk_PodDisruptionBudget_def gvk_ClusterRole_def
  gvk_ClusterRoleBinding_def gvk_ConfigMap_def gvk_Secret_def gvk_Service_def gvk_Namespace_def
  gvk_DaemonSet_def gvk_Deployment_def gvk_InstanaAgent_def gvk_InstanaAgentRemote_def

definition goTypeOf :: "groupVersionKind \<Rightarrow> goType" where
  "goTypeOf gvk = (if gvk = gvk_InstanaAgent then TInstanaAgent
     else if gvk = gvk_InstanaAgentRemote then TInstanaAgentRemote else TOther)"

text \<open>The objects of an event, in the order in which the handlers look at them.\<close>

fun eventObjects :: "event \<Rightarrow> objMeta list" where
  "eventObjects (CreateEvent ty obj) = [obj]"
| "eventObjects (UpdateEvent ty old new) = [old, new]"
| "eventObjects (DeleteEvent ty obj u) = [obj]"
| "eventObjects (GenericEvent ty obj) = [obj]"

subsection \<open>controller-runtime\<close>

type_synonym mapFunc = "objMeta \<Rightarrow> history \<Rightarrow> namespacedName list \<times> history"

record runtime =
  rt_LabelChanged :: "event \<Rightarrow> bool"
  rt_ForObject :: "event \<Rightarrow> namespacedName list"
  rt_ForOwner :: "groupVersionKind \<Rightarrow> event \<Rightarrow> namespacedName list"
  rt_FromMapFunc :: "mapFunc \<Rightarrow> event \<Rightarrow> history \<Rightarrow> namespacedName list \<times> history"

text \<open>Go's equality of label maps; association lists of maps have distinct keys.\<close>

definition sameLabels :: "objMeta \<Rightarrow> objMeta \<Rightarrow> bool" where
  "sameLabels old new =
     (case (om_Labels old, om_Labels new) of
        (None, None) \<Rightarrow> True | (Some a, Some b) \<Rightarrow> set a = set b | _ \<Rightarrow> False)"

definition metaKey :: "objMeta \<Rightarrow> namespacedName" where
  "metaKey obj = \<lparr>nn_Namespace = om_Namespace obj, nn_Name = om_Name obj\<rparr>"

text \<open>\<open>metav1.GetControllerOf\<close> and the match of an owner reference with the owner's group and kind.\<close>

definition controllerOf :: "objMeta \<Rightarrow> ownerReference option" where
  "controllerOf obj = List.find (\<lambda>r. or_Controller r = Some True) (om_OwnerReferences obj)"

definition refersTo :: "groupVersionKind \<Rightarrow> ownerReference \<Rightarrow> bool" where
  "refersTo owner r =
     (or_Kind r = gvk_Kind owner \<and> gvk_Group (fromAPIVersionAndKind (or_APIVersion r) (or_Kind r)) = gvk_Group owner)"

definition ownerRequests :: "groupVersionKind \<Rightarrow> objMeta \<Rightarrow> namespacedName list" where
  "ownerRequests owner obj =
     (case controllerOf obj of
        None \<Rightarrow> []
      | Some r \<Rightarrow> if refersTo owner r then [\<lparr>nn_Namespace = om_Namespace obj, nn_Name = or_Name r\<rparr>] else [])"

fun runOnAll :: "mapFunc \<Rightarrow> objMeta list \<Rightarrow> history \<Rightarrow> namespacedName list \<times> history" where
  "runOnAll fn [] h = ([], h)"
| "runOnAll fn (obj # objs) h =
     (case fn obj h of (rs, h1) \<Rightarrow> case runOnAll fn objs h1 of (rs', h2) \<Rightarrow> (rs @ rs', h2))"

text \<open>
  The documented behaviour: \<open>LabelChangedPredicate\<close> only looks at updates;
  \<open>EnqueueRequestForObject\<close> asks for the objects of the event, \<open>EnqueueRequestForOwner\<close> with
  \<open>OnlyControllerOwner\<close>, which \<open>Owns\<close> uses, for the controller they name, in their namespace;
  \<open>EnqueueRequestsFromMapFunc\<close> runs the function on every object of the event. Requests are a
  set: duplicates are merged.
\<close>

definition runtime_laws :: "runtime \<Rightarrow> bool" where
  "runtime_laws rt \<longleftrightarrow>
     (\<forall>e. rt_LabelChanged rt e =
        (case e of UpdateEvent ty old new \<Rightarrow> \<not> sameLabels old new | _ \<Rightarrow> True)) \<and>
     (\<forall>e. set (rt_ForObject rt e) = metaKey ` set (eventObjects e)) \<and>
     (\<forall>owner e. set (rt_ForOwner rt owner e) = (\<Union>obj\<in>set (eventObjects e). set (ownerRequests owner obj))) \<and>
     (\<forall>fn e h. set (fst (rt_FromMapFunc rt fn e h)) = set (fst (runOnAll fn (eventObjects e) h)) \<and>
        snd (rt_FromMapFunc rt fn e h) = snd (runOnAll fn (eventObjects e) h))"

subsection \<open>What a controller registers\<close>

record controllerSpec =
  cs_For :: groupVersionKind
  cs_Watches :: "(groupVersionKind \<times> mapFunc \<times> (event \<Rightarrow> bool) list) list"
  cs_Owns :: "groupVersionKind list"
  cs_EventFilter :: "event \<Rightarrow> bool go"

type_synonym agentLister = "history \<Rightarrow> objMeta list \<times> error"

text \<open>The map function of the namespace watch: a request for each agent that is listed.\<close>

definition namespaceMapFunc :: "agentLister \<Rightarrow> mapFunc" where
  "namespaceMapFunc listAgents a h =
     (case listAgents h of (items, e) \<Rightarrow>
        (if e \<noteq> None then [] else for_each (\<lambda>agent requests. requests @ [metaKey agent]) items [],
         h @ [CList gvk_InstanaAgent []]))"

definition Add :: "runtime \<Rightarrow> agentLister \<Rightarrow> controllerSpec" where
  "Add rt listAgents =
     \<lparr>cs_For = gvk_InstanaAgent,
      cs_Watches = [(gvk_Namespace, namespaceMapFunc listAgents, [rt_LabelChanged rt])],
      cs_Owns = [gvk_DaemonSet, gvk_Deployment, gvk_ConfigMap, gvk_Secret, gvk_ServiceAccount, gvk_Service,
        gvk_PodDisruptionBudget, gvk_ClusterRole, gvk_ClusterRoleBinding],
      cs_EventFilter = filterPredicate\<rparr>"

definition AddRemote :: controllerSpec where
  "AddRemote =
     \<lparr>cs_For = gvk_InstanaAgentRemote, cs_Watches = [],
      cs_Owns = [gvk_Deployment, gvk_ConfigMap, gvk_Secret, gvk_ServiceAccount, gvk_Service],
      cs_EventFilter = filterPredicateRemote\<rparr>"

text \<open>
  The sources that the builder of controller-runtime makes of a registration, with their handlers,
  and the requests that an event of a kind gives: first the event filter of the controller, then
  the predicates of the source, then its handler.
\<close>

definition sources ::
  "runtime \<Rightarrow> controllerSpec \<Rightarrow>
   (groupVersionKind \<times> (event \<Rightarrow> history \<Rightarrow> namespacedName list \<times> history) \<times> (event \<Rightarrow> bool) list) list" where
  "sources rt cs =
     (cs_For cs, (\<lambda>e h. (rt_ForObject rt e, h)), []) #
     map (\<lambda>k. (k, (\<lambda>e h. (rt_ForOwner rt (cs_For cs) e, h)), [])) (cs_Owns cs) @
     map (\<lambda>(k, fn, ps). (k, rt_FromMapFunc rt fn, ps)) (cs_Watches cs)"

fun deliver ::
  "(groupVersionKind \<times> (event \<Rightarrow> history \<Rightarrow> namespacedName list \<times> history) \<times> (event \<Rightarrow> bool) list) list \<Rightarrow>
   groupVersionKind \<Rightarrow> event \<Rightarrow> history \<Rightarrow> namespacedName list \<times> history" where
  "deliver [] gvk e h = ([], h)"
| "deliver ((k, handler, preds) # srcs) gvk e h =
     (case (if k = gvk \<and> list_all (\<lambda>p. p e) preds then handler e h else ([], h)) of (rs, h1) \<Rightarrow>
      case deliver srcs gvk e h1 of (rs', h2) \<Rightarrow> (rs @ rs', h2))"

definition requestsFor ::
  "runtime \<Rightarrow> controllerSpec \<Rightarrow> groupVersionKind \<Rightarrow> event \<Rightarrow> history \<Rightarrow> (namespacedName list \<times> history) go" where
  "requestsFor rt cs gvk e h =
     bind_outcome (cs_EventFilter cs e) (\<lambda>ok. Ret (if ok then deliver (sources rt cs) gvk e h else ([], h)))"

subsection \<open>Lemmas\<close>

lemma Add_simps [simp]:
  "cs_For (Add rt listAgents) = gvk_InstanaAgent" "cs_EventFilter (Add rt listAgents) = filterPredicate"
  "cs_For AddRemote = gvk_InstanaAgentRemote" "cs_EventFilter AddRemote = filterPredicateRemote"
  by (simp_all add: Add_def AddRemote_def)

lemma deliver_fst:
  assumes "\<forall>(k, handler, preds)\<in>set srcs. k = gvk \<longrightarrow> preds = [] \<and> (\<forall>h. handler e h = (rs, h))"
  shows "set (fst (deliver srcs gvk e h)) = (if gvk \<in> fst ` set srcs then set rs else {}) \<and>
    snd (deliver srcs gvk e h) = h"
  using assms
proof (induction srcs arbitrary: h)
  case (Cons src srcs)
  obtain k handler preds where src: "src = (k, handler, preds)" by (rule prod_cases3)
  have IH: "set (fst (deliver srcs gvk e h)) = (if gvk \<in> fst ` set srcs then set rs else {})"
    "snd (deliver srcs gvk e h) = h" for h using Cons by auto
  then obtain rs' where d: "deliver srcs gvk e h = (rs', h)"
    and rs': "set rs' = (if gvk \<in> fst ` set srcs then set rs else {})" by (metis prod.collapse)
  show ?case
  proof (cases "k = gvk")
    case True
    with Cons.prems src have "preds = []" "handler e h = (rs, h)" by auto
    with True d rs' show ?thesis by (simp add: src)
  next
    case False
    with d rs' show ?thesis by (auto simp: src)
  qed
qed simp

lemma deliver_none: "gvk \<notin> fst ` set srcs \<Longrightarrow> deliver srcs gvk e h = ([], h)"
  by (induction srcs gvk e h rule: deliver.induct) auto

text \<open>An event of an owned kind: the requests are those of the owner handler, if the filter lets it pass.\<close>

lemma owned_requests:
  assumes laws: "runtime_laws rt" and owned: "gvk \<in> set (cs_Owns cs)"
    and other: "gvk \<noteq> cs_For cs" "gvk \<notin> fst ` set (cs_Watches cs)"
    and pass: "cs_EventFilter cs e = Ret True"
  obtains rs where "requestsFor rt cs gvk e h = Ret (rs, h)"
    and "set rs = (\<Union>obj\<in>set (eventObjects e). set (ownerRequests (cs_For cs) obj))"
proof -
  have "\<forall>(k, handler, preds)\<in>set (sources rt cs).
      k = gvk \<longrightarrow> preds = [] \<and> (\<forall>h. handler e h = (rt_ForOwner rt (cs_For cs) e, h))"
    using other by (auto simp: sources_def rev_image_eqI)
  moreover have "gvk \<in> fst ` set (sources rt cs)" using owned by (force simp: sources_def)
  ultimately have "set (fst (deliver (sources rt cs) gvk e h)) = set (rt_ForOwner rt (cs_For cs) e)"
    and "snd (deliver (sources rt cs) gvk e h) = h"
    using deliver_fst [of "sources rt cs" gvk e "rt_ForOwner rt (cs_For cs) e" h] by auto
  with laws pass that [of "fst (deliver (sources rt cs) gvk e h)"] show ?thesis
    by (simp add: requestsFor_def runtime_laws_def prod_eq_iff)
qed

lemma sources_namespace:
  "deliver (sources rt (Add rt listAgents)) gvk_Namespace e h =
     (if rt_LabelChanged rt e then rt_FromMapFunc rt (namespaceMapFunc listAgents) e h else ([], h))"
  by (simp add: sources_def Add_def gvk_defs split_beta)

abbreviation namespaceRequests ::
  "runtime \<Rightarrow> agentLister \<Rightarrow> event \<Rightarrow> history \<Rightarrow> (namespacedName list \<times> history) go" where
  "namespaceRequests rt listAgents \<equiv> requestsFor rt (Add rt listAgents) gvk_Namespace"

text \<open>The agents that are listed after a history; none when the list fails.\<close>

definition listed :: "agentLister \<Rightarrow> history \<Rightarrow> namespacedName set" where
  "listed listAgents h =
     (if snd (listAgents h) = None then metaKey ` set (fst (listAgents h)) else {})"

lemma namespaceMapFunc_eq:
  "set (fst (namespaceMapFunc listAgents obj h)) = listed listAgents h"
  "snd (namespaceMapFunc listAgents obj h) = h @ [CList gvk_InstanaAgent []]"
  by (simp_all add: namespaceMapFunc_def listed_def split_beta for_each_map)

lemma runtime_lawsD:
  assumes "runtime_laws rt"
  shows "rt_LabelChanged rt (UpdateEvent ty old new) \<longleftrightarrow> \<not> sameLabels old new"
    and "rt_LabelChanged rt (DeleteEvent ty obj u)"
    and "set (fst (rt_FromMapFunc rt fn e h)) = set (fst (runOnAll fn (eventObjects e) h))"
    and "snd (rt_FromMapFunc rt fn e h) = snd (runOnAll fn (eventObjects e) h)"
  using assms by (simp_all add: runtime_laws_def)

text \<open>What the owner handler finds on an object the builder transformer has finished.\<close>

lemma addOwnerReference_fresh:
  "get_ownerRefs obj = [] \<Longrightarrow> get_ownerRefs (addOwnerReference t obj) = [tr_OwnerReference t]"
  by (simp add: addOwnerReference_refs Let_def)

lemma builderTransformer_ownerRefs:
  assumes "builderTransformer_Apply ver t b s = (Ret (Some obj), s1)"
    and "ob_Build b s = (Ret (Some raw), s2)" and "get_ownerRefs raw = []"
  shows "get_ownerRefs obj = (if ob_IsNamespaced b then [tr_OwnerReference t] else [])"
  using assms by (auto simp: builderTransformer_Apply_def Let_def addOwnerReference_fresh)

lemma refersTo_agent:
  "ag_APIVersion a = ''instana.io/v1'' \<Longrightarrow> ag_Kind a = ''InstanaAgent'' \<Longrightarrow>
     refersTo gvk_InstanaAgent (tr_OwnerReference (newTransformations a))"
  by (simp add: refersTo_def newTransformations_def gvk_InstanaAgent_def fromAPIVersionAndKind_def)

lemma refersTo_remote:
  "ra_APIVersion a = ''instana.io/v1'' \<Longrightarrow> ra_Kind a = ''InstanaAgentRemote'' \<Longrightarrow>
     refersTo gvk_InstanaAgentRemote (tr_OwnerReference (newTransformationsRemote a))"
  by (simp add: refersTo_def newTransformationsRemote_def gvk_InstanaAgentRemote_def fromAPIVersionAndKind_def)

lemma ownerRequests_single:
  "om_OwnerReferences m = [r] \<Longrightarrow> or_Controller r = Some True \<Longrightarrow> refersTo owner r \<Longrightarrow>
     ownerRequests owner m = [\<lparr>nn_Namespace = om_Namespace m, nn_Name = or_Name r\<rparr>]"
  "om_OwnerReferences m = [] \<Longrightarrow> ownerRequests owner m = []"
  by (simp_all add: ownerRequests_def controllerOf_def)

lemma eventObjects_ne: "eventObjects e \<noteq> []"
  by (cases e) simp_all

text \<open>
  An event of an owned kind, once the filter has let it pass: the requests depend only on the
  owner references and the namespace of the object.
\<close>

lemma dependent_event_requests:
  assumes laws: "runtime_laws rt" and kind: "gvk \<in> set (cs_Owns cs)"
    and other: "gvk \<noteq> cs_For cs" "gvk \<notin> fst ` set (cs_Watches cs)"
    and refs: "refs = [] \<or> (\<exists>r. refs = [r] \<and> or_Controller r = Some True \<and> refersTo (cs_For cs) r)"
    and objs: "\<forall>m\<in>set (eventObjects e). om_OwnerReferences m = refs \<and> om_Namespace m = ns"
    and pass: "cs_EventFilter cs e = Ret True"
  shows "\<exists>rs. requestsFor rt cs gvk e h = Ret (rs, h) \<and>
    set rs = (\<lambda>r. \<lparr>nn_Namespace = ns, nn_Name = or_Name r\<rparr>) ` set refs"
proof -
  obtain rs where rs: "requestsFor rt cs gvk e h = Ret (rs, h)"
    and set: "set rs = (\<Union>m\<in>set (eventObjects e). set (ownerRequests (cs_For cs) m))"
    by (rule owned_requests [of rt gvk cs e h, OF laws kind other pass])
  have "set (ownerRequests (cs_For cs) m) = (\<lambda>r. \<lparr>nn_Namespace = ns, nn_Name = or_Name r\<rparr>) ` set refs"
    if "m \<in> set (eventObjects e)" for m
    using objs that refs by (auto simp: ownerRequests_single)
  moreover have "set (eventObjects e) \<noteq> {}" using eventObjects_ne by simp
  ultimately have "set rs = (\<lambda>r. \<lparr>nn_Namespace = ns, nn_Name = or_Name r\<rparr>) ` set refs"
    unfolding set by auto
  with rs show ?thesis by blast
qed

subsection \<open>Properties\<close>

text \<open>
  C22: which events of a Namespace reconcile the agents. An update of its labels asks for every
  agent that is listed (a failed list gives none), so does its deletion; an update that leaves the
  labels alone gives no request; and its creation never does, not even with the label
  \<open>instana-workload-monitoring\<close>, because the event filter drops it before the label predicate.
  The operator writes no Namespace, so it has no entry among the managed fields.
\<close>

theorem namespace_events:
  assumes laws: "runtime_laws rt" and own: "lastModifiedBySelf (om_ManagedFields new) = 0"
  shows "namespaceRequests rt listAgents (CreateEvent TOther new) h = Ret ([], h) \<and>
    (if sameLabels old new then namespaceRequests rt listAgents (UpdateEvent TOther old new) h = Ret ([], h)
     else \<exists>rs h'. namespaceRequests rt listAgents (UpdateEvent TOther old new) h = Ret (rs, h') \<and>
       set rs = listed listAgents h \<union> listed listAgents (h @ [CList gvk_InstanaAgent []])) \<and>
    (\<exists>rs h'. namespaceRequests rt listAgents (DeleteEvent TOther new u) h = Ret (rs, h') \<and> set rs = listed listAgents h)"
proof -
  let ?map = "namespaceMapFunc listAgents"
  have upd: "set (fst (runOnAll ?map [old, new] h)) =
      listed listAgents h \<union> listed listAgents (h @ [CList gvk_InstanaAgent []])"
    and del: "set (fst (runOnAll ?map [new] h)) = listed listAgents h"
    using namespaceMapFunc_eq [of listAgents] by (simp_all add: split_beta)
  have *: "namespaceRequests rt listAgents e h = bind_outcome (filterPredicate e) (\<lambda>ok. Ret (if ok then
      deliver (sources rt (Add rt listAgents)) gvk_Namespace e h else ([], h)))" for e
    by (simp add: requestsFor_def)
  show ?thesis
    using runtime_lawsD [OF laws] own upd del
    by (simp add: * sources_namespace filterPredicate_def wasModifiedByOther_def prod_eq_iff)
qed

text \<open>The documented runtime, for the witnesses.\<close>

definition plainRuntime :: runtime where
  "plainRuntime =
     \<lparr>rt_LabelChanged = (\<lambda>e. case e of UpdateEvent ty old new \<Rightarrow> \<not> sameLabels old new | _ \<Rightarrow> True),
      rt_ForObject = (\<lambda>e. map metaKey (eventObjects e)),
      rt_ForOwner = (\<lambda>owner e. concat (map (ownerRequests owner) (eventObjects e))),
      rt_FromMapFunc = (\<lambda>fn e. runOnAll fn (eventObjects e))\<rparr>"

lemma plainRuntime_laws: "runtime_laws plainRuntime"
  by (simp add: runtime_laws_def plainRuntime_def)

theorem namespace_events_witness:
  "let old = named ''app'' ''''; new = old\<lparr>om_Labels := Some [(''instana-workload-monitoring'', ''true'')]\<rparr>;
       list = (\<lambda>h. ([named ''agent'' ''ns''], None))
   in namespaceRequests plainRuntime list (CreateEvent TOther new) [] = Ret ([], []) \<and>
      (\<exists>rs h. namespaceRequests plainRuntime list (UpdateEvent TOther old new) [] = Ret (rs, h) \<and>
         set rs = {\<lparr>nn_Namespace = ''ns'', nn_Name = ''agent''\<rparr>})"
proof -
  let ?old = "named ''app'' ''''"
  let ?new = "?old\<lparr>om_Labels := Some [(''instana-workload-monitoring'', ''true'')]\<rparr>"
  let ?list = "\<lambda>h::history. ([named ''agent'' ''ns''], None::error)"
  have "lastModifiedBySelf (om_ManagedFields ?new) = 0" by (simp add: named_def emptyMeta_def)
  moreover have "\<not> sameLabels ?old ?new" by (simp add: sameLabels_def)
  moreover have "listed ?list h = {\<lparr>nn_Namespace = ''ns'', nn_Name = ''agent''\<rparr>}" for h
    by (simp add: listed_def metaKey_def)
  ultimately show ?thesis
    using namespace_events [OF plainRuntime_laws, of ?new ?list "[]" ?old] by (simp add: Let_def)
qed

end
