(* ===== verification/Startup.thy ===== *)
theory Startup
  imports Watch
begin

text \<open>
  The process entry point (\<open>src/main.go\<close>) and the handler of API warnings it installs
  (\<open>src/pkg/k8s/client/warnings.go\<close>): the cache configuration, the order of the start-up steps,
  and the removal of the objects of the operator's older releases.

  The environment, the flags, the manager, \<open>labels.Parse\<close> and the controller registrations are the
  parameter \<open>process\<close>: each step is the error it returns. A run of \<open>main\<close> is the list of its steps,
  ended by the exit code. Logging, the schemes registered by \<open>init\<close> and \<open>printVersion\<close> have no step.
\<close>

subsection \<open>The handler of API warnings\<close>

type_synonym warningHandler = "int \<Rightarrow> string \<Rightarrow> string \<Rightarrow> string list \<Rightarrow> string list"

record filteringWarningHandler =
  fw_delegate :: "warningHandler option"
  fw_ignoredMessages :: "string list"

abbreviation sessionAffinityHeadlessWarning :: string where
  "sessionAffinityHeadlessWarning \<equiv> ''spec.SessionAffinity is ignored for headless services''"
abbreviation podSecurityWarning :: string where
  "podSecurityWarning \<equiv> ''would violate PodSecurity''"

fun matchesIgnored :: "string \<Rightarrow> string list \<Rightarrow> bool" where
  "matchesIgnored message [] = False"
| "matchesIgnored message (ignored # rest) =
     (if str_contains message ignored then True else matchesIgnored message rest)"

text \<open>The state is the log the delegate writes to.\<close>

definition handleWarningHeaderWithContext ::
  "filteringWarningHandler \<Rightarrow> int \<Rightarrow> string \<Rightarrow> string \<Rightarrow> string list \<Rightarrow> string list" where
  "handleWarningHeaderWithContext f code agent message log =
     (if matchesIgnored message (fw_ignoredMessages f) then log
      else (case fw_delegate f of None \<Rightarrow> log | Some d \<Rightarrow> d code agent message log))"

definition configureWarningHandler :: "warningHandler \<Rightarrow> filteringWarningHandler" where
  "configureWarningHandler delegate =
     \<lparr>fw_delegate = Some delegate,
      fw_ignoredMessages = [sessionAffinityHeadlessWarning, podSecurityWarning]\<rparr>"

subsection \<open>The cache\<close>

text \<open>A selector is its method \<open>Matches\<close>; no selector means that all objects are cached.\<close>

type_synonym labelSelector = "strmap option \<Rightarrow> bool"
type_synonym cacheOptions = "(groupVersionKind \<times> labelSelector option) list"

definition managedBySelector :: string where
  "managedBySelector = ''app.kubernetes.io/managed-by=instana-agent-operator''"

definition getCacheOptions :: "(string \<Rightarrow> labelSelector \<times> error) \<Rightarrow> cacheOptions \<times> error" where
  "getCacheOptions parse =
     (case parse managedBySelector of (managedByOperator, e) \<Rightarrow>
        if e \<noteq> None then ([], e)
        else ([(gvk_InstanaAgent, None), (gvk_InstanaAgentRemote, None), (gvk_Namespace, None),
               (gvk_DaemonSet, Some managedByOperator), (gvk_Deployment, Some managedByOperator),
               (gvk_ServiceAccount, Some managedByOperator),
               (gvk_PodDisruptionBudget, Some managedByOperator),
               (gvk_ClusterRole, Some managedByOperator), (gvk_ClusterRoleBinding, Some managedByOperator),
               (gvk_ConfigMap, None), (gvk_Secret, None), (gvk_Service, None)], None))"

text \<open>What \<open>labels.Parse\<close> documents for an equality requirement.\<close>

definition parse_law :: "(string \<Rightarrow> labelSelector \<times> error) \<Rightarrow> bool" where
  "parse_law parse \<longleftrightarrow>
     snd (parse managedBySelector) = None \<and>
     (\<forall>labels. fst (parse managedBySelector) labels \<longleftrightarrow>
        gm_get (derefOrEmpty [] labels) ManagedByLabel = Some managedBy)"

definition visible :: "cacheOptions \<Rightarrow> k8sObject \<Rightarrow> bool" where
  "visible opts obj =
     (case map_of opts (get_gvk obj) of Some (Some sel) \<Rightarrow> sel (get_labels obj) | _ \<Rightarrow> True)"

subsection \<open>Removing the older operator\<close>

record cluster = world +
  cl_listDeployments :: "history \<Rightarrow> string \<Rightarrow> strmap \<Rightarrow> k8sObject list \<times> error"

abbreviation InstanaOperatorOldDeploymentName :: string where
  "InstanaOperatorOldDeploymentName \<equiv> ''controller-manager''"
abbreviation InstanaOperatorOldClusterRoleName :: string where
  "InstanaOperatorOldClusterRoleName \<equiv> ''manager-role''"
abbreviation InstanaOperatorOldClusterRoleBindingName :: string where
  "InstanaOperatorOldClusterRoleBindingName \<equiv> ''manager-rolebinding''"

abbreviation oldDeploymentLabels :: strmap where
  "oldDeploymentLabels \<equiv> [(NameLabel, FieldOwnerName)]"

abbreviation listDeploymentsCall :: call where
  "listDeploymentsCall \<equiv> CList gvk_Deployment
     ((''metadata.name'', InstanaOperatorOldDeploymentName) # oldDeploymentLabels)"

text \<open>A failed list or deletion is only logged.\<close>

definition deleteOldDeployments :: "'a cluster_scheme \<Rightarrow> history \<Rightarrow> history" where
  "deleteOldDeployments w h =
     (let h1 = h @ [listDeploymentsCall]
      in case cl_listDeployments w h InstanaOperatorOldDeploymentName oldDeploymentLabels of (items, e) \<Rightarrow>
           if e \<noteq> None then h1 else for_each (\<lambda>deployment h. h @ [CDelete deployment]) items h1)"

fun hasInstanaApiGroup :: "policyRule list \<Rightarrow> bool" where
  "hasInstanaApiGroup [] = False"
| "hasInstanaApiGroup (rule # rules) =
     (if List.member (pr_APIGroups rule) ''instana.io'' then True else hasInstanaApiGroup rules)"

fun hasInstanaAgentOperatorSA :: "subject list \<Rightarrow> bool" where
  "hasInstanaAgentOperatorSA [] = False"
| "hasInstanaAgentOperatorSA (subject # subjects) =
     (if sub_Kind subject = ''ServiceAccount'' \<and> sub_Name subject = FieldOwnerName then True
      else hasInstanaAgentOperatorSA subjects)"

definition role_Rules :: "k8sObject \<Rightarrow> policyRule list" where
  "role_Rules obj = (case ko_Body obj of ClusterRoleBody rules \<Rightarrow> rules | _ \<Rightarrow> [])"

definition binding_Subjects :: "k8sObject \<Rightarrow> subject list" where
  "binding_Subjects obj = (case ko_Body obj of ClusterRoleBindingBody r subjects \<Rightarrow> subjects | _ \<Rightarrow> [])"

definition deleteOldClusterRole :: "'a cluster_scheme \<Rightarrow> history \<Rightarrow> history" where
  "deleteOldClusterRole w h =
     (let key = \<lparr>nn_Namespace = '''', nn_Name = InstanaOperatorOldClusterRoleName\<rparr>;
          h1 = h @ [CGet gvk_ClusterRole key]
      in case sv_get w h gvk_ClusterRole key of (oldRole, e) \<Rightarrow>
           if e \<noteq> None then h1
           else if \<not> hasInstanaApiGroup (role_Rules oldRole) then h1 else h1 @ [CDelete oldRole])"

definition deleteOldClusterRoleBinding :: "'a cluster_scheme \<Rightarrow> history \<Rightarrow> history" where
  "deleteOldClusterRoleBinding w h =
     (let key = \<lparr>nn_Namespace = '''', nn_Name = InstanaOperatorOldClusterRoleBindingName\<rparr>;
          h1 = h @ [CGet gvk_ClusterRoleBinding key]
      in case sv_get w h gvk_ClusterRoleBinding key of (oldRoleBinding, e) \<Rightarrow>
           if e \<noteq> None then h1
           else if \<not> hasInstanaAgentOperatorSA (binding_Subjects oldRoleBinding) then h1
           else h1 @ [CDelete oldRoleBinding])"

definition cleanupOldOperator :: "'a cluster_scheme \<Rightarrow> history \<Rightarrow> history" where
  "cleanupOldOperator w h = deleteOldClusterRoleBinding w (deleteOldClusterRole w (deleteOldDeployments w h))"

subsection \<open>\<open>main\<close>\<close>

record flags =
  fl_metricsBindAddress :: "string option"
  fl_healthProbeBindAddress :: "string option"
  fl_leaderElect :: "bool option"

record managerOptions =
  mo_Cache :: cacheOptions
  mo_MetricsBindAddress :: string
  mo_HealthProbeBindAddress :: string
  mo_LeaderElection :: bool
  mo_LeaderElectionID :: string
  mo_LeaderElectionNamespace :: string

record process =
  pr_Getenv :: "string \<Rightarrow> string"
  pr_Flags :: flags
  pr_Parse :: "string \<Rightarrow> labelSelector \<times> error"
  pr_GetConfig :: error
  pr_NewManager :: "managerOptions \<Rightarrow> error"
  pr_AddHealthzCheck :: error
  pr_AddReadyzCheck :: error
  pr_Add :: error
  pr_AddRemote :: error
  pr_NewClient :: error
  pr_Start :: error

datatype startStep =
    SConfigureWarningHandler
  | SNewManager managerOptions
  | SAddHealthzCheck string
  | SAddReadyzCheck string
  | SAdd
  | SAddRemote
  | SNewClient
  | SCall call
  | SStart
  | SExit int

abbreviation defaultOperatorNamespace :: string where "defaultOperatorNamespace \<equiv> ''instana-agent''"

definition operatorNamespace :: "process \<Rightarrow> string" where
  "operatorNamespace pr =
     (let ns = pr_Getenv pr ''POD_NAMESPACE'' in if ns = '''' then defaultOperatorNamespace else ns)"

definition managerOptionsOf :: "process \<Rightarrow> cacheOptions \<Rightarrow> managerOptions" where
  "managerOptionsOf pr cacheOpts =
     \<lparr>mo_Cache = cacheOpts,
      mo_MetricsBindAddress = derefOrDefault (fl_metricsBindAddress (pr_Flags pr)) '':8080'',
      mo_HealthProbeBindAddress = derefOrDefault (fl_healthProbeBindAddress (pr_Flags pr)) '':8081'',
      mo_LeaderElection = derefOrDefault (fl_leaderElect (pr_Flags pr)) False,
      mo_LeaderElectionID = ''819a9291.instana.io'',
      mo_LeaderElectionNamespace = operatorNamespace pr\<rparr>"

text \<open>\<open>if err != nil { os.Exit(1) }\<close> and what follows it.\<close>

definition orExit :: "error \<Rightarrow> startStep list \<Rightarrow> startStep list" where
  "orExit e next = (if e \<noteq> None then [SExit 1] else next)"

definition main :: "process \<Rightarrow> 'a cluster_scheme \<Rightarrow> startStep list" where
  "main pr w =
     orExit (pr_GetConfig pr) (SConfigureWarningHandler #
       (case getCacheOptions (pr_Parse pr) of (cacheOpts, e) \<Rightarrow>
          orExit e (let opts = managerOptionsOf pr cacheOpts in SNewManager opts #
            orExit (pr_NewManager pr opts) (SAddHealthzCheck ''healthz'' #
              orExit (pr_AddHealthzCheck pr) (SAddReadyzCheck ''readyz'' #
                orExit (pr_AddReadyzCheck pr) (SAdd #
                  orExit (pr_Add pr) (SAddRemote #
                    orExit (pr_AddRemote pr) (SNewClient #
                      (if pr_NewClient pr \<noteq> None then [] else map SCall (cleanupOldOperator w [])) @
                      SStart # orExit (pr_Start pr) [SExit 0]))))))))"

subsection \<open>Lemmas\<close>

lemma matchesIgnored_iff: "matchesIgnored message ignored \<longleftrightarrow> (\<exists>i\<in>set ignored. str_contains message i)"
  by (induction ignored) auto

lemma hasInstanaApiGroup_iff: "hasInstanaApiGroup rules \<longleftrightarrow> (\<exists>r\<in>set rules. ''instana.io'' \<in> set (pr_APIGroups r))"
  by (induction rules) auto

lemma hasInstanaAgentOperatorSA_iff:
  "hasInstanaAgentOperatorSA subjects \<longleftrightarrow>
     (\<exists>s\<in>set subjects. sub_Kind s = ''ServiceAccount'' \<and> sub_Name s = FieldOwnerName)"
  by (induction subjects) auto

text \<open>What the list and the two reads documentedly return: objects that match the request.\<close>

definition answers_match :: "'a cluster_scheme \<Rightarrow> bool" where
  "answers_match w \<longleftrightarrow>
     (\<forall>h name labels. \<forall>x\<in>set (fst (cl_listDeployments w h name labels)).
        get_name x = name \<and> selector_matches labels (derefOrEmpty [] (get_labels x))) \<and>
     (\<forall>h gvk key. snd (sv_get w h gvk key) = None \<longrightarrow>
        get_name (fst (sv_get w h gvk key)) = nn_Name key)"

definition oldDeployment :: "k8sObject \<Rightarrow> bool" where
  "oldDeployment x \<longleftrightarrow> get_name x = InstanaOperatorOldDeploymentName \<and>
     gm_get (derefOrEmpty [] (get_labels x)) NameLabel = Some FieldOwnerName"

definition oldClusterRole :: "k8sObject \<Rightarrow> bool" where
  "oldClusterRole x \<longleftrightarrow> get_name x = InstanaOperatorOldClusterRoleName \<and>
     (\<exists>r\<in>set (role_Rules x). ''instana.io'' \<in> set (pr_APIGroups r))"

definition oldClusterRoleBinding :: "k8sObject \<Rightarrow> bool" where
  "oldClusterRoleBinding x \<longleftrightarrow> get_name x = InstanaOperatorOldClusterRoleBindingName \<and>
     (\<exists>s\<in>set (binding_Subjects x). sub_Kind s = ''ServiceAccount'' \<and> sub_Name s = FieldOwnerName)"

definition read_call :: "call \<Rightarrow> bool" where
  "read_call c = (case c of CGet gvk key \<Rightarrow> True | CList gvk labels \<Rightarrow> True | _ \<Rightarrow> False)"

text \<open>A step that appends reads and deletions of objects that satisfy \<open>P\<close>.\<close>

definition deletes_only :: "(k8sObject \<Rightarrow> bool) \<Rightarrow> call \<Rightarrow> bool" where
  "deletes_only P c \<longleftrightarrow> read_call c \<or> (\<exists>x. c = CDelete x \<and> P x)"

lemma deletes_only_simps [simp]:
  "deletes_only P (CGet gvk key)" "deletes_only P (CList gvk labels)"
  "deletes_only P (CDelete x) \<longleftrightarrow> P x"
  by (simp_all add: deletes_only_def read_call_def)

lemma deleteOldDeployments_calls:
  assumes "answers_match w"
  shows "\<exists>tr. deleteOldDeployments w h = h @ tr \<and> list_all (deletes_only oldDeployment) tr"
proof -
  obtain items e where l: "cl_listDeployments w h InstanaOperatorOldDeploymentName oldDeploymentLabels = (items, e)"
    by (rule prod.exhaust)
  then have "\<forall>x\<in>set items. oldDeployment x"
    using assms [unfolded answers_match_def, THEN conjunct1, rule_format,
        where h = h and name = InstanaOperatorOldDeploymentName and labels = oldDeploymentLabels]
    by (simp add: oldDeployment_def selector_matches_def)
  with l show ?thesis
    by (cases e) (simp_all add: deleteOldDeployments_def for_each_map list_all_iff)
qed

lemma deleteOldClusterRole_calls:
  assumes "answers_match w"
  shows "\<exists>tr. deleteOldClusterRole w h = h @ tr \<and> list_all (deletes_only oldClusterRole) tr"
  using assms
  by (auto simp: deleteOldClusterRole_def Let_def split_beta hasInstanaApiGroup_iff oldClusterRole_def answers_match_def)

lemma deleteOldClusterRoleBinding_calls:
  assumes "answers_match w"
  shows "\<exists>tr. deleteOldClusterRoleBinding w h = h @ tr \<and> list_all (deletes_only oldClusterRoleBinding) tr"
  using assms
  by (auto simp: deleteOldClusterRoleBinding_def Let_def split_beta hasInstanaAgentOperatorSA_iff
      oldClusterRoleBinding_def answers_match_def)

lemma deletes_only_mono:
  "list_all (deletes_only P) tr \<Longrightarrow> (\<And>x. P x \<Longrightarrow> Q x) \<Longrightarrow> list_all (deletes_only Q) tr"
  by (auto simp: list_all_iff deletes_only_def)

lemma orExit_simps: "orExit None next = next" "orExit (Some x) next = [SExit 1]"
  by (simp_all add: orExit_def)

subsection \<open>Properties\<close>

text \<open>
  C23: the clean-up of older releases touches nothing else: it only reads and deletes, and what it
  deletes is a Deployment with the old name and the operator's label, the old cluster role if one of
  its rules is about \<open>instana.io\<close>, or the old binding if the operator's service account is among its
  subjects. Every Deployment that was listed is deleted.
\<close>

theorem cleanupOldOperator_deletes_only_old:
  assumes "answers_match w"
  shows "\<exists>tr. cleanupOldOperator w h = h @ tr \<and>
    list_all (deletes_only (\<lambda>x. oldDeployment x \<or> oldClusterRole x \<or> oldClusterRoleBinding x)) tr \<and>
    (snd (cl_listDeployments w h InstanaOperatorOldDeploymentName oldDeploymentLabels) = None \<longrightarrow>
       (\<forall>x\<in>set (fst (cl_listDeployments w h InstanaOperatorOldDeploymentName oldDeploymentLabels)).
          CDelete x \<in> set tr))"
proof -
  obtain t1 where 1: "deleteOldDeployments w h = h @ t1" "list_all (deletes_only oldDeployment) t1"
    using deleteOldDeployments_calls [OF assms] by blast
  obtain t2 where 2: "deleteOldClusterRole w (h @ t1) = (h @ t1) @ t2" "list_all (deletes_only oldClusterRole) t2"
    using deleteOldClusterRole_calls [OF assms] by blast
  obtain t3 where 3: "deleteOldClusterRoleBinding w ((h @ t1) @ t2) = ((h @ t1) @ t2) @ t3"
    "list_all (deletes_only oldClusterRoleBinding) t3"
    using deleteOldClusterRoleBinding_calls [OF assms] by blast
  have "t1 = listDeploymentsCall # map CDelete
      (fst (cl_listDeployments w h InstanaOperatorOldDeploymentName oldDeploymentLabels))"
    if "snd (cl_listDeployments w h InstanaOperatorOldDeploymentName oldDeploymentLabels) = None"
    using that 1(1) by (simp add: deleteOldDeployments_def split_beta for_each_map)
  then show ?thesis using 1 2 3
    by (intro exI [of _ "t1 @ t2 @ t3"]) (auto simp: cleanupOldOperator_def elim: deletes_only_mono)
qed

text \<open>A cluster with the objects of an old release, for the witness.\<close>

definition oldRelease :: "k8sObject list" where
  "oldRelease =
     [mkObject ''apps/v1'' ''Deployment'' ((named ''controller-manager'' ''old'')\<lparr>om_Labels := Some oldDeploymentLabels\<rparr>)
        UnstructuredBody,
      mkObject ''apps/v1'' ''Deployment'' (named ''controller-manager'' ''other'') UnstructuredBody]"

definition oldCluster :: cluster where
  "oldCluster = world.extend (simWorld [] exampleAgent exampleRemote) (cluster.fields (\<lambda>h name labels.
     (filter (\<lambda>x. get_name x = name \<and> selector_matches labels (derefOrEmpty [] (get_labels x))) oldRelease, None)))"

lemma answers_match_oldCluster: "answers_match oldCluster"
proof -
  have "get_name obj = nn_Name key" if "sim_stored [] h gvk key = Some obj" for h gvk key obj
    using sim_stored_key [OF that] by (auto simp: objectKeyFromObject_def)
  then show ?thesis
    by (auto simp: answers_match_def oldCluster_def cluster.defs world.defs simWorld_def split: option.splits)
qed

theorem cleanupOldOperator_deletes_only_old_witness:
  "cl_listDeployments oldCluster [] ''controller-manager'' oldDeploymentLabels = ([hd oldRelease], None) \<and>
   (\<exists>tr. cleanupOldOperator oldCluster [] = tr \<and> CDelete (hd oldRelease) \<in> set tr \<and>
     list_all (deletes_only (\<lambda>x. oldDeployment x \<or> oldClusterRole x \<or> oldClusterRoleBinding x)) tr)"
proof -
  have l: "cl_listDeployments oldCluster [] ''controller-manager'' oldDeploymentLabels = ([hd oldRelease], None)"
    by (simp add: oldCluster_def cluster.defs world.defs oldRelease_def selector_matches_def)
  with cleanupOldOperator_deletes_only_old [OF answers_match_oldCluster, of "[]"] show ?thesis by auto
qed

text \<open>
  the manager is started only after everything before it succeeded (configuration, cache, manager,
  both checks and both controllers), and the objects of older releases are deleted only after
  both controllers are registered and before the manager starts; failing to make the client for that
  is no reason to stop. The exit code is 0 exactly when the manager was started and ended without
  an error.
\<close>

theorem startup_order:
  "let opts = managerOptionsOf pr (fst (getCacheOptions (pr_Parse pr)));
       ready = (pr_GetConfig pr = None \<and> snd (getCacheOptions (pr_Parse pr)) = None \<and>
         pr_NewManager pr opts = None \<and> pr_AddHealthzCheck pr = None \<and> pr_AddReadyzCheck pr = None \<and>
         pr_Add pr = None \<and> pr_AddRemote pr = None);
       code = (if ready \<and> pr_Start pr = None then 0 else 1)
   in (\<exists>steps. main pr w = steps @ [SExit code]) \<and>
      (if ready
       then main pr w = [SConfigureWarningHandler, SNewManager opts, SAddHealthzCheck ''healthz'',
              SAddReadyzCheck ''readyz'', SAdd, SAddRemote, SNewClient] @
              (if pr_NewClient pr = None then map SCall (cleanupOldOperator w []) else []) @ [SStart, SExit code]
       else SStart \<notin> set (main pr w) \<and> (\<forall>c. SCall c \<notin> set (main pr w)))"
  unfolding Let_def main_def
  by (cases "getCacheOptions (pr_Parse pr)") (auto simp: orExit_def)

text \<open>
  a warning of the API server reaches the logger unless it contains one of the two texts that
  the operator expects to see.
\<close>

theorem warning_logged_iff:
  "handleWarningHeaderWithContext (configureWarningHandler d) code agent message log =
     (if sublist sessionAffinityHeadlessWarning message \<or> sublist podSecurityWarning message then log
      else d code agent message log)"
  by (simp add: handleWarningHeaderWithContext_def configureWarningHandler_def str_contains_iff)

end
