(* ===== verification/Lifecycle.thy ===== *)
theory Lifecycle
  imports Client
begin

text \<open>
  The dependent lifecycle managers (\<open>src/pkg/k8s/operator/lifecycle\<close>): the list of the objects
  applied for each generation of the custom resource is kept, as JSON, in a ConfigMap
  \<open><name>-dependents\<close>; objects that an older generation recorded and the current one does not
  have are deleted. The agent's manager retries on conflicts, the remote one does not.

  JSON encoding of \<open>unstructured.Unstructured\<close> lists belongs to the API machinery and is the
  parameter \<open>codec\<close>.
\<close>

record codec =
  cd_marshal :: "unstructured list \<Rightarrow> string \<times> error"
  cd_unmarshal :: "string \<Rightarrow> unstructured list \<times> error"

subsection \<open>\<open>helpers.go\<close>\<close>

definition asUnstructured :: "k8sObject \<Rightarrow> unstructured" where
  "asUnstructured obj =
     \<lparr>un_GVK = get_gvk obj, un_Name = get_name obj, un_Namespace = get_namespace obj\<rparr>"

definition asUnstructureds :: "k8sObject list \<Rightarrow> unstructured list" where
  "asUnstructureds objects = for_each (\<lambda>obj us. us @ [asUnstructured obj]) objects []"

definition asObject :: "unstructured \<Rightarrow> k8sObject" where
  "asObject val = mkObject (gvk_apiVersion (un_GVK val)) (gvk_Kind (un_GVK val))
     (named (un_Name val) (un_Namespace val)) UnstructuredBody"

lemma asUnstructureds_eq [simp]: "asUnstructureds objects = map asUnstructured objects"
  by (simp add: asUnstructureds_def for_each_map)

subsection \<open>The ConfigMap\<close>

record lifecycleManager =
  lm_Name :: string
  lm_Namespace :: string
  lm_Generation :: int
  lm_Transformations :: transformations
  lm_Version :: string

definition newDependentLifecycleManager :: "string \<Rightarrow> instanaAgent \<Rightarrow> lifecycleManager" where
  "newDependentLifecycleManager ver agent =
     \<lparr>lm_Name = ag_Name agent, lm_Namespace = ag_Namespace agent,
      lm_Generation = om_Generation (ag_Meta agent),
      lm_Transformations = newTransformations agent, lm_Version = ver\<rparr>"

definition newRemoteDependentLifecycleManager :: "string \<Rightarrow> instanaAgentRemote \<Rightarrow> lifecycleManager" where
  "newRemoteDependentLifecycleManager ver agent =
     \<lparr>lm_Name = ra_Name agent, lm_Namespace = ra_Namespace agent,
      lm_Generation = om_Generation (ra_Meta agent),
      lm_Transformations = newTransformationsRemote agent, lm_Version = ver\<rparr>"

definition getConfigMapName :: "lifecycleManager \<Rightarrow> string" where
  "getConfigMapName d = lm_Name d @ ''-dependents''"

definition getCurrentGenKey :: "lifecycleManager \<Rightarrow> string" where
  "getCurrentGenKey d = lm_Version d @ ''_'' @ itoa (lm_Generation d)"

definition cm_Data :: "k8sObject \<Rightarrow> strmap option" where
  "cm_Data cm = (case ko_Body cm of ConfigMapBody data \<Rightarrow> data | _ \<Rightarrow> None)"

definition set_cm_Data :: "strmap \<Rightarrow> k8sObject \<Rightarrow> k8sObject" where
  "set_cm_Data data cm = cm\<lparr>ko_Body := ConfigMapBody (Some data)\<rparr>"

lemma set_cm_Data_simps [simp, obj_simps]:
  "cm_Data (set_cm_Data data cm) = Some data"
  "get_name (set_cm_Data data cm) = get_name cm"
  "get_namespace (set_cm_Data data cm) = get_namespace cm"
  "get_ownerRefs (set_cm_Data data cm) = get_ownerRefs cm"
  "get_labels (set_cm_Data data cm) = get_labels cm"
  "get_gvk (set_cm_Data data cm) = get_gvk cm"
  by (simp_all add: cm_Data_def set_cm_Data_def obj_accessors)

lemma cm_Data_transform [simp, obj_simps]:
  "cm_Data (addOwnerReference t cm) = cm_Data cm"
  "cm_Data (addCommonLabels ver t cm c) = cm_Data cm"
  "cm_Data (set_managedFields fs cm) = cm_Data cm"
  by (simp_all add: cm_Data_def)

definition getLifecycleConfigMap ::
  "world \<Rightarrow> lifecycleManager \<Rightarrow> history \<Rightarrow> (k8sObject \<times> error) \<times> history" where
  "getLifecycleConfigMap w d h =
     client_Get w gvk_ConfigMap \<lparr>nn_Namespace = lm_Namespace d, nn_Name = getConfigMapName d\<rparr> h"

definition emptyConfigMap :: k8sObject where
  "emptyConfigMap = mkObject '''' '''' emptyMeta (ConfigMapBody None)"

definition getOrInitializeLifecycleCm ::
  "world \<Rightarrow> lifecycleManager \<Rightarrow> history \<Rightarrow> (k8sObject \<times> error) \<times> history" where
  "getOrInitializeLifecycleCm w d h =
     (case getLifecycleConfigMap w d h of ((cm, e), h1) \<Rightarrow>
        let cm = (if e \<noteq> None
                  then if isNotFound e
                       then mkObject ''v1'' ''ConfigMap''
                              (named (getConfigMapName d) (lm_Namespace d)) (ConfigMapBody None)
                       else emptyConfigMap
                  else cm);
            cm = (if cm_Data cm = None then set_cm_Data [] cm else cm)
        in ((cm, e), h1))"

subsection \<open>Recording the current dependents\<close>

text \<open>
  One attempt: fetch, keep the previous record of this generation under the key suffixed
  \<open>-dirty\<close>, record the dependents, label, own and apply. Returned is the error of \<open>Apply\<close>.
\<close>

definition recordDependents ::
  "codec \<Rightarrow> lifecycleManager \<Rightarrow> k8sObject list \<Rightarrow> strmap \<Rightarrow> strmap" where
  "recordDependents c d objects data =
     (let currentGenKey = getCurrentGenKey d;
          data = (case gm_get data currentGenKey of
                    Some existingVersion \<Rightarrow> gm_put (currentGenKey @ ''-dirty'') existingVersion data
                  | None \<Rightarrow> data)
      in gm_put currentGenKey (fst (cd_marshal c (asUnstructureds objects))) data)"

definition applyDependentsRecord ::
  "world \<Rightarrow> codec \<Rightarrow> lifecycleManager \<Rightarrow> k8sObject list \<Rightarrow> history \<Rightarrow> error \<times> history" where
  "applyDependentsRecord w c d objects h =
     (case getOrInitializeLifecycleCm w d h of ((cm, _), h1) \<Rightarrow>
        let cm = set_cm_Data (recordDependents c d objects (the (cm_Data cm))) cm;
            cm = addCommonLabels (lm_Version d) (lm_Transformations d) cm ComponentInstanaAgent;
            cm = addOwnerReference (lm_Transformations d) cm
        in case client_Apply w cm False h1 of (r, h2) \<Rightarrow> (snd (result_Get r), h2))"

text \<open>
  \<open>retry\<close>. The inner \<open>done, err := fn()\<close> declares a new \<open>err\<close>, so the variable returned after
  the last unfinished attempt is still \<open>nil\<close>.
\<close>

type_synonym attempt = "history \<Rightarrow> (bool \<times> error) \<times> history"

fun retryFrom :: "nat \<Rightarrow> nat \<Rightarrow> attempt \<Rightarrow> nat \<Rightarrow> history \<Rightarrow> error \<times> history" where
  "retryFrom attempts sleep fn 0 h = (None, h)"
| "retryFrom attempts sleep fn (Suc k) h =
     (let i = attempts - Suc k
      in case fn h of ((finished, e), h1) \<Rightarrow>
           if finished then (e, h1)
           else retryFrom attempts sleep fn k
                  (if i < attempts - 1 then h1 @ [CSleep (sleep * 2 ^ i)] else h1))"

definition retry :: "nat \<Rightarrow> nat \<Rightarrow> attempt \<Rightarrow> history \<Rightarrow> error \<times> history" where
  "retry attempts sleep fn h = retryFrom attempts sleep fn attempts h"

abbreviation ms :: "nat \<Rightarrow> nat" where "ms n \<equiv> n * 1000000"
abbreviation seconds :: "nat \<Rightarrow> nat" where "seconds n \<equiv> n * 1000000000"

definition updateAttempt ::
  "world \<Rightarrow> codec \<Rightarrow> lifecycleManager \<Rightarrow> k8sObject list \<Rightarrow> attempt" where
  "updateAttempt w c d objects h =
     (case applyDependentsRecord w c d objects h of (e, h1) \<Rightarrow>
        ((e = None \<or> \<not> isConflict e, e), h1))"

definition updateDependentLifecycleInfo ::
  "world \<Rightarrow> codec \<Rightarrow> lifecycleManager \<Rightarrow> k8sObject list \<Rightarrow> history \<Rightarrow> error \<times> history" where
  "updateDependentLifecycleInfo w c d objects h = retry 5 (ms 100) (updateAttempt w c d objects) h"

definition remote_updateDependentLifecycleInfo ::
  "world \<Rightarrow> codec \<Rightarrow> lifecycleManager \<Rightarrow> k8sObject list \<Rightarrow> history \<Rightarrow> error \<times> history" where
  "remote_updateDependentLifecycleInfo w c d objects h = applyDependentsRecord w c d objects h"

subsection \<open>Deleting the dependents of older generations\<close>

definition isConflictError :: "error \<Rightarrow> bool" where
  "isConflictError e =
     (case e of
        None \<Rightarrow> False
      | Some x \<Rightarrow> if isConflict e then True
                  else err_msg x \<noteq> '''' \<and> (err_msg x = ''Operation cannot be fulfilled'' \<or>
                         err_msg x = ''the object has been modified''))"

definition deleteDependents ::
  "world \<Rightarrow> unstructured list \<Rightarrow> history \<Rightarrow> (k8sObject list \<times> error) \<times> history" where
  "deleteDependents w toBeDeleted h =
     (case client_DeleteAllInTimeLimit w (list_MapTo toBeDeleted asObject) (seconds 30) (seconds 5) h of
        (r, h1) \<Rightarrow> (result_Get r, h1))"

text \<open>The loop over the entries of \<open>Data\<close>, on the data, the error builder and the history.\<close>

fun cleanupLoop ::
  "world \<Rightarrow> codec \<Rightarrow> lifecycleManager \<Rightarrow> unstructured list \<Rightarrow> (string \<times> string) list \<Rightarrow>
   strmap \<Rightarrow> multiErrorBuilder \<Rightarrow> history \<Rightarrow> (strmap \<times> multiErrorBuilder) \<times> history" where
  "cleanupLoop w c d currentGeneration [] data errBuilder h = ((data, errBuilder), h)"
| "cleanupLoop w c d currentGeneration ((key, jsonString) # entries) data errBuilder h =
     (let olderGeneration = fst (cd_unmarshal c jsonString);
          deprecatedDependents = newDeepDiff olderGeneration currentGeneration
      in case deleteDependents w deprecatedDependents h of ((_, deleteErr), h1) \<Rightarrow>
           let errBuilder = (if deleteErr \<noteq> None then meb_addSingle deleteErr errBuilder else errBuilder);
               data = (if deleteErr = None \<and> key \<noteq> getCurrentGenKey d then gm_del key data else data)
           in cleanupLoop w c d currentGeneration entries data errBuilder h1)"

definition cleanupOnce ::
  "world \<Rightarrow> codec \<Rightarrow> lifecycleManager \<Rightarrow> k8sObject list \<Rightarrow> history \<Rightarrow> error \<times> history" where
  "cleanupOnce w c d currentDependents h =
     (case getLifecycleConfigMap w d h of ((cm, _), h1) \<Rightarrow>
        let currentGeneration = asUnstructureds currentDependents
        in case cleanupLoop w c d currentGeneration (derefOrEmpty [] (cm_Data cm))
                  (derefOrEmpty [] (cm_Data cm)) (newMultiErrorBuilder []) h1 of
             ((data, errBuilder), h2) \<Rightarrow>
               let cm = (if cm_Data cm = None then cm else set_cm_Data data cm)
               in case client_Apply w cm False h2 of (r, h3) \<Rightarrow>
                    (meb_build (onFailure r meb_addSingle errBuilder), h3))"

definition cleanupAttempt ::
  "world \<Rightarrow> codec \<Rightarrow> lifecycleManager \<Rightarrow> k8sObject list \<Rightarrow> attempt" where
  "cleanupAttempt w c d currentDependents h =
     (case cleanupOnce w c d currentDependents h of (e, h1) \<Rightarrow>
        ((e = None \<or> \<not> isConflictError e, e), h1))"

definition cleanupDependents ::
  "world \<Rightarrow> codec \<Rightarrow> lifecycleManager \<Rightarrow> k8sObject list \<Rightarrow> history \<Rightarrow> error \<times> history" where
  "cleanupDependents w c d currentDependents h =
     retry 5 (ms 100) (cleanupAttempt w c d currentDependents) h"

definition remote_cleanupDependents ::
  "world \<Rightarrow> codec \<Rightarrow> lifecycleManager \<Rightarrow> k8sObject list \<Rightarrow> history \<Rightarrow> error \<times> history" where
  "remote_cleanupDependents w c d currentDependents h = cleanupOnce w c d currentDependents h"

subsection \<open>Retrying\<close>

lemma emits_retryFrom:
  assumes fn: "emits P fn" and sleep: "\<And>t. P (CSleep t)"
  shows "emits P (retryFrom attempts t fn k)"
proof (induction k)
  case 0
  then show ?case by (simp add: emits_def)
next
  case (Suc k)
  let ?next = "\<lambda>r h1. if fst r then (snd r, h1)
    else retryFrom attempts t fn k
      (if attempts - Suc k < attempts - 1 then h1 @ [CSleep (t * 2 ^ (attempts - Suc k))] else h1)"
  have "emits P (?next r)" for r
  proof (rule emitsI)
    fix h1
    let ?h = "if attempts - Suc k < attempts - 1
      then h1 @ [CSleep (t * 2 ^ (attempts - Suc k))] else h1"
    obtain tr where "snd (retryFrom attempts t fn k ?h) = ?h @ tr" "list_all P tr"
      using Suc by (rule emitsE)
    then show "\<exists>tr. snd (?next r h1) = h1 @ tr \<and> list_all P tr"
      using sleep by (cases "fst r"; cases "attempts - Suc k < attempts - 1") auto
  qed
  from emits_bind [OF fn this] show ?case
    by (simp add: Let_def split_beta)
qed

lemma emits_retry:
  "emits P fn \<Longrightarrow> (\<And>t. P (CSleep t)) \<Longrightarrow> emits P (retry attempts t fn)"
  unfolding retry_def [abs_def] by (rule emits_retryFrom)

text \<open>
  The result of \<open>retry\<close> is that of an attempt that finished; when none finished it is \<open>nil\<close>.
\<close>

lemma retryFrom_result:
  assumes "retryFrom attempts t fn k h = (e, h')"
  shows "(\<exists>g. fn g = ((True, e), h')) \<or> e = None"
  using assms
proof (induction k arbitrary: h)
  case (Suc k)
  obtain finished e1 h1 where fn: "fn h = ((finished, e1), h1)" by (metis prod.collapse)
  show ?case
  proof (cases finished)
    case True
    with Suc.prems fn show ?thesis by (auto simp: Let_def)
  next
    case False
    with Suc.prems fn have "retryFrom attempts t fn k
        (if attempts - Suc k < attempts - 1 then h1 @ [CSleep (t * 2 ^ (attempts - Suc k))] else h1) = (e, h')"
      by (simp add: Let_def)
    then show ?thesis by (rule Suc.IH)
  qed
qed simp

lemma retryFrom_unfinished:
  assumes "\<And>h. \<not> fst (fst (fn h))"
  shows "fst (retryFrom attempts t fn k h) = None"
  using assms by (induction k arbitrary: h) (simp_all add: Let_def split_beta)

lemma retry_first_finished:
  "fn h = ((True, e), h') \<Longrightarrow> 0 < attempts \<Longrightarrow> retry attempts t fn h = (e, h')"
  by (cases attempts) (simp_all add: retry_def Let_def)

subsection \<open>The calls of the managers\<close>

definition lifecycleKey :: "lifecycleManager \<Rightarrow> namespacedName" where
  "lifecycleKey d = \<lparr>nn_Namespace = lm_Namespace d, nn_Name = getConfigMapName d\<rparr>"

text \<open>A ConfigMap that records \<open>objects\<close> as the dependents of the current generation.\<close>

definition records_dependents :: "codec \<Rightarrow> lifecycleManager \<Rightarrow> k8sObject list \<Rightarrow> k8sObject \<Rightarrow> bool" where
  "records_dependents c d objects cm =
     (case cm_Data cm of
        None \<Rightarrow> False
      | Some data \<Rightarrow> gm_get data (getCurrentGenKey d) =
                      Some (fst (cd_marshal c (asUnstructureds objects))))"

definition update_call :: "codec \<Rightarrow> lifecycleManager \<Rightarrow> k8sObject list \<Rightarrow> call \<Rightarrow> bool" where
  "update_call c d objects call =
     (case call of
        CGet gvk key \<Rightarrow> gvk = gvk_ConfigMap \<and> key = lifecycleKey d
      | CApply cm dryRun \<Rightarrow> \<not> dryRun \<and> records_dependents c d objects cm
      | CSleep _ \<Rightarrow> True
      | _ \<Rightarrow> False)"

text \<open>
  A reference that some entry of the ConfigMap, as some \<open>Get\<close> returned it, records; and the
  calls of a clean-up: it deletes only recorded objects that are not current.
\<close>

definition recorded :: "world \<Rightarrow> codec \<Rightarrow> lifecycleManager \<Rightarrow> unstructured \<Rightarrow> bool" where
  "recorded w c d u =
     (\<exists>g key json.
        (key, json) \<in> set (derefOrEmpty [] (cm_Data (fst (sv_get w g gvk_ConfigMap (lifecycleKey d))))) \<and>
        u \<in> set (fst (cd_unmarshal c json)))"

definition cleanup_call :: "(unstructured \<Rightarrow> bool) \<Rightarrow> k8sObject list \<Rightarrow> call \<Rightarrow> bool" where
  "cleanup_call was_recorded currentDependents call =
     (case call of
        CDelete obj \<Rightarrow>
          (\<exists>u. obj = asObject u \<and> was_recorded u \<and> u \<notin> set (asUnstructureds currentDependents))
      | CGet _ _ \<Rightarrow> True
      | CApply cm dryRun \<Rightarrow> \<not> dryRun
      | CSleep _ \<Rightarrow> True
      | _ \<Rightarrow> False)"

lemma gm_get_recordDependents:
  "gm_get (recordDependents c d objects data) k =
     (if k = getCurrentGenKey d then Some (fst (cd_marshal c (asUnstructureds objects)))
      else if k = getCurrentGenKey d @ ''-dirty'' \<and> gm_get data (getCurrentGenKey d) \<noteq> None
           then gm_get data (getCurrentGenKey d)
      else gm_get data k)"
  by (auto simp: recordDependents_def Let_def split: option.splits)

lemma emits_applyDependentsRecord:
  "emits (update_call c d objects) (applyDependentsRecord w c d objects)"
proof -
  have g: "emits (update_call c d objects) (getOrInitializeLifecycleCm w d)"
    unfolding getOrInitializeLifecycleCm_def [abs_def] getLifecycleConfigMap_def [abs_def]
    by (auto simp: emits_def client_Get_def update_call_def lifecycleKey_def Let_def split: prod.splits)
  have a: "emits (update_call c d objects) (\<lambda>h. case client_Apply w cm False h of (r, h2) \<Rightarrow> (snd (result_Get r), h2))"
    if "records_dependents c d objects cm" for cm
    using that by (intro emits_result emits_client)
      (simp add: update_call_def records_dependents_def)
  let ?cm = "\<lambda>p. addOwnerReference (lm_Transformations d)
     (addCommonLabels (lm_Version d) (lm_Transformations d)
       (set_cm_Data (recordDependents c d objects (the (cm_Data (fst p)))) (fst p)) ComponentInstanaAgent)"
  have "records_dependents c d objects (?cm p)" for p
    by (simp add: records_dependents_def gm_get_recordDependents)
  then have "emits (update_call c d objects)
      (\<lambda>h. case client_Apply w (?cm p) False h of (r, h2) \<Rightarrow> (snd (result_Get r), h2))" for p by (rule a)
  from emits_bind [OF g this] show ?thesis
    unfolding applyDependentsRecord_def [abs_def] by (simp add: Let_def split_beta)
qed

lemma emits_updateDependentLifecycleInfo:
  "emits (update_call c d objects) (updateDependentLifecycleInfo w c d objects)"
proof -
  have "emits (update_call c d objects) (updateAttempt w c d objects)"
    unfolding updateAttempt_def [abs_def] by (intro emits_result emits_applyDependentsRecord)
  then show ?thesis unfolding updateDependentLifecycleInfo_def [abs_def]
    by (rule emits_retry) (simp add: update_call_def)
qed

lemma emits_deleteDependents:
  assumes "\<And>u. u \<in> set us \<Longrightarrow> was_recorded u \<and> u \<notin> set (asUnstructureds currentDependents)"
  shows "emits (cleanup_call was_recorded currentDependents) (deleteDependents w us)"
  unfolding deleteDependents_def [abs_def] client_DeleteAllInTimeLimit_def [abs_def]
  by (intro emits_result emits_deleteAllInTimeLimit)
    (use assms in \<open>auto simp: cleanup_call_def\<close>)

lemma emits_cleanupLoop:
  assumes "\<And>key json u. (key, json) \<in> set entries \<Longrightarrow> u \<in> set (fst (cd_unmarshal c json)) \<Longrightarrow> was_recorded u"
  shows "emits (cleanup_call was_recorded currentDependents)
     (cleanupLoop w c d (asUnstructureds currentDependents) entries data errBuilder)"
  using assms
proof (induction entries arbitrary: data errBuilder)
  case Nil
  then show ?case by (simp add: emits_def)
next
  case (Cons kv entries)
  obtain key json where kv: "kv = (key, json)" by (cases kv)
  let ?us = "newDeepDiff (fst (cd_unmarshal c json)) (asUnstructureds currentDependents)"
  have del: "emits (cleanup_call was_recorded currentDependents) (deleteDependents w ?us)"
    by (rule emits_deleteDependents)
      (use Cons.prems in \<open>auto simp: kv deep_checker.diff_set simp del: asUnstructureds_eq\<close>)
  have rest: "emits (cleanup_call was_recorded currentDependents)
      (cleanupLoop w c d (asUnstructureds currentDependents) entries
        (if snd r = None \<and> key \<noteq> getCurrentGenKey d then gm_del key data else data)
        (if snd r \<noteq> None then meb_addSingle (snd r) errBuilder else errBuilder))" for r :: "k8sObject list \<times> error"
    by (rule Cons.IH) (use Cons.prems in auto)
  from emits_bind [OF del rest] show ?case
    by (simp add: kv Let_def split_beta del: asUnstructureds_eq)
qed

lemma emits_cleanupOnce:
  "emits (cleanup_call (recorded w c d) currentDependents) (cleanupOnce w c d currentDependents)"
proof (rule emitsI)
  fix h
  let ?P = "cleanup_call (recorded w c d) currentDependents"
  let ?cm = "fst (sv_get w h gvk_ConfigMap (lifecycleKey d))"
  let ?h1 = "h @ [CGet gvk_ConfigMap (lifecycleKey d)]"
  let ?data = "derefOrEmpty [] (cm_Data ?cm)"
  have app: "emits ?P
      (\<lambda>h. case client_Apply w cm False h of (r, h3) \<Rightarrow> (meb_build (onFailure r meb_addSingle m), h3))"
    for cm m by (intro emits_result emits_client) (simp add: cleanup_call_def)
  have loop: "emits ?P (cleanupLoop w c d (asUnstructureds currentDependents) ?data ?data [])"
    by (rule emits_cleanupLoop) (auto simp: recorded_def)
  let ?tail = "\<lambda>h. case cleanupLoop w c d (asUnstructureds currentDependents) ?data ?data [] h of
      (x, h2) \<Rightarrow> case client_Apply w (if cm_Data ?cm = None then ?cm else set_cm_Data (fst x) ?cm) False h2 of
        (r, h3) \<Rightarrow> (meb_build (onFailure r meb_addSingle (snd x)), h3)"
  have "emits ?P ?tail" by (intro emits_bind [OF loop] app)
  then obtain tr where "snd (?tail ?h1) = ?h1 @ tr" "list_all ?P tr" by (rule emitsE)
  moreover have "cleanupOnce w c d currentDependents h = ?tail ?h1"
    by (simp only: cleanupOnce_def getLifecycleConfigMap_def client_Get_def lifecycleKey_def
        newMultiErrorBuilder_def Let_def split_beta fst_conv snd_conv)
  ultimately show "\<exists>tr. snd (cleanupOnce w c d currentDependents h) = h @ tr \<and> list_all ?P tr"
    by (intro exI [of _ "CGet gvk_ConfigMap (lifecycleKey d) # tr"]) (simp add: cleanup_call_def)
qed

lemma emits_cleanupDependents:
  "emits (cleanup_call (recorded w c d) currentDependents) (cleanupDependents w c d currentDependents)"
proof -
  have "emits (cleanup_call (recorded w c d) currentDependents) (cleanupAttempt w c d currentDependents)"
    unfolding cleanupAttempt_def [abs_def] by (intro emits_result emits_cleanupOnce)
  then show ?thesis unfolding cleanupDependents_def [abs_def]
    by (rule emits_retry) (simp add: cleanup_call_def)
qed

subsection \<open>What a successful clean-up has achieved\<close>

text \<open>At some moment between \<open>h\<close> and \<open>h'\<close> the object was reported absent.\<close>

definition seen_absent :: "world \<Rightarrow> history \<Rightarrow> history \<Rightarrow> k8sObject \<Rightarrow> bool" where
  "seen_absent w h h' obj = (\<exists>g. prefix h g \<and> prefix g h' \<and> absent_at w g obj)"

lemma seen_absent_mono:
  "seen_absent w h1 h2 obj \<Longrightarrow> prefix h h1 \<Longrightarrow> prefix h2 h' \<Longrightarrow> seen_absent w h h' obj"
  unfolding seen_absent_def by (meson prefix_order.trans)

lemma deleteAllInTimeLimit_seen_absent:
  assumes "deleteAllInTimeLimit w objects timeout waitTime h = (None, h')" and "obj \<in> set objects"
  shows "seen_absent w h h' obj"
proof -
  from assms(1) obtain n where
    h': "h' = (h @ map CDelete objects) @ verify_rounds objects waitTime n @ map existence_check objects"
    and abs: "\<forall>i<length objects. absent_at w
       ((h @ map CDelete objects) @ verify_rounds objects waitTime n @
        map existence_check (take i objects)) (objects ! i)"
    by (rule deleteAllInTimeLimit_success)
  from assms(2) obtain i where i: "i < length objects" "objects ! i = obj" by (meson in_set_conv_nth)
  let ?g = "(h @ map CDelete objects) @ verify_rounds objects waitTime n @
        map existence_check (take i objects)"
  have "prefix ?g h'" unfolding h' by (simp add: take_is_prefix map_mono_prefix)
  then show ?thesis unfolding seen_absent_def
    using abs i by (intro exI [of _ ?g]) auto
qed

definition deprecated :: "codec \<Rightarrow> k8sObject list \<Rightarrow> string \<Rightarrow> unstructured list" where
  "deprecated c currentDependents json =
     newDeepDiff (fst (cd_unmarshal c json)) (asUnstructureds currentDependents)"

lemma deleteDependents_None:
  assumes "deleteDependents w us h = ((objs, None), h')"
  shows "deleteAllInTimeLimit w (map asObject us) (seconds 30) (seconds 5) h = (None, h')"
  using assms by (auto simp: deleteDependents_def client_DeleteAllInTimeLimit_def result_defs
      split: prod.splits)

lemma emits_prefix: "emits P f \<Longrightarrow> prefix h (snd (f h))"
  by (auto simp: emits_def prefix_def)

lemma cleanupLoop_success:
  assumes "cleanupLoop w c d (asUnstructureds cur) entries data m h = ((data', m'), h')"
    and "meb_build m' = None"
  shows "data' = filter (\<lambda>(k, _). k \<notin> fst ` set entries \<or> k = getCurrentGenKey d) data \<and>
    meb_build m = None \<and>
    (\<forall>(k, json)\<in>set entries. \<forall>u\<in>set (deprecated c cur json). seen_absent w h h' (asObject u))"
  using assms
proof (induction entries arbitrary: data m h)
  case Nil
  then show ?case by (auto simp: filter_id_conv)
next
  case (Cons kv entries)
  obtain key json where kv: "kv = (key, json)" by (cases kv)
  obtain objs e h1 where del: "deleteDependents w (deprecated c cur json) h = ((objs, e), h1)"
    by (metis prod.collapse)
  let ?m = "if e \<noteq> None then meb_addSingle e m else m"
  let ?data = "if e = None \<and> key \<noteq> getCurrentGenKey d then gm_del key data else data"
  have rest: "cleanupLoop w c d (asUnstructureds cur) entries ?data ?m h1 = ((data', m'), h')"
    using Cons.prems(1) del by (simp add: kv Let_def deprecated_def del: asUnstructureds_eq)
  note IH = Cons.IH [OF rest Cons.prems(2)]
  from IH have e: "e = None" by (auto simp: meb_defs split: if_splits)
  have pre1: "prefix h h1"
    using emits_prefix [OF emits_deleteDependents, of "deprecated c cur json" "\<lambda>_. True" cur h w] del
    by (simp add: deprecated_def deep_checker.diff_set del: asUnstructureds_eq)
  have pre2: "prefix h1 h'"
    using emits_prefix [OF emits_cleanupLoop, of entries c "\<lambda>_. True" h1 w d cur ?data ?m] rest
    by (simp del: asUnstructureds_eq)
  have "\<forall>u\<in>set (deprecated c cur json). seen_absent w h h1 (asObject u)"
    using deleteAllInTimeLimit_seen_absent [OF deleteDependents_None] del e by fastforce
  then have "\<forall>u\<in>set (deprecated c cur json). seen_absent w h h' (asObject u)"
    using seen_absent_mono pre2 by blast
  moreover have "\<forall>(k, json)\<in>set entries. \<forall>u\<in>set (deprecated c cur json). seen_absent w h h' (asObject u)"
    using IH seen_absent_mono pre1 by (fastforce split: prod.splits)
  moreover have "data' = filter (\<lambda>(k, _). k \<notin> fst ` set (kv # entries) \<or> k = getCurrentGenKey d) data"
    using IH e by (auto simp: kv AList.delete_eq intro!: filter_cong)
  ultimately show ?case using IH e by (auto simp: kv)
qed

text \<open>
  \<open>cleanupOnce\<close> succeeds only when every object that some entry of the fetched ConfigMap records
  and the current generation does not have was reported absent; the ConfigMap it applied then
  keeps the entry of the current generation and nothing else.
\<close>

lemma cleanupOnce_success:
  assumes "cleanupOnce w c d cur h = (None, h')"
  obtains cm g cm' where
    "fst (sv_get w h gvk_ConfigMap (lifecycleKey d)) = cm"
    "h' = g @ [CApply cm' False]" "snd (sv_apply w g cm' False) = None"
    "cm_Data cm' = map_option (filter (\<lambda>(k, _). k = getCurrentGenKey d)) (cm_Data cm)"
    "\<forall>(k, json)\<in>set (derefOrEmpty [] (cm_Data cm)). \<forall>u\<in>set (deprecated c cur json).
       seen_absent w h h' (asObject u)"
proof -
  let ?cm = "fst (sv_get w h gvk_ConfigMap (lifecycleKey d))"
  let ?h1 = "h @ [CGet gvk_ConfigMap (lifecycleKey d)]"
  let ?data = "derefOrEmpty [] (cm_Data ?cm)"
  obtain data m h2 where
    loop: "cleanupLoop w c d (asUnstructureds cur) ?data ?data [] ?h1 = ((data, m), h2)"
    by (metis prod.collapse)
  define cm' where "cm' = set_managedFields [] (if cm_Data ?cm = None then ?cm else set_cm_Data data ?cm)"
  have once: "cleanupOnce w c d cur h =
      (meb_build (onFailure (result_Of (fst (sv_apply w h2 cm' False)) (snd (sv_apply w h2 cm' False)))
         meb_addSingle m), h2 @ [CApply cm' False])"
    using loop by (simp add: cleanupOnce_def getLifecycleConfigMap_def client_Get_def client_Apply_def
        lifecycleKey_def newMultiErrorBuilder_def Let_def cm'_def split_beta del: asUnstructureds_eq)
  with assms have ok: "snd (sv_apply w h2 cm' False) = None" and m: "meb_build m = None"
    and h': "h' = h2 @ [CApply cm' False]"
    by (auto simp: onFailure_def isFailure_def isSuccess_def result_Of_def meb_defs split: if_splits)
  note fin = cleanupLoop_success [OF loop m]
  have "data = filter (\<lambda>(k, _). k = getCurrentGenKey d) ?data"
    using fin by (auto simp: image_iff intro!: filter_cong)
  then have "cm_Data cm' = map_option (filter (\<lambda>(k, _). k = getCurrentGenKey d)) (cm_Data ?cm)"
    by (cases "cm_Data ?cm") (simp_all add: cm'_def)
  moreover have "\<forall>(k, json)\<in>set ?data. \<forall>u\<in>set (deprecated c cur json). seen_absent w h h' (asObject u)"
    using fin h' seen_absent_mono [of w ?h1 h2 _ h h'] by (fastforce simp: prefix_def)
  ultimately show thesis using that ok h' by blast
qed

subsection \<open>The interface of the lifecycle managers\<close>

text \<open>
  What \<open>OperatorUtils\<close> relies on: \<open>UpdateDependentLifecycleInfo\<close> only reads and applies the
  record of the dependents, \<open>CleanupDependents\<close> deletes nothing that is current. Both managers
  satisfy it.
\<close>

locale lifecycle_manager =
  fixes update :: "k8sObject list \<Rightarrow> history \<Rightarrow> error \<times> history"
    and cleanup :: "k8sObject list \<Rightarrow> history \<Rightarrow> error \<times> history"
    and c :: codec and d :: lifecycleManager and was_recorded :: "unstructured \<Rightarrow> bool"
  assumes update_emits: "emits (update_call c d objects) (update objects)"
    and cleanup_emits: "emits (cleanup_call was_recorded objects) (cleanup objects)"
begin

lemma update_trace:
  obtains tr where "snd (update objects h) = h @ tr" "list_all (update_call c d objects) tr"
  using update_emits by (rule emitsE)

lemma cleanup_trace:
  obtains tr where "snd (cleanup objects h) = h @ tr" "list_all (cleanup_call was_recorded objects) tr"
  using cleanup_emits by (rule emitsE)

lemma update_never_deletes: "snd (update objects h) = h @ tr \<Longrightarrow> CDelete obj \<notin> set tr"
  by (rule update_trace [of objects h]) (auto simp: list_all_iff update_call_def)

end

interpretation agent_lm: lifecycle_manager
  "updateDependentLifecycleInfo w c d" "cleanupDependents w c d" c d "recorded w c d" for w c d
  by unfold_locales (rule emits_updateDependentLifecycleInfo emits_cleanupDependents)+

interpretation remote_lm: lifecycle_manager
  "remote_updateDependentLifecycleInfo w c d" "remote_cleanupDependents w c d" c d
  "recorded w c d" for w c d
  by unfold_locales
    (simp_all add: remote_updateDependentLifecycleInfo_def [abs_def]
      remote_cleanupDependents_def [abs_def] emits_applyDependentsRecord emits_cleanupOnce)

subsection \<open>Properties\<close>

lemma cm_Data_mkObject [simp]:
  "cm_Data (mkObject a k m (ConfigMapBody data)) = data" "cm_Data emptyConfigMap = None"
  by (simp_all add: cm_Data_def emptyConfigMap_def)

lemma retry_5: "retry 5 t fn h = retryFrom 5 t fn (Suc 4) h"
  by (simp add: retry_def eval_nat_numeral)

lemma applyDependentsRecord_eq:
  fixes w c d objects h
  defines "r \<equiv> sv_get w h gvk_ConfigMap (lifecycleKey d)"
  defines "cm0 \<equiv> (if snd r = None then fst r
      else if isNotFound (snd r)
      then mkObject ''v1'' ''ConfigMap'' (named (getConfigMapName d) (lm_Namespace d)) (ConfigMapBody None)
      else emptyConfigMap)"
  defines "cm \<equiv> set_managedFields [] (addOwnerReference (lm_Transformations d)
      (addCommonLabels (lm_Version d) (lm_Transformations d)
        (set_cm_Data (recordDependents c d objects (derefOrEmpty [] (cm_Data cm0))) cm0)
        ComponentInstanaAgent))"
  shows "applyDependentsRecord w c d objects h =
     (snd (sv_apply w (h @ [CGet gvk_ConfigMap (lifecycleKey d)]) cm False),
      h @ [CGet gvk_ConfigMap (lifecycleKey d), CApply cm False])"
proof -
  have "set_cm_Data data (set_cm_Data data' x) = set_cm_Data data x" for data data' x
    by (simp add: set_cm_Data_def)
  then show ?thesis
    unfolding applyDependentsRecord_def getOrInitializeLifecycleCm_def getLifecycleConfigMap_def
      client_Get_def client_Apply_def cm_def cm0_def r_def lifecycleKey_def
    by (cases "cm_Data cm0") (auto simp: Let_def split_beta result_defs cm0_def r_def lifecycleKey_def)
qed

text \<open>
  the record of the dependents is written before anything else can fail silently: one
  attempt fetches the ConfigMap and applies exactly one ConfigMap, in which the current
  generation's key holds the dependents, a previous record of the same generation is kept under
  the \<open>-dirty\<close> key, every other entry fetched is unchanged, and the error returned is the
  server's answer.
\<close>

theorem remote_updateDependentLifecycleInfo_record:
  "\<exists>cm data. snd (remote_updateDependentLifecycleInfo w c d objects h) =
       h @ [CGet gvk_ConfigMap (lifecycleKey d), CApply cm False] \<and>
     fst (remote_updateDependentLifecycleInfo w c d objects h) =
       snd (sv_apply w (h @ [CGet gvk_ConfigMap (lifecycleKey d)]) cm False) \<and>
     cm_Data cm = Some data \<and>
     (let fetched = (if snd (sv_get w h gvk_ConfigMap (lifecycleKey d)) = None
                     then derefOrEmpty [] (cm_Data (fst (sv_get w h gvk_ConfigMap (lifecycleKey d))))
                     else [])
      in \<forall>k. gm_get data k =
           (if k = getCurrentGenKey d then Some (fst (cd_marshal c (map asUnstructured objects)))
            else if k = getCurrentGenKey d @ ''-dirty'' \<and> gm_get fetched (getCurrentGenKey d) \<noteq> None
            then gm_get fetched (getCurrentGenKey d)
            else gm_get fetched k))"
  unfolding remote_updateDependentLifecycleInfo_def applyDependentsRecord_eq
  by (auto simp: Let_def gm_get_recordDependents)

lemma updateAttempt_finished:
  assumes "updateAttempt w c d objects h = ((finished, e), h')"
  shows "\<exists>g cm. h' = g @ [CApply cm False] \<and> records_dependents c d objects cm \<and>
    e = snd (sv_apply w g cm False) \<and> finished = (e = None \<or> \<not> isConflict e)"
  using assms unfolding updateAttempt_def applyDependentsRecord_eq
  by (auto simp: records_dependents_def gm_get_recordDependents)

text \<open>The attempt that \<open>retry\<close> made last, after what came before it.\<close>

lemma retryFrom_last:
  assumes "retryFrom attempts t fn (Suc k) h = (e, h')" "attempts = Suc j" "k \<le> j"
    and pre: "\<And>g. prefix g (snd (fn g))"
  shows "\<exists>g finished e1. prefix h g \<and> fn g = ((finished, e1), h') \<and> (if finished then e = e1 else e = None)"
  using assms(1-3)
proof (induction k arbitrary: h)
  case 0
  then show ?case by (auto simp: Let_def split: prod.splits if_splits)
next
  case (Suc k)
  obtain finished e1 h1 where fn: "fn h = ((finished, e1), h1)" by (metis prod.collapse)
  show ?case
  proof (cases finished)
    case True
    with Suc.prems fn show ?thesis by (auto simp: Let_def)
  next
    case False
    let ?h = "if attempts - Suc (Suc k) < attempts - 1 then h1 @ [CSleep (t * 2 ^ (attempts - Suc (Suc k)))] else h1"
    from False Suc.prems fn have "retryFrom attempts t fn (Suc k) ?h = (e, h')"
      by (simp add: Let_def del: retryFrom.simps) (simp add: Let_def)
    then have "\<exists>g finished e1. prefix ?h g \<and> fn g = ((finished, e1), h') \<and> (if finished then e = e1 else e = None)"
      using Suc by simp
    moreover have "prefix h ?h" using pre [of h] fn by (auto simp: prefix_def)
    ultimately show ?thesis by (meson prefix_order.trans)
  qed
qed

text \<open>
  what a \<open>nil\<close> from the agent's \<open>UpdateDependentLifecycleInfo\<close> means: its last call applied a
  ConfigMap that records the current dependents, and the server accepted it or refused it with
  a conflict (the last of five attempts).
\<close>

theorem updateDependentLifecycleInfo_nil:
  assumes "updateDependentLifecycleInfo w c d objects h = (None, h')"
  shows "\<exists>g cm. h' = g @ [CApply cm False] \<and> records_dependents c d objects cm \<and>
    (snd (sv_apply w g cm False) = None \<or> isConflict (snd (sv_apply w g cm False)))"
proof -
  from assms have "retryFrom 5 (ms 100) (updateAttempt w c d objects) (Suc 4) h = (None, h')"
    by (simp only: updateDependentLifecycleInfo_def retry_5)
  from retryFrom_last [OF this, of 4] obtain g finished e where
    "updateAttempt w c d objects g = ((finished, e), h')" "if finished then None = e else True"
    by (auto simp: updateAttempt_def applyDependentsRecord_eq)
  from updateAttempt_finished [OF this(1)] this(2) show ?thesis by (auto split: if_splits)
qed

definition exampleCodec :: codec where
  "exampleCodec = \<lparr>cd_marshal = (\<lambda>us. (concat (map un_Name us), None)),
     cd_unmarshal = (\<lambda>s. ([], None))\<rparr>"

definition exampleManager :: lifecycleManager where
  "exampleManager = newDependentLifecycleManager ''v1'' exampleAgent"

abbreviation exampleWorld :: world where
  "exampleWorld \<equiv> simWorld [] exampleAgent exampleRemote"

lemma updateDependentLifecycleInfo_first:
  assumes "\<And>g cm. snd (sv_apply w g cm False) = None"
  shows "\<exists>cm. updateDependentLifecycleInfo w c d objects h =
    (None, h @ [CGet gvk_ConfigMap (lifecycleKey d), CApply cm False])"
  unfolding updateDependentLifecycleInfo_def using assms
  by (subst retry_first_finished) (auto simp: updateAttempt_def applyDependentsRecord_eq)

lemma updateDependentLifecycleInfo_example:
  "fst (updateDependentLifecycleInfo exampleWorld exampleCodec exampleManager [] []) = None"
  using updateDependentLifecycleInfo_first [of exampleWorld exampleCodec exampleManager "[]" "[]"]
  by (auto simp: simWorld_def)

theorem updateDependentLifecycleInfo_nil_witness:
  "\<exists>h' g cm. updateDependentLifecycleInfo exampleWorld exampleCodec exampleManager [] [] = (None, h') \<and>
     h' = g @ [CApply cm False] \<and> records_dependents exampleCodec exampleManager [] cm"
  using updateDependentLifecycleInfo_nil [of exampleWorld exampleCodec exampleManager "[]" "[]"]
    updateDependentLifecycleInfo_example
  by (metis prod.collapse)

text \<open>
  \<open>retry\<close> loses the error of its last attempt. When the server answers every apply with a
  conflict, \<open>UpdateDependentLifecycleInfo\<close> still returns \<open>nil\<close>, although no attempt stored the
  record; the caller goes on to apply the objects.
\<close>

theorem updateDependentLifecycleInfo_swallows_conflicts:
  assumes "\<And>g cm. isConflict (snd (sv_apply w g cm False))"
  shows "fst (updateDependentLifecycleInfo w c d objects h) = None"
proof -
  have "snd (sv_apply w g cm False) \<noteq> None" for g cm using assms [of g cm] by (metis isConflict_None)
  with assms have "\<not> fst (fst (updateAttempt w c d objects g))" for g
    by (simp add: updateAttempt_def applyDependentsRecord_eq del: not_None_eq)
  then show ?thesis
    unfolding updateDependentLifecycleInfo_def retry_def by (rule retryFrom_unfinished)
qed

definition conflictWorld :: world where
  "conflictWorld = exampleWorld\<lparr>sv_apply := (\<lambda>h obj dryRun. (obj, Some (EStatus Conflict ''conflict'')))\<rparr>"

theorem updateDependentLifecycleInfo_swallows_conflicts_witness:
  "isConflict (snd (sv_apply conflictWorld [] emptyConfigMap False)) \<and>
   fst (updateDependentLifecycleInfo conflictWorld exampleCodec exampleManager [exampleSecret] []) = None"
  using updateDependentLifecycleInfo_swallows_conflicts [of conflictWorld exampleCodec exampleManager
      "[exampleSecret]" "[]"]
  by (simp add: conflictWorld_def)

text \<open>
  a clean-up, with all its retries, deletes only objects that a fetched version of the
  lifecycle ConfigMap recorded and that are not among the current dependents.
\<close>

theorem cleanupDependents_deletes_only_deprecated:
  assumes "CDelete x \<in> set (drop (length h) (snd (cleanupDependents w c d current h)))"
  shows "\<exists>u. x = asObject u \<and> recorded w c d u \<and> u \<notin> set (map asUnstructured current)"
proof -
  obtain tr where "snd (cleanupDependents w c d current h) = h @ tr"
    "list_all (cleanup_call (recorded w c d) current) tr" by (rule agent_lm.cleanup_trace)
  with assms show ?thesis by (auto simp: list_all_iff cleanup_call_def)
qed

definition secretRef :: unstructured where
  "secretRef = \<lparr>un_GVK = gvk_Secret, un_Name = ''agent'', un_Namespace = ''ns''\<rparr>"

definition oneEntryCodec :: codec where
  "oneEntryCodec = \<lparr>cd_marshal = (\<lambda>us. ('''', None)), cd_unmarshal = (\<lambda>s. ([secretRef], None))\<rparr>"

definition oldRecord :: k8sObject where
  "oldRecord = mkObject ''v1'' ''ConfigMap'' (named ''agent-dependents'' ''ns'')
     (ConfigMapBody (Some [(''v0_1'', '''')]))"

definition oldRecordWorld :: world where
  "oldRecordWorld = exampleWorld
     \<lparr>sv_get := (\<lambda>h gvk key. if gvk = gvk_ConfigMap then (oldRecord, None)
                             else (emptyObject, Some notFoundErr)),
      sv_delete := (\<lambda>h obj. None)\<rparr>"

lemma oldRecordWorld_simps [simp]:
  "sv_get oldRecordWorld h gvk_ConfigMap key = (oldRecord, None)"
  "sv_get oldRecordWorld h gvk_Secret key = (emptyObject, Some notFoundErr)"
  "sv_delete oldRecordWorld h obj = None"
  "sv_apply oldRecordWorld h obj dryRun = (obj, None)"
  "sv_ctxErr oldRecordWorld h = None"
  "sv_latency oldRecordWorld i = 0"
  by (simp_all add: oldRecordWorld_def simWorld_def gvk_ConfigMap_def gvk_Secret_def)

lemma asObject_secretRef [simp]:
  "get_gvk (asObject secretRef) = gvk_Secret"
  "objectKeyFromObject (asObject secretRef) = \<lparr>nn_Namespace = ''ns'', nn_Name = ''agent''\<rparr>"
  by (simp_all add: asObject_def secretRef_def objectKeyFromObject_def get_gvk_def mkObject_def
      fromAPIVersionAndKind_def gvk_Secret_def gvk_apiVersion_def get_name_def get_namespace_def)

lemma delete_secretRef:
  "deleteAllInTimeLimit oldRecordWorld [asObject secretRef] t p h =
     (None, h @ [CDelete (asObject secretRef), existence_check (asObject secretRef)])"
  if "2 < t" for t p
  using that clock_snoc [of oldRecordWorld h "CDelete (asObject secretRef)"]
  by (simp add: deleteAllInTimeLimit_def deleteAll_eq delete_response_def newMultiErrorBuilder_def
      Let_def ignoreNotFound_def verifyDeletion.simps [of _ _ _ _ "h @ [CDelete (asObject secretRef)]"]
      ctx_Err_def notFoundErr_def list_All_def doNotExist_iff client_Exists_result split_beta)

lemma cleanup_oldRecord:
  "\<exists>cm. cleanupOnce oldRecordWorld oneEntryCodec exampleManager [] h =
     (None, h @ [CGet gvk_ConfigMap (lifecycleKey exampleManager), CDelete (asObject secretRef),
             existence_check (asObject secretRef), CApply cm False])"
  by (simp add: cleanupOnce_def getLifecycleConfigMap_def client_Get_def flip: lifecycleKey_def)
    (simp add: oldRecord_def oneEntryCodec_def deleteDependents_def client_DeleteAllInTimeLimit_def
      list_Diff_def newDeepChecker_def delete_secretRef result_defs client_Apply_def
      newMultiErrorBuilder_def Let_def)

lemma cleanupDependents_oldRecord:
  "cleanupDependents oldRecordWorld oneEntryCodec exampleManager [] h =
     cleanupOnce oldRecordWorld oneEntryCodec exampleManager [] h"
  using cleanup_oldRecord [of h] unfolding cleanupDependents_def
  by (auto simp: cleanupAttempt_def intro!: retry_first_finished)

theorem cleanupDependents_deletes_only_deprecated_witness:
  "CDelete (asObject secretRef) \<in>
      set (snd (cleanupDependents oldRecordWorld oneEntryCodec exampleManager [] [])) \<and>
   (\<exists>u. asObject secretRef = asObject u \<and> recorded oldRecordWorld oneEntryCodec exampleManager u)"
  using cleanupDependents_deletes_only_deprecated [of "asObject secretRef" "[]" oldRecordWorld
      oneEntryCodec exampleManager "[]"] cleanup_oldRecord [of "[]"] cleanupDependents_oldRecord [of "[]"]
  by auto

text \<open>
  C11: a clean-up pass that returns no error has removed everything that is deprecated: each
  object recorded in the fetched ConfigMap and not current was reported absent during the pass,
  and the ConfigMap stored by the last, accepted, apply keeps the current generation's entry
  and no other.
\<close>

theorem remote_cleanupDependents_complete:
  assumes "remote_cleanupDependents w c d current h = (None, h')"
  shows "\<exists>g cm'. h' = g @ [CApply cm' False] \<and> snd (sv_apply w g cm' False) = None \<and>
    (let fetched = cm_Data (fst (sv_get w h gvk_ConfigMap (lifecycleKey d)))
     in cm_Data cm' = map_option (filter (\<lambda>(k, _). k = getCurrentGenKey d)) fetched \<and>
        (\<forall>(k, json)\<in>set (derefOrEmpty [] fetched). \<forall>u\<in>set (fst (cd_unmarshal c json)).
           u \<notin> set (map asUnstructured current) \<longrightarrow> seen_absent w h h' (asObject u)))"
proof -
  from assms have "cleanupOnce w c d current h = (None, h')" by (simp add: remote_cleanupDependents_def)
  then obtain cm g cm' where
    "fst (sv_get w h gvk_ConfigMap (lifecycleKey d)) = cm"
    "h' = g @ [CApply cm' False]" "snd (sv_apply w g cm' False) = None"
    "cm_Data cm' = map_option (filter (\<lambda>(k, _). k = getCurrentGenKey d)) (cm_Data cm)"
    "\<forall>(k, json)\<in>set (derefOrEmpty [] (cm_Data cm)). \<forall>u\<in>set (deprecated c current json).
       seen_absent w h h' (asObject u)" by (rule cleanupOnce_success)
  then show ?thesis by (fastforce simp: deprecated_def deep_checker.diff_set Let_def)
qed

theorem remote_cleanupDependents_complete_witness:
  "\<exists>h'. remote_cleanupDependents oldRecordWorld oneEntryCodec exampleManager [] [] = (None, h') \<and>
     seen_absent oldRecordWorld [] h' (asObject secretRef)"
proof -
  obtain h' where run: "remote_cleanupDependents oldRecordWorld oneEntryCodec exampleManager [] [] = (None, h')"
    using cleanup_oldRecord [of "[]"] by (auto simp: remote_cleanupDependents_def)
  from remote_cleanupDependents_complete [OF run] have "seen_absent oldRecordWorld [] h' (asObject secretRef)"
    by (auto simp: oneEntryCodec_def) (simp_all add: oldRecord_def)
  with run show ?thesis by blast
qed

end
