(* ===== verification/Operator_Utils.thy ===== *)
theory Operator_Utils
  imports Lifecycle
begin

text \<open>
  \<open>src/pkg/k8s/operator/operator_utils\<close>: \<open>ApplyAll\<close> builds the objects, applies them as a dry
  run, builds them again, records them with the lifecycle manager, applies them and finally
  deletes what older generations left behind; \<open>DeleteAll\<close> is the clean-up with no current
  dependents. The agent's and the remote agent's \<open>OperatorUtils\<close> differ in the transformations
  and the lifecycle manager they are built with, which are the fields of \<open>operatorUtils\<close>.
\<close>

record operatorUtils =
  ou_Version :: string
  ou_Transformations :: transformations
  ou_Update :: "k8sObject list \<Rightarrow> history \<Rightarrow> error \<times> history"
  ou_Cleanup :: "k8sObject list \<Rightarrow> history \<Rightarrow> error \<times> history"
  ou_OpenShift :: "bool option"

definition newOperatorUtils :: "world \<Rightarrow> codec \<Rightarrow> string \<Rightarrow> instanaAgent \<Rightarrow> operatorUtils" where
  "newOperatorUtils w c ver agent =
     (let d = newDependentLifecycleManager ver agent
      in \<lparr>ou_Version = ver, ou_Transformations = newTransformations agent,
          ou_Update = updateDependentLifecycleInfo w c d, ou_Cleanup = cleanupDependents w c d,
          ou_OpenShift = sp_OpenShift (ag_Spec agent)\<rparr>)"

definition newRemoteOperatorUtils :: "world \<Rightarrow> codec \<Rightarrow> string \<Rightarrow> instanaAgentRemote \<Rightarrow> operatorUtils" where
  "newRemoteOperatorUtils w c ver agent =
     (let d = newRemoteDependentLifecycleManager ver agent
      in \<lparr>ou_Version = ver, ou_Transformations = newTransformationsRemote agent,
          ou_Update = remote_updateDependentLifecycleInfo w c d,
          ou_Cleanup = remote_cleanupDependents w c d, ou_OpenShift = None\<rparr>)"

text \<open>\<open>buildObjects\<close>: run the builders in order, keep the present results.\<close>

fun buildOptionals ::
  "operatorUtils \<Rightarrow> 's objectBuilder list \<Rightarrow> 's \<Rightarrow> k8sObject option list go \<times> 's" where
  "buildOptionals ou [] s = (Ret [], s)"
| "buildOptionals ou (b # builders) s =
     (case builderTransformer_Apply (ou_Version ou) (ou_Transformations ou) b s of
        (Panic p, s1) \<Rightarrow> (Panic p, s1)
      | (Ret opt, s1) \<Rightarrow>
          (case buildOptionals ou builders s1 of
             (Panic p, s2) \<Rightarrow> (Panic p, s2)
           | (Ret opts, s2) \<Rightarrow> (Ret (opt # opts), s2)))"

definition buildObjects ::
  "operatorUtils \<Rightarrow> 's objectBuilder list \<Rightarrow> 's \<Rightarrow> k8sObject list go \<times> 's" where
  "buildObjects ou builders s =
     (case buildOptionals ou builders s of
        (Panic p, s1) \<Rightarrow> (Panic p, s1)
      | (Ret optionals, s1) \<Rightarrow> (Ret (map the (filter (\<lambda>val. val \<noteq> None) optionals)), s1))"

text \<open>
  \<open>applyAll\<close>: every object is applied even after a failure; the objects come back as the
  server's answers decoded them.
\<close>

fun applyObjects ::
  "world \<Rightarrow> k8sObject list \<Rightarrow> bool \<Rightarrow> multiErrorBuilder \<Rightarrow> history \<Rightarrow>
   (k8sObject list \<times> error) \<times> history" where
  "applyObjects w [] dryRun errBuilder h = (([], meb_build errBuilder), h)"
| "applyObjects w (obj # objects) dryRun errBuilder h =
     (case client_Apply w obj dryRun h of (r, h1) \<Rightarrow>
      case applyObjects w objects dryRun (onFailure r meb_addSingle errBuilder) h1 of
        ((objs, e), h2) \<Rightarrow> ((fst (result_Get r) # objs, e), h2))"

definition ApplyAll ::
  "world \<Rightarrow> operatorUtils \<Rightarrow> 's objectBuilder list \<Rightarrow> 's \<Rightarrow> history \<Rightarrow> (error go \<times> 's) \<times> history" where
  "ApplyAll w ou builders s h =
     (case buildObjects ou builders s of
        (Panic p, s1) \<Rightarrow> ((Panic p, s1), h)
      | (Ret dryObjects, s1) \<Rightarrow>
        (case applyObjects w dryObjects True (newMultiErrorBuilder []) h of ((_, e1), h1) \<Rightarrow>
         if e1 \<noteq> None then ((Ret e1, s1), h1)
         else (case buildObjects ou builders s1 of
            (Panic p, s2) \<Rightarrow> ((Panic p, s2), h1)
          | (Ret objects, s2) \<Rightarrow>
            (case ou_Update ou objects h1 of (e2, h2) \<Rightarrow>
             if e2 \<noteq> None then ((Ret e2, s2), h2)
             else (case applyObjects w objects False (newMultiErrorBuilder []) h2 of
               ((objects1, e3), h3) \<Rightarrow>
                 if e3 \<noteq> None then ((Ret e3, s2), h3)
                 else (case ou_Cleanup ou objects1 h3 of (e4, h4) \<Rightarrow> ((Ret e4, s2), h4)))))))"

definition DeleteAll :: "operatorUtils \<Rightarrow> history \<Rightarrow> error \<times> history" where
  "DeleteAll ou h = ou_Cleanup ou [] h"

definition remote_ApplyAll ::
  "world \<Rightarrow> codec \<Rightarrow> string \<Rightarrow> instanaAgentRemote \<Rightarrow> 's objectBuilder list \<Rightarrow> 's \<Rightarrow> history \<Rightarrow>
   (error go \<times> 's) \<times> history" where
  "remote_ApplyAll w c ver agent builders s h =
     ApplyAll w (newRemoteOperatorUtils w c ver agent) builders s h"

definition clusterIsOpenShift :: "world \<Rightarrow> operatorUtils \<Rightarrow> history \<Rightarrow> (bool \<times> error) \<times> history" where
  "clusterIsOpenShift w ou h =
     (case ou_OpenShift ou of
        None \<Rightarrow>
          (case client_Exists w
             \<lparr>gvk_Group = ''apiextensions.k8s.io'', gvk_Version = ''v1'',
              gvk_Kind = ''CustomResourceDefinition''\<rparr>
             \<lparr>nn_Namespace = '''', nn_Name = ''clusteroperators.config.openshift.io''\<rparr> h of
             (r, h1) \<Rightarrow> (result_Get r, h1))
      | Some b \<Rightarrow> ((b, None), h))"

subsection \<open>Applying a batch\<close>

abbreviation apply_call :: "bool \<Rightarrow> k8sObject \<Rightarrow> call" where
  "apply_call dryRun obj \<equiv> CApply (set_managedFields [] obj) dryRun"

text \<open>The server's answer to the \<open>i\<close>-th object of a batch applied after \<open>h\<close>.\<close>

definition apply_response :: "world \<Rightarrow> k8sObject list \<Rightarrow> bool \<Rightarrow> history \<Rightarrow> nat \<Rightarrow> k8sObject \<times> error" where
  "apply_response w objects dryRun h i =
     sv_apply w (h @ map (apply_call dryRun) (take i objects)) (set_managedFields [] (objects ! i)) dryRun"

definition batch_accepted :: "world \<Rightarrow> k8sObject list \<Rightarrow> bool \<Rightarrow> history \<Rightarrow> bool" where
  "batch_accepted w objects dryRun h =
     (\<forall>i<length objects. snd (apply_response w objects dryRun h i) = None)"

lemma apply_response_Cons:
  "apply_response w (obj # objects) dryRun h 0 = sv_apply w h (set_managedFields [] obj) dryRun"
  "apply_response w (obj # objects) dryRun h (Suc i) =
     apply_response w objects dryRun (h @ [apply_call dryRun obj]) i"
  by (simp_all add: apply_response_def)

lemma batch_accepted_Cons:
  "batch_accepted w (obj # objects) dryRun h \<longleftrightarrow>
     snd (sv_apply w h (set_managedFields [] obj) dryRun) = None \<and>
     batch_accepted w objects dryRun (h @ [apply_call dryRun obj])"
  by (simp add: batch_accepted_def All_less_Suc2 apply_response_Cons)

lemma applyObjects_history:
  "snd (applyObjects w objects dryRun m h) = h @ map (apply_call dryRun) objects"
  by (induction objects arbitrary: m h)
    (simp_all add: client_Apply_def Let_def split_beta)

lemma applyObjects_error:
  "snd (fst (applyObjects w objects dryRun m h)) = None \<longleftrightarrow>
     meb_build m = None \<and> batch_accepted w objects dryRun h"
proof (induction objects arbitrary: m h)
  case (Cons obj objects)
  show ?case
    by (auto simp: client_Apply_def Let_def split_beta Cons batch_accepted_Cons onFailure_def
        isFailure_def isSuccess_def result_Of_def meb_defs)
qed (simp add: batch_accepted_def)

lemma applyObjects_objects:
  "fst (fst (applyObjects w objects dryRun m h)) =
     map (\<lambda>i. fst (apply_response w objects dryRun h i)) [0..<length objects]"
proof (induction objects arbitrary: m h)
  case (Cons obj objects)
  have "map (\<lambda>i. fst (apply_response w (obj # objects) dryRun h i)) [0..<length (obj # objects)] =
      fst (sv_apply w h (set_managedFields [] obj) dryRun) #
      map (\<lambda>i. fst (apply_response w objects dryRun (h @ [apply_call dryRun obj]) i)) [0..<length objects]"
    by (simp add: upt_conv_Cons apply_response_Cons map_Suc_upt [symmetric] comp_def del: upt_Suc)
  then show ?case
    by (simp add: client_Apply_def Let_def split_beta Cons result_Get_def result_Of_def del: upt_Suc)
qed simp

subsection \<open>The order of the effects of \<open>ApplyAll\<close>\<close>

text \<open>
  A run of \<open>ApplyAll\<close> after \<open>h\<close> made the calls \<open>dry @ upd @ app @ del\<close>: dry-run applies, the
  record of the dependents \<open>objects\<close>, their applies, the clean-up. A phase is entered only when
  the phases before it succeeded.
\<close>

definition apply_all_phases ::
  "world \<Rightarrow> operatorUtils \<Rightarrow> codec \<Rightarrow> lifecycleManager \<Rightarrow> 's objectBuilder list \<Rightarrow> 's \<Rightarrow>
   history \<Rightarrow> history \<Rightarrow> k8sObject list \<Rightarrow> k8sObject list \<Rightarrow> history \<Rightarrow> history \<Rightarrow> history \<Rightarrow> bool" where
  "apply_all_phases w ou c d builders s h h' dryObjects objects upd app del \<longleftrightarrow>
     (let dry = map (apply_call True) dryObjects;
          objects1 = map (\<lambda>i. fst (apply_response w objects False (h @ dry @ upd) i)) [0..<length objects]
      in h' = h @ dry @ upd @ app @ del \<and>
         list_all (update_call c d objects) upd \<and>
         list_all (cleanup_call (recorded w c d) objects1) del \<and>
         (upd @ app @ del \<noteq> [] \<longrightarrow> batch_accepted w dryObjects True h \<and>
            (\<exists>s1. buildObjects ou builders s = (Ret dryObjects, s1) \<and>
                  fst (buildObjects ou builders s1) = Ret objects)) \<and>
         (app @ del \<noteq> [] \<longrightarrow>
            fst (ou_Update ou objects (h @ dry)) = None \<and> app = map (apply_call False) objects) \<and>
         (del \<noteq> [] \<longrightarrow> batch_accepted w objects False (h @ dry @ upd)))"

text \<open>The run went through all its phases and none of them returned an error.\<close>

definition apply_all_done ::
  "world \<Rightarrow> operatorUtils \<Rightarrow> history \<Rightarrow> history \<Rightarrow> k8sObject list \<Rightarrow> k8sObject list \<Rightarrow>
   history \<Rightarrow> history \<Rightarrow> bool" where
  "apply_all_done w ou h h' dryObjects objects upd app \<longleftrightarrow>
     (let h1 = h @ map (apply_call True) dryObjects;
          objects1 = map (\<lambda>i. fst (apply_response w objects False (h1 @ upd) i)) [0..<length objects]
      in batch_accepted w dryObjects True h \<and> ou_Update ou objects h1 = (None, h1 @ upd) \<and>
         app = map (apply_call False) objects \<and> batch_accepted w objects False (h1 @ upd) \<and>
         ou_Cleanup ou objects1 (h1 @ upd @ app) = (None, h'))"

locale operator_utils = lifecycle_manager "ou_Update ou" "ou_Cleanup ou" c d "recorded w c d"
  for w :: world and ou :: operatorUtils and c :: codec and d :: lifecycleManager
begin

lemma ApplyAll_tail:
  assumes run: "ApplyAll w ou builders s h = ((r, s'), h')"
    and b1: "buildObjects ou builders s = (Ret dryObjects, s1)"
    and b2: "buildObjects ou builders s1 = (Ret objects, s2)"
    and dry: "batch_accepted w dryObjects True h"
  shows "\<exists>upd app del.
    apply_all_phases w ou c d builders s h h' dryObjects objects upd app del \<and>
    (r = Ret None \<longrightarrow> s' = s2 \<and> apply_all_done w ou h h' dryObjects objects upd app)"
proof -
  let ?h1 = "h @ map (apply_call True) dryObjects"
  obtain e2 h2 where u: "ou_Update ou objects ?h1 = (e2, h2)" by force
  obtain upd where upd: "h2 = ?h1 @ upd" "list_all (update_call c d objects) upd"
    using update_trace [of objects ?h1] u by auto
  let ?app = "map (apply_call False) objects"
  let ?objects1 = "map (\<lambda>i. fst (apply_response w objects False h2 i)) [0..<length objects]"
  obtain e4 h4 where cl: "ou_Cleanup ou ?objects1 (h2 @ ?app) = (e4, h4)" by force
  obtain del where del: "h4 = (h2 @ ?app) @ del" "list_all (cleanup_call (recorded w c d) ?objects1) del"
    using cleanup_trace [of ?objects1 "h2 @ ?app"] cl by auto
  have dry1: "snd (fst (applyObjects w dryObjects True [] h)) = None"
    using applyObjects_error [of w dryObjects True "[]" h] dry by simp
  have accepted: "snd (fst (applyObjects w objects False [] h2)) = None \<longleftrightarrow> batch_accepted w objects False h2"
    using applyObjects_error [of w objects False "[]" h2] by simp
  have eq: "ApplyAll w ou builders s h =
      (if e2 \<noteq> None then ((Ret e2, s2), h2)
       else if snd (fst (applyObjects w objects False [] h2)) \<noteq> None
       then ((Ret (snd (fst (applyObjects w objects False [] h2))), s2), h2 @ ?app)
       else ((Ret e4, s2), h4))"
    using u cl by (simp add: ApplyAll_def newMultiErrorBuilder_def split_beta b1 b2 dry1
        applyObjects_history applyObjects_objects)
  show ?thesis
  proof (cases "e2 = None \<and> batch_accepted w objects False h2")
    case True
    with eq run accepted have "h' = h4" "s' = s2" by auto
    moreover have "r = Ret None \<longrightarrow> e4 = None" using True eq run accepted by auto
    ultimately show ?thesis using True upd del u cl dry b1 b2
      by (intro exI [of _ upd] exI [of _ ?app] exI [of _ del])
        (simp add: apply_all_phases_def apply_all_done_def)
  next
    case False
    show ?thesis
    proof (cases "e2 = None")
      case True
      with False eq run accepted have "h' = h2 @ ?app" "r \<noteq> Ret None" by auto
      with True upd u dry b1 b2 show ?thesis
        by (intro exI [of _ upd] exI [of _ ?app] exI [of _ "[]"]) (simp add: apply_all_phases_def)
    next
      case e2: False
      with eq run have "h' = h2" "r \<noteq> Ret None" by auto
      with upd dry b1 b2 show ?thesis
        by (intro exI [of _ upd] exI [of _ "[]"]) (simp add: apply_all_phases_def)
    qed
  qed
qed

lemma ApplyAll_phases:
  assumes run: "ApplyAll w ou builders s h = ((r, s'), h')"
  shows "\<exists>dryObjects objects upd app del.
    apply_all_phases w ou c d builders s h h' dryObjects objects upd app del \<and>
    (r = Ret None \<longrightarrow> apply_all_done w ou h h' dryObjects objects upd app \<and>
       (\<exists>s1. buildObjects ou builders s = (Ret dryObjects, s1) \<and>
             buildObjects ou builders s1 = (Ret objects, s')))"
proof (cases "fst (buildObjects ou builders s)")
  case (Panic p)
  with run have "h' = h" "r = Panic p" by (auto simp: ApplyAll_def split_beta)
  then show ?thesis
    by (intro exI [of _ "[]"]) (simp add: apply_all_phases_def)
next
  case (Ret dryObjects)
  define s1 where "s1 = snd (buildObjects ou builders s)"
  let ?h1 = "h @ map (apply_call True) dryObjects"
  have b1: "buildObjects ou builders s = (Ret dryObjects, s1)" using Ret by (simp add: s1_def prod_eq_iff)
  show ?thesis
  proof (cases "batch_accepted w dryObjects True h")
    case False
    then have "h' = ?h1" "r \<noteq> Ret None"
      using run b1 applyObjects_error [of w dryObjects True "[]" h] applyObjects_history [of w dryObjects True "[]" h]
      by (auto simp: ApplyAll_def newMultiErrorBuilder_def split_beta split: if_splits)
    then show ?thesis
      by (intro exI [of _ dryObjects] exI [of _ "[]"]) (simp add: apply_all_phases_def)
  next
    case dry: True
    show ?thesis
    proof (cases "fst (buildObjects ou builders s1)")
      case (Panic p)
      then have "h' = ?h1" "r = Panic p"
        using run b1 dry applyObjects_error [of w dryObjects True "[]" h] applyObjects_history [of w dryObjects True "[]" h]
        by (auto simp: ApplyAll_def newMultiErrorBuilder_def split_beta split: if_splits)
      then show ?thesis
        by (intro exI [of _ dryObjects] exI [of _ "[]"]) (simp add: apply_all_phases_def)
    next
      case (Ret objects)
      define s2 where "s2 = snd (buildObjects ou builders s1)"
      have b2: "buildObjects ou builders s1 = (Ret objects, s2)" using Ret by (simp add: s2_def prod_eq_iff)
      show ?thesis using ApplyAll_tail [OF run b1 b2 dry] b1 b2 by blast
    qed
  qed
qed

lemma ApplyAll_deletes:
  assumes id: "keeps_identity w" and run: "ApplyAll w ou builders s h = ((r, s'), h')"
    and del: "CDelete x \<in> set (drop (length h) h')"
  shows "\<exists>dryObjects objects s1 g u.
    buildObjects ou builders s = (Ret dryObjects, s1) \<and>
    fst (buildObjects ou builders s1) = Ret objects \<and> batch_accepted w objects False g \<and>
    x = asObject u \<and> recorded w c d u \<and> u \<notin> set (map asUnstructured objects)"
proof -
  from ApplyAll_phases [OF run] obtain dryObjects objects upd app dl where
    ph: "apply_all_phases w ou c d builders s h h' dryObjects objects upd app dl" by blast
  let ?g = "h @ map (apply_call True) dryObjects @ upd"
  let ?objects1 = "map (\<lambda>i. fst (apply_response w objects False ?g i)) [0..<length objects]"
  have same: "map asUnstructured ?objects1 = map asUnstructured objects"
    using id by (auto intro!: nth_equalityI
        simp: apply_response_def keeps_identity_def asUnstructured_def)
  from ph have tr: "drop (length h) h' = map (apply_call True) dryObjects @ upd @ app @ dl"
    and upd: "list_all (update_call c d objects) upd"
    and dl: "list_all (cleanup_call (recorded w c d) ?objects1) dl"
    and app: "app @ dl \<noteq> [] \<longrightarrow> app = map (apply_call False) objects"
    by (auto simp: apply_all_phases_def Let_def)
  have "CDelete x \<notin> set upd" using upd by (auto simp: list_all_iff update_call_def)
  moreover have "CDelete x \<notin> set app" using app by (cases "app = []") auto
  ultimately have "CDelete x \<in> set dl" using del tr by auto
  with dl same obtain u where "x = asObject u" "recorded w c d u" "u \<notin> set (map asUnstructured objects)"
    by (fastforce simp: list_all_iff cleanup_call_def)
  moreover from \<open>CDelete x \<in> set dl\<close> ph obtain s1 where
    "buildObjects ou builders s = (Ret dryObjects, s1)" "fst (buildObjects ou builders s1) = Ret objects"
    "batch_accepted w objects False ?g"
    by (auto simp: apply_all_phases_def Let_def)
  ultimately show ?thesis by blast
qed

end

interpretation agent_ou: operator_utils w "newOperatorUtils w c ver agent" c
  "newDependentLifecycleManager ver agent" for w c ver agent
  by unfold_locales
    (simp_all add: newOperatorUtils_def Let_def agent_lm.update_emits agent_lm.cleanup_emits)

interpretation remote_ou: operator_utils w "newRemoteOperatorUtils w c ver agent" c
  "newRemoteDependentLifecycleManager ver agent" for w c ver agent
  by unfold_locales
    (simp_all add: newRemoteOperatorUtils_def Let_def remote_lm.update_emits remote_lm.cleanup_emits)

subsection \<open>Properties\<close>

text \<open>The last call of a recording phase that returned \<open>nil\<close>.\<close>

lemma updateDependentLifecycleInfo_sent:
  assumes "updateDependentLifecycleInfo w c d objects h = (None, h @ upd)"
  obtains u cm where "upd = u @ [CApply cm False]" "records_dependents c d objects cm"
    "snd (sv_apply w (h @ u) cm False) = None \<or> isConflict (snd (sv_apply w (h @ u) cm False))"
proof -
  from assms have "retryFrom 5 (ms 100) (updateAttempt w c d objects) (Suc 4) h = (None, h @ upd)"
    by (simp only: updateDependentLifecycleInfo_def retry_5)
  from retryFrom_last [OF this, of 4] obtain g finished e where g: "prefix h g" and
    att: "updateAttempt w c d objects g = ((finished, e), h @ upd)" and e: "if finished then None = e else True"
    by (auto simp: updateAttempt_def applyDependentsRecord_eq)
  from updateAttempt_finished [OF att] obtain g' cm where
    last: "h @ upd = g' @ [CApply cm False]" "records_dependents c d objects cm"
    and answer: "e = snd (sv_apply w g' cm False)" "finished = (e = None \<or> \<not> isConflict e)" by blast
  have "strict_prefix g (snd (updateAttempt w c d objects g))"
    by (simp add: updateAttempt_def applyDependentsRecord_eq strict_prefix_def)
  with att have "strict_prefix g (h @ upd)" by simp
  with g have "upd \<noteq> []" by (auto dest: prefix_order.le_less_trans)
  then obtain u x where upd: "upd = u @ [x]" by (cases upd rule: rev_cases) auto
  with last(1) have "(h @ u) @ [x] = g' @ [CApply cm False]" by simp
  then have u: "h @ u = g'" "x = CApply cm False" by (simp_all only: append1_eq_conv)
  have "snd (sv_apply w g' cm False) = None \<or> isConflict (snd (sv_apply w g' cm False))"
    using e unfolding answer by presburger
  with last(2) upd u show thesis by (intro that [of u cm]) simp_all
qed

lemma apply_all_done_record:
  assumes "apply_all_done w (newOperatorUtils w c ver agent) h h' dryObjects objects upd app"
  shows "\<exists>u cm. upd = u @ [CApply cm False] \<and>
    records_dependents c (newDependentLifecycleManager ver agent) objects cm \<and>
    (let answer = snd (sv_apply w (h @ map (apply_call True) dryObjects @ u) cm False)
     in answer = None \<or> isConflict answer)"
proof -
  let ?d = "newDependentLifecycleManager ver agent"
  let ?h1 = "h @ map (apply_call True) dryObjects"
  from assms have run: "updateDependentLifecycleInfo w c ?d objects ?h1 = (None, ?h1 @ upd)"
    by (simp add: apply_all_done_def newOperatorUtils_def Let_def)
  obtain u cm where upd: "upd = u @ [CApply cm False]" "records_dependents c ?d objects cm"
    "snd (sv_apply w (?h1 @ u) cm False) = None \<or> isConflict (snd (sv_apply w (?h1 @ u) cm False))"
    by (rule updateDependentLifecycleInfo_sent [OF run])
  then show ?thesis by (auto simp: Let_def)
qed

text \<open>
  C7: the order of the effects of the agent's \<open>ApplyAll\<close>. Its calls are, in this order, dry-run
  applies, the calls that record the dependents, the applies of the same objects, and the
  clean-up. The record is sent only when every dry run was accepted, the objects are applied only
  when recording returned no error, and the clean-up starts only when every object was accepted.
  The run returns \<open>nil\<close> only when all objects were built, every dry run and every apply was
  accepted, the clean-up returned \<open>nil\<close>, and the last call of the recording phase sent the
  ConfigMap that lists exactly these objects under the current generation; the server accepted
  that ConfigMap or refused it with a conflict, which \<open>retry\<close> does not report after its last
  attempt.
\<close>

theorem ApplyAll_order:
  fixes w c ver agent
  defines "ou \<equiv> newOperatorUtils w c ver agent" and "d \<equiv> newDependentLifecycleManager ver agent"
  assumes run: "ApplyAll w ou builders s h = ((r, s'), h')"
  shows "\<exists>dryObjects objects upd app del.
    apply_all_phases w ou c d builders s h h' dryObjects objects upd app del \<and>
    (r = Ret None \<longrightarrow> apply_all_done w ou h h' dryObjects objects upd app \<and>
       (\<exists>s1. buildObjects ou builders s = (Ret dryObjects, s1) \<and>
             buildObjects ou builders s1 = (Ret objects, s')) \<and>
       (\<exists>u cm. upd = u @ [CApply cm False] \<and> records_dependents c d objects cm \<and>
          (let answer = snd (sv_apply w (h @ map (apply_call True) dryObjects @ u) cm False)
           in answer = None \<or> isConflict answer)))"
proof -
  from agent_ou.ApplyAll_phases [OF run [unfolded ou_def]] obtain dryObjects objects upd app del where
    ph: "apply_all_phases w ou c d builders s h h' dryObjects objects upd app del" and
    nil: "r = Ret None \<longrightarrow> apply_all_done w ou h h' dryObjects objects upd app \<and>
       (\<exists>s1. buildObjects ou builders s = (Ret dryObjects, s1) \<and>
             buildObjects ou builders s1 = (Ret objects, s'))"
    unfolding ou_def d_def by blast
  have "\<exists>u cm. upd = u @ [CApply cm False] \<and> records_dependents c d objects cm \<and>
      (let answer = snd (sv_apply w (h @ map (apply_call True) dryObjects @ u) cm False)
       in answer = None \<or> isConflict answer)"
    if "apply_all_done w ou h h' dryObjects objects upd app"
    using that unfolding ou_def d_def by (rule apply_all_done_record)
  with ph nil show ?thesis by blast
qed

text \<open>
  A run with nothing to build, in a world whose lifecycle ConfigMap records a Secret of an older
  generation: the Secret is deleted, verified absent, and the run succeeds.
\<close>

abbreviation exampleUtils :: operatorUtils where
  "exampleUtils \<equiv> newOperatorUtils oldRecordWorld oneEntryCodec ''v1'' exampleAgent"

lemma ApplyAll_example:
  "\<exists>h'. ApplyAll oldRecordWorld exampleUtils [] () [] = ((Ret None, ()), h') \<and>
     CDelete (asObject secretRef) \<in> set h'"
proof -
  let ?d = "newDependentLifecycleManager ''v1'' exampleAgent"
  obtain cm where u: "updateDependentLifecycleInfo oldRecordWorld oneEntryCodec ?d [] [] =
      (None, [CGet gvk_ConfigMap (lifecycleKey ?d), CApply cm False])"
    using updateDependentLifecycleInfo_first [of oldRecordWorld oneEntryCodec ?d "[]" "[]"] by auto
  let ?h = "[CGet gvk_ConfigMap (lifecycleKey ?d), CApply cm False]"
  from cleanup_oldRecord [of ?h] cleanupDependents_oldRecord [of ?h] u show ?thesis
    by (auto simp: ApplyAll_def buildObjects_def newOperatorUtils_def Let_def exampleManager_def
        newMultiErrorBuilder_def)
qed

theorem ApplyAll_order_witness:
  "\<exists>h' dryObjects objects upd app del.
     ApplyAll oldRecordWorld exampleUtils [] () [] = ((Ret None, ()), h') \<and>
     apply_all_phases oldRecordWorld exampleUtils oneEntryCodec
       (newDependentLifecycleManager ''v1'' exampleAgent) [] () [] h' dryObjects objects upd app del \<and>
     (\<exists>u cm. upd = u @ [CApply cm False] \<and>
        records_dependents oneEntryCodec (newDependentLifecycleManager ''v1'' exampleAgent) objects cm)"
proof -
  obtain h' where run: "ApplyAll oldRecordWorld exampleUtils [] () [] = ((Ret None, ()), h')"
    using ApplyAll_example by auto
  from ApplyAll_order [OF this] obtain dryObjects objects upd app del u cm where
    "apply_all_phases oldRecordWorld exampleUtils oneEntryCodec
       (newDependentLifecycleManager ''v1'' exampleAgent) [] () [] h' dryObjects objects upd app del"
    "upd = u @ [CApply cm False]"
    "records_dependents oneEntryCodec (newDependentLifecycleManager ''v1'' exampleAgent) objects cm"
    by (elim exE conjE impE) (rule refl, blast)
  with run show ?thesis
    by (intro exI [of _ h'] exI [of _ dryObjects] exI [of _ objects] exI [of _ upd] exI [of _ app]
        exI [of _ del] exI [of _ u] exI [of _ cm] conjI)
qed

text \<open>
  C8: \<open>ApplyAll\<close> never deletes an object of the generation it applies: whatever it deletes was
  recorded by an earlier run, is not among the objects just built and applied, and is deleted
  only after all of those were accepted. (The server's answers keep an object's kind, name and
  namespace.)
\<close>

theorem ApplyAll_never_deletes_current:
  assumes "keeps_identity w"
    and "ApplyAll w (newOperatorUtils w c ver agent) builders s h = ((r, s'), h')"
    and "CDelete x \<in> set (drop (length h) h')"
  shows "\<exists>dryObjects objects s1 g u.
    buildObjects (newOperatorUtils w c ver agent) builders s = (Ret dryObjects, s1) \<and>
    fst (buildObjects (newOperatorUtils w c ver agent) builders s1) = Ret objects \<and>
    batch_accepted w objects False g \<and>
    x = asObject u \<and> recorded w c (newDependentLifecycleManager ver agent) u \<and>
    u \<notin> set (map asUnstructured objects)"
  using assms by (rule agent_ou.ApplyAll_deletes)

lemma keeps_identity_oldRecordWorld: "keeps_identity oldRecordWorld"
  by (simp add: keeps_identity_def)

theorem ApplyAll_never_deletes_current_witness:
  "\<exists>h' objects u.
     ApplyAll oldRecordWorld exampleUtils [] () [] = ((Ret None, ()), h') \<and>
     CDelete (asObject secretRef) \<in> set h' \<and>
     asObject secretRef = asObject u \<and> u \<notin> set (map asUnstructured objects)"
proof -
  obtain h' where run: "ApplyAll oldRecordWorld exampleUtils [] () [] = ((Ret None, ()), h')"
    and del: "CDelete (asObject secretRef) \<in> set (drop (length ([] :: history)) h')"
    using ApplyAll_example by auto
  from ApplyAll_never_deletes_current [OF keeps_identity_oldRecordWorld run del] run del
  show ?thesis by auto
qed

text \<open>
  \<open>DeleteAll\<close>, the clean-up at uninstallation, may delete any recorded object and nothing else.
\<close>

theorem DeleteAll_deletes_recorded:
  assumes "CDelete x \<in> set (drop (length h) (snd (DeleteAll (newOperatorUtils w c ver agent) h)))"
  shows "\<exists>u. x = asObject u \<and> recorded w c (newDependentLifecycleManager ver agent) u"
proof -
  let ?d = "newDependentLifecycleManager ver agent"
  obtain tr where "snd (cleanupDependents w c ?d [] h) = h @ tr"
    "list_all (cleanup_call (recorded w c ?d) []) tr" by (rule agent_lm.cleanup_trace)
  with assms show ?thesis
    by (auto simp: DeleteAll_def newOperatorUtils_def Let_def list_all_iff cleanup_call_def)
qed

theorem DeleteAll_deletes_recorded_witness:
  "CDelete (asObject secretRef) \<in> set (snd (DeleteAll exampleUtils [])) \<and>
   (\<exists>u. asObject secretRef = asObject u \<and>
        recorded oldRecordWorld oneEntryCodec (newDependentLifecycleManager ''v1'' exampleAgent) u)"
proof -
  have "CDelete (asObject secretRef) \<in> set (snd (DeleteAll exampleUtils []))"
    using cleanup_oldRecord [of "[]"] cleanupDependents_oldRecord [of "[]"]
    by (auto simp: DeleteAll_def newOperatorUtils_def Let_def exampleManager_def)
  with DeleteAll_deletes_recorded [of "asObject secretRef" "[]" oldRecordWorld oneEntryCodec "''v1''"
      exampleAgent] show ?thesis by simp
qed

end
