(* ===== verification/Status.thy ===== *)
theory Status
  imports Client
begin

text \<open>
  The status managers (\<open>src/pkg/k8s/operator/status\<close>): they collect the keys of the objects that
  the builders produced and, at the end of a reconciliation, fetch those objects, compute the
  new status of the custom resource with its conditions, fire an event for each condition and
  patch the status. The semantic version library and \<open>meta.SetStatusCondition\<close> of the API
  machinery are parameters (\<open>statusEnv\<close>), as is the operator's version.
\<close>

record statusEnv =
  se_Version :: string
  se_parseVersion :: "string \<Rightarrow> string option"
  se_versionEqual :: "string \<Rightarrow> string \<Rightarrow> bool"
  se_setCondition :: "condition \<Rightarrow> condition list \<Rightarrow> condition list"

subsection \<open>\<open>helpers.go\<close>\<close>

abbreviation ConditionTypeReconcileSucceeded :: string where
  "ConditionTypeReconcileSucceeded \<equiv> ''ReconcileSucceeded''"
abbreviation ConditionTypeAllAgentsAvailable :: string where
  "ConditionTypeAllAgentsAvailable \<equiv> ''AllAgentsAvailable''"
abbreviation ConditionTypeAllK8sSensorsAvailable :: string where
  "ConditionTypeAllK8sSensorsAvailable \<equiv> ''AllK8sSensorsAvailable''"

definition getAgentPhase :: "error \<Rightarrow> string" where
  "getAgentPhase reconcileErr = (if reconcileErr \<noteq> None then ''Failed'' else ''Running'')"

definition getReason :: "error \<Rightarrow> string" where
  "getReason reconcileErr = (case reconcileErr of None \<Rightarrow> '''' | Some e \<Rightarrow> err_msg e)"

definition toResourceInfo :: "k8sObject \<Rightarrow> resourceInfo result" where
  "toResourceInfo obj = result_OfSuccess \<lparr>ri_Name = get_name obj, ri_UID = om_UID (ko_Meta obj)\<rparr>"

definition truncateMessage :: "string \<Rightarrow> string" where
  "truncateMessage message = (if length message \<le> 32768 then message else take 32768 message)"

definition eventTypeFromCondition :: "condition \<Rightarrow> string" where
  "eventTypeFromCondition c = (if cond_Status c = ''True'' then ''Normal'' else ''Warning'')"

definition ds_Status :: "k8sObject \<Rightarrow> daemonSetStatus" where
  "ds_Status ds = (case ko_Body ds of DaemonSetBody spec st \<Rightarrow> st | _ \<Rightarrow> emptyDaemonSetStatus)"

definition daemonsetIsAvailable :: "k8sObject \<Rightarrow> bool" where
  "daemonsetIsAvailable ds =
     (let status = ds_Status ds in
      if isNotPresent (optional_Of emptyDaemonSetStatus status) then False
      else if om_Generation (ko_Meta ds) \<noteq> dst_ObservedGeneration status then False
      else if dst_NumberMisscheduled status \<noteq> 0 then False
      else if dst_DesiredNumberScheduled status \<noteq> dst_NumberAvailable status then False
      else if dst_DesiredNumberScheduled status \<noteq> dst_UpdatedNumberScheduled status then False
      else True)"

definition dp_Status :: "k8sObject \<Rightarrow> deploymentStatus" where
  "dp_Status dpl = (case ko_Body dpl of DeploymentBody spec st \<Rightarrow> st
     | _ \<Rightarrow> emptyDeploymentStatus)"

definition deploymentConditionsAsMap ::
  "deploymentCondition list \<Rightarrow> (string, deploymentCondition) gomap" where
  "deploymentConditionsAsMap conditions =
     for_each (\<lambda>c res. gm_put (dc_Type c) c res) conditions []"

definition deploymentHasMinimumAvailability :: "(string, deploymentCondition) gomap \<Rightarrow> bool" where
  "deploymentHasMinimumAvailability conditions =
     (case gm_get conditions ''Available'' of Some c \<Rightarrow> dc_Status c = ''True'' | None \<Rightarrow> False)"

definition deploymentIsComplete :: "(string, deploymentCondition) gomap \<Rightarrow> bool" where
  "deploymentIsComplete conditions =
     (case gm_get conditions ''Progressing'' of
        Some c \<Rightarrow> dc_Status c = ''True'' \<and> dc_Reason c = ''NewReplicaSetAvailable''
      | None \<Rightarrow> False)"

definition deploymentHasReplicaFailures :: "(string, deploymentCondition) gomap \<Rightarrow> bool" where
  "deploymentHasReplicaFailures conditions =
     (case gm_get conditions ''ReplicaFailure'' of Some c \<Rightarrow> dc_Status c = ''True'' | None \<Rightarrow> False)"

definition deploymentIsAvailableAndComplete :: "k8sObject \<Rightarrow> bool" where
  "deploymentIsAvailableAndComplete dpl =
     (let conditions = deploymentConditionsAsMap (dpst_Conditions (dp_Status dpl)) in
      if dpst_ObservedGeneration (dp_Status dpl) \<noteq> om_Generation (ko_Meta dpl) then False
      else if \<not> deploymentHasMinimumAvailability conditions then False
      else if \<not> deploymentIsComplete conditions then False
      else if deploymentHasReplicaFailures conditions then False
      else True)"

definition objectKeyHasNoName :: "namespacedName \<Rightarrow> bool" where
  "objectKeyHasNoName key = (nn_Name key = '''')"

definition emptyKey :: namespacedName where
  "emptyKey = \<lparr>nn_Namespace = '''', nn_Name = ''''\<rparr>"

text \<open>The setters of the status: in Go closures over \<open>agentNew\<close>, here functions on its status.\<close>

definition setStatusDotDaemonset :: "resourceInfo \<Rightarrow> instanaAgentStatus \<Rightarrow> instanaAgentStatus" where
  "setStatusDotDaemonset ds st = st\<lparr>st_DaemonSet := ds\<rparr>"

definition setStatusDotDeployment :: "resourceInfo \<Rightarrow> instanaAgentRemoteStatus \<Rightarrow> instanaAgentRemoteStatus" where
  "setStatusDotDeployment deployment st = st\<lparr>rst_Deployment := deployment\<rparr>"

definition setStatusDotConfigSecret :: "resourceInfo \<Rightarrow> instanaAgentStatus \<Rightarrow> instanaAgentStatus" where
  "setStatusDotConfigSecret cm st = st\<lparr>st_ConfigSecret := cm\<rparr>"

definition setStatusDotNamespacesConfigmap :: "resourceInfo \<Rightarrow> instanaAgentStatus \<Rightarrow> instanaAgentStatus" where
  "setStatusDotNamespacesConfigmap cm st = st\<lparr>st_NamespacesConfigMap := cm\<rparr>"

definition setStatusDotConfigSecretRemote :: "resourceInfo \<Rightarrow> instanaAgentRemoteStatus \<Rightarrow> instanaAgentRemoteStatus" where
  "setStatusDotConfigSecretRemote cm st = st\<lparr>rst_ConfigSecret := cm\<rparr>"

definition setStatusDotOperatorVersion :: "string \<Rightarrow> instanaAgentStatus \<Rightarrow> instanaAgentStatus" where
  "setStatusDotOperatorVersion version st = st\<lparr>st_OperatorVersion := Some version\<rparr>"

definition setStatusDotOperatorVersionRemote :: "string \<Rightarrow> instanaAgentRemoteStatus \<Rightarrow> instanaAgentRemoteStatus" where
  "setStatusDotOperatorVersionRemote version st = st\<lparr>rst_OperatorVersion := Some version\<rparr>"

lemmas status_setters [simp] = setStatusDotDaemonset_def setStatusDotDeployment_def setStatusDotConfigSecret_def
  setStatusDotNamespacesConfigmap_def setStatusDotConfigSecretRemote_def setStatusDotOperatorVersion_def
  setStatusDotOperatorVersionRemote_def

subsection \<open>\<open>agent_status_manager.go\<close>: the collected keys\<close>

record agentStatusManager =
  sm_agentOld :: "instanaAgent option"
  sm_agentDaemonsets :: "namespacedName list"
  sm_k8sSensorDeployment :: namespacedName
  sm_agentSecretConfig :: namespacedName
  sm_agentNamespacesConfigmap :: namespacedName

definition newAgentStatusManager :: agentStatusManager where
  "newAgentStatusManager = \<lparr>sm_agentOld = None, sm_agentDaemonsets = [],
     sm_k8sSensorDeployment = emptyKey, sm_agentSecretConfig = emptyKey,
     sm_agentNamespacesConfigmap = emptyKey\<rparr>"

definition addAgentDaemonset :: "namespacedName \<Rightarrow> agentStatusManager \<Rightarrow> agentStatusManager" where
  "addAgentDaemonset key a =
     (if \<not> set_Contains (toSet (sm_agentDaemonsets a)) key
      then a\<lparr>sm_agentDaemonsets := sm_agentDaemonsets a @ [key]\<rparr> else a)"

definition setAgentOld :: "instanaAgent \<Rightarrow> agentStatusManager \<Rightarrow> agentStatusManager" where
  "setAgentOld agent a = a\<lparr>sm_agentOld := Some agent\<rparr>"

definition setK8sSensorDeployment :: "namespacedName \<Rightarrow> agentStatusManager \<Rightarrow> agentStatusManager" where
  "setK8sSensorDeployment key a = a\<lparr>sm_k8sSensorDeployment := key\<rparr>"

definition setAgentSecretConfig :: "namespacedName \<Rightarrow> agentStatusManager \<Rightarrow> agentStatusManager" where
  "setAgentSecretConfig key a = a\<lparr>sm_agentSecretConfig := key\<rparr>"

definition setAgentNamespacesConfigMap :: "namespacedName \<Rightarrow> agentStatusManager \<Rightarrow> agentStatusManager" where
  "setAgentNamespacesConfigMap key a = a\<lparr>sm_agentNamespacesConfigmap := key\<rparr>"

subsection \<open>Fetching the objects\<close>

definition emptyResourceInfo :: resourceInfo where
  "emptyResourceInfo = \<lparr>ri_Name = '''', ri_UID = ''''\<rparr>"

definition fetchInfo ::
  "world \<Rightarrow> groupVersionKind \<Rightarrow> namespacedName \<Rightarrow> history \<Rightarrow> resourceInfo result \<times> history" where
  "fetchInfo w gvk key h =
     (case client_GetAsResult w gvk key h of (r, h1) \<Rightarrow>
        (result_Map emptyResourceInfo r toResourceInfo, h1))"

definition getDaemonSet :: "world \<Rightarrow> agentStatusManager \<Rightarrow> history \<Rightarrow> resourceInfo result \<times> history" where
  "getDaemonSet w a h =
     (case sm_agentDaemonsets a of
        [key] \<Rightarrow> fetchInfo w gvk_DaemonSet key h
      | _ \<Rightarrow> (result_OfSuccess emptyResourceInfo, h))"

definition getConfigSecret :: "world \<Rightarrow> agentStatusManager \<Rightarrow> history \<Rightarrow> resourceInfo result \<times> history" where
  "getConfigSecret w a h =
     (if objectKeyHasNoName (sm_agentSecretConfig a) then (result_OfSuccess emptyResourceInfo, h)
      else fetchInfo w gvk_Secret (sm_agentSecretConfig a) h)"

definition getNamespacesConfigMap :: "world \<Rightarrow> agentStatusManager \<Rightarrow> history \<Rightarrow> resourceInfo result \<times> history" where
  "getNamespacesConfigMap w a h =
     (if objectKeyHasNoName (sm_agentNamespacesConfigmap a) then (result_OfSuccess emptyResourceInfo, h)
      else fetchInfo w gvk_ConfigMap (sm_agentNamespacesConfigmap a) h)"

text \<open>Fetching a list of workloads; the first failure ends the loop.\<close>

fun fetchAll ::
  "world \<Rightarrow> groupVersionKind \<Rightarrow> namespacedName list \<Rightarrow> history \<Rightarrow>
   ((namespacedName \<times> goerr) + k8sObject list) \<times> history" where
  "fetchAll w gvk [] h = (Inr [], h)"
| "fetchAll w gvk (key # keys) h =
     (case client_GetAsResult w gvk key h of (r, h1) \<Rightarrow>
        (case result_Get r of
           (obj, Some e) \<Rightarrow> (Inl (key, e), h1)
         | (obj, None) \<Rightarrow>
           (case fetchAll w gvk keys h1 of
              (Inl f, h2) \<Rightarrow> (Inl f, h2)
            | (Inr objs, h2) \<Rightarrow> (Inr (obj # objs), h2))))"

subsection \<open>Conditions\<close>

definition newCondition :: "string \<Rightarrow> int \<Rightarrow> string \<Rightarrow> string \<Rightarrow> string \<Rightarrow> condition" where
  "newCondition type gen status reason message =
     \<lparr>cond_Type = type, cond_Status = status, cond_ObservedGeneration = gen,
      cond_LastTransitionTime = 0, cond_Reason = reason, cond_Message = message\<rparr>"

definition emptyCondition :: condition where
  "emptyCondition = newCondition '''' 0 '''' '''' ''''"

definition reconcileSucceededCondition :: "string \<Rightarrow> int \<Rightarrow> error \<Rightarrow> condition" where
  "reconcileSucceededCondition what gen reconcileErr =
     (case reconcileErr of
        None \<Rightarrow> newCondition ConditionTypeReconcileSucceeded gen ''True'' ''ReconcileSucceeded''
                  (''most recent reconcile of '' @ what @ '' CR completed without issue'')
      | Some e \<Rightarrow> newCondition ConditionTypeReconcileSucceeded gen ''False'' ''ReconcileFailed''
                  (truncateMessage (err_msg e)))"

abbreviation agentGeneration :: "agentStatusManager \<Rightarrow> int" where
  "agentGeneration a \<equiv> om_Generation (ag_Meta (the (sm_agentOld a)))"

definition getReconcileSucceededCondition :: "agentStatusManager \<Rightarrow> error \<Rightarrow> condition" where
  "getReconcileSucceededCondition a reconcileErr =
     reconcileSucceededCondition ''agent'' (agentGeneration a) reconcileErr"

definition getAllAgentsAvailableCondition ::
  "world \<Rightarrow> agentStatusManager \<Rightarrow> history \<Rightarrow> condition result \<times> history" where
  "getAllAgentsAvailableCondition w a h =
     (let cond = newCondition ConditionTypeAllAgentsAvailable (agentGeneration a)
      in case fetchAll w gvk_DaemonSet (sm_agentDaemonsets a) h of
           (Inl (key, e), h1) \<Rightarrow>
             (result_Of (cond ''Unknown'' ''AgentDaemonsetInfoUnavailable''
                (truncateMessage (''failed to retrieve status of Agent Daemonset: '' @ nn_Name key @
                   '' due to error: '' @ err_msg e))) (Some e), h1)
         | (Inr daemonsets, h1) \<Rightarrow>
             (result_OfSuccess
                (if list_All daemonsetIsAvailable daemonsets
                 then cond ''True'' ''AllDesiredAgentsAvailable''
                   ''All desired Instana Agents are available and using up-to-date configuration''
                 else cond ''False'' ''NotAllDesiredAgentsAvailable''
                   ''Not all desired Instana agents are available or some Agents are not using up-to-date configuration''),
              h1))"

definition updateWasPerformed :: "statusEnv \<Rightarrow> instanaAgent \<Rightarrow> bool" where
  "updateWasPerformed env agentOld =
     (let operatorVersion = se_parseVersion env (se_Version env); st = ag_Status agentOld in
      case st_ObservedGeneration st of
        None \<Rightarrow> False
      | Some g \<Rightarrow>
        if g \<noteq> om_Generation (ag_Meta agentOld) then True
        else (case st_OperatorVersion st of
                None \<Rightarrow> False
              | Some v \<Rightarrow> (case operatorVersion of
                             None \<Rightarrow> True
                           | Some ov \<Rightarrow> if \<not> se_versionEqual env v ov then True else False)))"

definition getAllK8sSensorsAvailableCondition ::
  "world \<Rightarrow> agentStatusManager \<Rightarrow> history \<Rightarrow> condition result \<times> history" where
  "getAllK8sSensorsAvailableCondition w a h =
     (let cond = newCondition ConditionTypeAllK8sSensorsAvailable (agentGeneration a);
          key = sm_k8sSensorDeployment a
      in if \<not> derefOrDefault (kd_Enabled (ks_DeploymentSpec (ag_K8sSensor (the (sm_agentOld a))))) True
         then (result_OfFailure emptyCondition (Some (EPlain ''k8sensor is disabled'')), h)
         else if objectKeyHasNoName key
         then (result_OfSuccess (cond ''Unknown'' ''K8sensorDeploymentNotConfigured''
                 ''k8sensor deployment has not been configured for this agent''), h)
         else (case client_GetAsResult w gvk_Deployment key h of (r, h1) \<Rightarrow>
           (case result_Get r of
              (_, Some e) \<Rightarrow>
                (result_Of (cond ''Unknown'' ''K8sensorDeploymentInfoUnavailable''
                   (truncateMessage (''failed to retrieve status of k8sensor deployment: '' @
                      nn_Name key @ '' due to error: '' @ err_msg e))) (Some e), h1)
            | (deployment, None) \<Rightarrow>
                (result_OfSuccess
                   (if deploymentIsAvailableAndComplete deployment
                    then cond ''True'' ''AllDesiredK8sensorsAvailable''
                      ''All desired k8sensors are available and using up-to-date configuration''
                    else cond ''False'' ''NotAllDesiredK8sensorsAvailable''
                      ''Not all desired k8sensors are available or some k8sensors are not using up-to-date configuration''),
                 h1))))"

subsection \<open>The new status\<close>

definition setConditionAndFireEvent ::
  "statusEnv \<Rightarrow> condition \<Rightarrow> condition list \<Rightarrow> history \<Rightarrow> condition list \<times> history" where
  "setConditionAndFireEvent env c conditions h =
     (se_setCondition env c conditions,
      h @ [CEvent (eventTypeFromCondition c) (cond_Reason c) (cond_Message c)])"

definition agentWithUpdatedStatus ::
  "world \<Rightarrow> statusEnv \<Rightarrow> agentStatusManager \<Rightarrow> error \<Rightarrow> history \<Rightarrow> instanaAgent result \<times> history" where
  "agentWithUpdatedStatus w env a reconcileErr h =
     (let agentOld = the (sm_agentOld a);
          st = (ag_Status agentOld)\<lparr>st_Status := getAgentPhase reconcileErr,
                 st_Reason := getReason reconcileErr, st_LastUpdate := sv_now w h\<rparr>
      in case getDaemonSet w a h of (ds, h1) \<Rightarrow>
         case getConfigSecret w a h1 of (cs, h2) \<Rightarrow>
         case getNamespacesConfigMap w a h2 of (nc, h3) \<Rightarrow>
         let errBuilder = onFailure ds meb_addSingle (newMultiErrorBuilder []);
             errBuilder = onFailure cs meb_addSingle errBuilder;
             errBuilder = onFailure nc meb_addSingle errBuilder;
             st = onSuccess ds setStatusDotDaemonset st;
             st = onSuccess cs setStatusDotConfigSecret st;
             st = onSuccess nc setStatusDotNamespacesConfigmap st;
             st = (if updateWasPerformed env agentOld then st\<lparr>st_OldVersionsUpdated := True\<rparr> else st);
             st = st\<lparr>st_ObservedGeneration := Some (om_Generation (ag_Meta agentOld))\<rparr>;
             st = (case se_parseVersion env (se_Version env) of
                     Some v \<Rightarrow> setStatusDotOperatorVersion v st | None \<Rightarrow> st)
         in case setConditionAndFireEvent env (getReconcileSucceededCondition a reconcileErr)
                   (st_Conditions st) h3 of (conds1, h4) \<Rightarrow>
            case getAllAgentsAvailableCondition w a h4 of (aa, h5) \<Rightarrow>
            case setConditionAndFireEvent env (fst (result_Get aa)) conds1 h5 of (conds2, h6) \<Rightarrow>
            case getAllK8sSensorsAvailableCondition w a h6 of (ka, h7) \<Rightarrow>
            let errBuilder = onFailure ka meb_addSingle (onFailure aa meb_addSingle errBuilder)
            in case (if isSuccess ka then setConditionAndFireEvent env (fst (result_Get ka)) conds2 h7
                     else (conds2, h7)) of (conds3, h8) \<Rightarrow>
               (result_Of (agentOld\<lparr>ag_Status := st\<lparr>st_Conditions := conds3\<rparr>\<rparr>) (meb_build errBuilder), h8))"

text \<open>
  \<open>UpdateAgentStatus\<close>. Nothing it calls can panic in the model, so the deferred \<open>Catch\<close> is
  not reached.
\<close>

definition updateAgentStatus ::
  "world \<Rightarrow> statusEnv \<Rightarrow> agentStatusManager \<Rightarrow> error \<Rightarrow> history \<Rightarrow> error \<times> history" where
  "updateAgentStatus w env a reconcileErr h =
     (case sm_agentOld a of
        None \<Rightarrow> (None, h)
      | Some agentOld \<Rightarrow>
        (case agentWithUpdatedStatus w env a reconcileErr h of (r, h1) \<Rightarrow>
         let agentNew = fst (result_Get r);
             errBuilder = onFailure r meb_addSingle (newMultiErrorBuilder []);
             e = sv_statusPatchAgent w h1 agentOld agentNew;
             errBuilder = (if e \<noteq> None \<and> \<not> isNotFound e then meb_addSingle e errBuilder else errBuilder)
         in (meb_build errBuilder, h1 @ [CStatusPatchAgent agentOld agentNew])))"

subsection \<open>\<open>remote_agent_status_manager.go\<close>\<close>

record remoteStatusManager =
  rsm_agentOld :: "instanaAgentRemote option"
  rsm_agentDeployments :: "namespacedName list"
  rsm_agentSecretConfig :: namespacedName

definition newRemoteStatusManager :: remoteStatusManager where
  "newRemoteStatusManager =
     \<lparr>rsm_agentOld = None, rsm_agentDeployments = [], rsm_agentSecretConfig = emptyKey\<rparr>"

definition addAgentDeployment :: "namespacedName \<Rightarrow> remoteStatusManager \<Rightarrow> remoteStatusManager" where
  "addAgentDeployment key a =
     (if \<not> set_Contains (toSet (rsm_agentDeployments a)) key
      then a\<lparr>rsm_agentDeployments := rsm_agentDeployments a @ [key]\<rparr> else a)"

definition remote_setAgentOld :: "instanaAgentRemote \<Rightarrow> remoteStatusManager \<Rightarrow> remoteStatusManager" where
  "remote_setAgentOld agent a = a\<lparr>rsm_agentOld := Some agent\<rparr>"

definition remote_setAgentSecretConfig :: "namespacedName \<Rightarrow> remoteStatusManager \<Rightarrow> remoteStatusManager" where
  "remote_setAgentSecretConfig key a = a\<lparr>rsm_agentSecretConfig := key\<rparr>"

definition remote_getDeployment ::
  "world \<Rightarrow> remoteStatusManager \<Rightarrow> history \<Rightarrow> resourceInfo result \<times> history" where
  "remote_getDeployment w a h =
     (case rsm_agentDeployments a of
        [key] \<Rightarrow> fetchInfo w gvk_Deployment key h
      | _ \<Rightarrow> (result_OfSuccess emptyResourceInfo, h))"

definition remote_getConfigSecret ::
  "world \<Rightarrow> remoteStatusManager \<Rightarrow> history \<Rightarrow> resourceInfo result \<times> history" where
  "remote_getConfigSecret w a h =
     (if objectKeyHasNoName (rsm_agentSecretConfig a) then (result_OfSuccess emptyResourceInfo, h)
      else fetchInfo w gvk_Secret (rsm_agentSecretConfig a) h)"

abbreviation remoteGeneration :: "remoteStatusManager \<Rightarrow> int" where
  "remoteGeneration a \<equiv> om_Generation (ra_Meta (the (rsm_agentOld a)))"

definition remote_getReconcileSucceededCondition :: "remoteStatusManager \<Rightarrow> error \<Rightarrow> condition" where
  "remote_getReconcileSucceededCondition a reconcileErr =
     reconcileSucceededCondition ''instana agent remote'' (remoteGeneration a) reconcileErr"

definition remote_getAllAgentsAvailableCondition ::
  "world \<Rightarrow> remoteStatusManager \<Rightarrow> history \<Rightarrow> condition result \<times> history" where
  "remote_getAllAgentsAvailableCondition w a h =
     (let cond = newCondition ConditionTypeAllAgentsAvailable (remoteGeneration a)
      in case fetchAll w gvk_Deployment (rsm_agentDeployments a) h of
           (Inl (key, e), h1) \<Rightarrow>
             (result_Of (cond ''Unknown'' ''AgentDeploymentInfoUnavailable''
                (truncateMessage (''failed to retrieve status of Instana Agent Remote Deployment: '' @
                   nn_Name key @ '' due to error: '' @ err_msg e))) (Some e), h1)
         | (Inr deployments, h1) \<Rightarrow>
             (result_OfSuccess
                (if list_All deploymentIsAvailableAndComplete deployments \<and> length deployments > 0
                 then cond ''True'' ''AllDesiredAgentsAvailable''
                   ''All desired Instana Agent Remote are available and using up-to-date configuration''
                 else cond ''False'' ''NotAllDesiredAgentsAvailable''
                   ''Not all desired Instana Agent Remote are available or some Agents are not using up-to-date configuration''),
              h1))"

definition remoteWithUpdatedStatus ::
  "world \<Rightarrow> statusEnv \<Rightarrow> remoteStatusManager \<Rightarrow> error \<Rightarrow> history \<Rightarrow> instanaAgentRemote result \<times> history" where
  "remoteWithUpdatedStatus w env a reconcileErr h =
     (let agentOld = the (rsm_agentOld a); st = ra_Status agentOld
      in case remote_getConfigSecret w a h of (cs, h1) \<Rightarrow>
         case remote_getDeployment w a h1 of (dp, h2) \<Rightarrow>
         let errBuilder = onFailure cs meb_addSingle (newMultiErrorBuilder []);
             errBuilder = onFailure dp meb_addSingle errBuilder;
             st = onSuccess cs setStatusDotConfigSecretRemote st;
             st = onSuccess dp setStatusDotDeployment st;
             st = st\<lparr>rst_ObservedGeneration := Some (om_Generation (ra_Meta agentOld))\<rparr>;
             st = (case se_parseVersion env (se_Version env) of
                     Some v \<Rightarrow> setStatusDotOperatorVersionRemote v st | None \<Rightarrow> st)
         in case setConditionAndFireEvent env (remote_getReconcileSucceededCondition a reconcileErr)
                   (rst_Conditions st) h2 of (conds1, h3) \<Rightarrow>
            case remote_getAllAgentsAvailableCondition w a h3 of (aa, h4) \<Rightarrow>
            case setConditionAndFireEvent env (fst (result_Get aa)) conds1 h4 of (conds2, h5) \<Rightarrow>
            let errBuilder = onFailure aa meb_addSingle errBuilder
            in (result_Of (agentOld\<lparr>ra_Status := st\<lparr>rst_Conditions := conds2\<rparr>\<rparr>) (meb_build errBuilder), h5))"

definition remote_updateAgentStatus ::
  "world \<Rightarrow> statusEnv \<Rightarrow> remoteStatusManager \<Rightarrow> error \<Rightarrow> history \<Rightarrow> error \<times> history" where
  "remote_updateAgentStatus w env a reconcileErr h =
     (case rsm_agentOld a of
        None \<Rightarrow> (None, h)
      | Some agentOld \<Rightarrow>
        (case remoteWithUpdatedStatus w env a reconcileErr h of (r, h1) \<Rightarrow>
         let agentNew = fst (result_Get r);
             errBuilder = onFailure r meb_addSingle (newMultiErrorBuilder []);
             e = sv_statusPatchRemote w h1 agentOld agentNew;
             errBuilder = (if e \<noteq> None then meb_addSingle e errBuilder else errBuilder)
         in (meb_build errBuilder, h1 @ [CStatusPatchRemote agentOld agentNew])))"

subsection \<open>What the fetches return\<close>

lemma fetchInfo_eq:
  "fetchInfo w gvk key h =
     ((case sv_get w h gvk key of (obj, e) \<Rightarrow>
         if e = None then result_OfSuccess \<lparr>ri_Name = get_name obj, ri_UID = om_UID (ko_Meta obj)\<rparr>
         else result_OfFailure emptyResourceInfo e), h @ [CGet gvk key])"
  by (auto simp: fetchInfo_def client_GetAsResult_def client_Get_def result_defs toResourceInfo_def
      split_beta)

abbreviation fetched :: "world \<Rightarrow> groupVersionKind \<Rightarrow> namespacedName list \<Rightarrow> history \<Rightarrow> nat \<Rightarrow> k8sObject \<times> error" where
  "fetched w gvk keys h i \<equiv> sv_get w (h @ map (CGet gvk) (take i keys)) gvk (keys ! i)"

lemma fetchAll_calls:
  "\<exists>n. snd (fetchAll w gvk keys h) = h @ map (CGet gvk) (take n keys)"
proof (induction keys arbitrary: h)
  case (Cons key keys)
  obtain obj e where g: "sv_get w h gvk key = (obj, e)" by force
  obtain n where "snd (fetchAll w gvk keys (h @ [CGet gvk key])) =
      (h @ [CGet gvk key]) @ map (CGet gvk) (take n keys)" using Cons by blast
  with g show ?case
    by (cases e; intro exI [of _ "if e = None then Suc n else 1"])
      (auto simp: client_GetAsResult_def client_Get_def result_defs split: prod.splits sum.splits)
qed simp

lemma fetchAll_ok:
  "fst (fetchAll w gvk keys h) = Inr objs \<longleftrightarrow>
     (\<forall>i<length keys. snd (fetched w gvk keys h i) = None) \<and>
     objs = map (\<lambda>i. fst (fetched w gvk keys h i)) [0..<length keys]"
proof (induction keys arbitrary: h objs)
  case (Cons key keys)
  obtain obj e where g: "sv_get w h gvk key = (obj, e)" by force
  let ?h1 = "h @ [CGet gvk key]"
  have upt: "[0..<length (key # keys)] = 0 # map Suc [0..<length keys]"
    by (simp add: map_Suc_upt upt_conv_Cons del: upt_Suc)
  have all: "(\<forall>i<length (key # keys). P i) \<longleftrightarrow> P 0 \<and> (\<forall>i<length keys. P (Suc i))" for P
    by (auto simp: less_Suc_eq_0_disj)
  show ?case
  proof (cases e)
    case None
    have "fst (fetchAll w gvk (key # keys) h) = Inr objs \<longleftrightarrow>
        (\<exists>os. fst (fetchAll w gvk keys ?h1) = Inr os \<and> objs = obj # os)"
      using g None by (auto simp: client_GetAsResult_def client_Get_def result_defs split: prod.splits sum.splits)
    then show ?thesis unfolding upt all using g None Cons [of ?h1] by (auto simp: comp_def)
  next
    case (Some e')
    with g show ?thesis unfolding all
      by (auto simp: client_GetAsResult_def client_Get_def result_defs split: prod.splits)
  qed
qed auto

subsection \<open>Which calls a status update makes\<close>

lemma truncateMessage_length [simp]: "length (truncateMessage m) \<le> 32768"
  by (simp add: truncateMessage_def)

text \<open>Reading objects, and firing an event whose message fits a condition.\<close>

fun status_call :: "call \<Rightarrow> bool" where
  "status_call (CGet gvk key) = True"
| "status_call (CEvent t r m) = (length m \<le> 32768)"
| "status_call _ = False"

lemma emits_fetchInfo: "emits status_call (fetchInfo w gvk key)"
  by (simp add: emits_def fetchInfo_eq)

lemma emits_fetchAll: "emits status_call (fetchAll w gvk keys)"
  by (rule emitsI) (use fetchAll_calls in \<open>fastforce simp: list_all_iff\<close>)

lemma emits_setCondition:
  "length (cond_Message c) \<le> 32768 \<Longrightarrow> emits status_call (setConditionAndFireEvent env c conds)"
  by (simp add: emits_def setConditionAndFireEvent_def)

lemma newCondition_simps [simp]:
  "cond_Type (newCondition t g s r m) = t" "cond_Status (newCondition t g s r m) = s"
  "cond_ObservedGeneration (newCondition t g s r m) = g" "cond_Reason (newCondition t g s r m) = r"
  "cond_Message (newCondition t g s r m) = m"
  by (simp_all add: newCondition_def)

lemma reconcileSucceeded_message:
  "length what \<le> 32000 \<Longrightarrow> length (cond_Message (reconcileSucceededCondition what gen e)) \<le> 32768"
  by (simp add: reconcileSucceededCondition_def split: option.splits)

lemma emits_getDaemonSet: "emits status_call (getDaemonSet w a)"
  by (auto simp: getDaemonSet_def [abs_def] emits_def fetchInfo_eq split: list.splits)

lemma emits_getConfigSecret: "emits status_call (getConfigSecret w a)"
  by (simp add: getConfigSecret_def [abs_def] emits_def fetchInfo_eq)

lemma emits_getNamespacesConfigMap: "emits status_call (getNamespacesConfigMap w a)"
  by (simp add: getNamespacesConfigMap_def [abs_def] emits_def fetchInfo_eq)

lemma emits_getAllAgentsAvailable: "emits status_call (getAllAgentsAvailableCondition w a)"
proof (rule emitsI)
  fix h
  obtain tr where "snd (fetchAll w gvk_DaemonSet (sm_agentDaemonsets a) h) = h @ tr" "list_all status_call tr"
    using emits_fetchAll by (rule emitsE)
  then show "\<exists>tr. snd (getAllAgentsAvailableCondition w a h) = h @ tr \<and> list_all status_call tr"
    by (auto simp: getAllAgentsAvailableCondition_def Let_def split: prod.splits sum.splits)
qed

lemma getAllAgentsAvailable_message:
  "length (cond_Message (res (fst (getAllAgentsAvailableCondition w a h)))) \<le> 32768"
  by (auto simp: getAllAgentsAvailableCondition_def Let_def result_defs split: prod.splits sum.splits)

lemma emits_getAllK8sSensorsAvailable: "emits status_call (getAllK8sSensorsAvailableCondition w a)"
  by (rule emitsI) (auto simp: getAllK8sSensorsAvailableCondition_def Let_def client_GetAsResult_def
      client_Get_def split: prod.splits option.splits)

lemma getAllK8sSensorsAvailable_message:
  "length (cond_Message (res (fst (getAllK8sSensorsAvailableCondition w a h)))) \<le> 32768"
  by (auto simp: getAllK8sSensorsAvailableCondition_def Let_def result_defs client_GetAsResult_def
      client_Get_def emptyCondition_def split: prod.splits option.splits)

text \<open>The status an update writes: what is fixed by the reconciliation, whatever the fetches return.\<close>

definition agent_status_updated :: "statusEnv \<Rightarrow> instanaAgent \<Rightarrow> error \<Rightarrow> int \<Rightarrow> instanaAgent \<Rightarrow> bool" where
  "agent_status_updated env agentOld reconcileErr now agentNew \<longleftrightarrow>
     agentNew = agentOld\<lparr>ag_Status := ag_Status agentNew\<rparr> \<and>
     st_Status (ag_Status agentNew) = getAgentPhase reconcileErr \<and>
     st_Reason (ag_Status agentNew) = getReason reconcileErr \<and>
     st_LastUpdate (ag_Status agentNew) = now \<and>
     st_ObservedGeneration (ag_Status agentNew) = Some (om_Generation (ag_Meta agentOld)) \<and>
     st_OldVersionsUpdated (ag_Status agentNew) =
       (st_OldVersionsUpdated (ag_Status agentOld) \<or> updateWasPerformed env agentOld) \<and>
     st_OperatorVersion (ag_Status agentNew) =
       (case se_parseVersion env (se_Version env) of
          Some v \<Rightarrow> Some v | None \<Rightarrow> st_OperatorVersion (ag_Status agentOld))"

lemma agentWithUpdatedStatus_shape:
  assumes old: "sm_agentOld a = Some agentOld"
  shows "\<exists>tr. snd (agentWithUpdatedStatus w env a reconcileErr h) = h @ tr \<and> list_all status_call tr \<and>
    agent_status_updated env agentOld reconcileErr (sv_now w h)
      (res (fst (agentWithUpdatedStatus w env a reconcileErr h)))"
proof -
  obtain ds h1 where ds: "getDaemonSet w a h = (ds, h1)" by force
  obtain cs h2 where cs: "getConfigSecret w a h1 = (cs, h2)" by force
  obtain nc h3 where nc: "getNamespacesConfigMap w a h2 = (nc, h3)" by force
  let ?c = "getReconcileSucceededCondition a reconcileErr"
  let ?h4 = "h3 @ [CEvent (eventTypeFromCondition ?c) (cond_Reason ?c) (cond_Message ?c)]"
  obtain aa h5 where aa: "getAllAgentsAvailableCondition w a ?h4 = (aa, h5)" by force
  let ?h6 = "h5 @ [CEvent (eventTypeFromCondition (res aa)) (cond_Reason (res aa)) (cond_Message (res aa))]"
  obtain ka h7 where ka: "getAllK8sSensorsAvailableCondition w a ?h6 = (ka, h7)" by force
  note eqs = ds cs nc aa ka
  obtain t1 where t1: "h1 = h @ t1" "list_all status_call t1"
    using emits_getDaemonSet [of w a] ds by (metis emitsE snd_conv)
  obtain t2 where t2: "h2 = h1 @ t2" "list_all status_call t2"
    using emits_getConfigSecret [of w a] cs by (metis emitsE snd_conv)
  obtain t3 where t3: "h3 = h2 @ t3" "list_all status_call t3"
    using emits_getNamespacesConfigMap [of w a] nc by (metis emitsE snd_conv)
  obtain t5 where t5: "h5 = ?h4 @ t5" "list_all status_call t5"
    using emits_getAllAgentsAvailable [of w a] aa by (metis emitsE snd_conv)
  obtain t7 where t7: "h7 = ?h6 @ t7" "list_all status_call t7"
    using emits_getAllK8sSensorsAvailable [of w a] ka by (metis emitsE snd_conv)
  have m: "length (cond_Message ?c) \<le> 32768" "length (cond_Message (res aa)) \<le> 32768"
    "length (cond_Message (res ka)) \<le> 32768"
    using reconcileSucceeded_message [of "''agent''"] getAllAgentsAvailable_message [of w a ?h4]
      getAllK8sSensorsAvailable_message [of w a ?h6] aa ka
    by (simp_all add: getReconcileSucceededCondition_def)
  show ?thesis
    unfolding agentWithUpdatedStatus_def setConditionAndFireEvent_def agent_status_updated_def
    using eqs t1 t2 t3 t5 t7 m old
    by (auto simp: Let_def result_Get_def result_Of_def onSuccess_def split: option.splits)
qed

lemma updateAgentStatus_run:
  assumes old: "sm_agentOld a = Some agentOld"
    and run: "agentWithUpdatedStatus w env a reconcileErr h = (r, h1)"
  shows "updateAgentStatus w env a reconcileErr h =
    (let e = sv_statusPatchAgent w h1 agentOld (res r)
     in meb_build ((if err r = None then [] else [err r]) @ (if e = None \<or> isNotFound e then [] else [e])),
     h1 @ [CStatusPatchAgent agentOld (res r)])"
  using assms by (auto simp: updateAgentStatus_def Let_def result_defs meb_defs)

lemma disabled_sensor_result:
  assumes "kd_Enabled (ks_DeploymentSpec (ag_K8sSensor (the (sm_agentOld a)))) = Some False"
  shows "getAllK8sSensorsAvailableCondition w a h =
    (result_OfFailure emptyCondition (Some (EPlain ''k8sensor is disabled'')), h)"
  using assms by (simp add: getAllK8sSensorsAvailableCondition_def Let_def)

lemma meb_build_append_Some: "meb_build (m @ [Some e]) = Some (EMulti (map the (filter (\<lambda>err. err \<noteq> None) m) @ [e]))"
  by (auto simp: meb_build_eq)

lemma agentWithUpdatedStatus_disabled_sensor:
  assumes "kd_Enabled (ks_DeploymentSpec (ag_K8sSensor (the (sm_agentOld a)))) = Some False"
  shows "\<exists>es. err (fst (agentWithUpdatedStatus w env a reconcileErr h)) =
    Some (EMulti (es @ [EPlain ''k8sensor is disabled'']))"
  using disabled_sensor_result [OF assms, of w]
  by (auto simp: agentWithUpdatedStatus_def Let_def setConditionAndFireEvent_def split_beta
      result_OfFailure_def isSuccess_def isFailure_def result_Of_def meb_build_append_Some
      meb_defs onFailure_def [of "\<lparr>res = _, err = Some _\<rparr>"])

subsection \<open>Rollout of a Deployment\<close>

text \<open>The condition of a type that is last in the list, the one the map keeps.\<close>

definition lastCondition :: "string \<Rightarrow> deploymentCondition list \<Rightarrow> deploymentCondition option" where
  "lastCondition t conditions = List.find (\<lambda>c. dc_Type c = t) (rev conditions)"

lemma deploymentConditions_lookup:
  "gm_get (deploymentConditionsAsMap conditions) t = lastCondition t conditions"
  by (induction conditions rule: rev_induct) (simp_all add: deploymentConditionsAsMap_def lastCondition_def)

lemma deploymentIsAvailableAndComplete_eq:
  "deploymentIsAvailableAndComplete dpl \<longleftrightarrow>
     (let last = (\<lambda>t. lastCondition t (dpst_Conditions (dp_Status dpl))) in
      dpst_ObservedGeneration (dp_Status dpl) = om_Generation (ko_Meta dpl) \<and>
      (\<exists>c. last ''Available'' = Some c \<and> dc_Status c = ''True'') \<and>
      (\<exists>c. last ''Progressing'' = Some c \<and> dc_Status c = ''True'' \<and>
           dc_Reason c = ''NewReplicaSetAvailable'') \<and>
      \<not> (\<exists>c. last ''ReplicaFailure'' = Some c \<and> dc_Status c = ''True''))"
  by (auto simp: deploymentIsAvailableAndComplete_def deploymentHasMinimumAvailability_def
      deploymentIsComplete_def deploymentHasReplicaFailures_def deploymentConditions_lookup Let_def
      split: option.splits)

lemma daemonsetIsAvailable_eq:
  "daemonsetIsAvailable ds \<longleftrightarrow>
     (let st = ds_Status ds in
      st \<noteq> emptyDaemonSetStatus \<and> om_Generation (ko_Meta ds) = dst_ObservedGeneration st \<and>
      dst_NumberMisscheduled st = 0 \<and> dst_NumberAvailable st = dst_DesiredNumberScheduled st \<and>
      dst_UpdatedNumberScheduled st = dst_DesiredNumberScheduled st)"
  by (auto simp: daemonsetIsAvailable_def Let_def optional_defs)

subsection \<open>Properties\<close>

text \<open>
  C17: a status update of an agent reads objects and fires events, then patches the status exactly
  once, last. The patched agent differs from the old one only in its status, whose phase and
  reason report the reconciliation's error, whose observed generation is the agent's, whose
  \<open>OldVersionsUpdated\<close> flag is never taken back and whose operator version is kept when the
  current one cannot be parsed. No event message, and so no condition message, is longer than
  the 32768 bytes the API server accepts.
\<close>

theorem updateAgentStatus_patches_once:
  assumes "sm_agentOld a = Some agentOld"
  shows "\<exists>tr agentNew.
    snd (updateAgentStatus w env a reconcileErr h) = h @ tr @ [CStatusPatchAgent agentOld agentNew] \<and>
    list_all status_call tr \<and>
    agent_status_updated env agentOld reconcileErr (sv_now w h) agentNew"
proof -
  obtain r h1 where run: "agentWithUpdatedStatus w env a reconcileErr h = (r, h1)" by force
  with agentWithUpdatedStatus_shape [OF assms, of w env reconcileErr h] obtain tr where
    "h1 = h @ tr" "list_all status_call tr"
    "agent_status_updated env agentOld reconcileErr (sv_now w h) (res r)" by auto
  then show ?thesis using updateAgentStatus_run [OF assms run] by (auto simp: Let_def)
qed

definition exampleStatusEnv :: statusEnv where
  "exampleStatusEnv = \<lparr>se_Version = ''1.0.0'', se_parseVersion = Some, se_versionEqual = (=),
     se_setCondition = (\<lambda>c cs. c # filter (\<lambda>c'. cond_Type c' \<noteq> cond_Type c) cs)\<rparr>"

theorem updateAgentStatus_patches_once_witness:
  "\<exists>tr agentNew.
    snd (updateAgentStatus (simWorld [] exampleAgent exampleRemote) exampleStatusEnv
      (setAgentOld exampleAgent newAgentStatusManager) None []) =
      tr @ [CStatusPatchAgent exampleAgent agentNew] \<and>
    agent_status_updated exampleStatusEnv exampleAgent None 0 agentNew"
  using updateAgentStatus_patches_once [of "setAgentOld exampleAgent newAgentStatusManager" exampleAgent
      "simWorld [] exampleAgent exampleRemote" exampleStatusEnv None "[]"]
  by (auto simp: setAgentOld_def simWorld_def)

text \<open>
  C24: with the k8sensor disabled in the spec, every status update returns an error, whatever the
  API server answers: the sentinel that marks the skipped condition is counted as a failure.
\<close>

theorem updateAgentStatus_disabled_sensor:
  assumes "sm_agentOld a = Some agentOld"
    and "kd_Enabled (ks_DeploymentSpec (ag_K8sSensor agentOld)) = Some False"
  shows "fst (updateAgentStatus w env a reconcileErr h) \<noteq> None"
proof -
  obtain r h1 where run: "agentWithUpdatedStatus w env a reconcileErr h = (r, h1)" by force
  with agentWithUpdatedStatus_disabled_sensor [of a w env reconcileErr h] assms
  have "err r \<noteq> None" by auto
  then show ?thesis using updateAgentStatus_run [OF assms(1) run] by (auto simp: Let_def)
qed

definition agentWithoutSensor :: instanaAgent where
  "agentWithoutSensor = exampleAgent\<lparr>ag_Spec := (ag_Spec exampleAgent)\<lparr>sp_K8sSensor :=
     emptyK8sSensor\<lparr>ks_DeploymentSpec := (ks_DeploymentSpec emptyK8sSensor)\<lparr>kd_Enabled := Some False\<rparr>\<rparr>\<rparr>\<rparr>"

theorem updateAgentStatus_disabled_sensor_witness:
  "fst (updateAgentStatus (simWorld [] exampleAgent exampleRemote) exampleStatusEnv
     (setAgentOld agentWithoutSensor newAgentStatusManager) None []) \<noteq> None"
  by (rule updateAgentStatus_disabled_sensor [of _ agentWithoutSensor])
    (simp_all add: setAgentOld_def agentWithoutSensor_def)

text \<open>
  C18: the condition \<open>AllAgentsAvailable\<close> of an agent is \<open>True\<close> exactly when every DaemonSet
  recorded by the builders could be fetched, its controller has observed its current
  generation, and all pods it wants are scheduled where they belong, available and up to date.
  With no DaemonSet recorded it is \<open>True\<close>.
\<close>

theorem allAgentsAvailable_iff:
  "cond_Status (res (fst (getAllAgentsAvailableCondition w a h))) = ''True'' \<longleftrightarrow>
     (\<forall>i<length (sm_agentDaemonsets a).
        case fetched w gvk_DaemonSet (sm_agentDaemonsets a) h i of (ds, e) \<Rightarrow>
          e = None \<and> ds_Status ds \<noteq> emptyDaemonSetStatus \<and>
          om_Generation (ko_Meta ds) = dst_ObservedGeneration (ds_Status ds) \<and>
          dst_NumberMisscheduled (ds_Status ds) = 0 \<and>
          dst_NumberAvailable (ds_Status ds) = dst_DesiredNumberScheduled (ds_Status ds) \<and>
          dst_UpdatedNumberScheduled (ds_Status ds) = dst_DesiredNumberScheduled (ds_Status ds))"
proof (cases "fst (fetchAll w gvk_DaemonSet (sm_agentDaemonsets a) h)")
  case (Inl f)
  then have "\<not> (\<forall>i<length (sm_agentDaemonsets a).
      snd (fetched w gvk_DaemonSet (sm_agentDaemonsets a) h i) = None)"
    using fetchAll_ok [of w gvk_DaemonSet "sm_agentDaemonsets a" h] by auto
  with Inl show ?thesis
    by (auto simp: getAllAgentsAvailableCondition_def Let_def result_defs split_beta)
next
  case (Inr objs)
  then show ?thesis
    using fetchAll_ok [of w gvk_DaemonSet "sm_agentDaemonsets a" h objs]
    by (auto simp: getAllAgentsAvailableCondition_def Let_def result_defs list_All_def list_all_iff
        daemonsetIsAvailable_eq split_beta split: prod.splits)
qed

definition exampleDaemonSet :: k8sObject where
  "exampleDaemonSet = mkObject ''apps/v1'' ''DaemonSet'' exampleMeta
     (DaemonSetBody emptyDaemonSetSpec (emptyDaemonSetStatus\<lparr>dst_ObservedGeneration := 1,
        dst_DesiredNumberScheduled := 2, dst_NumberAvailable := 2, dst_UpdatedNumberScheduled := 2\<rparr>))"

theorem allAgentsAvailable_iff_witness:
  "let w = simWorld [exampleDaemonSet] exampleAgent exampleRemote;
       a = addAgentDaemonset (objectKeyFromObject exampleDaemonSet) (setAgentOld exampleAgent newAgentStatusManager)
   in cond_Status (res (fst (getAllAgentsAvailableCondition w a []))) = ''True''"
  unfolding Let_def allAgentsAvailable_iff
  by (simp add: addAgentDaemonset_def newAgentStatusManager_def setAgentOld_def set_Contains_toSet
      simWorld_def exampleDaemonSet_def mkObject_def obj_accessors fromAPIVersionAndKind_def
      gvk_DaemonSet_def ds_Status_def emptyDaemonSetStatus_def exampleMeta_def)

text \<open>
  the condition \<open>AllAgentsAvailable\<close> of a remote agent is \<open>True\<close> exactly when at least one
  Deployment is recorded and each could be fetched and is rolled out: its generation observed,
  its last \<open>Available\<close> condition true, its last \<open>Progressing\<close> condition true for the reason that
  the new replica set is available, and no replica failure reported. In contrast to the agent's
  condition it is not \<open>True\<close> when nothing was deployed.
\<close>

theorem remote_allAgentsAvailable_iff:
  "cond_Status (res (fst (remote_getAllAgentsAvailableCondition w a h))) = ''True'' \<longleftrightarrow>
     rsm_agentDeployments a \<noteq> [] \<and>
     (\<forall>i<length (rsm_agentDeployments a).
        case fetched w gvk_Deployment (rsm_agentDeployments a) h i of (dpl, e) \<Rightarrow>
          e = None \<and> dpst_ObservedGeneration (dp_Status dpl) = om_Generation (ko_Meta dpl) \<and>
          (\<exists>c. lastCondition ''Available'' (dpst_Conditions (dp_Status dpl)) = Some c \<and>
               dc_Status c = ''True'') \<and>
          (\<exists>c. lastCondition ''Progressing'' (dpst_Conditions (dp_Status dpl)) = Some c \<and>
               dc_Status c = ''True'' \<and> dc_Reason c = ''NewReplicaSetAvailable'') \<and>
          \<not> (\<exists>c. lastCondition ''ReplicaFailure'' (dpst_Conditions (dp_Status dpl)) = Some c \<and>
               dc_Status c = ''True''))"
proof (cases "fst (fetchAll w gvk_Deployment (rsm_agentDeployments a) h)")
  case (Inl f)
  then have "\<not> (\<forall>i<length (rsm_agentDeployments a).
      snd (fetched w gvk_Deployment (rsm_agentDeployments a) h i) = None)"
    using fetchAll_ok [of w gvk_Deployment "rsm_agentDeployments a" h] by auto
  with Inl show ?thesis
    by (auto simp: remote_getAllAgentsAvailableCondition_def Let_def result_defs split_beta)
next
  case (Inr objs)
  then have objs: "\<forall>i<length (rsm_agentDeployments a).
      snd (fetched w gvk_Deployment (rsm_agentDeployments a) h i) = None"
    "objs = map (\<lambda>i. fst (fetched w gvk_Deployment (rsm_agentDeployments a) h i)) [0..<length (rsm_agentDeployments a)]"
    using fetchAll_ok [of w gvk_Deployment "rsm_agentDeployments a" h objs] by auto
  have "cond_Status (res (fst (remote_getAllAgentsAvailableCondition w a h))) = ''True'' \<longleftrightarrow>
      (\<forall>i<length (rsm_agentDeployments a). deploymentIsAvailableAndComplete
         (fst (fetched w gvk_Deployment (rsm_agentDeployments a) h i))) \<and> rsm_agentDeployments a \<noteq> []"
    using Inr objs(2) by (auto simp: remote_getAllAgentsAvailableCondition_def Let_def result_defs
        list_All_def list_all_iff split_beta split: prod.splits)
  then show ?thesis
    using objs(1) by (auto simp: deploymentIsAvailableAndComplete_eq Let_def split_beta)
qed

definition exampleDeployment :: k8sObject where
  "exampleDeployment = mkObject ''apps/v1'' ''Deployment'' exampleMeta
     (DeploymentBody emptyDeploymentSpec \<lparr>dpst_ObservedGeneration = 1, dpst_Replicas = 1,
        dpst_UpdatedReplicas = 1, dpst_ReadyReplicas = 1, dpst_AvailableReplicas = 1,
        dpst_UnavailableReplicas = 0,
        dpst_Conditions = [\<lparr>dc_Type = ''Available'', dc_Status = ''True'', dc_Reason = ''''\<rparr>,
          \<lparr>dc_Type = ''Progressing'', dc_Status = ''True'', dc_Reason = ''NewReplicaSetAvailable''\<rparr>]\<rparr>)"

theorem remote_allAgentsAvailable_iff_witness:
  "let w = simWorld [exampleDeployment] exampleAgent exampleRemote;
       a = addAgentDeployment (objectKeyFromObject exampleDeployment)
             (remote_setAgentOld exampleRemote newRemoteStatusManager)
   in cond_Status (res (fst (remote_getAllAgentsAvailableCondition w a []))) = ''True''"
  unfolding Let_def remote_allAgentsAvailable_iff
  by (simp add: addAgentDeployment_def newRemoteStatusManager_def remote_setAgentOld_def set_Contains_toSet
      simWorld_def exampleDeployment_def mkObject_def obj_accessors fromAPIVersionAndKind_def
      gvk_Deployment_def dp_Status_def lastCondition_def exampleMeta_def)

end
