(* ===== verification/Env_Builder.thy ===== *)
theory Env_Builder
  imports Transform
begin

text \<open>
  The environment builders (\<open>common/env/env_builder.go\<close>, \<open>remote_env_builder.go\<close>). The
  enumerations \<open>EnvVar\<close> and \<open>EnvVarRemote\<close> are datatypes with the source's constructors; a \<open>nil\<close>
  result is \<open>None\<close>, the dereference of a \<open>nil\<close> port or flag a panic. The helpers the two files
  repeat are written once over the common part of the two specs.
\<close>

subsection \<open>Constants (\<open>common/constants\<close>)\<close>

abbreviation AgentKey :: string where "AgentKey \<equiv> ''key''"
abbreviation DownloadKey :: string where "DownloadKey \<equiv> ''downloadKey''"
abbreviation BackendKey :: string where "BackendKey \<equiv> ''backend''"
abbreviation InstanaNamespacesDetailsFileName :: string where
  "InstanaNamespacesDetailsFileName \<equiv> ''namespaces.yaml''"
abbreviation InstanaConfigDirectory :: string where
  "InstanaConfigDirectory \<equiv> ''/opt/instana/agent/etc/instana-config-yml''"
abbreviation RemoteConfigDirectory :: string where
  "RemoteConfigDirectory \<equiv> ''/opt/instana/agent/etc/remote-config-yml''"
abbreviation InstanaNamespacesDetailsDirectory :: string where
  "InstanaNamespacesDetailsDirectory \<equiv> ''/opt/instana/agent/etc/namespaces''"
abbreviation InstanaSecretsDirectory :: string where
  "InstanaSecretsDirectory \<equiv> ''/opt/instana/agent/etc/instana/secrets''"
abbreviation SecretFileAgentKey :: string where "SecretFileAgentKey \<equiv> ''INSTANA_AGENT_KEY''"
abbreviation SecretFileDownloadKey :: string where "SecretFileDownloadKey \<equiv> ''INSTANA_DOWNLOAD_KEY''"
abbreviation SecretFileProxyUser :: string where "SecretFileProxyUser \<equiv> ''INSTANA_AGENT_PROXY_USER''"
abbreviation SecretFileProxyPassword :: string where
  "SecretFileProxyPassword \<equiv> ''INSTANA_AGENT_PROXY_PASSWORD''"
abbreviation SecretFileMirrorReleaseRepoUsername :: string where
  "SecretFileMirrorReleaseRepoUsername \<equiv> ''AGENT_RELEASE_REPOSITORY_MIRROR_USERNAME''"
abbreviation SecretFileMirrorReleaseRepoPassword :: string where
  "SecretFileMirrorReleaseRepoPassword \<equiv> ''AGENT_RELEASE_REPOSITORY_MIRROR_PASSWORD''"
abbreviation SecretFileMirrorSharedRepoUsername :: string where
  "SecretFileMirrorSharedRepoUsername \<equiv> ''INSTANA_SHARED_REPOSITORY_MIRROR_USERNAME''"
abbreviation SecretFileMirrorSharedRepoPassword :: string where
  "SecretFileMirrorSharedRepoPassword \<equiv> ''INSTANA_SHARED_REPOSITORY_MIRROR_PASSWORD''"
abbreviation SecretFileHttpsProxy :: string where "SecretFileHttpsProxy \<equiv> ''HTTPS_PROXY''"
abbreviation SecretKeyProxyUser :: string where "SecretKeyProxyUser \<equiv> ''proxyUser''"
abbreviation SecretKeyProxyPassword :: string where "SecretKeyProxyPassword \<equiv> ''proxyPassword''"
abbreviation SecretKeyHttpsProxy :: string where "SecretKeyHttpsProxy \<equiv> ''httpsProxy''"
abbreviation SecretKeyMirrorReleaseRepoUsername :: string where
  "SecretKeyMirrorReleaseRepoUsername \<equiv> ''mirrorReleaseRepoUsername''"
abbreviation SecretKeyMirrorReleaseRepoPassword :: string where
  "SecretKeyMirrorReleaseRepoPassword \<equiv> ''mirrorReleaseRepoPassword''"
abbreviation SecretKeyMirrorSharedRepoUsername :: string where
  "SecretKeyMirrorSharedRepoUsername \<equiv> ''mirrorSharedRepoUsername''"
abbreviation SecretKeyMirrorSharedRepoPassword :: string where
  "SecretKeyMirrorSharedRepoPassword \<equiv> ''mirrorSharedRepoPassword''"

subsection \<open>Helpers\<close>

text \<open>\<open>UseSecretMounts == nil || *UseSecretMounts\<close>.\<close>

abbreviation secretMountsOn :: "bool option \<Rightarrow> bool" where
  "secretMountsOn u \<equiv> u \<noteq> Some False"

definition valueEnv :: "string \<Rightarrow> string \<Rightarrow> envVar" where
  "valueEnv name val = \<lparr>ev_Name = name, ev_Value = val, ev_ValueFrom = None\<rparr>"

definition sourceEnv :: "string \<Rightarrow> envVarSource \<Rightarrow> envVar" where
  "sourceEnv name src = \<lparr>ev_Name = name, ev_Value = '''', ev_ValueFrom = Some src\<rparr>"

definition formatBool :: "bool \<Rightarrow> string" where
  "formatBool b = (if b then ''true'' else ''false'')"

definition stringToEnvVar :: "string \<Rightarrow> string \<Rightarrow> envVar option" where
  "stringToEnvVar name val = (if val = '''' then None else Some (valueEnv name val))"

definition boolToEnvVar :: "string \<Rightarrow> bool \<Rightarrow> envVar option" where
  "boolToEnvVar name val = (if \<not> val then None else Some (valueEnv name (formatBool val)))"

definition intToEnvVar :: "string \<Rightarrow> int \<Rightarrow> envVar option" where
  "intToEnvVar name val = Some (valueEnv name (itoa val))"

definition int32ToEnvVar :: "string \<Rightarrow> int \<Rightarrow> envVar option" where
  "int32ToEnvVar name val = intToEnvVar name val"

definition agentModeEnv :: "baseAgentSpec \<Rightarrow> zone option \<Rightarrow> envVar option" where
  "agentModeEnv b z =
     (case z of Some zn \<Rightarrow> Some (valueEnv ''INSTANA_AGENT_MODE'' (zone_Mode zn))
      | None \<Rightarrow> stringToEnvVar ''INSTANA_AGENT_MODE'' (ba_Mode b))"

definition zoneNameEnv :: "string \<Rightarrow> zone option \<Rightarrow> envVar option" where
  "zoneNameEnv specZone z =
     (case z of Some zn \<Rightarrow> Some (valueEnv ''INSTANA_ZONE'' (zone_Name zn))
      | None \<Rightarrow> stringToEnvVar ''INSTANA_ZONE'' specZone)"

definition httpsProxyEnv :: "baseAgentSpec \<Rightarrow> envVar option" where
  "httpsProxyEnv b =
     (if ba_ProxyHost b = '''' then None
      else (let protocol = optional_GetOrDefault (optional_Of '''' (ba_ProxyProtocol b)) ''http'';
                port = optional_GetOrDefault (optional_Of '''' (ba_ProxyPort b)) ''80''
            in if ba_ProxyUser b = '''' \<or> ba_ProxyPassword b = ''''
               then Some (valueEnv ''HTTPS_PROXY'' (protocol @ ''://'' @ ba_ProxyHost b @ '':'' @ port))
               else Some (valueEnv ''HTTPS_PROXY''
                 (protocol @ ''://'' @ (ba_ProxyUser b @ '':'' @ ba_ProxyPassword b @ ''@'') @
                  ba_ProxyHost b @ '':'' @ port))))"

definition noProxyEnv :: "baseAgentSpec \<Rightarrow> envVar option" where
  "noProxyEnv b = (if ba_ProxyHost b = '''' then None else Some (valueEnv ''NO_PROXY'' ''kubernetes.default.svc''))"

definition backendEnv :: "string \<Rightarrow> envVar option" where
  "backendEnv resourcesName = Some (sourceEnv ''BACKEND'' (ConfigMapKeyRef resourcesName BackendKey))"

definition keysSecretName :: "string \<Rightarrow> baseAgentSpec \<Rightarrow> string" where
  "keysSecretName name b = optional_GetOrDefault (optional_Of '''' (ba_KeysSecret b)) name"

definition agentKeyHelper :: "string \<Rightarrow> baseAgentSpec \<Rightarrow> string \<Rightarrow> envVar option" where
  "agentKeyHelper agentName b name =
     Some (sourceEnv name (SecretKeyRef (keysSecretName agentName b) AgentKey None))"

definition downloadKeyEnv :: "string \<Rightarrow> baseAgentSpec \<Rightarrow> envVar option" where
  "downloadKeyEnv agentName b =
     Some (sourceEnv ''INSTANA_DOWNLOAD_KEY''
       (SecretKeyRef (keysSecretName agentName b) DownloadKey (Some True)))"

definition envWithObjectFieldSelector :: "string \<Rightarrow> string \<Rightarrow> envVar option" where
  "envWithObjectFieldSelector name fieldPath = Some (sourceEnv name (FieldRef fieldPath))"

definition getUserProvidedEnvs :: "baseAgentSpec \<Rightarrow> envVar list" where
  "getUserProvidedEnvs b = for_each (\<lambda>(name, val) envVars. envVars @ [valueEnv name val]) (ba_Env b) []"

definition etcdCAFileEnv :: "instanaAgent \<Rightarrow> envVar option" where
  "etcdCAFileEnv a =
     (let p = ca_MountPath (etcd_CA (ag_ETCD a)) in
      if p = '''' then None else Some (valueEnv ''ETCD_CA_FILE'' (p @ ''/ca.crt'')))"

definition etcdInsecureEnv :: "instanaAgent \<Rightarrow> envVar option" where
  "etcdInsecureEnv a =
     (case etcd_Insecure (ag_ETCD a) of None \<Rightarrow> None
      | Some b \<Rightarrow> Some (valueEnv ''ETCD_INSECURE'' (formatBool b)))"

definition etcdTargetsEnv :: "instanaAgent \<Rightarrow> envVar option" where
  "etcdTargetsEnv a =
     (let ts = etcd_Targets (ag_ETCD a) in
      if length ts = 0 then None else Some (valueEnv ''ETCD_TARGETS'' (join_strings '','' ts)))"

definition controlPlaneCAFileEnv :: "instanaAgent \<Rightarrow> envVar option" where
  "controlPlaneCAFileEnv a =
     (let p = ca_MountPath (rc_CA (ks_RestClient (ag_K8sSensor a))) in
      if p = '''' then None else Some (valueEnv ''CONTROL_PLANE_CA_FILE'' (p @ ''/ca.crt'')))"

definition restClientHostAllowlistEnv :: "instanaAgent \<Rightarrow> envVar option" where
  "restClientHostAllowlistEnv a =
     (let hs = rc_HostAllowlist (ks_RestClient (ag_K8sSensor a)) in
      if length hs = 0 then None else Some (valueEnv ''REST_CLIENT_HOST_ALLOWLIST'' (join_strings '','' hs)))"

subsection \<open>\<open>env_builder.go\<close>\<close>

datatype envVarKind =
    AgentModeEnv | ZoneNameEnv | ClusterNameEnv | AgentEndpointEnv | AgentEndpointPortEnv
  | MavenRepoURLEnv | MavenRepoFeaturesPath | MavenRepoSharedPath | MirrorReleaseRepoUrlEnv
  | MirrorReleaseRepoUsernameEnv | MirrorReleaseRepoPasswordEnv | MirrorSharedRepoUrlEnv
  | MirrorSharedRepoUsernameEnv | MirrorSharedRepoPasswordEnv | ProxyHostEnv | ProxyPortEnv
  | ProxyProtocolEnv | ProxyUserEnv | ProxyPasswordEnv | ProxyUseDNSEnv | ListenAddressEnv
  | RedactK8sSecretsEnv | AgentZoneEnv | HTTPSProxyEnv | BackendURLEnv | NoProxyEnv | ConfigPathEnv
  | EntrypointSkipBackendTemplateGeneration | BackendEnv | InstanaAgentKeyEnv | AgentKeyEnv
  | DownloadKeyEnv | InstanaAgentPodNameEnv | PodNameEnv | PodIPEnv | PodUIDEnv | PodNamespaceEnv
  | K8sServiceDomainEnv | EnableAgentSocketEnv | NamespacesDetailsPathEnv | NodeNameEnv
  | InstanaOpenTelemetryGRPCEnabled | InstanaOpenTelemetryGRPCPort
  | InstanaOpenTelemetryHTTPEnabled | InstanaOpenTelemetryHTTPPort | ETCDCAFileEnv | ETCDInsecureEnv
  | ETCDTargetsEnv | ControlPlaneCAFileEnv | RestClientHostAllowlistEnv | CrdMonitoring

definition isSecret :: "envVarKind \<Rightarrow> bool" where
  "isSecret k =
     (k \<in> {InstanaAgentKeyEnv, AgentKeyEnv, DownloadKeyEnv, ProxyUserEnv, ProxyPasswordEnv, HTTPSProxyEnv,
           MirrorReleaseRepoUsernameEnv, MirrorReleaseRepoPasswordEnv,
           MirrorSharedRepoUsernameEnv, MirrorSharedRepoPasswordEnv})"

definition derefOrPanic :: "'a option \<Rightarrow> ('a \<Rightarrow> 'b) \<Rightarrow> 'b go" where
  "derefOrPanic p f = (case p of None \<Rightarrow> Panic nilDeref | Some v \<Rightarrow> Ret (f v))"

definition buildEnv :: "instanaAgent \<Rightarrow> zone option \<Rightarrow> envVarKind \<Rightarrow> envVar option go" where
  "buildEnv a z k =
     (let b = ag_Agent a; s = ag_Spec a in
      if secretMountsOn (sp_UseSecretMounts s) \<and> isSecret k then Ret None
      else (case k of
          AgentModeEnv \<Rightarrow> Ret (agentModeEnv b z)
        | ZoneNameEnv \<Rightarrow> Ret (zoneNameEnv (sp_ZoneName s) z)
        | ClusterNameEnv \<Rightarrow> Ret (stringToEnvVar ''INSTANA_KUBERNETES_CLUSTER_NAME'' (sp_ClusterName s))
        | AgentEndpointEnv \<Rightarrow> Ret (stringToEnvVar ''INSTANA_AGENT_ENDPOINT'' (ba_EndpointHost b))
        | AgentEndpointPortEnv \<Rightarrow> Ret (stringToEnvVar ''INSTANA_AGENT_ENDPOINT_PORT'' (ba_EndpointPort b))
        | MavenRepoURLEnv \<Rightarrow> Ret (stringToEnvVar ''INSTANA_MVN_REPOSITORY_URL'' (ba_MvnRepoUrl b))
        | MavenRepoFeaturesPath \<Rightarrow>
            Ret (stringToEnvVar ''INSTANA_MVN_REPOSITORY_FEATURES_PATH'' (ba_MvnRepoFeaturesPath b))
        | MavenRepoSharedPath \<Rightarrow>
            Ret (stringToEnvVar ''INSTANA_MVN_REPOSITORY_SHARED_PATH'' (ba_MvnRepoSharedPath b))
        | MirrorReleaseRepoUrlEnv \<Rightarrow>
            Ret (stringToEnvVar ''AGENT_RELEASE_REPOSITORY_MIRROR_URL'' (ba_MirrorReleaseRepoUrl b))
        | MirrorReleaseRepoUsernameEnv \<Rightarrow>
            Ret (stringToEnvVar ''AGENT_RELEASE_REPOSITORY_MIRROR_USERNAME'' (ba_MirrorReleaseRepoUsername b))
        | MirrorSharedRepoUrlEnv \<Rightarrow>
            Ret (stringToEnvVar ''INSTANA_SHARED_REPOSITORY_MIRROR_URL'' (ba_MirrorSharedRepoUrl b))
        | MirrorSharedRepoUsernameEnv \<Rightarrow>
            Ret (stringToEnvVar ''INSTANA_SHARED_REPOSITORY_MIRROR_USERNAME'' (ba_MirrorSharedRepoUsername b))
        | MirrorSharedRepoPasswordEnv \<Rightarrow>
            Ret (stringToEnvVar ''INSTANA_SHARED_REPOSITORY_MIRROR_PASSWORD'' (ba_MirrorSharedRepoPassword b))
        | MirrorReleaseRepoPasswordEnv \<Rightarrow>
            Ret (stringToEnvVar ''AGENT_RELEASE_REPOSITORY_MIRROR_PASSWORD'' (ba_MirrorReleaseRepoPassword b))
        | ProxyHostEnv \<Rightarrow> Ret (stringToEnvVar ''INSTANA_AGENT_PROXY_HOST'' (ba_ProxyHost b))
        | ProxyPortEnv \<Rightarrow> Ret (stringToEnvVar ''INSTANA_AGENT_PROXY_PORT'' (ba_ProxyPort b))
        | ProxyProtocolEnv \<Rightarrow> Ret (stringToEnvVar ''INSTANA_AGENT_PROXY_PROTOCOL'' (ba_ProxyProtocol b))
        | ProxyUserEnv \<Rightarrow> Ret (stringToEnvVar ''INSTANA_AGENT_PROXY_USER'' (ba_ProxyUser b))
        | ProxyPasswordEnv \<Rightarrow> Ret (stringToEnvVar ''INSTANA_AGENT_PROXY_PASSWORD'' (ba_ProxyPassword b))
        | ProxyUseDNSEnv \<Rightarrow> Ret (boolToEnvVar ''INSTANA_AGENT_PROXY_USE_DNS'' (ba_ProxyUseDNS b))
        | ListenAddressEnv \<Rightarrow> Ret (stringToEnvVar ''INSTANA_AGENT_HTTP_LISTEN'' (ba_ListenAddress b))
        | RedactK8sSecretsEnv \<Rightarrow>
            Ret (stringToEnvVar ''INSTANA_KUBERNETES_REDACT_SECRETS'' (ba_RedactKubernetesSecrets b))
        | AgentZoneEnv \<Rightarrow> Ret (Some (valueEnv ''AGENT_ZONE''
            (optional_GetOrDefault (optional_Of '''' (sp_ClusterName s)) (sp_ZoneName s))))
        | HTTPSProxyEnv \<Rightarrow> Ret (httpsProxyEnv b)
        | BackendURLEnv \<Rightarrow> Ret (Some (valueEnv ''BACKEND_URL'' ''https://$(BACKEND)''))
        | NoProxyEnv \<Rightarrow> Ret (noProxyEnv b)
        | ConfigPathEnv \<Rightarrow> Ret (Some (valueEnv ''CONFIG_PATH'' InstanaConfigDirectory))
        | NamespacesDetailsPathEnv \<Rightarrow> Ret (Some (valueEnv ''NAMESPACES_DETAILS_PATH''
            (InstanaNamespacesDetailsDirectory @ ''/'' @ InstanaNamespacesDetailsFileName)))
        | EntrypointSkipBackendTemplateGeneration \<Rightarrow>
            Ret (Some (valueEnv ''ENTRYPOINT_SKIP_BACKEND_TEMPLATE_GENERATION'' ''true''))
        | BackendEnv \<Rightarrow> Ret (backendEnv (k8sSensorResourcesName a))
        | InstanaAgentKeyEnv \<Rightarrow> Ret (agentKeyHelper (ag_Name a) b ''INSTANA_AGENT_KEY'')
        | AgentKeyEnv \<Rightarrow> Ret (agentKeyHelper (ag_Name a) b ''AGENT_KEY'')
        | DownloadKeyEnv \<Rightarrow> Ret (downloadKeyEnv (ag_Name a) b)
        | InstanaAgentPodNameEnv \<Rightarrow> Ret (envWithObjectFieldSelector ''INSTANA_AGENT_POD_NAME'' ''metadata.name'')
        | PodNameEnv \<Rightarrow> Ret (envWithObjectFieldSelector ''POD_NAME'' ''metadata.name'')
        | PodIPEnv \<Rightarrow> Ret (envWithObjectFieldSelector ''POD_IP'' ''status.podIP'')
        | PodUIDEnv \<Rightarrow> Ret (envWithObjectFieldSelector ''POD_UID'' ''metadata.uid'')
        | PodNamespaceEnv \<Rightarrow> Ret (envWithObjectFieldSelector ''POD_NAMESPACE'' ''metadata.namespace'')
        | NodeNameEnv \<Rightarrow> Ret (envWithObjectFieldSelector ''NODE_NAME'' ''spec.nodeName'')
        | K8sServiceDomainEnv \<Rightarrow> Ret (Some (valueEnv ''K8S_SERVICE_DOMAIN''
            (headlessServiceName a @ ''.'' @ ag_Namespace a @ ''.svc'')))
        | EnableAgentSocketEnv \<Rightarrow> Ret (boolToEnvVar ''ENABLE_AGENT_SOCKET'' (ba_ServiceMeshEnabled b))
        | InstanaOpenTelemetryGRPCEnabled \<Rightarrow>
            derefOrPanic (ot_Enabled (otel_GRPC (sp_OpenTelemetry s))) (boolToEnvVar ''INSTANA_AGENT_OTEL_GRPC'')
        | InstanaOpenTelemetryGRPCPort \<Rightarrow>
            derefOrPanic (ot_Port (otel_GRPC (sp_OpenTelemetry s))) (int32ToEnvVar ''INSTANA_AGENT_OTEL_GRPC_PORT'')
        | InstanaOpenTelemetryHTTPEnabled \<Rightarrow>
            derefOrPanic (ot_Enabled (otel_HTTP (sp_OpenTelemetry s))) (boolToEnvVar ''INSTANA_AGENT_OTEL_HTTP'')
        | InstanaOpenTelemetryHTTPPort \<Rightarrow>
            derefOrPanic (ot_Port (otel_HTTP (sp_OpenTelemetry s))) (int32ToEnvVar ''INSTANA_AGENT_OTEL_HTTP_PORT'')
        | ETCDCAFileEnv \<Rightarrow> Ret (etcdCAFileEnv a)
        | ETCDInsecureEnv \<Rightarrow> Ret (etcdInsecureEnv a)
        | ETCDTargetsEnv \<Rightarrow> Ret (etcdTargetsEnv a)
        | ControlPlaneCAFileEnv \<Rightarrow> Ret (controlPlaneCAFileEnv a)
        | RestClientHostAllowlistEnv \<Rightarrow> Ret (restClientHostAllowlistEnv a)
        | CrdMonitoring \<Rightarrow> Ret None))"

text \<open>\<open>Build\<close>: the user's variables first, then the requested ones that are not \<open>nil\<close>.\<close>

fun appendBuilt :: "('k \<Rightarrow> 'v option go) \<Rightarrow> 'k list \<Rightarrow> 'v list \<Rightarrow> 'v list go" where
  "appendBuilt build [] acc = Ret acc"
| "appendBuilt build (k # ks) acc =
     bind_outcome (build k) (\<lambda>r. appendBuilt build ks (case r of None \<Rightarrow> acc | Some v \<Rightarrow> acc @ [v]))"

definition envBuilder_Build :: "instanaAgent \<Rightarrow> zone option \<Rightarrow> envVarKind list \<Rightarrow> envVar list go" where
  "envBuilder_Build a z envVars = appendBuilt (buildEnv a z) envVars (getUserProvidedEnvs (ag_Agent a))"

subsection \<open>\<open>remote_env_builder.go\<close>\<close>

datatype envVarRemoteKind =
    AgentModeEnvRemote | ZoneNameEnvRemote | AgentEndpointEnvRemote | AgentEndpointPortEnvRemote
  | MavenRepoURLEnvRemote | MavenRepoFeaturesPathRemote | MavenRepoSharedPathRemote
  | MirrorReleaseRepoUrlEnvRemote | MirrorReleaseRepoUsernameEnvRemote
  | MirrorReleaseRepoPasswordEnvRemote | MirrorSharedRepoUrlEnvRemote
  | MirrorSharedRepoUsernameEnvRemote | MirrorSharedRepoPasswordEnvRemote | ProxyHostEnvRemote
  | ProxyPortEnvRemote | ProxyProtocolEnvRemote | ProxyUserEnvRemote | ProxyPasswordEnvRemote
  | ProxyUseDNSEnvRemote | ListenAddressEnvRemote | RedactK8sSecretsEnvRemote | AgentZoneEnvRemote
  | HTTPSProxyEnvRemote | BackendURLEnvRemote | NoProxyEnvRemote | ConfigPathEnvRemote
  | EntrypointSkipBackendTemplateGenerationRemote | BackendEnvRemote | InstanaAgentKeyEnvRemote
  | AgentKeyEnvRemote | DownloadKeyEnvRemote | InstanaAgentPodNameEnvRemote | PodNameEnvRemote
  | PodIPEnvRemote | PodUIDEnvRemote | PodNamespaceEnvRemote

definition remote_isSecret :: "envVarRemoteKind \<Rightarrow> bool" where
  "remote_isSecret k =
     (k \<in> {InstanaAgentKeyEnvRemote, AgentKeyEnvRemote, DownloadKeyEnvRemote, ProxyUserEnvRemote,
           ProxyPasswordEnvRemote, HTTPSProxyEnvRemote, MirrorReleaseRepoUsernameEnvRemote,
           MirrorReleaseRepoPasswordEnvRemote, MirrorSharedRepoUsernameEnvRemote,
           MirrorSharedRepoPasswordEnvRemote})"

definition buildRemote :: "instanaAgentRemote \<Rightarrow> zone option \<Rightarrow> envVarRemoteKind \<Rightarrow> envVar option" where
  "buildRemote a z k =
     (let b = ra_Agent a; s = ra_Spec a in
      if secretMountsOn (rs_UseSecretMounts s) \<and> remote_isSecret k then None
      else (case k of
          AgentModeEnvRemote \<Rightarrow> agentModeEnv b z
        | ZoneNameEnvRemote \<Rightarrow> zoneNameEnv (rs_ZoneName s) z
        | AgentEndpointEnvRemote \<Rightarrow> stringToEnvVar ''INSTANA_AGENT_ENDPOINT'' (ba_EndpointHost b)
        | AgentEndpointPortEnvRemote \<Rightarrow> stringToEnvVar ''INSTANA_AGENT_ENDPOINT_PORT'' (ba_EndpointPort b)
        | MavenRepoURLEnvRemote \<Rightarrow> stringToEnvVar ''INSTANA_MVN_REPOSITORY_URL'' (ba_MvnRepoUrl b)
        | MavenRepoFeaturesPathRemote \<Rightarrow>
            stringToEnvVar ''INSTANA_MVN_REPOSITORY_FEATURES_PATH'' (ba_MvnRepoFeaturesPath b)
        | MavenRepoSharedPathRemote \<Rightarrow>
            stringToEnvVar ''INSTANA_MVN_REPOSITORY_SHARED_PATH'' (ba_MvnRepoSharedPath b)
        | MirrorReleaseRepoUrlEnvRemote \<Rightarrow>
            stringToEnvVar ''AGENT_RELEASE_REPOSITORY_MIRROR_URL'' (ba_MirrorReleaseRepoUrl b)
        | MirrorReleaseRepoUsernameEnvRemote \<Rightarrow>
            stringToEnvVar ''AGENT_RELEASE_REPOSITORY_MIRROR_USERNAME'' (ba_MirrorReleaseRepoUsername b)
        | MirrorSharedRepoUrlEnvRemote \<Rightarrow>
            stringToEnvVar ''INSTANA_SHARED_REPOSITORY_MIRROR_URL'' (ba_MirrorSharedRepoUrl b)
        | MirrorSharedRepoUsernameEnvRemote \<Rightarrow>
            stringToEnvVar ''INSTANA_SHARED_REPOSITORY_MIRROR_USERNAME'' (ba_MirrorSharedRepoUsername b)
        | MirrorSharedRepoPasswordEnvRemote \<Rightarrow>
            stringToEnvVar ''INSTANA_SHARED_REPOSITORY_MIRROR_PASSWORD'' (ba_MirrorSharedRepoPassword b)
        | MirrorReleaseRepoPasswordEnvRemote \<Rightarrow>
            stringToEnvVar ''AGENT_RELEASE_REPOSITORY_MIRROR_PASSWORD'' (ba_MirrorReleaseRepoPassword b)
        | ProxyHostEnvRemote \<Rightarrow> stringToEnvVar ''INSTANA_AGENT_PROXY_HOST'' (ba_ProxyHost b)
        | ProxyPortEnvRemote \<Rightarrow> stringToEnvVar ''INSTANA_AGENT_PROXY_PORT'' (ba_ProxyPort b)
        | ProxyProtocolEnvRemote \<Rightarrow> stringToEnvVar ''INSTANA_AGENT_PROXY_PROTOCOL'' (ba_ProxyProtocol b)
        | ProxyUserEnvRemote \<Rightarrow> stringToEnvVar ''INSTANA_AGENT_PROXY_USER'' (ba_ProxyUser b)
        | ProxyPasswordEnvRemote \<Rightarrow> stringToEnvVar ''INSTANA_AGENT_PROXY_PASSWORD'' (ba_ProxyPassword b)
        | ProxyUseDNSEnvRemote \<Rightarrow> boolToEnvVar ''INSTANA_AGENT_PROXY_USE_DNS'' (ba_ProxyUseDNS b)
        | ListenAddressEnvRemote \<Rightarrow> stringToEnvVar ''INSTANA_AGENT_HTTP_LISTEN'' (ba_ListenAddress b)
        | RedactK8sSecretsEnvRemote \<Rightarrow>
            stringToEnvVar ''INSTANA_KUBERNETES_REDACT_SECRETS'' (ba_RedactKubernetesSecrets b)
        | AgentZoneEnvRemote \<Rightarrow> Some (valueEnv ''AGENT_ZONE''
            (optional_GetOrDefault (optional_Of '''' (rs_ZoneName s)) (rs_ZoneName s)))
        | HTTPSProxyEnvRemote \<Rightarrow> httpsProxyEnv b
        | BackendURLEnvRemote \<Rightarrow> Some (valueEnv ''BACKEND_URL'' ''https://$(BACKEND)'')
        | NoProxyEnvRemote \<Rightarrow> noProxyEnv b
        | ConfigPathEnvRemote \<Rightarrow> Some (valueEnv ''CONFIG_PATH'' RemoteConfigDirectory)
        | EntrypointSkipBackendTemplateGenerationRemote \<Rightarrow>
            Some (valueEnv ''ENTRYPOINT_SKIP_BACKEND_TEMPLATE_GENERATION'' ''true'')
        | BackendEnvRemote \<Rightarrow> backendEnv (remoteResourcesName a)
        | InstanaAgentKeyEnvRemote \<Rightarrow> agentKeyHelper (ra_Name a) b ''INSTANA_AGENT_KEY''
        | AgentKeyEnvRemote \<Rightarrow> agentKeyHelper (ra_Name a) b ''AGENT_KEY''
        | DownloadKeyEnvRemote \<Rightarrow> downloadKeyEnv (ra_Name a) b
        | InstanaAgentPodNameEnvRemote \<Rightarrow> envWithObjectFieldSelector ''INSTANA_AGENT_POD_NAME'' ''metadata.name''
        | PodNameEnvRemote \<Rightarrow> envWithObjectFieldSelector ''POD_NAME'' ''metadata.name''
        | PodIPEnvRemote \<Rightarrow> envWithObjectFieldSelector ''POD_IP'' ''status.podIP''
        | PodUIDEnvRemote \<Rightarrow> envWithObjectFieldSelector ''POD_UID'' ''metadata.uid''
        | PodNamespaceEnvRemote \<Rightarrow> envWithObjectFieldSelector ''POD_NAMESPACE'' ''metadata.namespace''))"

definition remote_envBuilder_Build ::
  "instanaAgentRemote \<Rightarrow> zone option \<Rightarrow> envVarRemoteKind list \<Rightarrow> envVar list" where
  "remote_envBuilder_Build a z envVars =
     for_each (\<lambda>k acc. case buildRemote a z k of None \<Rightarrow> acc | Some v \<Rightarrow> acc @ [v]) envVars
       (getUserProvidedEnvs (ra_Agent a))"

subsection \<open>Secrets\<close>

text \<open>
  The credentials a spec can carry in plain text. \<open>redactSecrets\<close> replaces each by a fixed text
  where it is set: what is equal before and after redaction does not depend on their values.
\<close>

definition redact :: "string \<Rightarrow> string" where
  "redact s = (if s = '''' then '''' else ''redacted'')"

definition redactSecrets :: "baseAgentSpec \<Rightarrow> baseAgentSpec" where
  "redactSecrets b =
     b\<lparr>ba_Key := redact (ba_Key b), ba_DownloadKey := redact (ba_DownloadKey b),
       ba_ProxyUser := redact (ba_ProxyUser b), ba_ProxyPassword := redact (ba_ProxyPassword b),
       ba_MirrorReleaseRepoUsername := redact (ba_MirrorReleaseRepoUsername b),
       ba_MirrorReleaseRepoPassword := redact (ba_MirrorReleaseRepoPassword b),
       ba_MirrorSharedRepoUsername := redact (ba_MirrorSharedRepoUsername b),
       ba_MirrorSharedRepoPassword := redact (ba_MirrorSharedRepoPassword b)\<rparr>"

definition agent_redacted :: "instanaAgent \<Rightarrow> instanaAgent" where
  "agent_redacted a = a\<lparr>ag_Spec := (ag_Spec a)\<lparr>sp_Agent := redactSecrets (ag_Agent a)\<rparr>\<rparr>"

definition remote_redacted :: "instanaAgentRemote \<Rightarrow> instanaAgentRemote" where
  "remote_redacted a = a\<lparr>ra_Spec := (ra_Spec a)\<lparr>rs_Agent := redactSecrets (ra_Agent a)\<rparr>\<rparr>"

lemma redact_empty_iff [simp]: "redact s = [] \<longleftrightarrow> s = []"
  by (simp add: redact_def)

lemma appendBuilt_cong:
  "(\<And>k. k \<in> set ks \<Longrightarrow> f k = g k) \<Longrightarrow> appendBuilt f ks acc = appendBuilt g ks acc"
  by (induction ks arbitrary: acc) (auto intro!: arg_cong [of _ _ "bind_outcome _"] simp: fun_eq_iff)

lemma appendBuilt_Ret:
  "appendBuilt (\<lambda>k. Ret (f k)) ks acc = Ret (acc @ map the (filter (\<lambda>v. v \<noteq> None) (map f ks)))"
  by (induction ks arbitrary: acc) (auto split: option.splits)

lemma remote_Build_eq:
  "remote_envBuilder_Build a z ks =
     getUserProvidedEnvs (ra_Agent a) @ map the (filter (\<lambda>v. v \<noteq> None) (map (buildRemote a z) ks))"
proof -
  have "for_each (\<lambda>k acc. case f k of None \<Rightarrow> acc | Some v \<Rightarrow> acc @ [v]) ks acc =
      acc @ map the (filter (\<lambda>v. v \<noteq> None) (map f ks))" for f :: "envVarRemoteKind \<Rightarrow> envVar option" and acc
    by (induction ks arbitrary: acc) (auto split: option.splits)
  then show ?thesis by (simp add: remote_envBuilder_Build_def)
qed

lemma userEnvs_eq: "getUserProvidedEnvs b = map (\<lambda>(n, v). valueEnv n v) (ba_Env b)"
proof -
  have "for_each (\<lambda>(name, val) envVars. envVars @ [valueEnv name val]) m acc =
      acc @ map (\<lambda>(n, v). valueEnv n v) m" for m :: strmap and acc
    by (induction m arbitrary: acc) auto
  then show ?thesis by (simp add: getUserProvidedEnvs_def)
qed

lemmas env_helper_defs = agentModeEnv_def zoneNameEnv_def noProxyEnv_def backendEnv_def keysSecretName_def
  etcdCAFileEnv_def etcdInsecureEnv_def etcdTargetsEnv_def controlPlaneCAFileEnv_def
  restClientHostAllowlistEnv_def k8sSensorResourcesName_def headlessServiceName_def

lemma redactSecrets_simps [simp]:
  "ba_Env (redactSecrets b) = ba_Env b" "ba_KeysSecret (redactSecrets b) = ba_KeysSecret b"
  "ba_Mode (redactSecrets b) = ba_Mode b" "ba_ProxyHost (redactSecrets b) = ba_ProxyHost b"
  "ba_Pod (redactSecrets b) = ba_Pod b" "ba_TlsSpec (redactSecrets b) = ba_TlsSpec b"
  "ba_ImageSpec (redactSecrets b) = ba_ImageSpec b" "ba_PullSecrets (redactSecrets b) = ba_PullSecrets b"
  "ba_UpdateStrategy (redactSecrets b) = ba_UpdateStrategy b"
  "ba_MinReadySeconds (redactSecrets b) = ba_MinReadySeconds b"
  "ba_HostRepository (redactSecrets b) = ba_HostRepository b"
  "ba_Key (redactSecrets b) = redact (ba_Key b)"
  "ba_DownloadKey (redactSecrets b) = redact (ba_DownloadKey b)"
  "ba_ProxyUser (redactSecrets b) = redact (ba_ProxyUser b)"
  "ba_ProxyPassword (redactSecrets b) = redact (ba_ProxyPassword b)"
  "ba_MirrorReleaseRepoUsername (redactSecrets b) = redact (ba_MirrorReleaseRepoUsername b)"
  "ba_MirrorReleaseRepoPassword (redactSecrets b) = redact (ba_MirrorReleaseRepoPassword b)"
  "ba_MirrorSharedRepoUsername (redactSecrets b) = redact (ba_MirrorSharedRepoUsername b)"
  "ba_MirrorSharedRepoPassword (redactSecrets b) = redact (ba_MirrorSharedRepoPassword b)"
  by (simp_all add: redactSecrets_def)

lemma agent_redacted_simps [simp]:
  "ag_Meta (agent_redacted a) = ag_Meta a" "ag_APIVersion (agent_redacted a) = ag_APIVersion a"
  "ag_Kind (agent_redacted a) = ag_Kind a" "ag_Agent (agent_redacted a) = redactSecrets (ag_Agent a)"
  "sp_UseSecretMounts (ag_Spec (agent_redacted a)) = sp_UseSecretMounts (ag_Spec a)"
  "sp_ClusterName (ag_Spec (agent_redacted a)) = sp_ClusterName (ag_Spec a)"
  "sp_ZoneName (ag_Spec (agent_redacted a)) = sp_ZoneName (ag_Spec a)"
  "sp_K8sSensor (ag_Spec (agent_redacted a)) = sp_K8sSensor (ag_Spec a)"
  "sp_OpenTelemetry (ag_Spec (agent_redacted a)) = sp_OpenTelemetry (ag_Spec a)"
  "sp_ServiceAccount (ag_Spec (agent_redacted a)) = sp_ServiceAccount (ag_Spec a)"
  by (simp_all add: agent_redacted_def)

lemma remote_redacted_simps [simp]:
  "ra_Meta (remote_redacted a) = ra_Meta a" "ra_Agent (remote_redacted a) = redactSecrets (ra_Agent a)"
  "rs_UseSecretMounts (ra_Spec (remote_redacted a)) = rs_UseSecretMounts (ra_Spec a)"
  "rs_ZoneName (ra_Spec (remote_redacted a)) = rs_ZoneName (ra_Spec a)"
  "rs_ServiceAccount (ra_Spec (remote_redacted a)) = rs_ServiceAccount (ra_Spec a)"
  "rs_Hostname (ra_Spec (remote_redacted a)) = rs_Hostname (ra_Spec a)"
  by (simp_all add: remote_redacted_def)

lemma buildEnv_redacted:
  assumes "secretMountsOn (sp_UseSecretMounts (ag_Spec a))"
  shows "buildEnv (agent_redacted a) z k = buildEnv a z k"
  using assms by (cases k) (simp_all add: buildEnv_def isSecret_def env_helper_defs Let_def
      redactSecrets_def split: option.split)

lemma buildRemote_redacted:
  assumes "secretMountsOn (rs_UseSecretMounts (ra_Spec a))"
  shows "buildRemote (remote_redacted a) z k = buildRemote a z k"
  using assms by (cases k) (simp_all add: buildRemote_def remote_isSecret_def env_helper_defs Let_def
      remoteResourcesName_def redactSecrets_def split: option.split)

subsection \<open>The \<open>EnvBuilder\<close> interface\<close>

text \<open>
  What the workload builders rely on: with secret mounts on, a request for a secret variable
  yields nothing, no other built variable refers to a Secret, and the outcome does not depend
  on the values of the credentials.
\<close>

definition refersToSecret :: "envVar \<Rightarrow> bool" where
  "refersToSecret v = (case ev_ValueFrom v of Some (SecretKeyRef _ _ _) \<Rightarrow> True | _ \<Rightarrow> False)"

locale env_builder =
  fixes secret_mounts :: bool and build :: "'k \<Rightarrow> envVar option go"
    and redacted :: "'k \<Rightarrow> envVar option go" and is_secret :: "'k \<Rightarrow> bool"
  assumes secret_skipped: "secret_mounts \<Longrightarrow> is_secret k \<Longrightarrow> build k = Ret None"
    and no_secret_ref: "secret_mounts \<Longrightarrow> build k = Ret (Some v) \<Longrightarrow> \<not> refersToSecret v"
    and redacted_eq: "secret_mounts \<Longrightarrow> redacted k = build k"
begin

lemma appended_no_secret_ref:
  assumes "secret_mounts" and "appendBuilt build ks acc = Ret vs"
    and "\<forall>v\<in>set acc. \<not> refersToSecret v"
  shows "\<forall>v\<in>set vs. \<not> refersToSecret v"
  using assms(2,3)
proof (induction ks arbitrary: acc)
  case (Cons k ks)
  from Cons.prems(1) obtain r where r: "build k = Ret r"
    "appendBuilt build ks (case r of None \<Rightarrow> acc | Some v \<Rightarrow> acc @ [v]) = Ret vs"
    by (auto simp: bind_outcome_Ret_iff)
  moreover from r(1) Cons.prems(2) no_secret_ref [OF assms(1), of k]
  have "\<forall>v\<in>set (case r of None \<Rightarrow> acc | Some v \<Rightarrow> acc @ [v]). \<not> refersToSecret v"
    by (auto split: option.splits)
  ultimately show ?case using Cons.IH by blast
qed simp

lemma appended_redacted: "secret_mounts \<Longrightarrow> appendBuilt redacted ks acc = appendBuilt build ks acc"
  by (rule appendBuilt_cong) (rule redacted_eq)

lemma appended_no_secrets:
  "secret_mounts \<Longrightarrow> appendBuilt build ks acc = appendBuilt build (filter (\<lambda>k. \<not> is_secret k) ks) acc"
  by (induction ks arbitrary: acc) (auto simp: secret_skipped)

end

lemma valueEnv_no_ref [simp]: "\<not> refersToSecret (valueEnv n v)"
  by (simp add: refersToSecret_def valueEnv_def)

lemma sourceEnv_ref [simp]:
  "\<not> refersToSecret (sourceEnv n (FieldRef p))" "\<not> refersToSecret (sourceEnv n (ConfigMapKeyRef c key))"
  by (simp_all add: refersToSecret_def sourceEnv_def)

lemma helper_no_ref:
  "stringToEnvVar n s = Some v \<Longrightarrow> \<not> refersToSecret v"
  "boolToEnvVar n b = Some v \<Longrightarrow> \<not> refersToSecret v"
  "int32ToEnvVar n i = Some v \<Longrightarrow> \<not> refersToSecret v"
  "envWithObjectFieldSelector n p = Some v \<Longrightarrow> \<not> refersToSecret v"
  by (auto simp: stringToEnvVar_def boolToEnvVar_def int32ToEnvVar_def intToEnvVar_def
      envWithObjectFieldSelector_def split: if_splits)

lemma buildEnv_no_ref:
  assumes "secretMountsOn (sp_UseSecretMounts (ag_Spec a))" and "buildEnv a z k = Ret (Some v)"
  shows "\<not> refersToSecret v"
  using assms by (cases k) (auto simp: buildEnv_def isSecret_def env_helper_defs Let_def derefOrPanic_def
      dest: helper_no_ref split: option.splits if_splits)

lemma buildRemote_no_ref:
  assumes "secretMountsOn (rs_UseSecretMounts (ra_Spec a))" and "buildRemote a z k = Some v"
  shows "\<not> refersToSecret v"
  using assms by (cases k) (auto simp: buildRemote_def remote_isSecret_def env_helper_defs Let_def
      dest: helper_no_ref split: option.splits if_splits)

lemma buildEnv_secret:
  "secretMountsOn (sp_UseSecretMounts (ag_Spec a)) \<Longrightarrow> isSecret k \<Longrightarrow> buildEnv a z k = Ret None"
  by (simp add: buildEnv_def Let_def)

lemma buildRemote_secret:
  "secretMountsOn (rs_UseSecretMounts (ra_Spec a)) \<Longrightarrow> remote_isSecret k \<Longrightarrow> buildRemote a z k = None"
  by (simp add: buildRemote_def Let_def)

interpretation agent_env: env_builder "secretMountsOn (sp_UseSecretMounts (ag_Spec a))"
  "buildEnv a z" "buildEnv (agent_redacted a) z" isSecret for a z
  by unfold_locales (simp_all add: buildEnv_redacted buildEnv_no_ref buildEnv_secret)

interpretation remote_env: env_builder "secretMountsOn (rs_UseSecretMounts (ra_Spec a))"
  "\<lambda>k. Ret (buildRemote a z k)" "\<lambda>k. Ret (buildRemote (remote_redacted a) z k)" remote_isSecret for a z
  by unfold_locales (simp_all add: buildRemote_redacted buildRemote_no_ref buildRemote_secret)

end
