(* ===== verification/Volume_Builder.thy ===== *)
theory Volume_Builder
  imports Env_Builder
begin

text \<open>
  The volume builders (\<open>common/volume/volume_builder.go\<close>, \<open>remote_volume_builder.go\<close>) and the
  etcd constants. A volume kind yields a volume with its mount or neither, as in the source.
\<close>

subsection \<open>Constants (\<open>common/constants/etcd.go\<close>)\<close>

abbreviation ETCDCASecretName :: string where "ETCDCASecretName \<equiv> ''etcd-ca''"
abbreviation ETCDClientCertSecretName :: string where "ETCDClientCertSecretName \<equiv> ''etcd-client-cert''"
abbreviation ETCDMetricsPortHTTPS :: int where "ETCDMetricsPortHTTPS \<equiv> 2379"
abbreviation ETCDMetricsPortHTTP :: int where "ETCDMetricsPortHTTP \<equiv> 2381"
abbreviation ETCDOCPMetricsPort :: int where "ETCDOCPMetricsPort \<equiv> 9978"
abbreviation EnvETCDTargets :: string where "EnvETCDTargets \<equiv> ''ETCD_TARGETS''"
abbreviation EnvETCDCAFile :: string where "EnvETCDCAFile \<equiv> ''ETCD_CA_FILE''"
abbreviation EnvETCDCertFile :: string where "EnvETCDCertFile \<equiv> ''ETCD_CERT_FILE''"
abbreviation EnvETCDKeyFile :: string where "EnvETCDKeyFile \<equiv> ''ETCD_KEY_FILE''"
abbreviation EnvETCDMetricsURL :: string where "EnvETCDMetricsURL \<equiv> ''ETCD_METRICS_URL''"
abbreviation EnvETCDRequestTimeout :: string where "EnvETCDRequestTimeout \<equiv> ''ETCD_REQUEST_TIMEOUT''"
abbreviation ETCDCAMountPath :: string where "ETCDCAMountPath \<equiv> ''/var/run/secrets/etcd''"
abbreviation ETCDMetricsCABundleName :: string where "ETCDMetricsCABundleName \<equiv> ''etcd-ca-bundle''"
abbreviation ETCDMetricClientSecretName :: string where "ETCDMetricClientSecretName \<equiv> ''etcd-client''"
abbreviation ETCDNamespace :: string where "ETCDNamespace \<equiv> ''openshift-etcd''"
abbreviation ETCDMetricsCAMountPath :: string where "ETCDMetricsCAMountPath \<equiv> ''/etc/etcd-metrics-ca''"
abbreviation ETCDClientCertMountPath :: string where "ETCDClientCertMountPath \<equiv> ''/etc/etcd-client''"
abbreviation ETCDCABundleFileName :: string where "ETCDCABundleFileName \<equiv> ''ca-bundle.crt''"
abbreviation ETCDClientCertFileName :: string where "ETCDClientCertFileName \<equiv> ''tls.crt''"
abbreviation ETCDClientKeyFileName :: string where "ETCDClientKeyFileName \<equiv> ''tls.key''"

definition getETCDOCPMetricsURL :: string where
  "getETCDOCPMetricsURL =
     ''https://etcd.openshift-etcd.svc.cluster.local:'' @ itoa ETCDOCPMetricsPort @ ''/metrics''"

text \<open>The file modes \<open>0440\<close> and \<open>0400\<close>.\<close>

abbreviation mode0440 :: int where "mode0440 \<equiv> 288"
abbreviation mode0400 :: int where "mode0400 \<equiv> 256"

subsection \<open>\<open>volume_builder.go\<close>\<close>

type_synonym volumeAndMount = "volume option \<times> volumeMount option"

definition mount :: "string \<Rightarrow> string \<Rightarrow> bool \<Rightarrow> string option \<Rightarrow> volumeMount" where
  "mount name path readOnly propagation =
     \<lparr>vm_Name = name, vm_MountPath = path, vm_ReadOnly = readOnly, vm_MountPropagation = propagation,
      vm_Rest = ''''\<rparr>"

definition volumeWithMount ::
  "string \<Rightarrow> volumeSource \<Rightarrow> string \<Rightarrow> bool \<Rightarrow> string option \<Rightarrow> volumeAndMount" where
  "volumeWithMount name src path readOnly propagation =
     (Some \<lparr>vol_Name = name, vol_Source = src\<rparr>, Some (mount name path readOnly propagation))"

datatype volumeKind =
    DevVolume | RunVolume | VarRunVolume | VarRunKuboVolume | VarRunContainerdVolume
  | VarContainerdConfigVolume | SysVolume | VarLogVolume | VarLibInstanaVolume | VarDataVolume
  | MachineIdVolume | ConfigVolume | TlsVolume | RepoVolume | NamespacesDetailsVolume | SecretsVolume
  | K8SensorSecretsVolume | ETCDCAVolume | ETCDClientCertVolume | ControlPlaneCAVolume

record volumeBuilder =
  vb_instanaAgent :: instanaAgent
  vb_isOpenShift :: bool
  vb_backendResourceSuffix :: string

definition newVolumeBuilder :: "instanaAgent \<Rightarrow> bool \<Rightarrow> volumeBuilder" where
  "newVolumeBuilder agent isOpenShift =
     \<lparr>vb_instanaAgent = agent, vb_isOpenShift = isOpenShift, vb_backendResourceSuffix = ''''\<rparr>"

definition withBackendResourceSuffix :: "string \<Rightarrow> volumeBuilder \<Rightarrow> volumeBuilder" where
  "withBackendResourceSuffix sfx v = v\<lparr>vb_backendResourceSuffix := sfx\<rparr>"

definition hostVolumeWithMount ::
  "string \<Rightarrow> string \<Rightarrow> string option \<Rightarrow> string option \<Rightarrow> volumeAndMount" where
  "hostVolumeWithMount name path mountPropagationMode hostPathType =
     volumeWithMount name (HostPath path hostPathType) path False mountPropagationMode"

definition hostVolumeWithMountLiteralWhenCondition ::
  "bool \<Rightarrow> string \<Rightarrow> string \<Rightarrow> string option \<Rightarrow> string option \<Rightarrow> volumeAndMount" where
  "hostVolumeWithMountLiteralWhenCondition condition name path mountPropagationMode hostPathType =
     (if condition then hostVolumeWithMount name path mountPropagationMode hostPathType else (None, None))"

definition configVolume :: "volumeBuilder \<Rightarrow> volumeAndMount" where
  "configVolume v = volumeWithMount ''config''
     (SecretVolume (ag_Name (vb_instanaAgent v) @ ''-config'') (Some mode0440) [] None)
     InstanaConfigDirectory False None"

definition namespacesDetailsVolume :: "volumeBuilder \<Rightarrow> volumeAndMount" where
  "namespacesDetailsVolume v = volumeWithMount ''namespaces-details''
     (ConfigMapVolume (ag_Name (vb_instanaAgent v) @ ''-namespaces'') (Some mode0440) [])
     InstanaNamespacesDetailsDirectory False None"

definition tlsVolume :: "volumeBuilder \<Rightarrow> volumeAndMount" where
  "tlsVolume v =
     (let b = ag_Agent (vb_instanaAgent v) in
      if \<not> tlsIsEnabled b then (None, None)
      else volumeWithMount ''instana-agent-tls''
        (SecretVolume (tlsSecretName (ag_Name (vb_instanaAgent v)) b) (Some mode0440) [] None)
        ''/opt/instana/agent/etc/certs'' True None)"

definition repoVolume :: "volumeBuilder \<Rightarrow> volumeAndMount" where
  "repoVolume v =
     (let repository = ba_HostRepository (ag_Agent (vb_instanaAgent v)) in
      if repository = '''' then (None, None)
      else volumeWithMount ''repo'' (HostPath repository None) ''/opt/instana/agent/data/repo'' False None)"

definition k8sensorSecretsVolume :: "volumeBuilder \<Rightarrow> volumeAndMount" where
  "k8sensorSecretsVolume v =
     (let a = vb_instanaAgent v; b = ag_Agent a; sfx = vb_backendResourceSuffix v in
      if sp_UseSecretMounts (ag_Spec a) = Some False then (None, None)
      else (let secretName = (if ba_KeysSecret b = '''' then ag_Name a else ba_KeysSecret b);
                (agentKeySecretKey, proxySecretKey) =
                  (if ba_KeysSecret b \<noteq> '''' then (AgentKey @ sfx, SecretKeyHttpsProxy)
                   else (SecretFileAgentKey @ sfx, SecretFileHttpsProxy));
                items = [\<lparr>kp_Key = agentKeySecretKey, kp_Path = SecretFileAgentKey @ sfx\<rparr>];
                items = (if ba_ProxyHost b \<noteq> ''''
                         then items @ [\<lparr>kp_Key = proxySecretKey, kp_Path = SecretFileHttpsProxy\<rparr>] else items)
            in volumeWithMount ''instana-secrets'' (SecretVolume secretName (Some mode0400) items None)
                 InstanaSecretsDirectory True None))"

definition secretsVolume :: "volumeBuilder \<Rightarrow> volumeAndMount" where
  "secretsVolume v =
     (let a = vb_instanaAgent v; b = ag_Agent a in
      if sp_UseSecretMounts (ag_Spec a) = Some False then (None, None)
      else (let secretName = (if ba_KeysSecret b = '''' then ag_Name a else ba_KeysSecret b);
                items = (if ba_KeysSecret b \<noteq> ''''
                         then [\<lparr>kp_Key = AgentKey @ vb_backendResourceSuffix v, kp_Path = SecretFileAgentKey\<rparr>]
                         else [])
            in volumeWithMount ''instana-secrets'' (SecretVolume secretName (Some mode0400) items None)
                 InstanaSecretsDirectory True None))"

text \<open>A volume with the CA certificate of a user's secret, under the name \<open>ca.crt\<close>.\<close>

definition caVolume :: "string \<Rightarrow> caSpec \<Rightarrow> volumeAndMount" where
  "caVolume volumeName ca =
     (let filename = (if ca_Filename ca = '''' then ''ca.crt'' else ca_Filename ca)
      in volumeWithMount volumeName
           (SecretVolume (ca_SecretName ca) (Some mode0440) [\<lparr>kp_Key = filename, kp_Path = ''ca.crt''\<rparr>] None)
           (ca_MountPath ca) True None)"

definition etcdCAVolume :: "volumeBuilder \<Rightarrow> volumeAndMount" where
  "etcdCAVolume v =
     (let ca = etcd_CA (ag_ETCD (vb_instanaAgent v)) in
      if ca_SecretName ca = ''''
      then (if vb_isOpenShift v
            then volumeWithMount ETCDCASecretName
                   (ConfigMapVolume ETCDMetricsCABundleName (Some mode0440)
                      [\<lparr>kp_Key = ETCDCABundleFileName, kp_Path = ETCDCABundleFileName\<rparr>])
                   ETCDMetricsCAMountPath True None
            else (None, None))
      else caVolume ''etcd-ca'' ca)"

definition etcdClientCertVolume :: "volumeBuilder \<Rightarrow> volumeAndMount" where
  "etcdClientCertVolume v =
     (if \<not> vb_isOpenShift v then (None, None)
      else volumeWithMount ETCDClientCertSecretName
             (SecretVolume ETCDMetricClientSecretName (Some mode0440)
                [\<lparr>kp_Key = ETCDClientCertFileName, kp_Path = ETCDClientCertFileName\<rparr>,
                 \<lparr>kp_Key = ETCDClientKeyFileName, kp_Path = ETCDClientKeyFileName\<rparr>] None)
             ETCDClientCertMountPath True None)"

definition controlPlaneCAVolume :: "volumeBuilder \<Rightarrow> volumeAndMount" where
  "controlPlaneCAVolume v =
     (let ca = rc_CA (ks_RestClient (ag_K8sSensor (vb_instanaAgent v))) in
      if ca_SecretName ca = '''' then (None, None) else caVolume ''control-plane-ca'' ca)"

definition getBuilder :: "volumeBuilder \<Rightarrow> volumeKind \<Rightarrow> volumeAndMount" where
  "getBuilder v k =
     (let hostToContainer = Some ''HostToContainer''; mkdir = Some ''DirectoryOrCreate'' in
      case k of
        DevVolume \<Rightarrow> hostVolumeWithMount ''dev'' ''/dev'' hostToContainer None
      | RunVolume \<Rightarrow> hostVolumeWithMount ''run'' ''/run'' hostToContainer None
      | VarRunVolume \<Rightarrow> hostVolumeWithMount ''var-run'' ''/var/run'' hostToContainer None
      | VarRunKuboVolume \<Rightarrow> hostVolumeWithMountLiteralWhenCondition (\<not> vb_isOpenShift v)
          ''var-run-kubo'' ''/var/vcap/sys/run/docker'' hostToContainer mkdir
      | VarRunContainerdVolume \<Rightarrow> hostVolumeWithMountLiteralWhenCondition (\<not> vb_isOpenShift v)
          ''var-run-containerd'' ''/var/vcap/sys/run/containerd'' hostToContainer mkdir
      | VarContainerdConfigVolume \<Rightarrow> hostVolumeWithMountLiteralWhenCondition (\<not> vb_isOpenShift v)
          ''var-containerd-config'' ''/var/vcap/jobs/containerd/config'' hostToContainer mkdir
      | SysVolume \<Rightarrow> hostVolumeWithMount ''sys'' ''/sys'' hostToContainer None
      | VarLogVolume \<Rightarrow> hostVolumeWithMount ''var-log'' ''/var/log'' hostToContainer None
      | VarLibInstanaVolume \<Rightarrow> hostVolumeWithMount ''var-lib-instana'' ''/var/lib/instana'' hostToContainer mkdir
      | VarDataVolume \<Rightarrow> hostVolumeWithMount ''var-data'' ''/var/data'' hostToContainer mkdir
      | MachineIdVolume \<Rightarrow> hostVolumeWithMount ''machine-id'' ''/etc/machine-id'' None None
      | ConfigVolume \<Rightarrow> configVolume v
      | NamespacesDetailsVolume \<Rightarrow> namespacesDetailsVolume v
      | TlsVolume \<Rightarrow> tlsVolume v
      | RepoVolume \<Rightarrow> repoVolume v
      | SecretsVolume \<Rightarrow> secretsVolume v
      | K8SensorSecretsVolume \<Rightarrow> k8sensorSecretsVolume v
      | ETCDCAVolume \<Rightarrow> etcdCAVolume v
      | ETCDClientCertVolume \<Rightarrow> etcdClientCertVolume v
      | ControlPlaneCAVolume \<Rightarrow> controlPlaneCAVolume v)"

text \<open>The loop of the two \<open>Build\<close> methods.\<close>

definition collectVolumes ::
  "('k \<Rightarrow> volumeAndMount) \<Rightarrow> 'k list \<Rightarrow> volume list \<times> volumeMount list" where
  "collectVolumes builder volumes =
     for_each (\<lambda>k (specs, mounts).
        (case builder k of (vol, mnt) \<Rightarrow>
           ((case vol of None \<Rightarrow> specs | Some x \<Rightarrow> specs @ [x]),
            (case mnt of None \<Rightarrow> mounts | Some x \<Rightarrow> mounts @ [x])))) volumes ([], [])"

definition volumeBuilder_Build :: "volumeBuilder \<Rightarrow> volumeKind list \<Rightarrow> volume list \<times> volumeMount list" where
  "volumeBuilder_Build v volumes = collectVolumes (getBuilder v) volumes"

definition buildFromUserConfig :: "baseAgentSpec \<Rightarrow> volume list \<times> volumeMount list" where
  "buildFromUserConfig b = (ap_Volumes (ba_Pod b), ap_VolumeMounts (ba_Pod b))"

subsection \<open>\<open>remote_volume_builder.go\<close>\<close>

datatype remoteVolumeKind = ConfigVolumeRemote | TlsVolumeRemote | RepoVolumeRemote | SecretsVolumeRemote

definition remote_configVolume :: "instanaAgentRemote \<Rightarrow> volumeAndMount" where
  "remote_configVolume a = volumeWithMount ''config''
     (SecretVolume (''instana-agent-r-'' @ ra_Name a @ ''-config'') (Some mode0440) [] None)
     RemoteConfigDirectory False None"

definition remote_tlsVolume :: "instanaAgentRemote \<Rightarrow> volumeAndMount" where
  "remote_tlsVolume a =
     (if \<not> tlsIsEnabled (ra_Agent a) then (None, None)
      else volumeWithMount ''remote-agent-tls''
        (SecretVolume (tlsSecretName (ra_Name a) (ra_Agent a)) (Some mode0440) [] None)
        ''/opt/instana/agent/etc/certs'' True None)"

definition itemIf :: "string \<Rightarrow> string \<Rightarrow> string \<Rightarrow> keyToPath list" where
  "itemIf val key path = (if val \<noteq> '''' then [\<lparr>kp_Key = key, kp_Path = path\<rparr>] else [])"

definition remote_secretItems :: "baseAgentSpec \<Rightarrow> keyToPath list" where
  "remote_secretItems b =
     [\<lparr>kp_Key = AgentKey, kp_Path = SecretFileAgentKey\<rparr>] @
     itemIf (ba_DownloadKey b) DownloadKey SecretFileDownloadKey @
     (if ba_ProxyHost b \<noteq> ''''
      then itemIf (ba_ProxyUser b) SecretKeyProxyUser SecretFileProxyUser @
           itemIf (ba_ProxyPassword b) SecretKeyProxyPassword SecretFileProxyPassword @
           [\<lparr>kp_Key = SecretKeyHttpsProxy, kp_Path = SecretFileHttpsProxy\<rparr>]
      else []) @
     itemIf (ba_MirrorReleaseRepoUsername b) SecretKeyMirrorReleaseRepoUsername SecretFileMirrorReleaseRepoUsername @
     itemIf (ba_MirrorReleaseRepoPassword b) SecretKeyMirrorReleaseRepoPassword SecretFileMirrorReleaseRepoPassword @
     itemIf (ba_MirrorSharedRepoUsername b) SecretKeyMirrorSharedRepoUsername SecretFileMirrorSharedRepoUsername @
     itemIf (ba_MirrorSharedRepoPassword b) SecretKeyMirrorSharedRepoPassword SecretFileMirrorSharedRepoPassword"

definition remote_secretsVolume :: "instanaAgentRemote \<Rightarrow> volumeAndMount" where
  "remote_secretsVolume a =
     (let b = ra_Agent a in
      if rs_UseSecretMounts (ra_Spec a) = Some False then (None, None)
      else (let secretName = (if ba_KeysSecret b = '''' then ra_Name a else ba_KeysSecret b)
            in volumeWithMount ''instana-secrets''
                 (SecretVolume secretName (Some mode0400) (remote_secretItems b) (Some False))
                 InstanaSecretsDirectory True None))"

definition remote_repoVolume :: "instanaAgentRemote \<Rightarrow> volumeAndMount" where
  "remote_repoVolume a =
     (let repository = ba_HostRepository (ra_Agent a) in
      if repository = '''' then (None, None)
      else volumeWithMount ''repo'' (PersistentVolumeClaim repository) ''/opt/instana/agent/data/repo'' False None)"

definition remote_getBuilder :: "instanaAgentRemote \<Rightarrow> remoteVolumeKind \<Rightarrow> volumeAndMount" where
  "remote_getBuilder a k =
     (case k of
        ConfigVolumeRemote \<Rightarrow> remote_configVolume a
      | TlsVolumeRemote \<Rightarrow> remote_tlsVolume a
      | RepoVolumeRemote \<Rightarrow> remote_repoVolume a
      | SecretsVolumeRemote \<Rightarrow> remote_secretsVolume a)"

definition remote_volumeBuilder_Build ::
  "instanaAgentRemote \<Rightarrow> remoteVolumeKind list \<Rightarrow> volume list \<times> volumeMount list" where
  "remote_volumeBuilder_Build a volumes = collectVolumes (remote_getBuilder a) volumes"

subsection \<open>Lemmas\<close>

text \<open>
  The interface of the builders: a kind yields both a volume and a mount of its name, or
  neither, and the volume's name depends only on the kind. Then every mount of the built list
  has its volume, and kinds with different names give volumes with different names.
\<close>

definition paired :: "volumeAndMount \<Rightarrow> bool" where
  "paired vm = (case vm of (None, None) \<Rightarrow> True | (Some v, Some m) \<Rightarrow> vm_Name m = vol_Name v | _ \<Rightarrow> False)"

locale volume_builder =
  fixes builder :: "'k \<Rightarrow> volumeAndMount" and kind_name :: "'k \<Rightarrow> string"
  assumes paired: "paired (builder k)"
    and named_by_kind: "fst (builder k) = Some v \<Longrightarrow> vol_Name v = kind_name k"
begin

lemma collect_eq:
  "collectVolumes builder ks =
     (map the (filter (\<lambda>v. v \<noteq> None) (map (fst \<circ> builder) ks)),
      map the (filter (\<lambda>m. m \<noteq> None) (map (snd \<circ> builder) ks)))"
proof -
  have "for_each (\<lambda>k (specs, mounts).
        (case builder k of (vol, mnt) \<Rightarrow>
           ((case vol of None \<Rightarrow> specs | Some x \<Rightarrow> specs @ [x]),
            (case mnt of None \<Rightarrow> mounts | Some x \<Rightarrow> mounts @ [x])))) ks (a, b) =
      (a @ map the (filter (\<lambda>v. v \<noteq> None) (map (fst \<circ> builder) ks)),
       b @ map the (filter (\<lambda>m. m \<noteq> None) (map (snd \<circ> builder) ks)))" for a b
    by (induction ks arbitrary: a b) (auto split: prod.splits option.splits)
  then show ?thesis by (simp add: collectVolumes_def)
qed

lemma mount_names:
  "map vm_Name (snd (collectVolumes builder ks)) = map vol_Name (fst (collectVolumes builder ks))"
proof (induction ks)
  case (Cons k ks)
  with paired [of k] show ?case
    by (cases "builder k") (auto simp: collect_eq paired_def split: option.splits)
qed (simp add: collect_eq)

lemma volume_names:
  "map vol_Name (fst (collectVolumes builder ks)) =
     map kind_name (filter (\<lambda>k. fst (builder k) \<noteq> None) ks)"
  by (induction ks) (auto simp: collect_eq named_by_kind)

lemma distinct_names:
  "distinct (map kind_name ks) \<Longrightarrow> distinct (map vol_Name (fst (collectVolumes builder ks)))"
  by (simp add: volume_names distinct_map_filter)

end

fun volumeKindName :: "volumeKind \<Rightarrow> string" where
  "volumeKindName DevVolume = ''dev''"
| "volumeKindName RunVolume = ''run''"
| "volumeKindName VarRunVolume = ''var-run''"
| "volumeKindName VarRunKuboVolume = ''var-run-kubo''"
| "volumeKindName VarRunContainerdVolume = ''var-run-containerd''"
| "volumeKindName VarContainerdConfigVolume = ''var-containerd-config''"
| "volumeKindName SysVolume = ''sys''"
| "volumeKindName VarLogVolume = ''var-log''"
| "volumeKindName VarLibInstanaVolume = ''var-lib-instana''"
| "volumeKindName VarDataVolume = ''var-data''"
| "volumeKindName MachineIdVolume = ''machine-id''"
| "volumeKindName ConfigVolume = ''config''"
| "volumeKindName TlsVolume = ''instana-agent-tls''"
| "volumeKindName RepoVolume = ''repo''"
| "volumeKindName NamespacesDetailsVolume = ''namespaces-details''"
| "volumeKindName SecretsVolume = ''instana-secrets''"
| "volumeKindName K8SensorSecretsVolume = ''instana-secrets''"
| "volumeKindName ETCDCAVolume = ''etcd-ca''"
| "volumeKindName ETCDClientCertVolume = ''etcd-client-cert''"
| "volumeKindName ControlPlaneCAVolume = ''control-plane-ca''"

fun remoteVolumeKindName :: "remoteVolumeKind \<Rightarrow> string" where
  "remoteVolumeKindName ConfigVolumeRemote = ''config''"
| "remoteVolumeKindName TlsVolumeRemote = ''remote-agent-tls''"
| "remoteVolumeKindName RepoVolumeRemote = ''repo''"
| "remoteVolumeKindName SecretsVolumeRemote = ''instana-secrets''"

lemma volumeWithMount_name: "fst (volumeWithMount n s p r m) = Some v \<Longrightarrow> vol_Name v = n"
  by (auto simp: volumeWithMount_def)

lemma paired_simps [simp]:
  "paired (None, None)" "paired (volumeWithMount n s p r m)"
  by (simp_all add: paired_def volumeWithMount_def mount_def)

lemmas volume_kind_defs = hostVolumeWithMount_def hostVolumeWithMountLiteralWhenCondition_def
  configVolume_def namespacesDetailsVolume_def tlsVolume_def repoVolume_def secretsVolume_def
  k8sensorSecretsVolume_def etcdCAVolume_def caVolume_def etcdClientCertVolume_def controlPlaneCAVolume_def

lemma paired_getBuilder: "paired (getBuilder v k)"
  by (cases k) (simp_all add: getBuilder_def volume_kind_defs Let_def)

lemma paired_remote_getBuilder: "paired (remote_getBuilder a k)"
  by (cases k) (simp_all add: remote_getBuilder_def remote_configVolume_def remote_tlsVolume_def
      remote_repoVolume_def remote_secretsVolume_def Let_def)

lemma getBuilder_name: "fst (getBuilder v k) = Some vol \<Longrightarrow> vol_Name vol = volumeKindName k"
  by (cases k) (auto simp: getBuilder_def volume_kind_defs Let_def dest: volumeWithMount_name split: if_splits)

lemma remote_getBuilder_name: "fst (remote_getBuilder a k) = Some vol \<Longrightarrow> vol_Name vol = remoteVolumeKindName k"
  by (cases k) (auto simp: remote_getBuilder_def remote_configVolume_def remote_tlsVolume_def
      remote_repoVolume_def remote_secretsVolume_def Let_def dest: volumeWithMount_name split: if_splits)

interpretation agent_volumes: volume_builder "getBuilder v" volumeKindName for v
  by unfold_locales (rule paired_getBuilder, rule getBuilder_name)

interpretation remote_volumes: volume_builder "remote_getBuilder a" remoteVolumeKindName for a
  by unfold_locales (rule paired_remote_getBuilder, rule remote_getBuilder_name)

lemma tlsVolume_redacted: "tlsVolume (v\<lparr>vb_instanaAgent := agent_redacted (vb_instanaAgent v)\<rparr>) = tlsVolume v"
  by (auto simp: tlsVolume_def tlsIsEnabled_def tlsSecretName_def Let_def)

lemma getBuilder_redacted:
  "getBuilder (v\<lparr>vb_instanaAgent := agent_redacted (vb_instanaAgent v)\<rparr>) = getBuilder v"
proof
  fix k
  show "getBuilder (v\<lparr>vb_instanaAgent := agent_redacted (vb_instanaAgent v)\<rparr>) k = getBuilder v k"
    by (cases k) (simp_all add: getBuilder_def configVolume_def namespacesDetailsVolume_def
        tlsVolume_redacted repoVolume_def secretsVolume_def k8sensorSecretsVolume_def etcdCAVolume_def
        etcdClientCertVolume_def controlPlaneCAVolume_def Let_def)
qed

end
