(* ===== verification/Daemon_Set.thy ===== *)
theory Daemon_Set
  imports Status Volume_Builder
begin

text \<open>
  The agent's DaemonSet (\<open>builders/agent/daemonset/daemonset.go\<close>). A builder's \<open>Build\<close> acts on
  the status manager, with which it registers the built object.

  \<open>getPodTemplateLabels\<close> writes the agent mode into the custom resource's own label map when
  that map is not \<open>nil\<close>. Every reader of the map sets the same key first, so the model keeps
  the custom resource unchanged; \<open>podTemplateLabels_alias\<close> states that this changes nothing.
\<close>

subsection \<open>The builder\<close>

record daemonSetBuilder =
  dsb_agent :: instanaAgent
  dsb_isOpenshift :: bool
  dsb_zone :: "zone option"
  dsb_shouldSetPersistHostUniqueIDEnvVar :: bool

definition modeLabels :: "strmap option \<Rightarrow> string \<Rightarrow> strmap" where
  "modeLabels userLabels mode =
     gm_put LabelAgentMode mode (the (optional_GetOrDefault (optional_Of None userLabels) (Some [])))"

abbreviation dsb_selector :: "daemonSetBuilder \<Rightarrow> podSelectorLabelGenerator" where
  "dsb_selector d \<equiv> podSelectorLabelsWithZoneInfo (dsb_agent d) ComponentInstanaAgent (dsb_zone d)"

definition ds_getPodTemplateLabels :: "daemonSetBuilder \<Rightarrow> strmap" where
  "ds_getPodTemplateLabels d =
     (let b = ag_Agent (dsb_agent d);
          podLabels = modeLabels (ap_Labels (ba_Pod b))
            (optional_GetOrDefault (optional_Of '''' (ba_Mode b)) ''APM'')
      in getPodLabels (dsb_selector d) (Some podLabels))"

definition daemonSetEnvVars :: "envVarKind list" where
  "daemonSetEnvVars =
     [AgentModeEnv, ZoneNameEnv, ClusterNameEnv, AgentEndpointEnv, AgentEndpointPortEnv,
      MavenRepoURLEnv, MavenRepoFeaturesPath, MavenRepoSharedPath, MirrorReleaseRepoUrlEnv,
      MirrorReleaseRepoUsernameEnv, MirrorReleaseRepoPasswordEnv, MirrorSharedRepoUrlEnv,
      MirrorSharedRepoUsernameEnv, MirrorSharedRepoPasswordEnv, ProxyHostEnv, ProxyPortEnv,
      ProxyProtocolEnv, ProxyUserEnv, ProxyPasswordEnv, ProxyUseDNSEnv, ListenAddressEnv,
      RedactK8sSecretsEnv, ConfigPathEnv, EntrypointSkipBackendTemplateGeneration,
      InstanaAgentKeyEnv, DownloadKeyEnv, InstanaAgentPodNameEnv, PodIPEnv, NodeNameEnv,
      K8sServiceDomainEnv, EnableAgentSocketEnv, NamespacesDetailsPathEnv]"

definition persistEnvVars :: "envVar list" where
  "persistEnvVars = [valueEnv ''INSTANA_PERSIST_HOST_UNIQUE_ID'' ''true'',
     valueEnv ''INSTANA_AGENT_ID_FILE_PATH'' ''/var/lib/instana/instana-agent-id'']"

definition putAllEnv :: "envVar list \<Rightarrow> (string, envVar) gomap \<Rightarrow> (string, envVar) gomap" where
  "putAllEnv envVars m = for_each (\<lambda>v m. gm_put (ev_Name v) v m) envVars m"

definition ds_getEnvVars :: "daemonSetBuilder \<Rightarrow> envVar list go" where
  "ds_getEnvVars d =
     bind_outcome (envBuilder_Build (dsb_agent d) (dsb_zone d) daemonSetEnvVars) (\<lambda>baseEnvVars.
       let envVarMap = putAllEnv baseEnvVars [];
           envVarMap = (if dsb_shouldSetPersistHostUniqueIDEnvVar d
                        then putAllEnv persistEnvVars envVarMap else envVarMap);
           envVarMap = putAllEnv (ap_Env (ba_Pod (ag_Agent (dsb_agent d)))) envVarMap
       in Ret (sortEnvVarsByName (map snd envVarMap)))"

definition daemonSetVolumes :: "volumeKind list" where
  "daemonSetVolumes =
     [DevVolume, RunVolume, VarRunVolume, VarRunKuboVolume, VarRunContainerdVolume,
      VarContainerdConfigVolume, SysVolume, VarLogVolume, VarLibInstanaVolume, VarDataVolume,
      MachineIdVolume, ConfigVolume, TlsVolume, RepoVolume, NamespacesDetailsVolume]"

definition ds_getVolumes :: "daemonSetBuilder \<Rightarrow> volume list \<times> volumeMount list" where
  "ds_getVolumes d =
     (let volumes = (if sp_UseSecretMounts (ag_Spec (dsb_agent d)) = Some True
                     then daemonSetVolumes @ [SecretsVolume] else daemonSetVolumes)
      in volumeBuilder_Build (newVolumeBuilder (dsb_agent d) (dsb_isOpenshift d)) volumes)"

definition ds_getUserVolumes :: "daemonSetBuilder \<Rightarrow> volume list \<times> volumeMount list" where
  "ds_getUserVolumes d = buildFromUserConfig (ag_Agent (dsb_agent d))"

definition ds_getName :: "daemonSetBuilder \<Rightarrow> string" where
  "ds_getName d = (case dsb_zone d of None \<Rightarrow> ag_Name (dsb_agent d)
     | Some z \<Rightarrow> ag_Name (dsb_agent d) @ ''-'' @ zone_Name z)"

definition ds_getNonStandardLabels :: "daemonSetBuilder \<Rightarrow> strmap option" where
  "ds_getNonStandardLabels d =
     (case dsb_zone d of None \<Rightarrow> None | Some z \<Rightarrow> Some [(ZoneLabel, zone_Name z)])"

definition ds_getAffinity :: "daemonSetBuilder \<Rightarrow> affinity" where
  "ds_getAffinity d = (case dsb_zone d of None \<Rightarrow> ap_Affinity (ba_Pod (ag_Agent (dsb_agent d)))
     | Some z \<Rightarrow> zone_Affinity z)"

definition ds_getTolerations :: "daemonSetBuilder \<Rightarrow> opaque list" where
  "ds_getTolerations d = (case dsb_zone d of None \<Rightarrow> ap_Tolerations (ba_Pod (ag_Agent (dsb_agent d)))
     | Some z \<Rightarrow> zone_Tolerations z)"

definition getLivenessProbe :: "baseAgentSpec \<Rightarrow> probe" where
  "getLivenessProbe b =
     (case ap_LivenessProbe (ba_Pod b) of Some p \<Rightarrow> p
      | None \<Rightarrow> HTTPGetProbe ''127.0.0.1'' ''/status'' (pc_Port InstanaAgentAPIPortConfig) 600 5 10 6)"

definition ds_build :: "daemonSetBuilder \<Rightarrow> k8sObject go" where
  "ds_build d =
     (let a = dsb_agent d; b = ag_Agent a; pod = ba_Pod b;
          (volumes, volumeMounts) = ds_getVolumes d;
          (userVolumes, userVolumeMounts) = ds_getUserVolumes d
      in bind_outcome (ds_getEnvVars d) (\<lambda>envVars.
         bind_outcome (getContainerPorts (sp_OpenTelemetry (ag_Spec a))) (\<lambda>cports.
         Ret (mkObject ''apps/v1'' ''DaemonSet''
           ((named (ds_getName d) (ag_Namespace a))\<lparr>om_Labels := ds_getNonStandardLabels d\<rparr>)
           (DaemonSetBody
             \<lparr>dss_MinReadySeconds = toInt32 (ba_MinReadySeconds b),
              dss_Selector = Some (getPodSelectorLabels (dsb_selector d)),
              dss_Template = \<lparr>
                pt_Labels = Some (ds_getPodTemplateLabels d),
                pt_Annotations = ap_Annotations pod,
                pt_Spec = emptyPodSpec\<lparr>
                  ps_Volumes := volumes @ userVolumes,
                  ps_ServiceAccountName := serviceAccountName a,
                  ps_NodeSelector := ap_NodeSelector pod,
                  ps_HostNetwork := True,
                  ps_HostPID := True,
                  ps_PriorityClassName := ap_PriorityClassName pod,
                  ps_DNSPolicy := ''ClusterFirstWithHostNet'',
                  ps_ImagePullSecrets := imagePullSecrets a,
                  ps_Containers := [\<lparr>
                    c_Name = ''instana-agent'',
                    c_Image = Image (ba_ImageSpec b),
                    c_ImagePullPolicy = im_PullPolicy (ba_ImageSpec b),
                    c_Command = [], c_Args = [],
                    c_Env = envVars,
                    c_VolumeMounts = volumeMounts @ userVolumeMounts,
                    c_Resources = resources_GetOrDefault (ap_ResourceRequirements pod),
                    c_Ports = cports,
                    c_Privileged = Some True,
                    c_LivenessProbe = Some (getLivenessProbe b)\<rparr>],
                  ps_Tolerations := ds_getTolerations d,
                  ps_Affinity := Some (ds_getAffinity d)\<rparr>\<rparr>,
              dss_UpdateStrategy = ba_UpdateStrategy b\<rparr>
             emptyDaemonSetStatus)))))"

definition ds_Build :: "daemonSetBuilder \<Rightarrow> agentStatusManager \<Rightarrow> k8sObject option go \<times> agentStatusManager" where
  "ds_Build d s =
     (let a = dsb_agent d; b = ag_Agent a in
      if ba_Key b = '''' \<and> ba_KeysSecret b = '''' \<or>
         dsb_zone d = None \<and> sp_ZoneName (ag_Spec a) = '''' \<and> sp_ClusterName (ag_Spec a) = '''' \<or>
         dsb_zone d \<noteq> None \<and> sp_ClusterName (ag_Spec a) = ''''
      then (Ret None, s)
      else (case ds_build d of
              Ret obj \<Rightarrow> (Ret (Some obj), addAgentDaemonset (objectKeyFromObject obj) s)
            | Panic p \<Rightarrow> (Panic p, s)))"

definition newDaemonSetBuilderWithZoneInfo ::
  "instanaAgent \<Rightarrow> bool \<Rightarrow> zone option \<Rightarrow> bool \<Rightarrow> agentStatusManager objectBuilder" where
  "newDaemonSetBuilderWithZoneInfo agent isOpenshift z persist =
     \<lparr>ob_Build = ds_Build \<lparr>dsb_agent = agent, dsb_isOpenshift = isOpenshift, dsb_zone = z,
                          dsb_shouldSetPersistHostUniqueIDEnvVar = persist\<rparr>,
      ob_ComponentName = ComponentInstanaAgent, ob_IsNamespaced = True\<rparr>"

definition newDaemonSetBuilder ::
  "instanaAgent \<Rightarrow> bool \<Rightarrow> bool \<Rightarrow> agentStatusManager objectBuilder" where
  "newDaemonSetBuilder agent isOpenshift persist =
     newDaemonSetBuilderWithZoneInfo agent isOpenshift None persist"

subsection \<open>Lemmas\<close>

lemma gm_put_put: "gm_put k v (gm_put k v' m) = gm_put k v m"
  by (induction m) auto

lemma podTemplateLabels_alias:
  "modeLabels (map_option (\<lambda>_. modeLabels u mode') u) mode = modeLabels u mode"
  by (cases u) (simp_all add: modeLabels_def gm_put_put)

text \<open>The last variable of a name, the one a later write to the map leaves.\<close>

definition lastNamed :: "string \<Rightarrow> envVar list \<Rightarrow> envVar option" where
  "lastNamed n vs = List.find (\<lambda>v. ev_Name v = n) (rev vs)"

lemma lastNamed_snoc: "lastNamed n (vs @ [v]) = (if ev_Name v = n then Some v else lastNamed n vs)"
  by (simp add: lastNamed_def)

lemma lastNamed_Nil [simp]: "lastNamed n [] = None"
  by (simp add: lastNamed_def)

lemma lastNamed_name: "lastNamed n vs = Some v \<Longrightarrow> ev_Name v = n"
  by (simp add: lastNamed_def find_Some_iff) blast

lemma putAllEnv_append: "putAllEnv ys (putAllEnv xs m) = putAllEnv (xs @ ys) m"
  by (simp add: putAllEnv_def)

lemma putAllEnv_lookup: "gm_get (putAllEnv vs []) n = lastNamed n vs"
  by (induction vs rule: rev_induct) (auto simp: putAllEnv_def lastNamed_snoc)

lemma putAllEnv_wf: "gm_wf (putAllEnv vs [])"
  by (induction vs rule: rev_induct) (simp_all add: putAllEnv_def)

lemma putAllEnv_entries: "(n, v) \<in> set (putAllEnv vs []) \<longleftrightarrow> lastNamed n vs = Some v"
  using putAllEnv_wf [of vs] by (metis gm_get_mem putAllEnv_lookup)

lemma putAllEnv_names: "map ev_Name (map snd (putAllEnv vs [])) = map fst (putAllEnv vs [])"
  by (auto dest: lastNamed_name simp: putAllEnv_entries)

text \<open>Every variable the DaemonSet is given, in the order in which the source writes them.\<close>

definition ds_env_writes :: "daemonSetBuilder \<Rightarrow> envVar list \<Rightarrow> envVar list" where
  "ds_env_writes d baseEnvVars =
     baseEnvVars @ (if dsb_shouldSetPersistHostUniqueIDEnvVar d then persistEnvVars else []) @
     ap_Env (ba_Pod (ag_Agent (dsb_agent d)))"

lemma ds_getEnvVars_eq:
  "ds_getEnvVars d =
     bind_outcome (envBuilder_Build (dsb_agent d) (dsb_zone d) daemonSetEnvVars) (\<lambda>baseEnvVars.
       Ret (sortEnvVarsByName (map snd (putAllEnv (ds_env_writes d baseEnvVars) []))))"
  by (simp add: ds_getEnvVars_def ds_env_writes_def Let_def putAllEnv_append)

lemma daemonSetEnvVars_return: "k \<in> set daemonSetEnvVars \<Longrightarrow> \<exists>v. buildEnv a z k = Ret v"
  by (auto simp: daemonSetEnvVars_def buildEnv_def Let_def)

lemma appendBuilt_returns:
  "\<forall>k\<in>set ks. \<exists>v. f k = Ret v \<Longrightarrow> \<exists>vs. appendBuilt f ks acc = Ret vs"
  by (induction ks arbitrary: acc) auto

lemma ds_env_returns: "\<exists>vs. envBuilder_Build a z daemonSetEnvVars = Ret vs"
  unfolding envBuilder_Build_def by (rule appendBuilt_returns) (blast intro: daemonSetEnvVars_return)

lemma ds_getEnvVars_returns: "\<exists>vs. ds_getEnvVars d = Ret vs"
  using ds_env_returns [of "dsb_agent d" "dsb_zone d"] by (auto simp: ds_getEnvVars_eq)

lemma getContainerPorts_returns:
  "otel_Enabled t = Some True \<Longrightarrow> ot_Enabled (otel_GRPC t) \<noteq> None \<Longrightarrow> ot_Enabled (otel_HTTP t) \<noteq> None \<Longrightarrow>
     \<exists>ps. getContainerPorts t = Ret ps"
  "otel_Enabled t \<noteq> Some True \<Longrightarrow> \<exists>ps. getContainerPorts t = Ret ps"
  by (auto simp: getContainerPorts_def getPorts_def)

lemma defaultOpenTelemetry_returns: "\<exists>ps. getContainerPorts (defaultOpenTelemetry t) = Ret ps"
  by (auto simp: getContainerPorts_def getPorts_def defaultOpenTelemetry_def Let_def split: option.splits)

lemma agent_Default_OpenTelemetry:
  "sp_OpenTelemetry (ag_Spec (agent_Default a)) = defaultOpenTelemetry (sp_OpenTelemetry (ag_Spec a))"
  by (simp add: agent_Default_def Let_def)

lemma ds_build_returns: "dsb_agent d = agent_Default a \<Longrightarrow> \<exists>obj. ds_build d = Ret obj"
  using ds_getEnvVars_returns [of d] defaultOpenTelemetry_returns [of "sp_OpenTelemetry (ag_Spec a)"]
  by (auto simp: ds_build_def Let_def split_beta agent_Default_OpenTelemetry)

lemma ds_build_shape:
  assumes "ds_build d = Ret obj"
  obtains spec tmpl where "ko_Body obj = DaemonSetBody spec emptyDaemonSetStatus"
    "dss_Selector spec = Some (getPodSelectorLabels (dsb_selector d))"
    "pt_Labels (dss_Template spec) = Some (ds_getPodTemplateLabels d)"
    "ps_Volumes (pt_Spec (dss_Template spec)) = fst (ds_getVolumes d) @ fst (ds_getUserVolumes d)"
    "\<exists>c vs. ps_Containers (pt_Spec (dss_Template spec)) = [c] \<and>
       ds_getEnvVars d = Ret vs \<and> c_Env c = vs \<and>
       c_VolumeMounts c = snd (ds_getVolumes d) @ snd (ds_getUserVolumes d)"
    "get_name obj = ds_getName d" "get_namespace obj = ag_Namespace (dsb_agent d)"
  using assms that by (auto simp: ds_build_def Let_def split_beta)

lemma ds_getVolumes_redacted:
  "ds_getVolumes (d\<lparr>dsb_agent := agent_redacted (dsb_agent d)\<rparr>) = ds_getVolumes d"
  using getBuilder_redacted [of "newVolumeBuilder (dsb_agent d) (dsb_isOpenshift d)"]
  by (simp add: ds_getVolumes_def volumeBuilder_Build_def newVolumeBuilder_def)

lemma ds_getEnvVars_redacted:
  assumes "secretMountsOn (sp_UseSecretMounts (ag_Spec (dsb_agent d)))"
  shows "ds_getEnvVars (d\<lparr>dsb_agent := agent_redacted (dsb_agent d)\<rparr>) = ds_getEnvVars d"
proof -
  have "envBuilder_Build (agent_redacted (dsb_agent d)) z ks = envBuilder_Build (dsb_agent d) z ks" for z ks
    using agent_env.appended_redacted [OF assms, of z ks] by (simp add: envBuilder_Build_def userEnvs_eq)
  then show ?thesis by (simp add: ds_getEnvVars_eq ds_env_writes_def)
qed

lemma ds_build_redacted:
  assumes "secretMountsOn (sp_UseSecretMounts (ag_Spec (dsb_agent d)))"
  shows "ds_build (d\<lparr>dsb_agent := agent_redacted (dsb_agent d)\<rparr>) = ds_build d"
  unfolding ds_build_def ds_getVolumes_redacted ds_getEnvVars_redacted [OF assms]
  by (simp add: ds_getUserVolumes_def buildFromUserConfig_def ds_getName_def ds_getAffinity_def
      ds_getTolerations_def ds_getPodTemplateLabels_def podSelectorLabelsWithZoneInfo_def
      getLivenessProbe_def serviceAccountName_def imagePullSecrets_def useContainersSecret_def
      containersSecretName_def ds_getNonStandardLabels_def Let_def cong: option.case_cong)

lemma ds_selector_matches_labels:
  "selector_matches (getPodSelectorLabels (dsb_selector d)) (ds_getPodTemplateLabels d)"
  unfolding ds_getPodTemplateLabels_def Let_def by (rule psl.selector_matches_pods)

lemma ds_volume_names_distinct: "distinct (map vol_Name (fst (ds_getVolumes d)))"
  unfolding ds_getVolumes_def volumeBuilder_Build_def Let_def
  by (rule agent_volumes.distinct_names) (simp add: daemonSetVolumes_def)

lemma ds_mount_names: "map vm_Name (snd (ds_getVolumes d)) = map vol_Name (fst (ds_getVolumes d))"
  by (simp add: ds_getVolumes_def volumeBuilder_Build_def agent_volumes.mount_names)

subsection \<open>Properties\<close>

text \<open>
  C25: the environment of the agent container. It is always built; its names are strictly
  ascending, so no name occurs twice and the list does not depend on the iteration order of the
  map; and a name carries the value written last: \<open>pod.env\<close> wins over the variables for the
  host id, these over the operator's own, and these over \<open>agent.env\<close>.
\<close>

theorem daemonset_env_precedence:
  "\<exists>baseEnvVars envVars.
     envBuilder_Build (dsb_agent d) (dsb_zone d) daemonSetEnvVars = Ret baseEnvVars \<and>
     ds_getEnvVars d = Ret envVars \<and> sorted_wrt (<) (map ev_Name envVars) \<and>
     (\<forall>v. v \<in> set envVars \<longleftrightarrow> lastNamed (ev_Name v) (ds_env_writes d baseEnvVars) = Some v)"
proof -
  obtain base where base: "envBuilder_Build (dsb_agent d) (dsb_zone d) daemonSetEnvVars = Ret base"
    using ds_env_returns by blast
  let ?m = "putAllEnv (ds_env_writes d base) []"
  let ?vs = "sortEnvVarsByName (map snd ?m)"
  have "ds_getEnvVars d = Ret ?vs" by (simp add: ds_getEnvVars_eq base)
  moreover have "distinct (map ev_Name ?vs)"
  proof -
    have "mset (map ev_Name ?vs) = mset (map fst ?m)"
      unfolding putAllEnv_names [symmetric] by (simp add: sortEnvVarsByName_def multiset.map_comp)
    then show ?thesis using putAllEnv_wf by (metis mset_eq_imp_distinct_iff)
  qed
  then have "sorted_wrt (<) (map ev_Name ?vs)"
    by (simp add: sortEnvVarsByName_def strict_sorted_iff)
  moreover have "v \<in> set ?vs \<longleftrightarrow> lastNamed (ev_Name v) (ds_env_writes d base) = Some v" for v
    by (auto simp: sortEnvVarsByName_def putAllEnv_entries dest: lastNamed_name simp flip: putAllEnv_entries)
      (metis lastNamed_name putAllEnv_entries, metis putAllEnv_entries image_eqI snd_conv)
  ultimately show ?thesis using base by blast
qed

text \<open>
  C26: with secret mounts on (the default), the DaemonSet does not depend on the values of the
  agent key, download key, proxy credentials and mirror credentials of the custom resource, only
  on which of them are set: building from the redacted resource gives the same result.
\<close>

theorem daemonset_keeps_secrets_out:
  assumes "secretMountsOn (sp_UseSecretMounts (ag_Spec (dsb_agent d)))"
  shows "ds_Build (d\<lparr>dsb_agent := agent_redacted (dsb_agent d)\<rparr>) s = ds_Build d s"
  using ds_build_redacted [OF assms] by (auto simp: ds_Build_def Let_def)

definition exampleDaemonSetBuilder :: daemonSetBuilder where
  "exampleDaemonSetBuilder = \<lparr>dsb_agent = exampleAgent, dsb_isOpenshift = False, dsb_zone = None,
     dsb_shouldSetPersistHostUniqueIDEnvVar = False\<rparr>"

theorem daemonset_keeps_secrets_out_witness:
  "ds_Build (exampleDaemonSetBuilder\<lparr>dsb_agent := agent_redacted exampleAgent\<rparr>) newAgentStatusManager =
   ds_Build exampleDaemonSetBuilder newAgentStatusManager \<and> ba_Key (ag_Agent (agent_redacted exampleAgent)) \<noteq> ba_Key (ag_Agent exampleAgent)"
  using daemonset_keeps_secrets_out [of exampleDaemonSetBuilder newAgentStatusManager]
  by (simp add: exampleDaemonSetBuilder_def exampleAgent_def exampleBase_def redact_def)

text \<open>The names of the operator's own volumes, in order.\<close>

definition operatorVolumeNames :: "daemonSetBuilder \<Rightarrow> string list" where
  "operatorVolumeNames d =
     (let b = ag_Agent (dsb_agent d) in
      [''dev'', ''run'', ''var-run''] @
      (if dsb_isOpenshift d then [] else [''var-run-kubo'', ''var-run-containerd'', ''var-containerd-config'']) @
      [''sys'', ''var-log'', ''var-lib-instana'', ''var-data'', ''machine-id'', ''config''] @
      (if tlsIsEnabled b then [''instana-agent-tls''] else []) @
      (if ba_HostRepository b = '''' then [] else [''repo'']) @
      [''namespaces-details''] @
      (if sp_UseSecretMounts (ag_Spec (dsb_agent d)) = Some True then [''instana-secrets''] else []))"

lemma ds_volume_names: "map vol_Name (fst (ds_getVolumes d)) = operatorVolumeNames d"
  by (simp add: ds_getVolumes_def volumeBuilder_Build_def agent_volumes.volume_names daemonSetVolumes_def
      getBuilder_def volume_kind_defs volumeWithMount_def newVolumeBuilder_def operatorVolumeNames_def Let_def)

lemma operatorVolumeNames_distinct: "distinct (operatorVolumeNames d)"
  using ds_volume_names_distinct [of d] by (simp add: ds_volume_names)

text \<open>
  C27: the DaemonSet the builder returns is acceptable to the API server as far as the operator
  controls it. Its selector matches the labels of its pod template whatever labels the user adds
  (and whatever zone it is for). The pod's volumes are the operator's, with the names of
  \<open>operatorVolumeNames\<close>, followed by those the user lists; the mounts of its only container are one
  per volume of the operator, in the same order, followed by those the user lists. So all volume
  names differ exactly when the user's differ among themselves and from the operator's, and every
  mount names a volume of the pod exactly when the user's mounts do. The DaemonSet is registered with
  the status manager under its key.
\<close>

theorem daemonset_well_formed:
  fixes d :: daemonSetBuilder
  defines "pod \<equiv> ba_Pod (ag_Agent (dsb_agent d))"
  assumes "ds_Build d s = (Ret (Some obj), s')"
  shows "\<exists>spec c volumes mounts opVolumes opMounts.
    ko_Body obj = DaemonSetBody spec emptyDaemonSetStatus \<and>
    selector_matches (the (dss_Selector spec)) (the (pt_Labels (dss_Template spec))) \<and>
    ps_Containers (pt_Spec (dss_Template spec)) = [c] \<and>
    ps_Volumes (pt_Spec (dss_Template spec)) = volumes \<and> c_VolumeMounts c = mounts \<and>
    volumes = opVolumes @ ap_Volumes pod \<and> map vol_Name opVolumes = operatorVolumeNames d \<and>
    mounts = opMounts @ ap_VolumeMounts pod \<and> map vm_Name opMounts = operatorVolumeNames d \<and>
    (distinct (map vol_Name volumes) \<longleftrightarrow> distinct (map vol_Name (ap_Volumes pod)) \<and>
       set (map vol_Name (ap_Volumes pod)) \<inter> set (operatorVolumeNames d) = {}) \<and>
    (set (map vm_Name mounts) \<subseteq> set (map vol_Name volumes) \<longleftrightarrow>
       set (map vm_Name (ap_VolumeMounts pod)) \<subseteq> set (map vol_Name volumes)) \<and>
    objectKeyFromObject obj = \<lparr>nn_Namespace = ag_Namespace (dsb_agent d), nn_Name = ds_getName d\<rparr> \<and>
    set (sm_agentDaemonsets s') = insert (objectKeyFromObject obj) (set (sm_agentDaemonsets s))"
proof -
  from assms have b: "ds_build d = Ret obj" and s': "s' = addAgentDaemonset (objectKeyFromObject obj) s"
    by (auto simp: ds_Build_def Let_def split: if_splits outcome.splits)
  from b obtain spec c where spec: "ko_Body obj = DaemonSetBody spec emptyDaemonSetStatus"
    "dss_Selector spec = Some (getPodSelectorLabels (dsb_selector d))"
    "pt_Labels (dss_Template spec) = Some (ds_getPodTemplateLabels d)"
    "ps_Volumes (pt_Spec (dss_Template spec)) = fst (ds_getVolumes d) @ fst (ds_getUserVolumes d)"
    "ps_Containers (pt_Spec (dss_Template spec)) = [c]"
    "c_VolumeMounts c = snd (ds_getVolumes d) @ snd (ds_getUserVolumes d)"
    and key: "get_name obj = ds_getName d" "get_namespace obj = ag_Namespace (dsb_agent d)"
    by (rule ds_build_shape) blast
  let ?opV = "fst (ds_getVolumes d)" and ?opM = "snd (ds_getVolumes d)"
  have names: "map vol_Name ?opV = operatorVolumeNames d" "map vm_Name ?opM = operatorVolumeNames d"
    by (simp_all add: ds_mount_names ds_volume_names)
  have user: "ds_getUserVolumes d = (ap_Volumes pod, ap_VolumeMounts pod)"
    by (simp add: ds_getUserVolumes_def buildFromUserConfig_def pod_def)
  have "distinct (map vol_Name (?opV @ ap_Volumes pod)) \<longleftrightarrow> distinct (map vol_Name (ap_Volumes pod)) \<and>
      set (map vol_Name (ap_Volumes pod)) \<inter> set (operatorVolumeNames d) = {}"
    unfolding map_append names(1) distinct_append using operatorVolumeNames_distinct [of d] by blast
  moreover have "set (map vm_Name (?opM @ ap_VolumeMounts pod)) \<subseteq> set (map vol_Name (?opV @ ap_Volumes pod)) \<longleftrightarrow>
      set (map vm_Name (ap_VolumeMounts pod)) \<subseteq> set (map vol_Name (?opV @ ap_Volumes pod))"
    unfolding map_append names set_append by blast
  moreover have "set (sm_agentDaemonsets s') = insert (objectKeyFromObject obj) (set (sm_agentDaemonsets s))"
    using s' by (auto simp: addAgentDaemonset_def set_Contains_toSet)
  ultimately show ?thesis
    using spec key names ds_selector_matches_labels [of d]
    by (intro exI [of _ spec] exI [of _ c] exI [of _ "?opV @ ap_Volumes pod"] exI [of _ "?opM @ ap_VolumeMounts pod"]
        exI [of _ ?opV] exI [of _ ?opM]) (simp only: user prod.sel option.sel objectKeyFromObject_def simp_thms)
qed

lemma exampleDaemonSet_builds: "\<exists>obj s'. ds_Build exampleDaemonSetBuilder s = (Ret (Some obj), s')"
proof -
  obtain vs where "ds_getEnvVars exampleDaemonSetBuilder = Ret vs" using ds_getEnvVars_returns by blast
  then show ?thesis
    by (auto simp: ds_Build_def ds_build_def exampleDaemonSetBuilder_def Let_def split_beta
        getContainerPorts_def getPorts_def example_defs)
qed

theorem daemonset_well_formed_witness:
  "\<exists>obj s'. ds_Build exampleDaemonSetBuilder newAgentStatusManager = (Ret (Some obj), s') \<and>
     sm_agentDaemonsets s' = [\<lparr>nn_Namespace = ''ns'', nn_Name = ''agent''\<rparr>]"
proof -
  obtain obj s' where b: "ds_Build exampleDaemonSetBuilder newAgentStatusManager = (Ret (Some obj), s')"
    using exampleDaemonSet_builds by blast
  from daemonset_well_formed [OF this]
  have "objectKeyFromObject obj = \<lparr>nn_Namespace = ''ns'', nn_Name = ''agent''\<rparr>"
    by (auto simp: exampleDaemonSetBuilder_def ds_getName_def example_defs)
  with b show ?thesis
    by (auto simp: ds_Build_def Let_def addAgentDaemonset_def newAgentStatusManager_def set_Contains_toSet
        split: if_splits outcome.splits)
qed

text \<open>
  building the DaemonSet never panics once the defaults have been applied to the custom
  resource: the flags the port list dereferences are then set. It is skipped exactly when no
  key is configured or the zone and cluster names do not identify the agents.
\<close>

theorem daemonset_total_after_Default:
  assumes "dsb_agent d = agent_Default a"
  shows "\<exists>r. fst (ds_Build d s) = Ret r \<and>
    (r = None \<longleftrightarrow> ba_Key (ag_Agent a) = '''' \<and> ba_KeysSecret (ag_Agent a) = '''' \<or>
       sp_ClusterName (ag_Spec a) = '''' \<and> (dsb_zone d = None \<longrightarrow> sp_ZoneName (ag_Spec a) = ''''))"
proof -
  obtain obj where "ds_build d = Ret obj" using ds_build_returns [OF assms] by blast
  moreover have "ba_Key (ag_Agent (dsb_agent d)) = ba_Key (ag_Agent a)"
    "ba_KeysSecret (ag_Agent (dsb_agent d)) = ba_KeysSecret (ag_Agent a)"
    "sp_ZoneName (ag_Spec (dsb_agent d)) = sp_ZoneName (ag_Spec a)"
    "sp_ClusterName (ag_Spec (dsb_agent d)) = sp_ClusterName (ag_Spec a)"
    by (simp_all add: assms agent_Default_def defaultBaseAgent_def Let_def)
  ultimately show ?thesis by (auto simp: ds_Build_def Let_def)
qed

theorem daemonset_total_after_Default_witness:
  "\<exists>obj. fst (ds_Build (exampleDaemonSetBuilder\<lparr>dsb_agent := agent_Default exampleAgent\<rparr>)
     newAgentStatusManager) = Ret (Some obj)"
  using daemonset_total_after_Default [of "exampleDaemonSetBuilder\<lparr>dsb_agent := agent_Default exampleAgent\<rparr>"
      exampleAgent newAgentStatusManager]
  by (auto simp: exampleDaemonSetBuilder_def exampleAgent_def exampleBase_def)

end
