(* ===== verification/K8s_Sensor.thy ===== *)
theory K8s_Sensor
  imports Status Volume_Builder
begin

text \<open>
  The k8sensor (\<open>builders/k8s-sensor\<close>): one Deployment per backend with the pod disruption
  budget, the ConfigMap of backend addresses, the service account and the RBAC objects. The
  hexadecimal SHA-256 digest is the argument \<open>sha256\<close>. Writing the agent mode into the custom
  resource's label map is treated as in the DaemonSet builder.
\<close>

subsection \<open>\<open>common/backends\<close>\<close>

record k8SensorBackend =
  be_ResourceSuffix :: string
  be_EndpointKey :: string
  be_DownloadKey :: string
  be_EndpointHost :: string
  be_EndpointPort :: string

definition newK8SensorBackend ::
  "string \<Rightarrow> string \<Rightarrow> string \<Rightarrow> string \<Rightarrow> string \<Rightarrow> k8SensorBackend" where
  "newK8SensorBackend resourceSuffix endpointKey downloadKey endpointHost endpointPort =
     \<lparr>be_ResourceSuffix = resourceSuffix, be_EndpointKey = endpointKey, be_DownloadKey = downloadKey,
      be_EndpointHost = endpointHost, be_EndpointPort = endpointPort\<rparr>"

text \<open>\<open>RemoteSensorBackend\<close> has the same fields.\<close>

definition newRemoteSensorBackend ::
  "string \<Rightarrow> string \<Rightarrow> string \<Rightarrow> string \<Rightarrow> string \<Rightarrow> k8SensorBackend" where
  "newRemoteSensorBackend resourceSuffix endpointKey downloadKey endpointHost endpointPort =
     \<lparr>be_ResourceSuffix = resourceSuffix, be_EndpointKey = endpointKey, be_DownloadKey = downloadKey,
      be_EndpointHost = endpointHost, be_EndpointPort = endpointPort\<rparr>"

subsection \<open>The Deployment\<close>

record deploymentContext =
  dctx_DiscoveredETCDTargets :: "string list"
  dctx_ETCDCASecretName :: string
  dctx_OpenShiftETCDResourcesExist :: bool

record deploymentBuilder =
  dpb_agent :: instanaAgent
  dpb_isOpenShift :: bool
  dpb_backend :: k8SensorBackend
  dpb_keysSecret :: "k8sObject option"
  dpb_deploymentContext :: "deploymentContext option"

abbreviation dpb_selector :: "deploymentBuilder \<Rightarrow> podSelectorLabelGenerator" where
  "dpb_selector d \<equiv> podSelectorLabels (dpb_agent d) ComponentK8Sensor"

definition dep_getPodTemplateLabels :: "deploymentBuilder \<Rightarrow> strmap" where
  "dep_getPodTemplateLabels d =
     (let podLabels = the (optional_GetOrDefault
            (optional_Of None (ap_Labels (ba_Pod (ag_Agent (dpb_agent d))))) (Some []));
          podLabels = gm_put LabelAgentMode ''KUBERNETES'' podLabels
      in getPodLabels (dpb_selector d) (Some podLabels))"

text \<open>The deployment context of an OpenShift cluster whose etcd resources were found.\<close>

definition openShiftETCD :: "deploymentBuilder \<Rightarrow> bool" where
  "openShiftETCD d = (dpb_isOpenShift d \<and>
     (case dpb_deploymentContext d of None \<Rightarrow> False | Some c \<Rightarrow> dctx_OpenShiftETCDResourcesExist c))"

definition k8sensorEnvVars :: "envVarKind list" where
  "k8sensorEnvVars =
     [BackendURLEnv, AgentZoneEnv, PodUIDEnv, PodNamespaceEnv, PodNameEnv, PodIPEnv, NoProxyEnv,
      RedactK8sSecretsEnv, ConfigPathEnv, ETCDInsecureEnv, ETCDTargetsEnv, ControlPlaneCAFileEnv,
      RestClientHostAllowlistEnv, CrdMonitoring]"

definition openShiftEnvVars :: "envVar list" where
  "openShiftEnvVars =
     [valueEnv EnvETCDMetricsURL getETCDOCPMetricsURL,
      valueEnv EnvETCDRequestTimeout ''15s'',
      valueEnv EnvETCDCAFile (ETCDMetricsCAMountPath @ ''/'' @ ETCDCABundleFileName),
      valueEnv EnvETCDCertFile (ETCDClientCertMountPath @ ''/'' @ ETCDClientCertFileName),
      valueEnv EnvETCDKeyFile (ETCDClientCertMountPath @ ''/'' @ ETCDClientKeyFileName)]"

definition discoveredEnvVars :: "deploymentBuilder \<Rightarrow> envVar list" where
  "discoveredEnvVars d =
     (case dpb_deploymentContext d of
        None \<Rightarrow> []
      | Some c \<Rightarrow>
        if length (dctx_DiscoveredETCDTargets c) > 0 \<and> length (etcd_Targets (ag_ETCD (dpb_agent d))) = 0
        then valueEnv EnvETCDTargets (join_strings '','' (dctx_DiscoveredETCDTargets c)) #
             (if dctx_ETCDCASecretName c \<noteq> ''''
              then [valueEnv EnvETCDCAFile (ETCDCAMountPath @ ''/ca.crt'')] else [])
        else [])"

definition getAgentKeyEnvVar :: "deploymentBuilder \<Rightarrow> envVar" where
  "getAgentKeyEnvVar d =
     sourceEnv ''AGENT_KEY'' (SecretKeyRef (keysSecretName (ag_Name (dpb_agent d)) (ag_Agent (dpb_agent d)))
       (AgentKey @ be_ResourceSuffix (dpb_backend d)) None)"

definition dep_getEnvVars :: "deploymentBuilder \<Rightarrow> envVar list go" where
  "dep_getEnvVars d =
     (let a = dpb_agent d;
          includeETCDCAFileEnv = (\<not> dpb_isOpenShift d \<or> dpb_deploymentContext d = None \<or>
            \<not> dctx_OpenShiftETCDResourcesExist (the (dpb_deploymentContext d)));
          envVarsToInclude = k8sensorEnvVars @ (if includeETCDCAFileEnv then [ETCDCAFileEnv] else [])
      in bind_outcome (envBuilder_Build a None envVarsToInclude) (\<lambda>envVars.
         let envVars = envVars @ (if dpb_isOpenShift d
                                  then (if openShiftETCD d then openShiftEnvVars else [])
                                  else discoveredEnvVars d);
             backendEnvVars = [sourceEnv ''BACKEND'' (ConfigMapKeyRef (k8sSensorResourcesName a)
               (BackendKey @ be_ResourceSuffix (dpb_backend d)))]
         in bind_outcome
              (if sp_UseSecretMounts (ag_Spec a) = Some False
               then bind_outcome (envBuilder_Build a None [HTTPSProxyEnv])
                      (\<lambda>proxy. Ret (backendEnvVars @ [getAgentKeyEnvVar d] @ proxy))
               else Ret backendEnvVars)
              (\<lambda>backendEnvVars. Ret (sortEnvVarsByName (backendEnvVars @ envVars)))))"

definition dep_getVolumes :: "deploymentBuilder \<Rightarrow> volume list \<times> volumeMount list" where
  "dep_getVolumes d =
     (let a = dpb_agent d;
          volumesToBuild = [ConfigVolume, ControlPlaneCAVolume] @
            (if openShiftETCD d \<or> ca_SecretName (etcd_CA (ag_ETCD a)) \<noteq> '''' then [ETCDCAVolume] else []) @
            (if openShiftETCD d then [ETCDClientCertVolume] else []) @
            (if secretMountsOn (sp_UseSecretMounts (ag_Spec a)) then [K8SensorSecretsVolume] else []);
          (volumes, mounts) = volumeBuilder_Build
            (withBackendResourceSuffix (be_ResourceSuffix (dpb_backend d))
               (newVolumeBuilder a (dpb_isOpenShift d))) volumesToBuild
      in case dpb_deploymentContext d of
           None \<Rightarrow> (volumes, mounts)
         | Some c \<Rightarrow>
           if dctx_ETCDCASecretName c \<noteq> '''' \<and> length (etcd_Targets (ag_ETCD a)) = 0
           then (volumes @ [\<lparr>vol_Name = ''etcd-ca'', vol_Source = SecretVolume (dctx_ETCDCASecretName c) None
                              [\<lparr>kp_Key = ''ca.crt'', kp_Path = ''ca.crt''\<rparr>] None\<rparr>],
                 mounts @ [mount ''etcd-ca'' ''/var/run/secrets/etcd'' True None])
           else (volumes, mounts))"

definition addAppLabel :: "strmap option \<Rightarrow> strmap" where
  "addAppLabel labels = setIfEmpty '''' ''app'' ''k8sensor'' (newMapDefaulter labels)"

definition secret_Data :: "k8sObject \<Rightarrow> strmap" where
  "secret_Data obj = (case ko_Body obj of SecretBody t d \<Rightarrow> newMapDefaulter d | _ \<Rightarrow> [])"

definition getPodAnnotationsWithBackendChecksum :: "(string \<Rightarrow> string) \<Rightarrow> deploymentBuilder \<Rightarrow> strmap" where
  "getPodAnnotationsWithBackendChecksum sha256 d =
     (let b = ag_Agent (dpb_agent d); be = dpb_backend d;
          annotations = gm_copy [] (newMapDefaulter (ap_Annotations (ba_Pod b)));
          written = (if ba_KeysSecret b \<noteq> ''''
                     then be_EndpointHost be @ be_EndpointPort be @
                       (case dpb_keysSecret d of None \<Rightarrow> ''''
                        | Some secret \<Rightarrow> derefOrEmpty '''' (gm_get (secret_Data secret) (''key'' @ be_ResourceSuffix be)))
                     else be_EndpointHost be @ be_EndpointPort be @ be_EndpointKey be)
      in gm_put ''checksum/backend'' (sha256 written) annotations)"

abbreviation DefaultPollRate :: string where "DefaultPollRate \<equiv> ''10s''"

definition isDigit :: "char \<Rightarrow> bool" where
  "isDigit ch = (CHR ''0'' \<le> ch \<and> ch \<le> CHR ''9'')"

text \<open>The pattern \<open>^[0-9]+s$\<close>.\<close>

definition validatePollRate :: "string \<Rightarrow> bool" where
  "validatePollRate pollRate =
     (pollRate \<noteq> '''' \<and> last pollRate = CHR ''s'' \<and> butlast pollRate \<noteq> '''' \<and>
      list_all isDigit (butlast pollRate))"

definition getK8SensorArgs :: "deploymentBuilder \<Rightarrow> string list" where
  "getK8SensorArgs d =
     (let a = dpb_agent d; rate = ks_PollRate (ag_K8sSensor a);
          pollRate = (if rate \<noteq> '''' \<and> validatePollRate rate then rate else DefaultPollRate)
      in [''-pollrate'', pollRate] @
         (if secretMountsOn (sp_UseSecretMounts (ag_Spec a))
          then [''-agent-key-file'',
                InstanaSecretsDirectory @ ''/'' @ SecretFileAgentKey @ be_ResourceSuffix (dpb_backend d)] @
               (if ba_ProxyHost (ag_Agent a) \<noteq> ''''
                then [''-https-proxy-file'', InstanaSecretsDirectory @ ''/'' @ SecretFileHttpsProxy] else [])
          else []))"

definition k8sensorAffinity :: "affinity \<Rightarrow> affinity" where
  "k8sensorAffinity aff = optional_GetOrDefault (optional_Of NoAffinity aff)
     (PreferredPodAntiAffinity 100 LabelAgentMode ''In'' [''KUBERNETES''] ''kubernetes.io/hostname'')"

definition dep_build :: "(string \<Rightarrow> string) \<Rightarrow> deploymentBuilder \<Rightarrow> k8sObject go" where
  "dep_build sha256 d =
     (let a = dpb_agent d; k = ag_K8sSensor a; spec = ks_DeploymentSpec k; pod = kd_Pod spec;
          (volumes, mounts) = dep_getVolumes d
      in bind_outcome (dep_getEnvVars d) (\<lambda>envVars.
         Ret (mkObject ''apps/v1'' ''Deployment''
           ((named (k8sSensorResourcesName a @ be_ResourceSuffix (dpb_backend d)) (ag_Namespace a))
              \<lparr>om_Labels := Some (addAppLabel None)\<rparr>)
           (DeploymentBody
             \<lparr>dps_Replicas = Some (toInt32 (kd_Replicas spec)),
              dps_MinReadySeconds = toInt32 (kd_MinReadySeconds spec),
              dps_Selector = Some (addAppLabel (Some (getPodSelectorLabels (dpb_selector d)))),
              dps_Template = \<lparr>
                pt_Labels = Some (addAppLabel (Some (dep_getPodTemplateLabels d))),
                pt_Annotations = Some (getPodAnnotationsWithBackendChecksum sha256 d),
                pt_Spec = emptyPodSpec\<lparr>
                  ps_ServiceAccountName := k8sSensorResourcesName a,
                  ps_NodeSelector := kp_NodeSelector pod,
                  ps_PriorityClassName := kp_PriorityClassName pod,
                  ps_ImagePullSecrets := imagePullSecrets a,
                  ps_Containers := [\<lparr>
                    c_Name = ''instana-agent'',
                    c_Image = Image (ks_ImageSpec k),
                    c_ImagePullPolicy = im_PullPolicy (ks_ImageSpec k),
                    c_Command = [''/ko-app/k8sensor''],
                    c_Args = getK8SensorArgs d,
                    c_Env = envVars,
                    c_VolumeMounts = mounts,
                    c_Resources = resources_GetOrDefault (kp_ResourceRequirements pod),
                    c_Ports = [asContainerPort InstanaAgentAPIPortConfig],
                    c_Privileged = None, c_LivenessProbe = None\<rparr>],
                  ps_FSGroup := Some 1000,
                  ps_Volumes := volumes,
                  ps_Tolerations := kp_Tolerations pod,
                  ps_Affinity := Some (k8sensorAffinity (kp_Affinity pod))\<rparr>\<rparr>,
              dps_StrategyType = ''''\<rparr>
             emptyDeploymentStatus))))"

definition dep_Build ::
  "(string \<Rightarrow> string) \<Rightarrow> deploymentBuilder \<Rightarrow> agentStatusManager \<Rightarrow> k8sObject option go \<times> agentStatusManager" where
  "dep_Build sha256 d s =
     (let a = dpb_agent d; b = ag_Agent a in
      if (ba_Key b = '''' \<and> ba_KeysSecret b = '''') \<or>
         (sp_ZoneName (ag_Spec a) = '''' \<and> sp_ClusterName (ag_Spec a) = '''') \<or>
         \<not> derefOrDefault (kd_Enabled (ks_DeploymentSpec (ag_K8sSensor a))) True
      then (Ret None, s)
      else (case dep_build sha256 d of
              Ret obj \<Rightarrow> (Ret (Some obj), setK8sSensorDeployment (objectKeyFromObject obj) s)
            | Panic p \<Rightarrow> (Panic p, s)))"

definition newDeploymentBuilder ::
  "(string \<Rightarrow> string) \<Rightarrow> instanaAgent \<Rightarrow> bool \<Rightarrow> k8SensorBackend \<Rightarrow> k8sObject option \<Rightarrow>
   deploymentContext option \<Rightarrow> agentStatusManager objectBuilder" where
  "newDeploymentBuilder sha256 agent isOpenShift backend keysSecret ctx =
     \<lparr>ob_Build = dep_Build sha256 \<lparr>dpb_agent = agent, dpb_isOpenShift = isOpenShift, dpb_backend = backend,
        dpb_keysSecret = keysSecret, dpb_deploymentContext = ctx\<rparr>,
      ob_ComponentName = ComponentK8Sensor, ob_IsNamespaced = True\<rparr>"

subsection \<open>The other objects of the k8sensor\<close>

text \<open>A builder that only inspects the custom resource and never touches the status manager.\<close>

definition pureBuilder :: "string \<Rightarrow> bool \<Rightarrow> k8sObject option \<Rightarrow> 's objectBuilder" where
  "pureBuilder component namespaced obj =
     \<lparr>ob_Build = (\<lambda>s. (Ret obj, s)), ob_ComponentName = component, ob_IsNamespaced = namespaced\<rparr>"

abbreviation rbacApiGroup :: string where "rbacApiGroup \<equiv> ''rbac.authorization.k8s.io''"
abbreviation rbacApiVersion :: string where "rbacApiVersion \<equiv> ''rbac.authorization.k8s.io/v1''"

definition readerVerbs :: "string list" where
  "readerVerbs = [''get'', ''list'', ''watch'']"

definition k8sensor_serviceAccount :: "instanaAgent \<Rightarrow> 's objectBuilder" where
  "k8sensor_serviceAccount a = pureBuilder ComponentK8Sensor True (Some (mkObject ''v1'' ''ServiceAccount''
     (named (k8sSensorResourcesName a) (ag_Namespace a)) ServiceAccountBody))"

definition pdb_build :: "instanaAgent \<Rightarrow> k8sObject" where
  "pdb_build a = mkObject ''policy/v1'' ''PodDisruptionBudget'' (named (k8sSensorResourcesName a) (ag_Namespace a))
     (PodDisruptionBudgetBody (Some (getPodSelectorLabels (podSelectorLabels a ComponentK8Sensor)))
        (Some (IntVal (toInt32 (toInt32 (kd_Replicas (ks_DeploymentSpec (ag_K8sSensor a))) - 1)))))"

definition pdb_Build :: "instanaAgent \<Rightarrow> k8sObject option" where
  "pdb_Build a =
     (if derefOrEmpty False (ks_PodDisruptionBudget (ag_K8sSensor a)) \<and>
         kd_Replicas (ks_DeploymentSpec (ag_K8sSensor a)) > 1
      then Some (pdb_build a) else None)"

definition k8sensor_podDisruptionBudget :: "instanaAgent \<Rightarrow> 's objectBuilder" where
  "k8sensor_podDisruptionBudget a = pureBuilder ComponentK8Sensor True (pdb_Build a)"

definition getConfigMapData :: "k8SensorBackend list \<Rightarrow> strmap" where
  "getConfigMapData backends =
     for_each (\<lambda>be data. gm_put (BackendKey @ be_ResourceSuffix be)
        (be_EndpointHost be @ '':'' @ be_EndpointPort be) data) backends []"

definition k8sensor_configMap :: "instanaAgent \<Rightarrow> k8SensorBackend list \<Rightarrow> 's objectBuilder" where
  "k8sensor_configMap a backends = pureBuilder ComponentK8Sensor True (Some (mkObject ''v1'' ''ConfigMap''
     (named (k8sSensorResourcesName a) (ag_Namespace a)) (ConfigMapBody (Some (getConfigMapData backends)))))"

definition rule :: "string list \<Rightarrow> string list \<Rightarrow> string list \<Rightarrow> policyRule" where
  "rule groups resources verbs = \<lparr>pr_APIGroups = groups, pr_Resources = resources, pr_ResourceNames = [],
     pr_NonResourceURLs = [], pr_Verbs = verbs\<rparr>"

definition nonResourceRule :: policyRule where
  "nonResourceRule = \<lparr>pr_APIGroups = [], pr_Resources = [], pr_ResourceNames = [],
     pr_NonResourceURLs = [''/version'', ''/healthz'', ''/metrics'', ''/metrics/*''], pr_Verbs = [''get'']\<rparr>"

definition privilegedRule :: policyRule where
  "privilegedRule = \<lparr>pr_APIGroups = [''security.openshift.io''], pr_Resources = [''securitycontextconstraints''],
     pr_ResourceNames = [''privileged''], pr_NonResourceURLs = [], pr_Verbs = [''use'']\<rparr>"

definition k8sensor_rules :: "policyRule list" where
  "k8sensor_rules =
     [nonResourceRule,
      rule [''apiextensions.k8s.io''] [''customresourcedefinitions''] readerVerbs,
      rule [''extensions''] [''deployments'', ''replicasets'', ''ingresses''] readerVerbs,
      rule [''''] [''configmaps'', ''events'', ''services'', ''endpoints'', ''namespaces'', ''nodes'',
        ''nodes/metrics'', ''nodes/stats'', ''nodes/proxy'', ''pods'', ''pods/log'', ''replicationcontrollers'',
        ''resourcequotas'', ''persistentvolumes'', ''persistentvolumeclaims''] readerVerbs,
      rule [''apps''] [''daemonsets'', ''deployments'', ''replicasets'', ''statefulsets''] readerVerbs,
      rule [''batch''] [''cronjobs'', ''jobs''] readerVerbs,
      rule [''discovery.k8s.io''] [''endpointslices''] readerVerbs,
      rule [''networking.k8s.io''] [''ingresses''] readerVerbs,
      rule [''autoscaling''] [''horizontalpodautoscalers''] readerVerbs,
      rule [''apps.openshift.io''] [''deploymentconfigs''] readerVerbs,
      privilegedRule]"

definition k8sensor_clusterRole :: "instanaAgent \<Rightarrow> 's objectBuilder" where
  "k8sensor_clusterRole a = pureBuilder ComponentK8Sensor False (Some (mkObject rbacApiVersion ''ClusterRole''
     (named (k8sSensorResourcesName a) '''') (ClusterRoleBody k8sensor_rules)))"

definition k8sensor_clusterRoleBinding :: "instanaAgent \<Rightarrow> 's objectBuilder" where
  "k8sensor_clusterRoleBinding a = pureBuilder ComponentK8Sensor False
     (Some (mkObject rbacApiVersion ''ClusterRoleBinding'' (named (k8sSensorResourcesName a) '''')
       (ClusterRoleBindingBody
          \<lparr>rref_APIGroup = rbacApiGroup, rref_Kind = ''ClusterRole'', rref_Name = k8sSensorResourcesName a\<rparr>
          [\<lparr>sub_Kind = ''ServiceAccount'', sub_Name = k8sSensorResourcesName a, sub_Namespace = ag_Namespace a\<rparr>])))"

definition k8sensor_role :: "instanaAgent \<Rightarrow> 's objectBuilder" where
  "k8sensor_role a = pureBuilder ComponentK8Sensor True (Some (mkObject rbacApiVersion ''Role''
     (named (k8sSensorResourcesName a @ ''-etcd-reader'') ''kube-system'')
     (RoleBody [rule [''''] [''services'', ''endpoints''] readerVerbs])))"

definition k8sensor_roleBinding :: "instanaAgent \<Rightarrow> 's objectBuilder" where
  "k8sensor_roleBinding a = pureBuilder ComponentK8Sensor True (Some (mkObject rbacApiVersion ''RoleBinding''
     (named (k8sSensorResourcesName a @ ''-etcd-reader'') ''kube-system'')
     (RoleBindingBody
        \<lparr>rref_APIGroup = rbacApiGroup, rref_Kind = ''Role'',
         rref_Name = k8sSensorResourcesName a @ ''-etcd-reader''\<rparr>
        [\<lparr>sub_Kind = ''ServiceAccount'', sub_Name = k8sSensorResourcesName a, sub_Namespace = ag_Namespace a\<rparr>])))"

subsection \<open>Lemmas\<close>

lemma k8sensorEnv_return:
  "k \<in> set (k8sensorEnvVars @ [ETCDCAFileEnv, HTTPSProxyEnv]) \<Longrightarrow> \<exists>v. buildEnv a z k = Ret v"
  by (auto simp: k8sensorEnvVars_def buildEnv_def Let_def)

lemma envBuilder_returns:
  "\<forall>k\<in>set ks. \<exists>v. buildEnv a z k = Ret v \<Longrightarrow>
     \<exists>vs. envBuilder_Build a z ks = Ret (getUserProvidedEnvs (ag_Agent a) @ vs)"
proof -
  have "\<forall>k\<in>set ks. \<exists>v. f k = Ret v \<Longrightarrow> \<exists>vs. appendBuilt f ks acc = Ret (acc @ vs)"
    for f :: "envVarKind \<Rightarrow> envVar option go" and acc
  proof (induction ks arbitrary: acc)
    case (Cons k ks)
    then obtain r where "f k = Ret r" by auto
    with Cons.IH [of "case r of None \<Rightarrow> acc | Some v \<Rightarrow> acc @ [v]"] Cons.prems show ?case
      by (auto split: option.splits)
  qed simp
  then show "\<forall>k\<in>set ks. \<exists>v. buildEnv a z k = Ret v \<Longrightarrow> ?thesis"
    unfolding envBuilder_Build_def by blast
qed

lemma dep_getEnvVars_returns: "\<exists>vs. dep_getEnvVars d = Ret vs"
proof -
  let ?inc = "\<not> dpb_isOpenShift d \<or> dpb_deploymentContext d = None \<or>
    \<not> dctx_OpenShiftETCDResourcesExist (the (dpb_deploymentContext d))"
  have "\<exists>vs. envBuilder_Build (dpb_agent d) None (k8sensorEnvVars @ (if ?inc then [ETCDCAFileEnv] else [])) =
      Ret (getUserProvidedEnvs (ag_Agent (dpb_agent d)) @ vs)"
    by (rule envBuilder_returns) (auto intro: k8sensorEnv_return split: if_splits)
  then obtain vs where 1: "envBuilder_Build (dpb_agent d) None
      (k8sensorEnvVars @ (if ?inc then [ETCDCAFileEnv] else [])) = Ret vs" by blast
  have "\<exists>vs. envBuilder_Build (dpb_agent d) None [HTTPSProxyEnv] =
      Ret (getUserProvidedEnvs (ag_Agent (dpb_agent d)) @ vs)"
    by (rule envBuilder_returns) (auto intro: k8sensorEnv_return)
  then obtain ps where 2: "envBuilder_Build (dpb_agent d) None [HTTPSProxyEnv] = Ret ps" by blast
  from 1 2 show ?thesis by (simp only: dep_getEnvVars_def Let_def bind_outcome.simps if_split_eq1) auto
qed

lemma dep_build_shape:
  obtains obj spec c envVars where "dep_build sha256 d = Ret obj"
    "ko_Body obj = DeploymentBody spec emptyDeploymentStatus"
    "dps_Selector spec = Some (addAppLabel (Some (getPodSelectorLabels (dpb_selector d))))"
    "pt_Labels (dps_Template spec) = Some (addAppLabel (Some (dep_getPodTemplateLabels d)))"
    "ps_Volumes (pt_Spec (dps_Template spec)) = fst (dep_getVolumes d)"
    "ps_Containers (pt_Spec (dps_Template spec)) = [c]"
    "c_VolumeMounts c = snd (dep_getVolumes d)" "c_Args c = getK8SensorArgs d"
    "dep_getEnvVars d = Ret envVars" "c_Env c = envVars"
    "get_name obj = k8sSensorResourcesName (dpb_agent d) @ be_ResourceSuffix (dpb_backend d)"
    "get_namespace obj = ag_Namespace (dpb_agent d)"
proof -
  obtain vs where "dep_getEnvVars d = Ret vs" using dep_getEnvVars_returns by blast
  then show ?thesis using that by (auto simp: dep_build_def Let_def split_beta)
qed

lemma addAppLabel_lookup:
  "gm_get (addAppLabel (Some m)) k =
     (if k = ''app'' then Some (case gm_get m ''app'' of None \<Rightarrow> ''k8sensor'' | Some v \<Rightarrow> if v = '''' then ''k8sensor'' else v)
      else gm_get m k)"
  by (simp add: addAppLabel_def gm_get_setIfEmpty)

lemma gm_wf_addAppLabel: "gm_wf m \<Longrightarrow> gm_wf (addAppLabel (Some m))"
  by (simp add: addAppLabel_def setIfEmpty_def)

text \<open>The user's pod label \<open>app\<close>, if the map has one.\<close>

definition userAppLabel :: "deploymentBuilder \<Rightarrow> string option" where
  "userAppLabel d = gm_get (newMapDefaulter (ap_Labels (ba_Pod (ag_Agent (dpb_agent d))))) ''app''"

lemma getPodLabels_other:
  assumes "gm_wf u" and "k \<notin> {NameLabel, InstanceLabel, ComponentLabel, PartOfLabel, ManagedByLabel, ZoneLabel}"
  shows "gm_get (getPodLabels p (Some u)) k = gm_get u k"
  using assms by (simp add: getPodLabels_def Let_def gm_get_map_Copy split: option.splits)

lemma dep_template_app:
  assumes "gm_wf (newMapDefaulter (ap_Labels (ba_Pod (ag_Agent (dpb_agent d)))))"
  shows "gm_get (dep_getPodTemplateLabels d) ''app'' = userAppLabel d"
  using assms by (cases "ap_Labels (ba_Pod (ag_Agent (dpb_agent d)))")
    (simp_all add: dep_getPodTemplateLabels_def Let_def getPodLabels_other userAppLabel_def)

lemma psl_no_app: "gm_get (getPodSelectorLabels (podSelectorLabels a c)) ''app'' = None"
  by (simp add: getPodSelectorLabels_def podSelectorLabels_def podSelectorLabelsWithZoneInfo_def)

lemma dep_selector_matches_iff:
  assumes wf: "gm_wf (newMapDefaulter (ap_Labels (ba_Pod (ag_Agent (dpb_agent d)))))"
  shows "selector_matches (addAppLabel (Some (getPodSelectorLabels (dpb_selector d))))
      (addAppLabel (Some (dep_getPodTemplateLabels d))) \<longleftrightarrow>
    userAppLabel d \<in> {None, Some '''', Some ''k8sensor''}"
proof -
  have sub: "gm_get (getPodSelectorLabels (dpb_selector d)) k = Some v \<Longrightarrow>
      gm_get (dep_getPodTemplateLabels d) k = Some v" for k v
    unfolding dep_getPodTemplateLabels_def Let_def by (rule getPodSelectorLabels_subset)
  have "selector_matches (addAppLabel (Some (getPodSelectorLabels (dpb_selector d))))
      (addAppLabel (Some (dep_getPodTemplateLabels d))) \<longleftrightarrow>
      gm_get (addAppLabel (Some (dep_getPodTemplateLabels d))) ''app'' = Some ''k8sensor''"
    using sub by (subst selector_matches_iff) (auto simp: gm_wf_addAppLabel addAppLabel_lookup psl_no_app)
  then show ?thesis by (auto simp: addAppLabel_lookup dep_template_app [OF wf] split: option.splits)
qed

lemma configMap_lookup:
  "distinct (map be_ResourceSuffix backends) \<Longrightarrow> be \<in> set backends \<Longrightarrow>
     gm_get (getConfigMapData backends) (BackendKey @ be_ResourceSuffix be) =
       Some (be_EndpointHost be @ '':'' @ be_EndpointPort be)"
  by (induction backends rule: rev_induct) (auto simp: getConfigMapData_def, metis image_eqI)

lemma set_sortEnvVars: "set (sortEnvVarsByName xs) = set xs"
  by (simp add: sortEnvVarsByName_def)

lemma validatePollRate_default: "validatePollRate DefaultPollRate"
  by (simp add: validatePollRate_def isDigit_def)

subsection \<open>Properties\<close>

text \<open>
  C28: the k8sensor Deployment of a backend is always built, and its selector matches its pod
  template (which the API server demands) exactly when the user's pod labels have no other value
  for \<open>app\<close> than \<open>k8sensor\<close>: the label the selector requires is only set where it is empty.
\<close>

theorem k8sensor_selector_matches_iff:
  assumes "gm_wf (newMapDefaulter (ap_Labels (ba_Pod (ag_Agent (dpb_agent d)))))"
  shows "\<exists>obj spec. dep_build sha256 d = Ret obj \<and> ko_Body obj = DeploymentBody spec emptyDeploymentStatus \<and>
    (selector_matches (the (dps_Selector spec)) (the (pt_Labels (dps_Template spec))) \<longleftrightarrow>
     userAppLabel d \<in> {None, Some '''', Some ''k8sensor''})"
  using dep_build_shape [of sha256 d] dep_selector_matches_iff [OF assms] by (metis option.sel)

definition exampleBackend :: k8SensorBackend where
  "exampleBackend = newK8SensorBackend '''' ''secret'' '''' ''host'' ''443''"

definition exampleSensorBuilder :: deploymentBuilder where
  "exampleSensorBuilder = \<lparr>dpb_agent = agent_Default exampleAgent, dpb_isOpenShift = False,
     dpb_backend = exampleBackend, dpb_keysSecret = None, dpb_deploymentContext = None\<rparr>"

theorem k8sensor_selector_matches_iff_witness:
  "\<exists>obj spec. dep_build (\<lambda>s. s) exampleSensorBuilder = Ret obj \<and>
     ko_Body obj = DeploymentBody spec emptyDeploymentStatus \<and>
     selector_matches (the (dps_Selector spec)) (the (pt_Labels (dps_Template spec)))"
  using k8sensor_selector_matches_iff [of exampleSensorBuilder "\<lambda>s. s"]
  by (auto simp: exampleSensorBuilder_def userAppLabel_def agent_Default_def defaultBaseAgent_def Let_def
      example_defs)

lemma dep_env_etcd_ca:
  assumes os: "\<not> dpb_isOpenShift d" and ctx: "dpb_deploymentContext d = Some c"
    and t: "dctx_DiscoveredETCDTargets c \<noteq> []" and ca: "dctx_ETCDCASecretName c \<noteq> ''''"
    and no: "etcd_Targets (ag_ETCD (dpb_agent d)) = []"
    and p: "ca_MountPath (etcd_CA (ag_ETCD (dpb_agent d))) = p" "p \<noteq> ''''"
    and vs: "dep_getEnvVars d = Ret vs"
  shows "valueEnv EnvETCDCAFile (p @ ''/ca.crt'') \<in> set vs"
    "valueEnv EnvETCDCAFile (ETCDCAMountPath @ ''/ca.crt'') \<in> set vs"
proof -
  have ca_env: "buildEnv (dpb_agent d) None ETCDCAFileEnv = Ret (Some (valueEnv EnvETCDCAFile (p @ ''/ca.crt'')))"
    using p by (simp add: buildEnv_def isSecret_def etcdCAFileEnv_def Let_def)
  have app: "appendBuilt f (xs @ [k]) acc = bind_outcome (appendBuilt f xs acc)
      (\<lambda>ys. bind_outcome (f k) (\<lambda>r. Ret (case r of None \<Rightarrow> ys | Some v \<Rightarrow> ys @ [v])))" 
    for f :: "envVarKind \<Rightarrow> envVar option go" and xs k acc
  proof (induction xs arbitrary: acc)
    case Nil
    show ?case by (cases "f k") auto
  next
    case (Cons x xs)
    then show ?case by (cases "f x") auto
  qed
  obtain xs where "envBuilder_Build (dpb_agent d) None k8sensorEnvVars = Ret xs"
    using envBuilder_returns [of k8sensorEnvVars "dpb_agent d" None] k8sensorEnv_return by auto
  then have "envBuilder_Build (dpb_agent d) None (k8sensorEnvVars @ [ETCDCAFileEnv]) =
      Ret (xs @ [valueEnv EnvETCDCAFile (p @ ''/ca.crt'')])"
    by (simp add: envBuilder_Build_def app ca_env)
  with os ctx t ca no vs show "valueEnv EnvETCDCAFile (p @ ''/ca.crt'') \<in> set vs"
    "valueEnv EnvETCDCAFile (ETCDCAMountPath @ ''/ca.crt'') \<in> set vs"
    by (auto simp: dep_getEnvVars_def Let_def discoveredEnvVars_def set_sortEnvVars split: if_splits)
qed

text \<open>
  on a cluster that is not OpenShift, with the defaults applied, a discovered etcd CA leads
  to two different values for \<open>ETCD_CA_FILE\<close> in the k8sensor's environment: the default mount
  path and the path of the discovered CA.
\<close>

theorem k8sensor_etcd_ca_conflict:
  assumes "dpb_agent d = agent_Default a" and "\<not> dpb_isOpenShift d"
    and "dpb_deploymentContext d = Some c" and "dctx_DiscoveredETCDTargets c \<noteq> []"
    and "dctx_ETCDCASecretName c \<noteq> ''''" and "etcd_Targets (ag_ETCD a) = []"
    and "ca_MountPath (etcd_CA (ag_ETCD a)) = ''''"
  shows "\<exists>vs. dep_getEnvVars d = Ret vs \<and>
    {valueEnv EnvETCDCAFile ''/var/run/secrets/kubernetes.io/serviceaccount/ca.crt'',
     valueEnv EnvETCDCAFile ''/var/run/secrets/etcd/ca.crt''} \<subseteq> set vs"
proof -
  obtain vs where vs: "dep_getEnvVars d = Ret vs" using dep_getEnvVars_returns by blast
  have "etcd_Targets (ag_ETCD (dpb_agent d)) = []"
    "ca_MountPath (etcd_CA (ag_ETCD (dpb_agent d))) = ''/var/run/secrets/kubernetes.io/serviceaccount''"
    using assms(1,6,7) by (simp_all add: agent_Default_def defaultK8sSensor_def Let_def)
  from dep_env_etcd_ca [OF assms(2-5) this _ vs] vs show ?thesis by simp
qed

definition contextWithCA :: deploymentContext where
  "contextWithCA = \<lparr>dctx_DiscoveredETCDTargets = [''https://10.0.0.1:2379/metrics''],
     dctx_ETCDCASecretName = ''etcd-ca'', dctx_OpenShiftETCDResourcesExist = False\<rparr>"

theorem k8sensor_etcd_ca_conflict_witness:
  "\<exists>vs. dep_getEnvVars (exampleSensorBuilder\<lparr>dpb_deploymentContext := Some contextWithCA\<rparr>) = Ret vs \<and>
    valueEnv EnvETCDCAFile ''/var/run/secrets/kubernetes.io/serviceaccount/ca.crt'' \<in> set vs"
  using k8sensor_etcd_ca_conflict [of "exampleSensorBuilder\<lparr>dpb_deploymentContext := Some contextWithCA\<rparr>"
      exampleAgent contextWithCA]
  by (auto simp: exampleSensorBuilder_def contextWithCA_def example_defs)

text \<open>
  the k8sensor's container can reach what its arguments and environment name. The poll rate
  argument is well-formed whatever the custom resource says, and the variable \<open>BACKEND\<close> refers to
  the key of the k8sensor's ConfigMap under which the address of this very backend is stored.
\<close>

theorem k8sensor_container_inputs:
  assumes "distinct (map be_ResourceSuffix backends)" and "dpb_backend d \<in> set backends"
  shows "(\<exists>rate rest. getK8SensorArgs d = ''-pollrate'' # rate # rest \<and> validatePollRate rate) \<and>
    (\<exists>vs key. dep_getEnvVars d = Ret vs \<and>
      sourceEnv ''BACKEND'' (ConfigMapKeyRef (k8sSensorResourcesName (dpb_agent d)) key) \<in> set vs \<and>
      gm_get (getConfigMapData backends) key =
        Some (be_EndpointHost (dpb_backend d) @ '':'' @ be_EndpointPort (dpb_backend d)))"
proof
  show "\<exists>rate rest. getK8SensorArgs d = ''-pollrate'' # rate # rest \<and> validatePollRate rate"
    by (auto simp: getK8SensorArgs_def Let_def validatePollRate_default)
  obtain vs where vs: "dep_getEnvVars d = Ret vs" using dep_getEnvVars_returns by blast
  then have "sourceEnv ''BACKEND'' (ConfigMapKeyRef (k8sSensorResourcesName (dpb_agent d))
      (BackendKey @ be_ResourceSuffix (dpb_backend d))) \<in> set vs"
    by (auto simp: dep_getEnvVars_def Let_def set_sortEnvVars split: if_splits)
  then show "\<exists>vs key. dep_getEnvVars d = Ret vs \<and>
      sourceEnv ''BACKEND'' (ConfigMapKeyRef (k8sSensorResourcesName (dpb_agent d)) key) \<in> set vs \<and>
      gm_get (getConfigMapData backends) key =
        Some (be_EndpointHost (dpb_backend d) @ '':'' @ be_EndpointPort (dpb_backend d))"
    using vs configMap_lookup [OF assms] by blast
qed

theorem k8sensor_container_inputs_witness:
  "\<exists>vs key. dep_getEnvVars exampleSensorBuilder = Ret vs \<and>
      sourceEnv ''BACKEND'' (ConfigMapKeyRef (k8sSensorResourcesName (dpb_agent exampleSensorBuilder)) key) \<in> set vs \<and>
      gm_get (getConfigMapData [exampleBackend]) key = Some ''host:443''"
  using k8sensor_container_inputs [of "[exampleBackend]" exampleSensorBuilder]
  by (simp add: exampleSensorBuilder_def exampleBackend_def newK8SensorBackend_def)

text \<open>
  the pod disruption budget. It exists exactly when it is enabled and there is more than one
  replica, and for every replica count the CRD can carry as an \<open>int32\<close> it keeps all replicas but
  one, at least one, available; its selector is the one the Deployments' pods carry.
\<close>

theorem pdb_allows_one_disruption:
  assumes "kd_Replicas (ks_DeploymentSpec (ag_K8sSensor a)) < 2 ^ 31"
  shows "pdb_Build a =
    (if ks_PodDisruptionBudget (ag_K8sSensor a) = Some True \<and>
        kd_Replicas (ks_DeploymentSpec (ag_K8sSensor a)) > 1
     then Some (mkObject ''policy/v1'' ''PodDisruptionBudget''
       (named (k8sSensorResourcesName a) (ag_Namespace a))
       (PodDisruptionBudgetBody (Some (getPodSelectorLabels (podSelectorLabels a ComponentK8Sensor)))
          (Some (IntVal (kd_Replicas (ks_DeploymentSpec (ag_K8sSensor a)) - 1)))))
     else None)"
proof (cases "kd_Replicas (ks_DeploymentSpec (ag_K8sSensor a)) > 1")
  case True
  then have "toInt32 (kd_Replicas (ks_DeploymentSpec (ag_K8sSensor a))) = kd_Replicas (ks_DeploymentSpec (ag_K8sSensor a))"
    "toInt32 (kd_Replicas (ks_DeploymentSpec (ag_K8sSensor a)) - 1) = kd_Replicas (ks_DeploymentSpec (ag_K8sSensor a)) - 1"
    using assms by (auto intro!: toInt32_id)
  then show ?thesis
    by (cases "ks_PodDisruptionBudget (ag_K8sSensor a)") (auto simp: pdb_Build_def pdb_build_def)
qed (auto simp: pdb_Build_def)

definition agentWithPdb :: instanaAgent where
  "agentWithPdb = exampleAgent\<lparr>ag_Spec := (ag_Spec exampleAgent)\<lparr>sp_K8sSensor :=
     emptyK8sSensor\<lparr>ks_PodDisruptionBudget := Some True,
       ks_DeploymentSpec := (ks_DeploymentSpec emptyK8sSensor)\<lparr>kd_Replicas := 3\<rparr>\<rparr>\<rparr>\<rparr>"

theorem pdb_allows_one_disruption_witness:
  "\<exists>obj sel. pdb_Build agentWithPdb = Some obj \<and> ko_Body obj = PodDisruptionBudgetBody (Some sel) (Some (IntVal 2))"
  using pdb_allows_one_disruption [of agentWithPdb] by (simp add: agentWithPdb_def)

lemma dep_getVolumes_redacted:
  "dep_getVolumes (d\<lparr>dpb_agent := agent_redacted (dpb_agent d)\<rparr>) = dep_getVolumes d"
  using getBuilder_redacted [of "withBackendResourceSuffix (be_ResourceSuffix (dpb_backend d))
      (newVolumeBuilder (dpb_agent d) (dpb_isOpenShift d))"]
  by (simp add: dep_getVolumes_def volumeBuilder_Build_def openShiftETCD_def newVolumeBuilder_def
      withBackendResourceSuffix_def Let_def cong: option.case_cong)

lemma dep_getEnvVars_redacted:
  assumes "secretMountsOn (sp_UseSecretMounts (ag_Spec (dpb_agent d)))"
  shows "dep_getEnvVars (d\<lparr>dpb_agent := agent_redacted (dpb_agent d)\<rparr>) = dep_getEnvVars d"
proof -
  have "envBuilder_Build (agent_redacted (dpb_agent d)) z ks = envBuilder_Build (dpb_agent d) z ks" for z ks
    using agent_env.appended_redacted [OF assms, of z ks] by (simp add: envBuilder_Build_def userEnvs_eq)
  then show ?thesis
    using assms by (simp add: dep_getEnvVars_def openShiftETCD_def discoveredEnvVars_def
        k8sSensorResourcesName_def Let_def cong: option.case_cong)
qed

lemma dep_build_redacted:
  assumes "secretMountsOn (sp_UseSecretMounts (ag_Spec (dpb_agent d)))"
  shows "dep_build sha256 (d\<lparr>dpb_agent := agent_redacted (dpb_agent d)\<rparr>) = dep_build sha256 d"
  unfolding dep_build_def dep_getVolumes_redacted dep_getEnvVars_redacted [OF assms]
  by (simp add: dep_getPodTemplateLabels_def podSelectorLabelsWithZoneInfo_def podSelectorLabels_def
      getPodAnnotationsWithBackendChecksum_def getK8SensorArgs_def k8sSensorResourcesName_def
      imagePullSecrets_def useContainersSecret_def containersSecretName_def Let_def cong: option.case_cong)

text \<open>
  with secret mounts on, the credentials in the custom resource reach the k8sensor's
  Deployment only through the digest of the backend's key: building it from the redacted
  resource, for the same backend, gives the same result.
\<close>

theorem k8sensor_keeps_secrets_out:
  assumes "secretMountsOn (sp_UseSecretMounts (ag_Spec (dpb_agent d)))"
  shows "dep_Build sha256 (d\<lparr>dpb_agent := agent_redacted (dpb_agent d)\<rparr>) s = dep_Build sha256 d s"
  using dep_build_redacted [OF assms] by (auto simp: dep_Build_def Let_def)

theorem k8sensor_keeps_secrets_out_witness:
  "dep_Build (\<lambda>s. s) (exampleSensorBuilder\<lparr>dpb_agent := agent_redacted (agent_Default exampleAgent)\<rparr>)
     newAgentStatusManager = dep_Build (\<lambda>s. s) exampleSensorBuilder newAgentStatusManager"
  using k8sensor_keeps_secrets_out [of exampleSensorBuilder "\<lambda>s. s" newAgentStatusManager]
  by (simp add: exampleSensorBuilder_def agent_Default_def exampleAgent_def Let_def)

definition k8sensorVolumes :: "deploymentBuilder \<Rightarrow> volumeKind list" where
  "k8sensorVolumes d = [ConfigVolume, ControlPlaneCAVolume] @
     (if openShiftETCD d \<or> ca_SecretName (etcd_CA (ag_ETCD (dpb_agent d))) \<noteq> '''' then [ETCDCAVolume] else []) @
     (if openShiftETCD d then [ETCDClientCertVolume] else []) @
     (if secretMountsOn (sp_UseSecretMounts (ag_Spec (dpb_agent d))) then [K8SensorSecretsVolume] else [])"

text \<open>A discovered CA is mounted.\<close>

definition discoveredCA :: "deploymentBuilder \<Rightarrow> bool" where
  "discoveredCA d \<longleftrightarrow> (\<exists>c. dpb_deploymentContext d = Some c \<and> dctx_ETCDCASecretName c \<noteq> '''') \<and>
     etcd_Targets (ag_ETCD (dpb_agent d)) = []"

lemma dep_volume_names:
  "map vol_Name (fst (dep_getVolumes d)) =
     map vol_Name (fst (volumeBuilder_Build (withBackendResourceSuffix (be_ResourceSuffix (dpb_backend d))
        (newVolumeBuilder (dpb_agent d) (dpb_isOpenShift d))) (k8sensorVolumes d))) @
     (if discoveredCA d then [''etcd-ca''] else [])"
  by (simp add: dep_getVolumes_def k8sensorVolumes_def discoveredCA_def Let_def split_beta split: option.split)

lemma etcdCAVolume_built:
  assumes "openShiftETCD d \<or> ca_SecretName (etcd_CA (ag_ETCD (dpb_agent d))) \<noteq> ''''"
  shows "fst (getBuilder (withBackendResourceSuffix sfx (newVolumeBuilder (dpb_agent d) (dpb_isOpenShift d)))
    ETCDCAVolume) \<noteq> None"
  using assms by (auto simp: getBuilder_def etcdCAVolume_def caVolume_def volumeWithMount_def Let_def
      newVolumeBuilder_def withBackendResourceSuffix_def openShiftETCD_def)

lemma mem_map_filter_unique:
  assumes "\<And>k. k \<in> set ks \<Longrightarrow> nm k = n \<longleftrightarrow> k = k0"
  shows "n \<in> set (map nm (filter P ks)) \<longleftrightarrow> k0 \<in> set ks \<and> P k0"
  using assms by (auto simp: image_iff)

lemma k8sensorVolumes_names: "distinct (map volumeKindName (k8sensorVolumes d))"
  by (simp add: k8sensorVolumes_def)

lemma k8sensorVolumes_etcd:
  "k \<in> set (k8sensorVolumes d) \<Longrightarrow> volumeKindName k = ''etcd-ca'' \<longleftrightarrow> k = ETCDCAVolume"
  "ETCDCAVolume \<in> set (k8sensorVolumes d) \<longleftrightarrow>
     openShiftETCD d \<or> ca_SecretName (etcd_CA (ag_ETCD (dpb_agent d))) \<noteq> ''''"
  by (auto simp: k8sensorVolumes_def split: if_splits)

text \<open>
  the volumes of the k8sensor have different names, as the API server demands, exactly when
  a discovered etcd CA is not mounted next to an etcd CA from the custom resource or from
  OpenShift: both volumes are called \<open>etcd-ca\<close>.
\<close>

theorem k8sensor_volumes_distinct_iff:
  "distinct (map vol_Name (fst (dep_getVolumes d))) \<longleftrightarrow>
     \<not> ((\<exists>c. dpb_deploymentContext d = Some c \<and> dctx_ETCDCASecretName c \<noteq> '''') \<and>
        etcd_Targets (ag_ETCD (dpb_agent d)) = [] \<and>
        (openShiftETCD d \<or> ca_SecretName (etcd_CA (ag_ETCD (dpb_agent d))) \<noteq> ''''))"
proof -
  let ?v = "withBackendResourceSuffix (be_ResourceSuffix (dpb_backend d))
    (newVolumeBuilder (dpb_agent d) (dpb_isOpenShift d))"
  let ?names = "map vol_Name (fst (volumeBuilder_Build ?v (k8sensorVolumes d)))"
  have "distinct ?names"
    unfolding volumeBuilder_Build_def by (rule agent_volumes.distinct_names) (rule k8sensorVolumes_names)
  moreover have "''etcd-ca'' \<in> set ?names \<longleftrightarrow>
      openShiftETCD d \<or> ca_SecretName (etcd_CA (ag_ETCD (dpb_agent d))) \<noteq> ''''"
  proof -
    have "''etcd-ca'' \<in> set ?names \<longleftrightarrow>
        ETCDCAVolume \<in> set (k8sensorVolumes d) \<and> fst (getBuilder ?v ETCDCAVolume) \<noteq> None"
      unfolding volumeBuilder_Build_def agent_volumes.volume_names
      by (rule mem_map_filter_unique) (rule k8sensorVolumes_etcd(1))
    then show ?thesis using etcdCAVolume_built [of d] unfolding k8sensorVolumes_etcd(2) by blast
  qed
  ultimately show ?thesis by (auto simp: dep_volume_names discoveredCA_def)
qed

theorem k8sensor_volumes_distinct_iff_witness:
  "distinct (map vol_Name (fst (dep_getVolumes exampleSensorBuilder)))"
  using k8sensor_volumes_distinct_iff [of exampleSensorBuilder]
  by (simp add: exampleSensorBuilder_def openShiftETCD_def agent_Default_def defaultK8sSensor_def example_defs Let_def)

end
