(* ===== verification/Reconcile_Util.thy ===== *)
theory Reconcile_Util
  imports Operator_Utils Daemon_Set K8s_Sensor
begin

text \<open>
  \<open>src/controllers/reconcile_result.go\<close> and \<open>util.go\<close>: the value every reconcile step returns
  (continue, or finish with a result), the OpenShift check, the decision about the host id
  variable of an existing DaemonSet, and the lists of backends.
\<close>

subsection \<open>\<open>reconcile_result.go\<close>\<close>

record ctrlResult =
  cr_Requeue :: bool

definition emptyResult :: ctrlResult where
  "emptyResult = \<lparr>cr_Requeue = False\<rparr>"

text \<open>A \<open>result.Result\<close> is a pointer: \<open>None\<close> is the zero value \<open>nil\<close> of the optional.\<close>

type_synonym reconcileReturn = "ctrlResult result option optional"

definition suppliesReconcileResult :: "reconcileReturn \<Rightarrow> bool" where
  "suppliesReconcileResult r = isPresent r"

definition reconcileResult :: "reconcileReturn \<Rightarrow> (ctrlResult \<times> error) go" where
  "reconcileResult r = (case optional_Get r of Some x \<Rightarrow> Ret (result_Get x) | None \<Rightarrow> Panic nilDeref)"

definition reconcileSuccess :: "ctrlResult \<Rightarrow> reconcileReturn" where
  "reconcileSuccess r = optional_Of None (Some (result_OfSuccess r))"

definition reconcileFailure :: "error \<Rightarrow> reconcileReturn" where
  "reconcileFailure e = optional_Of None (Some (result_OfFailure emptyResult e))"

definition reconcileContinue :: reconcileReturn where
  "reconcileContinue = optional_Empty None"

lemma suppliesReconcileResult_simps [simp]:
  "suppliesReconcileResult (reconcileSuccess r)"
  "suppliesReconcileResult (reconcileFailure e)"
  "\<not> suppliesReconcileResult reconcileContinue"
  by (simp_all add: suppliesReconcileResult_def reconcileSuccess_def reconcileFailure_def
      reconcileContinue_def)

lemma reconcileResult_simps [simp]:
  "reconcileResult (reconcileSuccess r) = Ret (r, None)"
  "reconcileResult (reconcileFailure e) = Ret (emptyResult, e)"
  by (simp_all add: reconcileResult_def reconcileSuccess_def reconcileFailure_def result_defs)

lemma reconcileReturn_distinct [simp]:
  "reconcileSuccess r \<noteq> reconcileContinue" "reconcileContinue \<noteq> reconcileSuccess r"
  "reconcileFailure e \<noteq> reconcileContinue" "reconcileContinue \<noteq> reconcileFailure e"
  "reconcileFailure (Some x) \<noteq> reconcileSuccess r" "reconcileSuccess r \<noteq> reconcileFailure (Some x)"
  by (simp_all add: reconcileSuccess_def reconcileFailure_def reconcileContinue_def optional_defs result_defs)

subsection \<open>\<open>util.go\<close>\<close>

definition isOpenShift ::
  "world \<Rightarrow> operatorUtils \<Rightarrow> history \<Rightarrow> (bool \<times> reconcileReturn) \<times> history" where
  "isOpenShift w ou h =
     (case clusterIsOpenShift w ou h of ((isOpenShiftRes, e), h1) \<Rightarrow>
        if e \<noteq> None then ((False, reconcileFailure e), h1)
        else ((isOpenShiftRes, reconcileContinue), h1))"

definition daemonSet_Containers :: "k8sObject \<Rightarrow> container list" where
  "daemonSet_Containers obj =
     (case ko_Body obj of DaemonSetBody s st \<Rightarrow> ps_Containers (pt_Spec (dss_Template s)) | _ \<Rightarrow> [])"

text \<open>The loop over the containers: \<open>None\<close> when none is called \<open>instana-agent\<close>.\<close>

fun persistsHostUniqueID :: "container list \<Rightarrow> bool option" where
  "persistsHostUniqueID [] = None"
| "persistsHostUniqueID (c # cs) =
     (if c_Name c = ''instana-agent''
      then Some (list_ex (\<lambda>env. ev_Name env = ''INSTANA_PERSIST_HOST_UNIQUE_ID'') (c_Env c))
      else persistsHostUniqueID cs)"

definition shouldSetPersistHostUniqueIDEnvVar ::
  "world \<Rightarrow> instanaAgent \<Rightarrow> zone option \<Rightarrow> history \<Rightarrow> (bool \<times> reconcileReturn) \<times> history" where
  "shouldSetPersistHostUniqueIDEnvVar w agent z h =
     (let dsName = (case z of None \<Rightarrow> ag_Name agent | Some zn \<Rightarrow> ag_Name agent @ ''-'' @ zone_Name zn)
      in case client_Get w gvk_DaemonSet \<lparr>nn_Namespace = ag_Namespace agent, nn_Name = dsName\<rparr> h of
           ((existingDS, e), h1) \<Rightarrow>
             if e \<noteq> None
             then (if isNotFound e then ((True, reconcileContinue), h1)
                   else ((False, reconcileFailure e), h1))
             else (case persistsHostUniqueID (daemonSet_Containers existingDS) of
                     Some b \<Rightarrow> ((b, reconcileContinue), h1)
                   | None \<Rightarrow> ((False, reconcileFailure (Some (EPlain
                       (''instana-agent container not found in DaemonSet '' @ dsName)))), h1)))"

fun appendBackends ::
  "(string \<Rightarrow> string \<Rightarrow> string \<Rightarrow> string \<Rightarrow> string \<Rightarrow> k8SensorBackend) \<Rightarrow> int \<Rightarrow> backendSpec list \<Rightarrow>
   k8SensorBackend list \<Rightarrow> k8SensorBackend list" where
  "appendBackends new i [] backends = backends"
| "appendBackends new i (b # bs) backends =
     appendBackends new (i + 1) bs
       (backends @ [new (''-'' @ itoa (i + 1)) (bs_Key b) '''' (bs_EndpointHost b) (bs_EndpointPort b)])"

definition getK8SensorBackends :: "instanaAgent \<Rightarrow> k8SensorBackend list" where
  "getK8SensorBackends agent =
     (let b = ag_Agent agent;
          k8SensorBackends = [newK8SensorBackend '''' (ba_Key b) (ba_DownloadKey b) (ba_EndpointHost b) (ba_EndpointPort b)]
      in if length (ba_AdditionalBackends b) = 0 then k8SensorBackends
         else appendBackends newK8SensorBackend 0 (ba_AdditionalBackends b) k8SensorBackends)"

definition getRemoteSensorBackends :: "instanaAgentRemote \<Rightarrow> k8SensorBackend list" where
  "getRemoteSensorBackends agent =
     (let b = ra_Agent agent;
          remoteSensorBackends = [newRemoteSensorBackend '''' (ba_Key b) (ba_DownloadKey b) (ba_EndpointHost b) (ba_EndpointPort b)]
      in if length (ba_AdditionalBackends b) = 0 then remoteSensorBackends
         else appendBackends newRemoteSensorBackend 0 (ba_AdditionalBackends b) remoteSensorBackends)"

subsection \<open>Lemmas\<close>

lemma appendBackends_eq:
  "appendBackends new i bs acc = acc @
     map (\<lambda>(j, b). new (''-'' @ itoa (i + int j + 1)) (bs_Key b) '''' (bs_EndpointHost b) (bs_EndpointPort b))
       (enumerate 0 bs)"
proof (induction bs arbitrary: i acc)
  case (Cons b bs)
  have "enumerate 0 (b # bs) = (0, b) # map (apfst Suc) (enumerate 0 bs)"
    by (simp add: enumerate_Suc_eq)
  then show ?case by (simp add: Cons algebra_simps split_beta)
qed simp

lemma getK8SensorBackends_eq:
  "getK8SensorBackends agent =
     (let b = ag_Agent agent
      in newK8SensorBackend '''' (ba_Key b) (ba_DownloadKey b) (ba_EndpointHost b) (ba_EndpointPort b) #
         map (\<lambda>(j, x). newK8SensorBackend (''-'' @ itoa (int j + 1)) (bs_Key x) '''' (bs_EndpointHost x)
                (bs_EndpointPort x)) (enumerate 0 (ba_AdditionalBackends b)))"
  by (simp add: getK8SensorBackends_def appendBackends_eq Let_def)

text \<open>The resource suffixes of \<open>n\<close> additional backends.\<close>

lemma suffixes_distinct:
  "distinct ('''' # map (\<lambda>j. ''-'' @ itoa (int j + 1)) [0..<n])"
  by (auto simp: distinct_map inj_on_def itoa_inject_nonneg)

lemma map_enumerate_fst: "map (\<lambda>(j, x). f j) (enumerate 0 xs) = map f [0..<length xs]"
  by (rule nth_equalityI) (simp_all add: nth_enumerate_eq)

lemma map_snd_enumerate: "map (\<lambda>p. f (snd p)) (enumerate 0 xs) = map f xs"
  by (rule nth_equalityI) (simp_all add: nth_enumerate_eq)

lemma getK8SensorBackends_fields:
  "map be_ResourceSuffix (getK8SensorBackends agent) =
     '''' # map (\<lambda>j. ''-'' @ itoa (int j + 1)) [0..<length (ba_AdditionalBackends (ag_Agent agent))]"
  "map be_EndpointHost (getK8SensorBackends agent) =
     ba_EndpointHost (ag_Agent agent) # map bs_EndpointHost (ba_AdditionalBackends (ag_Agent agent))"
  "map be_EndpointKey (getK8SensorBackends agent) =
     ba_Key (ag_Agent agent) # map bs_Key (ba_AdditionalBackends (ag_Agent agent))"
  by (simp_all add: getK8SensorBackends_eq Let_def newK8SensorBackend_def split_beta comp_def map_snd_enumerate
      flip: map_enumerate_fst [of _ "ba_AdditionalBackends (ag_Agent agent)"])

lemma getK8SensorBackends_suffixes: "distinct (map be_ResourceSuffix (getK8SensorBackends agent))"
  unfolding getK8SensorBackends_fields by (rule suffixes_distinct)

lemma in_image_iff: "n \<in> f ` S \<longleftrightarrow> (\<exists>v\<in>S. f v = n)"
  by auto

lemma operator_env_names:
  assumes "k \<in> set daemonSetEnvVars" and "buildEnv a z k = Ret (Some v)"
  shows "ev_Name v \<noteq> ''INSTANA_PERSIST_HOST_UNIQUE_ID''"
  using assms unfolding daemonSetEnvVars_def
  by (auto simp: buildEnv_def Let_def env_helper_defs stringToEnvVar_def boolToEnvVar_def
      envWithObjectFieldSelector_def agentKeyHelper_def downloadKeyEnv_def valueEnv_def sourceEnv_def
      split: if_splits option.splits)

lemma appendBuilt_mem:
  assumes "appendBuilt f ks acc = Ret vs" and "v \<in> set vs"
  shows "v \<in> set acc \<or> (\<exists>k\<in>set ks. f k = Ret (Some v))"
  using assms
proof (induction ks arbitrary: acc)
  case (Cons k ks)
  then obtain r where "f k = Ret r" and
    "appendBuilt f ks (case r of None \<Rightarrow> acc | Some v \<Rightarrow> acc @ [v]) = Ret vs" by auto
  with Cons.IH [OF this(2) Cons.prems(2)] show ?case by (auto split: option.splits)
qed auto

lemma ds_env_persist:
  assumes "ds_getEnvVars d = Ret envVars"
    and "''INSTANA_PERSIST_HOST_UNIQUE_ID'' \<notin> fst ` set (ba_Env (ag_Agent (dsb_agent d)))"
    and "''INSTANA_PERSIST_HOST_UNIQUE_ID'' \<notin> ev_Name ` set (ap_Env (ba_Pod (ag_Agent (dsb_agent d))))"
  shows "(\<exists>v\<in>set envVars. ev_Name v = ''INSTANA_PERSIST_HOST_UNIQUE_ID'') \<longleftrightarrow>
    dsb_shouldSetPersistHostUniqueIDEnvVar d"
proof -
  let ?n = "''INSTANA_PERSIST_HOST_UNIQUE_ID''"
  from assms(1) obtain base where
    base: "envBuilder_Build (dsb_agent d) (dsb_zone d) daemonSetEnvVars = Ret base" and
    vs: "envVars = sortEnvVarsByName (map snd (putAllEnv (ds_env_writes d base) []))"
    by (auto simp: ds_getEnvVars_eq)
  have nb: "ev_Name v \<noteq> ?n" if "v \<in> set base" for v
    using appendBuilt_mem [OF base [unfolded envBuilder_Build_def] that] operator_env_names assms(2)
    by (auto simp: userEnvs_eq valueEnv_def image_iff)
  then have nb': "?n \<notin> ev_Name ` set base" by (simp add: in_image_iff)
  have "ev_Name ` set envVars = ev_Name ` set (ds_env_writes d base)"
  proof -
    have "ev_Name ` set envVars = fst ` set (putAllEnv (ds_env_writes d base) [])"
      using arg_cong [OF putAllEnv_names [of "ds_env_writes d base"], of set]
      by (simp add: vs sortEnvVarsByName_def image_image)
    moreover have "fst ` set (putAllEnv ws []) = ev_Name ` set ws" for ws
      by (induction ws rule: rev_induct) (simp_all add: putAllEnv_def)
    ultimately show ?thesis by simp
  qed
  moreover have "?n \<in> ev_Name ` set (ds_env_writes d base) \<longleftrightarrow> dsb_shouldSetPersistHostUniqueIDEnvVar d"
    using nb' assms(3) by (cases "dsb_shouldSetPersistHostUniqueIDEnvVar d")
      (simp_all add: ds_env_writes_def persistEnvVars_def valueEnv_def image_Un)
  ultimately show ?thesis by (simp only: in_image_iff [symmetric])
qed

lemma persistsHostUniqueID_built:
  assumes "ds_build d = Ret obj"
  shows "\<exists>envVars. ds_getEnvVars d = Ret envVars \<and> persistsHostUniqueID (daemonSet_Containers obj) =
    Some (\<exists>v\<in>set envVars. ev_Name v = ''INSTANA_PERSIST_HOST_UNIQUE_ID'')"
  using assms by (auto simp: ds_build_def Let_def split_beta daemonSet_Containers_def emptyPodSpec_def list_ex_iff)

subsection \<open>Properties\<close>

text \<open>
  the decision about the host id variable is stable. A cluster without the DaemonSet gets
  the variable; once a DaemonSet built by the operator with the decision \<open>p\<close> is stored (the
  server may have added fields, but kept the containers), every later reconcile decides \<open>p\<close>
  again: an upgraded agent never gains the variable, and a fresh one never loses it. Only a
  user who sets the variable in the custom resource can change it. Any other failure to read the
  DaemonSet stops the reconcile.
\<close>

theorem persist_decision_stable:
  assumes "''INSTANA_PERSIST_HOST_UNIQUE_ID'' \<notin> fst ` set (ba_Env (ag_Agent agent))"
    and "''INSTANA_PERSIST_HOST_UNIQUE_ID'' \<notin> ev_Name ` set (ap_Env (ba_Pod (ag_Agent agent)))"
    and "ds_build \<lparr>dsb_agent = agent, dsb_isOpenshift = os, dsb_zone = z,
           dsb_shouldSetPersistHostUniqueIDEnvVar = p\<rparr> = Ret ds"
    and "sv_get w h gvk_DaemonSet (objectKeyFromObject ds) = (stored, e)"
  shows "(e = None \<and> daemonSet_Containers stored = daemonSet_Containers ds \<longrightarrow>
      fst (shouldSetPersistHostUniqueIDEnvVar w agent z h) = (p, reconcileContinue)) \<and>
    (isNotFound e \<longrightarrow>
      fst (shouldSetPersistHostUniqueIDEnvVar w agent z h) = (True, reconcileContinue)) \<and>
    (e \<noteq> None \<and> \<not> isNotFound e \<longrightarrow>
      fst (shouldSetPersistHostUniqueIDEnvVar w agent z h) = (False, reconcileFailure e))"
proof -
  let ?d = "\<lparr>dsb_agent = agent, dsb_isOpenshift = os, dsb_zone = z,
    dsb_shouldSetPersistHostUniqueIDEnvVar = p\<rparr>"
  from persistsHostUniqueID_built [OF assms(3)] ds_env_persist [of ?d] assms(1,2)
  have p: "persistsHostUniqueID (daemonSet_Containers ds) = Some p" by auto
  have "get_name ds = ds_getName ?d" "get_namespace ds = ag_Namespace agent"
    using assms(3) by (rule ds_build_shape, simp)+
  then have key: "objectKeyFromObject ds = \<lparr>nn_Namespace = ag_Namespace agent,
      nn_Name = (case z of None \<Rightarrow> ag_Name agent | Some zn \<Rightarrow> ag_Name agent @ ''-'' @ zone_Name zn)\<rparr>"
    by (simp add: objectKeyFromObject_def ds_getName_def split: option.split)
  from assms(4) show ?thesis
    unfolding shouldSetPersistHostUniqueIDEnvVar_def Let_def key [symmetric]
    by (auto simp: client_Get_def p)
qed

theorem persist_decision_stable_witness:
  "\<exists>ds. ds_build exampleDaemonSetBuilder = Ret ds \<and>
     fst (shouldSetPersistHostUniqueIDEnvVar (simWorld [ds] exampleAgent exampleRemote) exampleAgent None []) =
       (False, reconcileContinue)"
proof -
  obtain ds where ds: "ds_build exampleDaemonSetBuilder = Ret ds"
    using exampleDaemonSet_builds [of newAgentStatusManager]
    by (auto simp: ds_Build_def Let_def split: if_splits outcome.splits)
  have "get_gvk ds = gvk_DaemonSet"
    using ds by (auto simp: ds_build_def Let_def split_beta get_gvk_def mkObject_def fromAPIVersionAndKind_def
        gvk_DaemonSet_def)
  then have "sv_get (simWorld [ds] exampleAgent exampleRemote) [] gvk_DaemonSet (objectKeyFromObject ds) = (ds, None)"
    by (simp add: simWorld_def)
  from persist_decision_stable [OF _ _ ds [unfolded exampleDaemonSetBuilder_def] this] ds show ?thesis
    by (auto simp: example_defs)
qed

text \<open>
  the backends of the k8sensor. There is one for the agent's own endpoint and one for each
  additional backend, in order; their suffixes differ, so the Deployments, the keys in the
  Secret and the entries of the ConfigMap named after them do not collide.
\<close>

theorem k8sensor_backends_distinct:
  "length (getK8SensorBackends agent) = Suc (length (ba_AdditionalBackends (ag_Agent agent))) \<and>
   map be_EndpointHost (getK8SensorBackends agent) =
     ba_EndpointHost (ag_Agent agent) # map bs_EndpointHost (ba_AdditionalBackends (ag_Agent agent)) \<and>
   map be_EndpointKey (getK8SensorBackends agent) =
     ba_Key (ag_Agent agent) # map bs_Key (ba_AdditionalBackends (ag_Agent agent)) \<and>
   distinct (map (\<lambda>be. k8sSensorResourcesName agent @ be_ResourceSuffix be) (getK8SensorBackends agent)) \<and>
   map (\<lambda>be. gm_get (getConfigMapData (getK8SensorBackends agent)) (BackendKey @ be_ResourceSuffix be))
       (getK8SensorBackends agent) =
     map (\<lambda>be. Some (be_EndpointHost be @ '':'' @ be_EndpointPort be)) (getK8SensorBackends agent)"
proof -
  let ?bs = "getK8SensorBackends agent"
  have "length ?bs = Suc (length (ba_AdditionalBackends (ag_Agent agent)))"
    using arg_cong [OF getK8SensorBackends_fields(2) [of agent], of length] by simp
  moreover have "distinct (map (\<lambda>be. k8sSensorResourcesName agent @ be_ResourceSuffix be) ?bs)"
    using getK8SensorBackends_suffixes [of agent] by (simp add: distinct_map inj_on_def)
  moreover have "map (\<lambda>be. gm_get (getConfigMapData ?bs) (BackendKey @ be_ResourceSuffix be)) ?bs =
      map (\<lambda>be. Some (be_EndpointHost be @ '':'' @ be_EndpointPort be)) ?bs"
    by (rule map_cong [OF refl]) (rule configMap_lookup [OF getK8SensorBackends_suffixes])
  ultimately show ?thesis using getK8SensorBackends_fields(2,3) by blast
qed

end
