(* ===== verification/Etcd.thy ===== *)
theory Etcd
  imports Reconcile_Util
begin

text \<open>
  Monitoring of etcd by the k8sensor: \<open>controllers/etcd_discoverer.go\<close> and \<open>etcd_discovery.go\<close>
  (finding the metrics endpoints of a vanilla cluster) and the part of \<open>controllers/apply.go\<close>
  that prepares the deployment context: comparing discovered targets with those of the running
  Deployment, and copying the certificates of an OpenShift cluster's etcd. The calls of the
  interface \<open>ETCDDiscoverer\<close> are the functions of its production implementation.
\<close>

subsection \<open>\<open>etcd_discoverer.go\<close>\<close>

abbreviation kubeSystemNamespace :: string where "kubeSystemNamespace \<equiv> ''kube-system''"
abbreviation LabelServiceName :: string where "LabelServiceName \<equiv> ''kubernetes.io/service-name''"

text \<open>
  \<open>ShouldSkipDiscovery\<close> makes an \<open>OperatorUtils\<close> with no lifecycle manager, of which it uses
  only \<open>ClusterIsOpenShift\<close>; the codec and the version are not read there.
\<close>

definition shouldSkipDiscovery ::
  "world \<Rightarrow> codec \<Rightarrow> string \<Rightarrow> instanaAgent \<Rightarrow> history \<Rightarrow> (bool \<times> error) \<times> history" where
  "shouldSkipDiscovery w c ver agent h =
     (case isOpenShift w (newOperatorUtils w c ver agent) h of ((os, r), h1) \<Rightarrow>
        if suppliesReconcileResult r
        then ((False, Some (EPlain ''failed to determine if cluster is OpenShift'')), h1)
        else if os then ((True, None), h1)
        else if length (etcd_Targets (ag_ETCD agent)) > 0 then ((True, None), h1)
        else ((False, None), h1))"

definition getServiceByName ::
  "world \<Rightarrow> string \<Rightarrow> history \<Rightarrow> (k8sObject option \<times> error) \<times> history" where
  "getServiceByName w name h =
     (case client_Get w gvk_Service \<lparr>nn_Namespace = kubeSystemNamespace, nn_Name = name\<rparr> h of
        ((service, e), h1) \<Rightarrow>
          if e \<noteq> None then (if isNotFound e then ((None, None), h1) else ((None, e), h1))
          else ((Some service, None), h1))"

definition getServiceWithLabel ::
  "world \<Rightarrow> string \<Rightarrow> string \<Rightarrow> string \<Rightarrow> history \<Rightarrow> (k8sObject option \<times> error) \<times> history" where
  "getServiceWithLabel w name labelKey labelValue h =
     (case getServiceByName w name h of ((service, e), h1) \<Rightarrow>
        if e \<noteq> None \<or> service = None then ((service, e), h1)
        else if get_labels (the service) = None \<or>
                derefOrEmpty '''' (gm_get (the (get_labels (the service))) labelKey) \<noteq> labelValue
        then ((None, None), h1)
        else ((service, None), h1))"

text \<open>Try one lookup after the other until an error or a service.\<close>

fun firstService ::
  "(history \<Rightarrow> (k8sObject option \<times> error) \<times> history) list \<Rightarrow> history \<Rightarrow> (k8sObject option \<times> error) \<times> history" where
  "firstService [] h = ((None, None), h)"
| "firstService (lookup # lookups) h =
     (case lookup h of ((service, e), h1) \<Rightarrow>
        if e \<noteq> None then ((None, e), h1)
        else if service \<noteq> None then ((service, None), h1)
        else firstService lookups h1)"

definition findETCDService :: "world \<Rightarrow> history \<Rightarrow> (k8sObject option \<times> error) \<times> history" where
  "findETCDService w h =
     firstService
       ([getServiceWithLabel w ''etcd'' ''component'' ''etcd'',
         getServiceWithLabel w ''etcd-metrics'' ''component'' ''etcd''] @
        map (getServiceByName w) [''etcd'', ''etcd-metrics'', ''etcd-k8s'']) h"

definition service_Ports :: "k8sObject \<Rightarrow> servicePort list" where
  "service_Ports obj = (case ko_Body obj of ServiceBody s \<Rightarrow> ss_Ports s | _ \<Rightarrow> [])"

definition findMetricsPortAndScheme :: "k8sObject \<Rightarrow> int option \<times> string" where
  "findMetricsPortAndScheme service =
     (case List.find (\<lambda>port. sp_Name port = ''metrics'') (service_Ports service) of
        None \<Rightarrow> (None, '''')
      | Some port \<Rightarrow>
        let scheme = (if sp_Port port = ETCDMetricsPortHTTPS then ''https''
                      else if sp_Port port = ETCDMetricsPortHTTP then ''http'' else ''https'');
            scheme = (case gm_get (newMapDefaulter (om_Annotations (ko_Meta service))) ''instana.io/etcd-scheme'' of
                        Some schemeOverride \<Rightarrow> schemeOverride | None \<Rightarrow> scheme)
        in (Some (sp_Port port), scheme))"

definition etcdTarget :: "string \<Rightarrow> int \<Rightarrow> string \<Rightarrow> string" where
  "etcdTarget scheme port address = scheme @ ''://'' @ address @ '':'' @ itoa port @ ''/metrics''"

definition endpointSlicePort :: "endpointSlice \<Rightarrow> int \<Rightarrow> int" where
  "endpointSlicePort es metricsPort =
     (case List.find (\<lambda>port. ep_Name port = Some ''metrics'' \<and> ep_Port port \<noteq> None) (es_Ports es) of
        Some port \<Rightarrow> the (ep_Port port) | None \<Rightarrow> metricsPort)"

definition buildTargetsFromEndpointSlice :: "endpointSlice \<Rightarrow> int \<Rightarrow> string \<Rightarrow> string list" where
  "buildTargetsFromEndpointSlice es metricsPort scheme =
     concat (map (\<lambda>endpoint. if ept_Ready endpoint = Some False then []
                             else map (etcdTarget scheme (endpointSlicePort es metricsPort)) (ept_Addresses endpoint))
       (es_Endpoints es))"

definition subsetPort :: "endpointSubset \<Rightarrow> int \<Rightarrow> int" where
  "subsetPort sub metricsPort =
     (case List.find (\<lambda>(name, port). name = ''metrics'') (esub_Ports sub) of
        Some (name, port) \<Rightarrow> port | None \<Rightarrow> metricsPort)"

definition buildTargetsFromLegacyEndpoints ::
  "world \<Rightarrow> k8sObject \<Rightarrow> int \<Rightarrow> string \<Rightarrow> history \<Rightarrow> (string list \<times> error) \<times> history" where
  "buildTargetsFromLegacyEndpoints w service metricsPort scheme h =
     (let key = \<lparr>nn_Namespace = kubeSystemNamespace, nn_Name = get_name service\<rparr>;
          h1 = h @ [CGet gvk_Endpoints key]
      in case sv_getEndpoints w h key of (subsets, e) \<Rightarrow>
           if e \<noteq> None then (if isNotFound e then (([], None), h1) else (([], e), h1))
           else ((concat (map (\<lambda>sub. map (etcdTarget scheme (subsetPort sub metricsPort)) (esub_Addresses sub))
                    subsets), None), h1))"

definition buildTargetsFromEndpoints ::
  "world \<Rightarrow> k8sObject \<Rightarrow> int \<Rightarrow> string \<Rightarrow> history \<Rightarrow> (string list \<times> error) \<times> history" where
  "buildTargetsFromEndpoints w service metricsPort scheme h =
     (let labels = [(LabelServiceName, get_name service)];
          h1 = h @ [CList gvk_EndpointSlice labels]
      in case sv_listEndpointSlices w h kubeSystemNamespace labels of (items, e) \<Rightarrow>
           if e \<noteq> None then (([], e), h1)
           else let targets = concat (map (\<lambda>es. buildTargetsFromEndpointSlice es metricsPort scheme) items)
                in if length targets = 0
                   then (case buildTargetsFromLegacyEndpoints w service metricsPort scheme h1 of
                           ((legacyTargets, e), h2) \<Rightarrow>
                             if e \<noteq> None then (([], e), h2) else ((sort (targets @ legacyTargets), None), h2))
                   else ((sort targets, None), h1))"

definition checkCASecretExists :: "world \<Rightarrow> instanaAgent \<Rightarrow> history \<Rightarrow> bool \<times> history" where
  "checkCASecretExists w agent h =
     (case client_Get w gvk_Secret \<lparr>nn_Namespace = ag_Namespace agent, nn_Name = ETCDCASecretName\<rparr> h of
        ((_, e), h1) \<Rightarrow> (e = None, h1))"

subsection \<open>\<open>etcd_discovery.go\<close>\<close>

record discoveredETCDTargets =
  det_Targets :: "string list"
  det_CAFound :: bool

definition discoverETCDEndpoints ::
  "world \<Rightarrow> codec \<Rightarrow> string \<Rightarrow> instanaAgent \<Rightarrow> history \<Rightarrow> (discoveredETCDTargets option \<times> error) \<times> history" where
  "discoverETCDEndpoints w c ver agent h =
     (case shouldSkipDiscovery w c ver agent h of ((shouldSkip, e), h1) \<Rightarrow>
      if e \<noteq> None then ((None, e), h1)
      else if shouldSkip then ((None, None), h1)
      else (case findETCDService w h1 of ((etcdService, e), h2) \<Rightarrow>
        if e \<noteq> None then ((None, e), h2)
        else (case etcdService of
            None \<Rightarrow> ((None, None), h2)
          | Some service \<Rightarrow>
            (case findMetricsPortAndScheme service of
                (None, _) \<Rightarrow> ((None, None), h2)
              | (Some metricsPort, scheme) \<Rightarrow>
                (case buildTargetsFromEndpoints w service metricsPort scheme h2 of ((targets, e), h3) \<Rightarrow>
                 if e \<noteq> None then ((None, e), h3)
                 else if length targets = 0 then ((None, None), h3)
                 else (case checkCASecretExists w agent h3 of (caSecretExists, h4) \<Rightarrow>
                   ((Some \<lparr>det_Targets = targets, det_CAFound = caSecretExists\<rparr>, None), h4)))))))"

subsection \<open>\<open>apply.go\<close>: comparing targets\<close>

definition getSortedTargets :: "string list \<Rightarrow> string list" where
  "getSortedTargets targets = sort targets"

definition deployment_Containers :: "k8sObject \<Rightarrow> container list" where
  "deployment_Containers obj =
     (case ko_Body obj of DeploymentBody s st \<Rightarrow> ps_Containers (pt_Spec (dps_Template s)) | _ \<Rightarrow> [])"

abbreviation ContainerK8Sensor :: string where "ContainerK8Sensor \<equiv> ''instana-agent''"

text \<open>The value of \<open>ETCD_TARGETS\<close> in the first k8sensor container, or the empty string.\<close>

definition currentETCDTargets :: "k8sObject \<Rightarrow> string" where
  "currentETCDTargets deployment =
     (case List.find (\<lambda>container. c_Name container = ContainerK8Sensor) (deployment_Containers deployment) of
        None \<Rightarrow> ''''
      | Some container \<Rightarrow>
        (case List.find (\<lambda>env. ev_Name env = EnvETCDTargets) (c_Env container) of
           None \<Rightarrow> '''' | Some env \<Rightarrow> ev_Value env))"

definition compareAndUpdateETCDTargets :: "k8sObject \<Rightarrow> string list \<Rightarrow> bool" where
  "compareAndUpdateETCDTargets existingDeployment discoveredTargets =
     (let currentTargets = currentETCDTargets existingDeployment;
          newTargets = join_strings '','' (getSortedTargets discoveredTargets);
          currentTargets = (if currentTargets \<noteq> ''''
                            then join_strings '','' (sort (split_string (CHR '','') currentTargets))
                            else currentTargets)
      in currentTargets \<noteq> newTargets)"

subsection \<open>\<open>apply.go\<close>: certificates of an OpenShift cluster's etcd\<close>

definition secret_DataMap :: "k8sObject \<Rightarrow> strmap option" where
  "secret_DataMap obj = (case ko_Body obj of SecretBody t d \<Rightarrow> d | _ \<Rightarrow> None)"

definition secret_Type :: "k8sObject \<Rightarrow> string" where
  "secret_Type obj = (case ko_Body obj of SecretBody t d \<Rightarrow> t | _ \<Rightarrow> '''')"

definition validateOpenShiftETCDResources ::
  "k8sObject \<Rightarrow> k8sObject \<Rightarrow> error \<Rightarrow> error \<Rightarrow> error \<times> error" where
  "validateOpenShiftETCDResources configMap secret caErr certErr =
     (if caErr \<noteq> None then (caErr, certErr)
      else if cm_Data configMap = None
      then (Some (EPlain ''etcd-metrics-ca-bundle has no data''), certErr)
      else if gm_get (the (cm_Data configMap)) ''ca-bundle.crt'' = None
      then (Some (EPlain ''etcd-metrics-ca-bundle missing ca-bundle.crt key''), certErr)
      else if derefOrEmpty '''' (gm_get (the (cm_Data configMap)) ''ca-bundle.crt'') = ''''
      then (Some (EPlain ''etcd-metrics-ca-bundle ca-bundle.crt is empty''), certErr)
      else if certErr \<noteq> None then (caErr, certErr)
      else if secret_DataMap secret = None
      then (caErr, Some (EPlain ''etcd-metric-client has no data''))
      else if gm_get (the (secret_DataMap secret)) ''tls.crt'' = None
      then (caErr, Some (EPlain ''etcd-metric-client missing tls.crt key''))
      else if length (derefOrEmpty '''' (gm_get (the (secret_DataMap secret)) ''tls.crt'')) = 0
      then (caErr, Some (EPlain ''etcd-metric-client tls.crt is empty''))
      else if gm_get (the (secret_DataMap secret)) ''tls.key'' = None
      then (caErr, Some (EPlain ''etcd-metric-client missing tls.key key''))
      else if length (derefOrEmpty '''' (gm_get (the (secret_DataMap secret)) ''tls.key'')) = 0
      then (caErr, Some (EPlain ''etcd-metric-client tls.key is empty''))
      else (caErr, certErr))"

definition buildETCDResourceObjectMeta ::
  "string \<Rightarrow> string \<Rightarrow> string \<Rightarrow> instanaAgent \<Rightarrow> objMeta" where
  "buildETCDResourceObjectMeta targetName sourceName sourceResourceVersion agent =
     (named targetName (ag_Namespace agent))\<lparr>
       om_OwnerReferences := [\<lparr>or_APIVersion = ''instana.io/v1'', or_Kind = ''InstanaAgent'',
         or_Name = ag_Name agent, or_UID = om_UID (ag_Meta agent),
         or_Controller = Some True, or_BlockOwnerDeletion = Some True\<rparr>],
       om_Labels := Some [(''app.kubernetes.io/name'', ''instana-agent''),
         (''app.kubernetes.io/component'', ''k8sensor''),
         (''app.kubernetes.io/managed-by'', ''instana-agent-operator''),
         (''instana.io/copied-from'', ETCDNamespace)],
       om_Annotations := Some [(''instana.io/source-namespace'', ETCDNamespace),
         (''instana.io/source-name'', sourceName),
         (''instana.io/source-resource-version'', sourceResourceVersion),
         (''instana.io/instana-agent-name'', ag_Name agent)]\<rparr>"

definition targetCAConfigMap :: "instanaAgent \<Rightarrow> k8sObject \<Rightarrow> k8sObject" where
  "targetCAConfigMap agent sourceConfigMap = mkObject ''v1'' ''ConfigMap''
     (buildETCDResourceObjectMeta ETCDMetricsCABundleName ETCDMetricsCABundleName
        (om_ResourceVersion (ko_Meta sourceConfigMap)) agent)
     (ConfigMapBody (cm_Data sourceConfigMap))"

definition targetClientSecret :: "instanaAgent \<Rightarrow> k8sObject \<Rightarrow> k8sObject" where
  "targetClientSecret agent sourceSecret = mkObject ''v1'' ''Secret''
     (buildETCDResourceObjectMeta ETCDMetricClientSecretName ETCDMetricClientSecretName
        (om_ResourceVersion (ko_Meta sourceSecret)) agent)
     (SecretBody (secret_Type sourceSecret) (secret_DataMap sourceSecret))"

definition copyETCDResourcesToNamespace ::
  "world \<Rightarrow> instanaAgent \<Rightarrow> k8sObject \<Rightarrow> k8sObject \<Rightarrow> history \<Rightarrow> bool \<times> history" where
  "copyETCDResourcesToNamespace w agent sourceConfigMap sourceSecret h =
     (case client_Apply w (targetCAConfigMap agent sourceConfigMap) False h of (r, h1) \<Rightarrow>
      if snd (result_Get r) \<noteq> None then (False, h1)
      else (case client_Apply w (targetClientSecret agent sourceSecret) False h1 of (r, h2) \<Rightarrow>
        if snd (result_Get r) \<noteq> None then (False, h2) else (True, h2)))"

text \<open>The typed client knows the kinds of the two objects it deletes.\<close>

definition copiedConfigMap :: "instanaAgent \<Rightarrow> k8sObject" where
  "copiedConfigMap agent = mkObject ''v1'' ''ConfigMap'' (named ETCDMetricsCABundleName (ag_Namespace agent))
     (ConfigMapBody None)"

definition copiedSecret :: "instanaAgent \<Rightarrow> k8sObject" where
  "copiedSecret agent = mkObject ''v1'' ''Secret'' (named ETCDMetricClientSecretName (ag_Namespace agent))
     (SecretBody '''' None)"

text \<open>The errors of the two deletions are only logged.\<close>

definition cleanupCopiedETCDResources :: "world \<Rightarrow> instanaAgent \<Rightarrow> history \<Rightarrow> history" where
  "cleanupCopiedETCDResources w agent h =
     (case client_Delete w (copiedConfigMap agent) h of (_, h1) \<Rightarrow>
      case client_Delete w (copiedSecret agent) h1 of (_, h2) \<Rightarrow> h2)"

definition logAndCleanupETCDErrors :: "world \<Rightarrow> instanaAgent \<Rightarrow> error \<Rightarrow> error \<Rightarrow> history \<Rightarrow> history" where
  "logAndCleanupETCDErrors w agent caErr certErr h = cleanupCopiedETCDResources w agent h"

definition emptyDeploymentContext :: deploymentContext where
  "emptyDeploymentContext = \<lparr>dctx_DiscoveredETCDTargets = [], dctx_ETCDCASecretName = '''',
     dctx_OpenShiftETCDResourcesExist = False\<rparr>"

abbreviation etcdCAKey :: namespacedName where
  "etcdCAKey \<equiv> \<lparr>nn_Namespace = ETCDNamespace, nn_Name = ETCDMetricsCABundleName\<rparr>"
abbreviation etcdClientKey :: namespacedName where
  "etcdClientKey \<equiv> \<lparr>nn_Namespace = ETCDNamespace, nn_Name = ETCDMetricClientSecretName\<rparr>"

definition setupOpenShiftETCDMonitoring ::
  "world \<Rightarrow> instanaAgent \<Rightarrow> history \<Rightarrow> deploymentContext \<times> history" where
  "setupOpenShiftETCDMonitoring w agent h =
     (case client_Get w gvk_ConfigMap etcdCAKey h of ((etcdCAConfigMap, caErr), h1) \<Rightarrow>
      case client_Get w gvk_Secret etcdClientKey h1 of ((etcdClientSecret, certErr), h2) \<Rightarrow>
      case validateOpenShiftETCDResources etcdCAConfigMap etcdClientSecret caErr certErr of (caErr, certErr) \<Rightarrow>
      if caErr \<noteq> None \<or> certErr \<noteq> None
      then (emptyDeploymentContext, logAndCleanupETCDErrors w agent caErr certErr h2)
      else (case copyETCDResourcesToNamespace w agent etcdCAConfigMap etcdClientSecret h2 of (copied, h3) \<Rightarrow>
        (if copied then emptyDeploymentContext\<lparr>dctx_OpenShiftETCDResourcesExist := True\<rparr>
         else emptyDeploymentContext, h3)))"

subsection \<open>\<open>apply.go\<close>: the deployment context\<close>

type_synonym etcdDiscoverFunc =
  "instanaAgent \<Rightarrow> history \<Rightarrow> (discoveredETCDTargets option \<times> error) \<times> history"

definition createDeploymentContext ::
  "world \<Rightarrow> instanaAgent \<Rightarrow> bool \<Rightarrow> etcdDiscoverFunc \<Rightarrow> history \<Rightarrow>
   (deploymentContext option \<times> error) \<times> history" where
  "createDeploymentContext w agent isOS discoverETCD h =
     (if isOS
      then (case setupOpenShiftETCDMonitoring w agent h of (ctx, h1) \<Rightarrow> ((Some ctx, None), h1))
      else (case discoverETCD agent h of ((discoveredETCD, e), h1) \<Rightarrow>
        if e \<noteq> None then ((None, None), h1)
        else (case discoveredETCD of
            None \<Rightarrow> ((None, None), h1)
          | Some d \<Rightarrow>
            if length (det_Targets d) = 0 then ((None, None), h1)
            else (case client_Get w gvk_Deployment
                    \<lparr>nn_Namespace = ag_Namespace agent, nn_Name = k8sSensorResourcesName agent\<rparr> h1 of
                    ((existingDeployment, e), h2) \<Rightarrow>
              if e = None \<and> \<not> compareAndUpdateETCDTargets existingDeployment (det_Targets d)
              then ((None, None), h2)
              else ((Some (emptyDeploymentContext\<lparr>
                        dctx_DiscoveredETCDTargets := getSortedTargets (det_Targets d),
                        dctx_ETCDCASecretName := (if det_CAFound d then ETCDCASecretName else '''')\<rparr>), None), h2)))))"

subsection \<open>Lemmas\<close>

text \<open>Target lists that survive joining with commas.\<close>

definition plainTargets :: "string list \<Rightarrow> bool" where
  "plainTargets ts = list_all (\<lambda>t. t \<noteq> '''' \<and> CHR '','' \<notin> set t) ts"

lemma join_plain_empty: "plainTargets ts \<Longrightarrow> join_strings '','' ts = '''' \<longleftrightarrow> ts = []"
  by (auto simp: join_strings_eq_Nil_iff plainTargets_def)

lemma split_join_plain:
  "plainTargets ts \<Longrightarrow> ts \<noteq> [] \<Longrightarrow> split_string (CHR '','') (join_strings '','' ts) = ts"
  by (rule split_join_strings) (auto simp: plainTargets_def list_all_iff)

lemma plainTargets_sort [simp]: "plainTargets (sort ts) = plainTargets ts"
  by (simp add: plainTargets_def list_all_iff)

lemma sort_eq_iff_mset: "sort xs = sort ys \<longleftrightarrow> mset xs = mset (ys :: string list)"
  by (metis mset_sort properties_for_sort sorted_sort)

text \<open>The targets a Deployment names.\<close>

definition runningTargets :: "k8sObject \<Rightarrow> string list" where
  "runningTargets dep =
     (if currentETCDTargets dep = '''' then [] else split_string (CHR '','') (currentETCDTargets dep))"

lemma runningTargets_plain:
  assumes "currentETCDTargets dep = join_strings '','' current" and "plainTargets current"
  shows "runningTargets dep = current"
  using assms by (cases "current = []") (simp_all add: runningTargets_def join_plain_empty split_join_plain)

lemma split_string_comma_free: "x \<in> set (split_string c s) \<Longrightarrow> c \<notin> set x"
  by (induction s arbitrary: x) (auto split: list.splits if_splits)

lemma sort_Nil_iff: "sort xs = [] \<longleftrightarrow> xs = ([] :: string list)"
  by (metis mset_sort mset_zero_iff)

lemma compareAndUpdateETCDTargets_mset:
  assumes "plainTargets discovered" and "discovered \<noteq> []"
  shows "compareAndUpdateETCDTargets dep discovered \<longleftrightarrow> mset (runningTargets dep) \<noteq> mset discovered"
proof (cases "currentETCDTargets dep = ''''")
  case True
  moreover have "join_strings '','' (sort discovered) \<noteq> ''''"
    using assms join_plain_empty [of "sort discovered"] by (simp add: sort_Nil_iff)
  ultimately show ?thesis using assms(2)
    by (simp add: compareAndUpdateETCDTargets_def getSortedTargets_def runningTargets_def Let_def)
next
  case False
  let ?cur = "split_string (CHR '','') (currentETCDTargets dep)"
  have "split_string (CHR '','') (join_strings '','' (sort ?cur)) = sort ?cur"
    by (rule split_join_strings) (auto simp: sort_Nil_iff dest: split_string_comma_free)
  moreover have "split_string (CHR '','') (join_strings '','' (sort discovered)) = sort discovered"
    using assms by (intro split_join_plain) (simp_all add: sort_Nil_iff)
  ultimately have "join_strings '','' (sort ?cur) = join_strings '','' (sort discovered) \<longleftrightarrow>
      sort ?cur = sort discovered" by metis
  with False show ?thesis
    by (simp add: compareAndUpdateETCDTargets_def getSortedTargets_def runningTargets_def Let_def sort_eq_iff_mset)
qed

lemma k8sensor_operator_names:
  assumes "k \<in> set (k8sensorEnvVars @ [ETCDCAFileEnv])" and "etcd_Targets (ag_ETCD a) = []"
    and "buildEnv a z k = Ret (Some v)"
  shows "ev_Name v \<noteq> EnvETCDTargets"
  using assms unfolding k8sensorEnvVars_def
  by (auto simp: buildEnv_def Let_def env_helper_defs stringToEnvVar_def boolToEnvVar_def
      envWithObjectFieldSelector_def agentKeyHelper_def downloadKeyEnv_def valueEnv_def sourceEnv_def
      split: if_splits option.splits)

lemma httpsProxy_name:
  "buildEnv a z HTTPSProxyEnv = Ret (Some v) \<Longrightarrow> ev_Name v = ''HTTPS_PROXY''"
  by (auto simp: buildEnv_def Let_def httpsProxyEnv_def valueEnv_def split: if_splits)

text \<open>The variables called \<open>ETCD_TARGETS\<close> of a Deployment for a vanilla cluster.\<close>

lemma dep_env_targets:
  assumes "dep_getEnvVars d = Ret envVars" and "\<not> dpb_isOpenShift d"
    and "etcd_Targets (ag_ETCD (dpb_agent d)) = []"
    and "EnvETCDTargets \<notin> fst ` set (ba_Env (ag_Agent (dpb_agent d)))"
  shows "v \<in> set envVars \<and> ev_Name v = EnvETCDTargets \<longleftrightarrow>
    v \<in> set (discoveredEnvVars d) \<and> ev_Name v = EnvETCDTargets"
proof -
  let ?a = "dpb_agent d" and ?ks = "k8sensorEnvVars @ [ETCDCAFileEnv]"
  have user: "v \<notin> set (getUserProvidedEnvs (ag_Agent ?a))" if "ev_Name v = EnvETCDTargets"
    using assms(4) that unfolding userEnvs_eq by (auto simp: valueEnv_def rev_image_eqI)
  have base: "ev_Name v \<noteq> EnvETCDTargets" if "envBuilder_Build ?a None ?ks = Ret base" "v \<in> set base" for base
    using appendBuilt_mem [OF that(1) [unfolded envBuilder_Build_def] that(2)] user
      k8sensor_operator_names [OF _ assms(3)] by blast
  have proxy: "ev_Name v \<noteq> EnvETCDTargets"
    if "envBuilder_Build ?a None [HTTPSProxyEnv] = Ret proxy" "v \<in> set proxy" for proxy
    using appendBuilt_mem [OF that(1) [unfolded envBuilder_Build_def] that(2)] user httpsProxy_name [of ?a None v]
    by auto
  let ?backend = "[sourceEnv ''BACKEND'' (ConfigMapKeyRef (k8sSensorResourcesName ?a)
    (BackendKey @ be_ResourceSuffix (dpb_backend d)))]"
  from assms(1,2) obtain base' bk where
    b: "envBuilder_Build ?a None ?ks = Ret base'" and
    k: "(if sp_UseSecretMounts (ag_Spec ?a) = Some False
         then bind_outcome (envBuilder_Build ?a None [HTTPSProxyEnv])
                (\<lambda>proxy. Ret (?backend @ [getAgentKeyEnvVar d] @ proxy))
         else Ret ?backend) = Ret bk" and
    vs: "envVars = sortEnvVarsByName (bk @ base' @ discoveredEnvVars d)"
    unfolding dep_getEnvVars_def Let_def bind_outcome_Ret_iff by auto
  have "ev_Name v \<noteq> EnvETCDTargets" if "v \<in> set bk"
  proof (cases "sp_UseSecretMounts (ag_Spec ?a) = Some False")
    case True
    with k obtain ps where "envBuilder_Build ?a None [HTTPSProxyEnv] = Ret ps"
      "bk = ?backend @ [getAgentKeyEnvVar d] @ ps" by auto
    with that proxy [of ps] show ?thesis by (auto simp: getAgentKeyEnvVar_def sourceEnv_def)
  next
    case False
    with k that show ?thesis by (auto simp: sourceEnv_def)
  qed
  with base [OF b] vs show ?thesis by (auto simp: set_sortEnvVars)
qed

lemma currentETCDTargets_built:
  assumes "dep_build sha256 d = Ret dep" and "dep_getEnvVars d = Ret envVars"
    and "deployment_Containers stored = deployment_Containers dep"
  shows "currentETCDTargets stored =
    (case List.find (\<lambda>env. ev_Name env = EnvETCDTargets) envVars of None \<Rightarrow> '''' | Some env \<Rightarrow> ev_Value env)"
proof -
  from assms(1,2) obtain c where "deployment_Containers dep = [c]" "c_Name c = ContainerK8Sensor"
    "c_Env c = envVars"
    using that by (auto simp: dep_build_def Let_def split_beta deployment_Containers_def)
  with assms(3) show ?thesis by (simp add: currentETCDTargets_def)
qed

lemma find_unique: "\<forall>x. x \<in> set xs \<and> P x \<longleftrightarrow> x = y \<Longrightarrow> List.find P xs = Some y"
  by (cases "List.find P xs") (auto simp: find_None_iff find_Some_iff dest: nth_mem)

text \<open>The deployment context for discovered targets.\<close>

definition discoveredContext :: "discoveredETCDTargets \<Rightarrow> deploymentContext" where
  "discoveredContext d = emptyDeploymentContext\<lparr>dctx_DiscoveredETCDTargets := sort (det_Targets d),
     dctx_ETCDCASecretName := (if det_CAFound d then ETCDCASecretName else '''')\<rparr>"

lemma discoveredContext_simps [simp]:
  "dctx_DiscoveredETCDTargets (discoveredContext d) = sort (det_Targets d)"
  "dctx_OpenShiftETCDResourcesExist (discoveredContext d) = False"
  by (simp_all add: discoveredContext_def emptyDeploymentContext_def)

lemma createDeploymentContext_vanilla:
  assumes "discoverETCD agent h = ((Some d, None), h1)" and "det_Targets d \<noteq> []"
    and "sv_get w h1 gvk_Deployment \<lparr>nn_Namespace = ag_Namespace agent, nn_Name = k8sSensorResourcesName agent\<rparr> = (dep, e)"
  shows "fst (createDeploymentContext w agent False discoverETCD h) =
    (if e = None \<and> \<not> compareAndUpdateETCDTargets dep (det_Targets d) then None else Some (discoveredContext d), None)"
  using assms by (simp add: createDeploymentContext_def client_Get_def discoveredContext_def getSortedTargets_def)

lemma currentETCDTargets_context:
  assumes "dep_build sha256 \<lparr>dpb_agent = agent, dpb_isOpenShift = False, dpb_backend = be, dpb_keysSecret = ks,
      dpb_deploymentContext = ctx\<rparr> = Ret dep"
    and "etcd_Targets (ag_ETCD agent) = []" and "EnvETCDTargets \<notin> fst ` set (ba_Env (ag_Agent agent))"
    and "deployment_Containers stored = deployment_Containers dep"
    and "ctx \<in> {None, Some (discoveredContext d)}" and "det_Targets d \<noteq> []"
  shows "currentETCDTargets stored = join_strings '','' (if ctx = None then [] else sort (det_Targets d))"
proof -
  let ?b = "\<lparr>dpb_agent = agent, dpb_isOpenShift = False, dpb_backend = be, dpb_keysSecret = ks,
      dpb_deploymentContext = ctx\<rparr>"
  obtain envVars where env: "dep_getEnvVars ?b = Ret envVars" using dep_getEnvVars_returns by blast
  note named = dep_env_targets [OF env, simplified, OF assms(2,3)]
  note cur = currentETCDTargets_built [OF assms(1) env assms(4)]
  show ?thesis
  proof (cases "ctx = None")
    case True
    then have "List.find (\<lambda>env. ev_Name env = EnvETCDTargets) envVars = None"
      using named by (auto simp: find_None_iff discoveredEnvVars_def)
    with True cur show ?thesis by simp
  next
    case False
    with assms(5) have ctx: "ctx = Some (discoveredContext d)" by simp
    then have "discoveredEnvVars ?b = valueEnv EnvETCDTargets (join_strings '','' (sort (det_Targets d))) #
        (if dctx_ETCDCASecretName (discoveredContext d) \<noteq> ''''
         then [valueEnv EnvETCDCAFile (ETCDCAMountPath @ ''/ca.crt'')] else [])"
      using assms(2,6) by (simp add: discoveredEnvVars_def)
    then have "List.find (\<lambda>env. ev_Name env = EnvETCDTargets) envVars =
        Some (valueEnv EnvETCDTargets (join_strings '','' (sort (det_Targets d))))"
      by (intro find_unique) (simp add: named valueEnv_def, auto)
    with ctx cur show ?thesis by (simp add: valueEnv_def)
  qed
qed

subsection \<open>Properties\<close>

text \<open>
  C29: when a cluster other than OpenShift gets a deployment context. It gets one exactly when
  discovery returned targets without an error and the list is not empty, and the k8sensor Deployment
  cannot be read or names another bag of targets in the variable \<open>ETCD_TARGETS\<close>; the context then
  carries the discovered targets, sorted, and the etcd CA if it was found. In every other case there
  is no context, and an error is never returned. (No discovered target is empty or contains a comma,
  at which the running targets are split.)
\<close>

theorem etcd_context_iff:
  assumes "\<forall>d. fst (fst (discoverETCD agent h)) = Some d \<longrightarrow> plainTargets (det_Targets d)"
  shows "snd (fst (createDeploymentContext w agent False discoverETCD h)) = None \<and>
    (fst (fst (createDeploymentContext w agent False discoverETCD h)) = Some ctx \<longleftrightarrow>
      (\<exists>d h1 dep e. discoverETCD agent h = ((Some d, None), h1) \<and> det_Targets d \<noteq> [] \<and>
         sv_get w h1 gvk_Deployment
           \<lparr>nn_Namespace = ag_Namespace agent, nn_Name = k8sSensorResourcesName agent\<rparr> = (dep, e) \<and>
         (e \<noteq> None \<or> mset (runningTargets dep) \<noteq> mset (det_Targets d)) \<and> ctx = discoveredContext d))"
proof -
  obtain r e0 h1 where disc: "discoverETCD agent h = ((r, e0), h1)" by (metis prod.collapse)
  obtain dep e where dep: "sv_get w h1 gvk_Deployment
      \<lparr>nn_Namespace = ag_Namespace agent, nn_Name = k8sSensorResourcesName agent\<rparr> = (dep, e)" by force
  show ?thesis
  proof (cases "\<exists>d. r = Some d \<and> e0 = None \<and> det_Targets d \<noteq> []")
    case True
    then obtain d where d: "r = Some d" "e0 = None" "det_Targets d \<noteq> []" by blast
    with disc assms have "plainTargets (det_Targets d)" by simp
    from compareAndUpdateETCDTargets_mset [OF this d(3), of dep]
      createDeploymentContext_vanilla [of discoverETCD agent h d h1 w dep e] disc d dep
    show ?thesis by auto
  next
    case False
    with disc show ?thesis by (cases r) (auto simp: createDeploymentContext_def)
  qed
qed

text \<open>A discovery that always finds one target, and a Deployment that lacks it.\<close>

definition exampleTargets :: discoveredETCDTargets where
  "exampleTargets = \<lparr>det_Targets = [''https://10.0.0.1:2379/metrics''], det_CAFound = False\<rparr>"

lemma exampleTargets_plain [simp]:
  "det_Targets exampleTargets \<noteq> []" "plainTargets (det_Targets exampleTargets)"
  by (simp_all add: exampleTargets_def plainTargets_def)

theorem etcd_context_iff_witness:
  "fst (fst (createDeploymentContext (simWorld [] exampleAgent exampleRemote) exampleAgent False
     (\<lambda>a h. ((Some exampleTargets, None), h)) [])) = Some (discoveredContext exampleTargets) \<and>
   fst (fst (createDeploymentContext (simWorld [] exampleAgent exampleRemote) exampleAgent False
     (\<lambda>a h. ((None, None), h)) [])) = None"
proof -
  let ?w = "simWorld [] exampleAgent exampleRemote"
  have "sv_get ?w [] gvk key = (emptyObject, Some notFoundErr)" for gvk key by (simp add: simWorld_def)
  then show ?thesis
    using etcd_context_iff [of "\<lambda>a h. ((Some exampleTargets, None), h)" exampleAgent "[]" ?w "discoveredContext exampleTargets"]
      etcd_context_iff [of "\<lambda>a h. ((None, None), h)" exampleAgent "[]" ?w]
    by fastforce
qed

text \<open>
  C32: the targets alternate. While discovery keeps finding the same targets and the stored
  k8sensor Deployment has the containers the operator built with \<open>ctx\<close> as its context, the next
  reconciliation computes the other context: a Deployment built with the discovered targets is
  rebuilt without them (no context, hence no \<open>ETCD_TARGETS\<close>), and one built without them is
  rebuilt with them.
\<close>

theorem etcd_targets_alternate:
  assumes "etcd_Targets (ag_ETCD agent) = []" and "EnvETCDTargets \<notin> fst ` set (ba_Env (ag_Agent agent))"
    and "det_Targets d \<noteq> []" and "plainTargets (det_Targets d)"
    and "ctx \<in> {None, Some (discoveredContext d)}"
    and "dep_build sha256 \<lparr>dpb_agent = agent, dpb_isOpenShift = False, dpb_backend = be, dpb_keysSecret = ks,
           dpb_deploymentContext = ctx\<rparr> = Ret dep"
    and "discoverETCD agent h = ((Some d, None), h1)"
    and "sv_get w h1 gvk_Deployment
           \<lparr>nn_Namespace = ag_Namespace agent, nn_Name = k8sSensorResourcesName agent\<rparr> = (stored, None)"
    and "deployment_Containers stored = deployment_Containers dep"
  shows "fst (createDeploymentContext w agent False discoverETCD h) =
    (if ctx = None then Some (discoveredContext d) else None, None)"
proof -
  let ?current = "if ctx = None then [] else sort (det_Targets d)"
  have "runningTargets stored = ?current"
    by (rule runningTargets_plain [OF currentETCDTargets_context [OF assms(6,1,2,9,5,3)]])
      (simp add: plainTargets_def [of "[]"] assms(4))
  then have "compareAndUpdateETCDTargets stored (det_Targets d) \<longleftrightarrow> mset ?current \<noteq> mset (det_Targets d)"
    by (simp add: compareAndUpdateETCDTargets_mset [OF assms(4,3)])
  with assms(3) show ?thesis unfolding createDeploymentContext_vanilla [of discoverETCD agent h d h1 w stored None, OF assms(7,3,8)] by simp
qed

theorem etcd_targets_alternate_witness:
  "\<exists>dep. dep_build (\<lambda>s. s) \<lparr>dpb_agent = exampleAgent, dpb_isOpenShift = False, dpb_backend = exampleBackend,
       dpb_keysSecret = None, dpb_deploymentContext = Some (discoveredContext exampleTargets)\<rparr> = Ret dep \<and>
     fst (createDeploymentContext (simWorld [dep] exampleAgent exampleRemote) exampleAgent False
       (\<lambda>a h. ((Some exampleTargets, None), h)) []) = (None, None)"
proof -
  let ?b = "\<lparr>dpb_agent = exampleAgent, dpb_isOpenShift = False, dpb_backend = exampleBackend,
    dpb_keysSecret = None, dpb_deploymentContext = Some (discoveredContext exampleTargets)\<rparr>"
  obtain dep where dep: "dep_build (\<lambda>s. s) ?b = Ret dep"
    and name: "get_name dep = k8sSensorResourcesName exampleAgent @ be_ResourceSuffix exampleBackend"
    and ns: "get_namespace dep = ag_Namespace exampleAgent"
    by (rule dep_build_shape [of "\<lambda>s. s" ?b]) simp
  have "get_gvk dep = gvk_Deployment"
    using dep by (auto simp: dep_build_def Let_def split_beta get_gvk_def mkObject_def fromAPIVersionAndKind_def
        gvk_Deployment_def)
  then have "sv_get (simWorld [dep] exampleAgent exampleRemote) [] gvk_Deployment
      \<lparr>nn_Namespace = ag_Namespace exampleAgent, nn_Name = k8sSensorResourcesName exampleAgent\<rparr> = (dep, None)"
    using name ns by (simp add: simWorld_def objectKeyFromObject_def exampleBackend_def newK8SensorBackend_def)
  from etcd_targets_alternate [OF _ _ _ _ _ dep _ this, of exampleTargets "\<lambda>a h. ((Some exampleTargets, None), h)" "[]"] dep
  show ?thesis by (auto simp: example_defs)
qed

subsection \<open>OpenShift certificates\<close>

text \<open>The two source objects hold certificates under the keys the k8sensor mounts.\<close>

definition usableETCDResources :: "k8sObject \<Rightarrow> k8sObject \<Rightarrow> bool" where
  "usableETCDResources cm secret =
     (derefOrEmpty '''' (gm_get (newMapDefaulter (cm_Data cm)) ''ca-bundle.crt'') \<noteq> '''' \<and>
      derefOrEmpty '''' (gm_get (newMapDefaulter (secret_DataMap secret)) ''tls.crt'') \<noteq> '''' \<and>
      derefOrEmpty '''' (gm_get (newMapDefaulter (secret_DataMap secret)) ''tls.key'') \<noteq> '''')"

lemma validate_iff:
  "validateOpenShiftETCDResources cm secret e1 e2 = (None, None) \<longleftrightarrow>
     e1 = None \<and> e2 = None \<and> usableETCDResources cm secret"
proof (cases "e1 = None \<and> e2 = None")
  case True
  then show ?thesis
    by (cases "cm_Data cm"; cases "secret_DataMap secret")
      (simp_all add: validateOpenShiftETCDResources_def usableETCDResources_def derefOrEmpty_def derefOrElse_def
        split: option.split)
next
  case False
  then show ?thesis by (auto simp: validateOpenShiftETCDResources_def)
qed

abbreviation etcd_reads :: history where
  "etcd_reads \<equiv> [CGet gvk_ConfigMap etcdCAKey, CGet gvk_Secret etcdClientKey]"

lemma setupOpenShift_eq:
  assumes "sv_get w h gvk_ConfigMap etcdCAKey = (cm, e1)"
    and "sv_get w (h @ [CGet gvk_ConfigMap etcdCAKey]) gvk_Secret etcdClientKey = (secret, e2)"
  shows "setupOpenShiftETCDMonitoring w agent h =
    (let ca = set_managedFields [] (targetCAConfigMap agent cm);
         cert = set_managedFields [] (targetClientSecret agent secret); h2 = h @ etcd_reads
     in if e1 = None \<and> e2 = None \<and> usableETCDResources cm secret
        then (if snd (sv_apply w h2 ca False) \<noteq> None then (emptyDeploymentContext, h2 @ [CApply ca False])
              else (emptyDeploymentContext\<lparr>dctx_OpenShiftETCDResourcesExist :=
                      (snd (sv_apply w (h2 @ [CApply ca False]) cert False) = None)\<rparr>,
                    h2 @ [CApply ca False, CApply cert False]))
        else (emptyDeploymentContext, h2 @ [CDelete (copiedConfigMap agent), CDelete (copiedSecret agent)]))"
proof -
  obtain c1 c2 where v: "validateOpenShiftETCDResources cm secret e1 e2 = (c1, c2)" by force
  then have ok: "c1 = None \<and> c2 = None \<longleftrightarrow> e1 = None \<and> e2 = None \<and> usableETCDResources cm secret"
    using validate_iff [of cm secret e1 e2] by simp
  show ?thesis
  proof (cases "c1 = None \<and> c2 = None")
    case True
    with ok v assms show ?thesis
      by (simp add: setupOpenShiftETCDMonitoring_def client_Get_def copyETCDResourcesToNamespace_def
          client_Apply_def Let_def result_defs split_beta emptyDeploymentContext_def)
  next
    case False
    with ok v assms show ?thesis
      by (auto simp: setupOpenShiftETCDMonitoring_def client_Get_def logAndCleanupETCDErrors_def
          cleanupCopiedETCDResources_def client_Delete_def Let_def)
  qed
qed

text \<open>The volume projects non-empty entries of the ConfigMap or Secret it names.\<close>

definition mountable :: "k8sObject \<Rightarrow> volume \<Rightarrow> bool" where
  "mountable obj vol =
     (case (vol_Source vol, ko_Body obj) of
        (ConfigMapVolume n _ items, ConfigMapBody (Some data)) \<Rightarrow>
          n = get_name obj \<and> list_all (\<lambda>i. derefOrEmpty '''' (gm_get data (kp_Key i)) \<noteq> '''') items
      | (SecretVolume n _ items _, SecretBody _ (Some data)) \<Rightarrow>
          n = get_name obj \<and> list_all (\<lambda>i. derefOrEmpty '''' (gm_get data (kp_Key i)) \<noteq> '''') items
      | _ \<Rightarrow> False)"

lemma CA_copy_mountable:
  assumes "usableETCDResources cm secret" and "vb_isOpenShift v"
    and "ca_SecretName (etcd_CA (ag_ETCD (vb_instanaAgent v))) = ''''"
  shows "\<exists>vol. fst (etcdCAVolume v) = Some vol \<and> mountable (set_managedFields [] (targetCAConfigMap agent cm)) vol"
  using assms by (cases "cm_Data cm")
    (simp_all add: etcdCAVolume_def volumeWithMount_def mountable_def targetCAConfigMap_def
      buildETCDResourceObjectMeta_def usableETCDResources_def)

lemma client_copy_mountable:
  assumes "usableETCDResources cm secret" and "vb_isOpenShift v"
  shows "\<exists>vol. fst (etcdClientCertVolume v) = Some vol \<and>
    mountable (set_managedFields [] (targetClientSecret agent secret)) vol"
  using assms by (cases "secret_DataMap secret")
    (simp_all add: etcdClientCertVolume_def volumeWithMount_def mountable_def targetClientSecret_def
      buildETCDResourceObjectMeta_def usableETCDResources_def)

text \<open>
  C30: on OpenShift, with no CA secret of the user for etcd, the k8sensor's etcd volumes are mounted
  only when they can be. When the context says that the resources exist, the operator read the cluster's etcd CA and client
  certificate, applied a copy of each to the agent's namespace, and the server accepted both;
  the volumes the k8sensor mounts then name these copies and every key they project has a
  value. Otherwise nothing of it is mounted, and if a source is missing or incomplete both
  copies are deleted.
\<close>

theorem openshift_etcd_mounts_exist:
  assumes "setupOpenShiftETCDMonitoring w agent h = (ctx, h')"
    and "vb_isOpenShift v" and "vb_instanaAgent v = agent" and "ca_SecretName (etcd_CA (ag_ETCD agent)) = ''''"
  shows "(dctx_OpenShiftETCDResourcesExist ctx \<longrightarrow> (\<exists>ca cert caVol certVol.
      h' = h @ etcd_reads @ [CApply ca False, CApply cert False] \<and>
      snd (sv_apply w (h @ etcd_reads) ca False) = None \<and>
      snd (sv_apply w (h @ etcd_reads @ [CApply ca False]) cert False) = None \<and>
      get_namespace ca = ag_Namespace agent \<and> get_namespace cert = ag_Namespace agent \<and>
      fst (etcdCAVolume v) = Some caVol \<and> mountable ca caVol \<and>
      fst (etcdClientCertVolume v) = Some certVol \<and> mountable cert certVol)) \<and>
    (\<not> dctx_OpenShiftETCDResourcesExist ctx \<longrightarrow> ctx = emptyDeploymentContext) \<and>
    (snd (sv_get w h gvk_ConfigMap etcdCAKey) \<noteq> None \<longrightarrow>
      h' = h @ etcd_reads @ [CDelete (copiedConfigMap agent), CDelete (copiedSecret agent)])"
proof -
  obtain cm e1 secret e2 where g: "sv_get w h gvk_ConfigMap etcdCAKey = (cm, e1)"
    "sv_get w (h @ [CGet gvk_ConfigMap etcdCAKey]) gvk_Secret etcdClientKey = (secret, e2)"
    by (metis prod.collapse)
  note eq = setupOpenShift_eq [OF g, of agent, unfolded assms(1) Let_def]
  show ?thesis
  proof (cases "e1 = None \<and> e2 = None \<and> usableETCDResources cm secret")
    case True
    let ?ca = "set_managedFields [] (targetCAConfigMap agent cm)"
    let ?cert = "set_managedFields [] (targetClientSecret agent secret)"
    have ns: "get_namespace ?ca = ag_Namespace agent" "get_namespace ?cert = ag_Namespace agent"
      by (simp_all add: targetCAConfigMap_def targetClientSecret_def buildETCDResourceObjectMeta_def)
    from True eq g(1) ns CA_copy_mountable [of cm secret v agent] client_copy_mountable [of cm secret v agent] assms(2-4) show ?thesis
      by (auto simp: emptyDeploymentContext_def split: if_splits)
  next
    case False
    with eq show ?thesis by (auto simp: emptyDeploymentContext_def)
  qed
qed

text \<open>A cluster whose etcd certificates are complete.\<close>

definition exampleCABundle :: k8sObject where
  "exampleCABundle = mkObject ''v1'' ''ConfigMap'' (named ETCDMetricsCABundleName ETCDNamespace)
     (ConfigMapBody (Some [(''ca-bundle.crt'', ''ca'')]))"

definition exampleClientCert :: k8sObject where
  "exampleClientCert = mkObject ''v1'' ''Secret'' (named ETCDMetricClientSecretName ETCDNamespace)
     (SecretBody ''kubernetes.io/tls'' (Some [(''tls.crt'', ''crt''), (''tls.key'', ''key'')]))"

abbreviation etcdWorld :: world where
  "etcdWorld \<equiv> simWorld [exampleCABundle, exampleClientCert] exampleAgent exampleRemote"

lemma etcdWorld_reads:
  "sv_get etcdWorld [] gvk_ConfigMap etcdCAKey = (exampleCABundle, None)"
  "sv_get etcdWorld [CGet gvk_ConfigMap etcdCAKey] gvk_Secret etcdClientKey = (exampleClientCert, None)"
  by (simp_all add: simWorld_def exampleCABundle_def exampleClientCert_def get_gvk_def fromAPIVersionAndKind_def
      gvk_ConfigMap_def gvk_Secret_def objectKeyFromObject_def)

theorem openshift_etcd_mounts_exist_witness:
  "\<exists>ctx h' ca cert. setupOpenShiftETCDMonitoring etcdWorld exampleAgent [] = (ctx, h') \<and>
     dctx_OpenShiftETCDResourcesExist ctx \<and> h' = etcd_reads @ [CApply ca False, CApply cert False]"
proof -
  have usable: "usableETCDResources exampleCABundle exampleClientCert"
    by (simp add: usableETCDResources_def exampleCABundle_def exampleClientCert_def cm_Data_def secret_DataMap_def)
  obtain ctx h' where run: "setupOpenShiftETCDMonitoring etcdWorld exampleAgent [] = (ctx, h')" by force
  have "sv_apply etcdWorld h obj dry = (obj, None)" for h obj dry by (simp add: simWorld_def)
  then have flag: "dctx_OpenShiftETCDResourcesExist ctx"
    using setupOpenShift_eq [of etcdWorld "[]" exampleCABundle None exampleClientCert None exampleAgent]
      etcdWorld_reads usable run by (simp add: Let_def)
  from openshift_etcd_mounts_exist [OF run, of "newVolumeBuilder exampleAgent True"] flag run show ?thesis
    by (auto simp: newVolumeBuilder_def example_defs)
qed

subsection \<open>Discovery\<close>

text \<open>A target of a ready endpoint of a slice, or of an address of the legacy Endpoints.\<close>

definition sliceTarget :: "endpointSlice list \<Rightarrow> int \<Rightarrow> string \<Rightarrow> string \<Rightarrow> bool" where
  "sliceTarget items port scheme t \<longleftrightarrow> (\<exists>es\<in>set items. \<exists>ep\<in>set (es_Endpoints es). \<exists>a\<in>set (ept_Addresses ep).
     ept_Ready ep \<noteq> Some False \<and> t = etcdTarget scheme (endpointSlicePort es port) a)"

definition legacyTarget :: "endpointSubset list \<Rightarrow> int \<Rightarrow> string \<Rightarrow> string \<Rightarrow> bool" where
  "legacyTarget subsets port scheme t \<longleftrightarrow> (\<exists>sub\<in>set subsets. \<exists>a\<in>set (esub_Addresses sub).
     t = etcdTarget scheme (subsetPort sub port) a)"

lemma slice_targets:
  "t \<in> set (concat (map (\<lambda>es. buildTargetsFromEndpointSlice es port scheme) items)) \<longleftrightarrow>
     sliceTarget items port scheme t"
  by (auto simp: buildTargetsFromEndpointSlice_def sliceTarget_def)

lemma legacy_targets:
  "t \<in> set (concat (map (\<lambda>sub. map (etcdTarget scheme (subsetPort sub port)) (esub_Addresses sub)) subsets)) \<longleftrightarrow>
     legacyTarget subsets port scheme t"
  by (auto simp: legacyTarget_def)

abbreviation kubeSystemKey :: "string \<Rightarrow> namespacedName" where
  "kubeSystemKey name \<equiv> \<lparr>nn_Namespace = kubeSystemNamespace, nn_Name = name\<rparr>"

text \<open>
  What the server's answers after \<open>g\<close> give as targets of a service: those of its ready endpoints
  or, when there are none, those of the legacy Endpoints. The calls made for it are \<open>tr\<close>.
\<close>

definition observedTargets ::
  "world \<Rightarrow> string \<Rightarrow> int \<Rightarrow> string \<Rightarrow> history \<Rightarrow> string set \<Rightarrow> history \<Rightarrow> bool" where
  "observedTargets w name port scheme g targets tr \<longleftrightarrow>
     (let list = CList gvk_EndpointSlice [(LabelServiceName, name)]
      in \<exists>items. sv_listEndpointSlices w g kubeSystemNamespace [(LabelServiceName, name)] = (items, None) \<and>
         (targets = Collect (sliceTarget items port scheme) \<and> tr = [list] \<or>
          Collect (sliceTarget items port scheme) = {} \<and> tr = [list, CGet gvk_Endpoints (kubeSystemKey name)] \<and>
          (\<exists>subsets. sv_getEndpoints w (g @ [list]) (kubeSystemKey name) = (subsets, None) \<and>
             targets = Collect (legacyTarget subsets port scheme))))"

lemma buildTargetsFromEndpoints_targets:
  assumes run: "buildTargetsFromEndpoints w service port scheme g = ((targets, None), g')" and "targets \<noteq> []"
  shows "sorted targets \<and> (\<exists>tr. g' = g @ tr \<and> observedTargets w (get_name service) port scheme g (set targets) tr)"
proof -
  let ?labels = "[(LabelServiceName, get_name service)]" and ?key = "kubeSystemKey (get_name service)"
  obtain items e where l: "sv_listEndpointSlices w g kubeSystemNamespace ?labels = (items, e)" by force
  let ?ts = "concat (map (\<lambda>es. buildTargetsFromEndpointSlice es port scheme) items)"
  let ?h1 = "g @ [CList gvk_EndpointSlice ?labels]"
  obtain subsets e' where s: "sv_getEndpoints w ?h1 ?key = (subsets, e')" by force
  have ts: "set ?ts = Collect (sliceTarget items port scheme)" using slice_targets by blast
  have legacy: "set (concat (map (\<lambda>sub. map (etcdTarget scheme (subsetPort sub port)) (esub_Addresses sub)) subsets)) =
      Collect (legacyTarget subsets port scheme)" using legacy_targets by blast
  from run l have e: "e = None" by (auto simp: buildTargetsFromEndpoints_def Let_def split: if_splits)
  show ?thesis
  proof (cases "?ts = []")
    case False
    with run l e have "targets = sort ?ts" "g' = ?h1"
      by (auto simp: buildTargetsFromEndpoints_def Let_def split: if_splits)
    with l e ts show ?thesis by (auto simp: observedTargets_def Let_def)
  next
    case True
    with run l e s assms(2) have "e' = None" "g' = ?h1 @ [CGet gvk_Endpoints ?key]" "targets =
        sort (concat (map (\<lambda>sub. map (etcdTarget scheme (subsetPort sub port)) (esub_Addresses sub)) subsets))"
      by (auto simp: buildTargetsFromEndpoints_def buildTargetsFromLegacyEndpoints_def Let_def split: if_splits)
    with l e s True ts legacy show ?thesis by (auto simp: observedTargets_def Let_def)
  qed
qed

text \<open>
  The lookups of the etcd service, in the order of preference: its name, and whether the label
  \<open>component=etcd\<close> is asked for.
\<close>

definition etcdLookups :: "(string \<times> bool) list" where
  "etcdLookups = [(''etcd'', True), (''etcd-metrics'', True),
     (''etcd'', False), (''etcd-metrics'', False), (''etcd-k8s'', False)]"

abbreviation lookupCalls :: "(string \<times> bool) list \<Rightarrow> history" where
  "lookupCalls \<equiv> map (\<lambda>l. CGet gvk_Service (kubeSystemKey (fst l)))"

definition labelledEtcd :: "k8sObject \<Rightarrow> bool" where
  "labelledEtcd service \<longleftrightarrow> gm_get (newMapDefaulter (get_labels service)) ''component'' = Some ''etcd''"

definition lookupFinds :: "world \<Rightarrow> history \<Rightarrow> string \<times> bool \<Rightarrow> k8sObject \<Rightarrow> bool" where
  "lookupFinds w h l service \<longleftrightarrow>
     sv_get w h gvk_Service (kubeSystemKey (fst l)) = (service, None) \<and> (snd l \<longrightarrow> labelledEtcd service)"

definition lookupMisses :: "world \<Rightarrow> history \<Rightarrow> string \<times> bool \<Rightarrow> bool" where
  "lookupMisses w h l \<longleftrightarrow>
     (case sv_get w h gvk_Service (kubeSystemKey (fst l)) of
        (service, None) \<Rightarrow> snd l \<and> \<not> labelledEtcd service
      | (_, e) \<Rightarrow> isNotFound e)"

definition etcdLookup :: "world \<Rightarrow> string \<times> bool \<Rightarrow> history \<Rightarrow> (k8sObject option \<times> error) \<times> history" where
  "etcdLookup w l = (if snd l then getServiceWithLabel w (fst l) ''component'' ''etcd'' else getServiceByName w (fst l))"

lemma findETCDService_lookups: "findETCDService w h = firstService (map (etcdLookup w) etcdLookups) h"
  by (simp add: findETCDService_def etcdLookups_def etcdLookup_def)

lemma etcdLookup_eq:
  "snd (etcdLookup w l h) = h @ lookupCalls [l]"
  "fst (etcdLookup w l h) = (Some service, None) \<longleftrightarrow> lookupFinds w h l service"
  "fst (etcdLookup w l h) = (None, None) \<longleftrightarrow> lookupMisses w h l"
  by (cases "get_labels (fst (sv_get w h gvk_Service (kubeSystemKey (fst l))))";
      auto simp: etcdLookup_def getServiceWithLabel_def getServiceByName_def client_Get_def lookupFinds_def
        lookupMisses_def labelledEtcd_def derefOrEmpty_def derefOrElse_def split: prod.splits option.splits)+

lemma firstService_found:
  assumes "firstService (map (etcdLookup w) ls) h = ((Some service, e), h')"
  shows "e = None \<and> (\<exists>pre l post. ls = pre @ l # post \<and> h' = h @ lookupCalls (pre @ [l]) \<and>
    lookupFinds w (h @ lookupCalls pre) l service \<and>
    (\<forall>i<length pre. lookupMisses w (h @ lookupCalls (take i pre)) (pre ! i)))"
  using assms
proof (induction ls arbitrary: h)
  case (Cons x ls)
  obtain s1 e1 where x: "etcdLookup w x h = ((s1, e1), h @ lookupCalls [x])"
    using etcdLookup_eq(1) by (metis prod.collapse)
  with Cons.prems have e1: "e1 = None" by (auto split: if_splits)
  show ?case
  proof (cases s1)
    case None
    with x e1 have miss: "lookupMisses w h x" using etcdLookup_eq(3) [of w x h] by simp
    from None x e1 Cons.prems have "firstService (map (etcdLookup w) ls) (h @ lookupCalls [x]) = ((Some service, e), h')" by simp
    from Cons.IH [OF this] obtain pre l post where "e = None" "ls = pre @ l # post"
      "h' = (h @ lookupCalls [x]) @ lookupCalls (pre @ [l])" "lookupFinds w ((h @ lookupCalls [x]) @ lookupCalls pre) l service"
      "\<forall>i<length pre. lookupMisses w ((h @ lookupCalls [x]) @ lookupCalls (take i pre)) (pre ! i)" by blast
    with miss show ?thesis
      by (intro conjI exI [of _ "x # pre"] exI [of _ l] exI [of _ post]) (simp_all add: All_less_Suc2)
  next
    case (Some s')
    with x e1 Cons.prems have "s' = service" "e = None" "h' = h @ lookupCalls [x]" by auto
    with Some x e1 have "lookupFinds w h x service" using etcdLookup_eq(2) [of w x h service] by simp
    with \<open>e = None\<close> \<open>h' = _\<close> show ?thesis
      by (intro conjI exI [of _ "[]"] exI [of _ x] exI [of _ ls]) simp_all
  qed
qed simp

text \<open>The cluster was declared not to be OpenShift, or its CRD of cluster operators was not found.\<close>

abbreviation gvk_CRD :: groupVersionKind where
  "gvk_CRD \<equiv> \<lparr>gvk_Group = ''apiextensions.k8s.io'', gvk_Version = ''v1'', gvk_Kind = ''CustomResourceDefinition''\<rparr>"

abbreviation clusterOperatorsKey :: namespacedName where
  "clusterOperatorsKey \<equiv> \<lparr>nn_Namespace = '''', nn_Name = ''clusteroperators.config.openshift.io''\<rparr>"

definition vanillaCluster :: "world \<Rightarrow> instanaAgent \<Rightarrow> history \<Rightarrow> history \<Rightarrow> bool" where
  "vanillaCluster w agent h tr \<longleftrightarrow>
     (case sp_OpenShift (ag_Spec agent) of
        Some os \<Rightarrow> \<not> os \<and> tr = []
      | None \<Rightarrow> snd (sv_get w h gvk_CRD clusterOperatorsKey) \<noteq> None \<and>
                isNotFound (snd (sv_get w h gvk_CRD clusterOperatorsKey)) \<and> tr = [CGet gvk_CRD clusterOperatorsKey])"

lemma shouldSkipDiscovery_False:
  assumes "shouldSkipDiscovery w c ver agent h = ((False, None), h1)"
  shows "etcd_Targets (ag_ETCD agent) = [] \<and> (\<exists>tr. h1 = h @ tr \<and> vanillaCluster w agent h tr)"
proof -
  have "client_Exists w gvk_CRD clusterOperatorsKey h =
      (fst (client_Exists w gvk_CRD clusterOperatorsKey h), h @ [CGet gvk_CRD clusterOperatorsKey])"
    by (simp add: prod_eq_iff)
  with assms show ?thesis
    by (auto simp: shouldSkipDiscovery_def isOpenShift_def clusterIsOpenShift_def newOperatorUtils_def vanillaCluster_def
        client_Exists_result result_Get_def Let_def split: prod.splits if_splits option.splits)
qed

lemma findMetricsPortAndScheme_Some:
  "findMetricsPortAndScheme service = (Some port, scheme) \<longleftrightarrow>
     (\<exists>p. List.find (\<lambda>p. sp_Name p = ''metrics'') (service_Ports service) = Some p \<and> port = sp_Port p \<and>
        scheme = (case gm_get (newMapDefaulter (om_Annotations (ko_Meta service))) ''instana.io/etcd-scheme'' of
                    Some s \<Rightarrow> s | None \<Rightarrow> if port = 2381 then ''http'' else ''https''))"
  by (auto simp: findMetricsPortAndScheme_def Let_def split: option.splits)

lemma discoverETCDEndpoints_Some:
  assumes "discoverETCDEndpoints w c ver agent h = ((Some d, e), h')"
  obtains service port scheme h1 h2 h3 where
    "e = None" "shouldSkipDiscovery w c ver agent h = ((False, None), h1)"
    "findETCDService w h1 = ((Some service, None), h2)"
    "findMetricsPortAndScheme service = (Some port, scheme)"
    "buildTargetsFromEndpoints w service port scheme h2 = ((det_Targets d, None), h3)" "det_Targets d \<noteq> []"
    "checkCASecretExists w agent h3 = (det_CAFound d, h')"
proof -
  obtain skip e1 h1 where 1: "shouldSkipDiscovery w c ver agent h = ((skip, e1), h1)" by (metis prod.collapse)
  obtain svc e2 h2 where 2: "findETCDService w h1 = ((svc, e2), h2)" by (metis prod.collapse)
  from assms 1 2 obtain service where svc: "svc = Some service" "e1 = None" "\<not> skip" "e2 = None"
    by (auto simp: discoverETCDEndpoints_def split: if_splits option.splits)
  obtain p scheme where 3: "findMetricsPortAndScheme service = (p, scheme)" by force
  from assms 1 2 3 svc obtain port where p: "p = Some port"
    by (auto simp: discoverETCDEndpoints_def split: option.splits)
  obtain ts e3 h3 where 4: "buildTargetsFromEndpoints w service port scheme h2 = ((ts, e3), h3)"
    by (metis prod.collapse)
  from assms 1 2 3 4 svc p have "e3 = None" "ts \<noteq> []" "det_Targets d = ts" "e = None"
    "checkCASecretExists w agent h3 = (det_CAFound d, h')"
    by (auto simp: discoverETCDEndpoints_def split: if_splits prod.splits)
  with 1 2 3 4 svc p that show ?thesis by auto
qed


definition exampleEtcdService :: k8sObject where
  "exampleEtcdService = mkObject ''v1'' ''Service'' ((named ''etcd'' ''kube-system'')\<lparr>om_Labels := Some [(''component'', ''etcd'')]\<rparr>)
     (ServiceBody \<lparr>ss_ClusterIP = ''None'', ss_Selector = None,
        ss_Ports = [\<lparr>sp_Name = ''metrics'', sp_Protocol = ''TCP'', sp_Port = 2381, sp_TargetPort = 2381\<rparr>],
        ss_InternalTrafficPolicy = None\<rparr>)"

definition exampleSlice :: endpointSlice where
  "exampleSlice = \<lparr>es_Ports = [],
     es_Endpoints = [\<lparr>ept_Addresses = [''10.0.0.2''], ept_Ready = Some False\<rparr>,
                     \<lparr>ept_Addresses = [''10.0.0.1''], ept_Ready = None\<rparr>]\<rparr>"

definition discoveryWorld :: world where
  "discoveryWorld = (simWorld [exampleEtcdService] exampleAgent exampleRemote)
     \<lparr>sv_listEndpointSlices := \<lambda>h ns labels. ([exampleSlice], None)\<rparr>"

lemma discovery_example:
  "\<exists>h'. discoverETCDEndpoints discoveryWorld exampleCodec ''v1'' exampleAgent [] =
     ((Some \<lparr>det_Targets = [etcdTarget ''http'' 2381 ''10.0.0.1''], det_CAFound = False\<rparr>, None), h')"
proof -
  have get: "sv_get discoveryWorld [] gvk_Service \<lparr>nn_Namespace = ''kube-system'', nn_Name = ''etcd''\<rparr> = (exampleEtcdService, None)"
    by (simp add: discoveryWorld_def simWorld_def exampleEtcdService_def get_gvk_def fromAPIVersionAndKind_def
        gvk_Service_def objectKeyFromObject_def)
  have "shouldSkipDiscovery discoveryWorld exampleCodec ''v1'' exampleAgent [] = ((False, None), [])"
    by (simp add: shouldSkipDiscovery_def isOpenShift_def clusterIsOpenShift_def newOperatorUtils_def Let_def example_defs)
  moreover have "findETCDService discoveryWorld [] = ((Some exampleEtcdService, None),
      [CGet gvk_Service \<lparr>nn_Namespace = ''kube-system'', nn_Name = ''etcd''\<rparr>])"
    using get by (simp add: findETCDService_def getServiceWithLabel_def getServiceByName_def client_Get_def)
      (simp add: exampleEtcdService_def)
  moreover have "findMetricsPortAndScheme exampleEtcdService = (Some 2381, ''http'')"
    by (simp add: findMetricsPortAndScheme_def service_Ports_def exampleEtcdService_def mkObject_def named_def emptyMeta_def)
  moreover have "buildTargetsFromEndpoints discoveryWorld exampleEtcdService 2381 ''http'' h =
      (([etcdTarget ''http'' 2381 ''10.0.0.1''], None), h @ [CList gvk_EndpointSlice [(LabelServiceName, ''etcd'')]])" for h
    by (simp add: buildTargetsFromEndpoints_def buildTargetsFromEndpointSlice_def endpointSlicePort_def
        discoveryWorld_def exampleSlice_def Let_def exampleEtcdService_def)
  moreover have "checkCASecretExists discoveryWorld exampleAgent
      ([CGet gvk_Service \<lparr>nn_Namespace = ''kube-system'', nn_Name = ''etcd''\<rparr>] @
       [CList gvk_EndpointSlice [(LabelServiceName, ''etcd'')]]) =
     (False, [CGet gvk_Service \<lparr>nn_Namespace = ''kube-system'', nn_Name = ''etcd''\<rparr>] @
       [CList gvk_EndpointSlice [(LabelServiceName, ''etcd'')]] @
       [CGet gvk_Secret \<lparr>nn_Namespace = ag_Namespace exampleAgent, nn_Name = ETCDCASecretName\<rparr>])"
    by (simp add: checkCASecretExists_def client_Get_def discoveryWorld_def simWorld_def exampleEtcdService_def
        get_gvk_def fromAPIVersionAndKind_def gvk_Secret_def)
  ultimately show ?thesis by (simp add: discoverETCDEndpoints_def)
qed


end
