(* ===== verification/Secrets.thy ===== *)
theory Secrets
  imports K8s_Sensor
begin

text \<open>
  The Secrets the operator builds, for the agent (\<open>builders/agent/secrets\<close>) and the remote agent
  (\<open>builders/remote-agent/secrets\<close>): the keys, the configuration with the backends, the image
  pull secret and the TLS secret. The YAML and JSON encoders are arguments (\<open>encoders\<close>); the
  functions of \<open>net/url\<close> that render the proxy address are written out.
\<close>

record encoders =
  yaml_OpenTelemetry :: "openTelemetry \<Rightarrow> string"
  yaml_PrometheusRemoteWrite :: string
  yaml_DisableKubernetes :: string
  yaml_Namespaces :: "namespacesDetails \<Rightarrow> string \<times> error"
  json_DockerConfig :: "(string \<times> string) list \<Rightarrow> string \<times> error"

subsection \<open>\<open>url.URL.String\<close>\<close>

datatype encoding = EncodeHost | EncodeUserPassword

definition isAlnum :: "char \<Rightarrow> bool" where
  "isAlnum ch = (CHR ''a'' \<le> ch \<and> ch \<le> CHR ''z'' \<or> CHR ''A'' \<le> ch \<and> ch \<le> CHR ''Z'' \<or>
     CHR ''0'' \<le> ch \<and> ch \<le> CHR ''9'')"

text \<open>The characters that are kept, beside letters and digits; the last two of a host are \<open>'\<close> and \<open>"\<close>.\<close>

definition shouldEscape :: "encoding \<Rightarrow> char \<Rightarrow> bool" where
  "shouldEscape mode ch =
     (if isAlnum ch then False
      else if mode = EncodeHost \<and> (ch \<in> set ''!$&()*+,;=:[]<>'' \<or> ch = CHR 0x27 \<or> ch = CHR 0x22) then False
      else if ch \<in> set ''-_.~'' then False
      else if mode = EncodeUserPassword \<and> ch \<in> set ''$&+,;='' then False
      else True)"

definition upperhex :: "nat \<Rightarrow> char" where
  "upperhex n = ''0123456789ABCDEF'' ! n"

definition url_escape :: "encoding \<Rightarrow> string \<Rightarrow> string" where
  "url_escape mode s = concat (map (\<lambda>ch.
     if shouldEscape mode ch
     then [CHR ''%'', upperhex (of_char ch div 16), upperhex (of_char ch mod 16)] else [ch]) s)"

definition url_String :: "string \<Rightarrow> (string \<times> string) option \<Rightarrow> string \<Rightarrow> string" where
  "url_String scheme user host =
     (if scheme \<noteq> '''' then scheme @ '':'' else '''') @
     (if host \<noteq> '''' \<or> user \<noteq> None then ''//'' else '''') @
     (case user of None \<Rightarrow> ''''
      | Some (name, password) \<Rightarrow>
          url_escape EncodeUserPassword name @ '':'' @ url_escape EncodeUserPassword password @ ''@'') @
     (if host \<noteq> '''' then url_escape EncodeHost host else '''')"

text \<open>The value both secret builders store for \<open>HTTPS_PROXY\<close>.\<close>

definition httpsProxyValue :: "baseAgentSpec \<Rightarrow> string" where
  "httpsProxyValue b =
     (if ba_ProxyHost b = '''' then ''''
      else url_String (optional_GetOrDefault (optional_Of '''' (ba_ProxyProtocol b)) ''http'')
        (if ba_ProxyUser b \<noteq> '''' \<and> ba_ProxyPassword b \<noteq> ''''
         then Some (ba_ProxyUser b, ba_ProxyPassword b) else None)
        (ba_ProxyHost b @ '':'' @ optional_GetOrDefault (optional_Of '''' (ba_ProxyPort b)) ''80''))"

subsection \<open>The keys secret\<close>

abbreviation putIf :: "bool \<Rightarrow> string \<Rightarrow> string \<Rightarrow> strmap \<Rightarrow> strmap" where
  "putIf c key val data \<equiv> (if c then gm_put key val data else data)"

definition storeIfPresent :: "bool \<Rightarrow> string \<Rightarrow> string \<Rightarrow> strmap \<Rightarrow> strmap" where
  "storeIfPresent c key val data = optional_IfPresent (optional_Of '''' val) (\<lambda>v data. putIf c key v data) data"

definition storeBackendKeys :: "bool \<Rightarrow> k8SensorBackend list \<Rightarrow> strmap \<Rightarrow> strmap" where
  "storeBackendKeys files backends data =
     for_each (\<lambda>be data. optional_IfPresent (optional_Of '''' (be_EndpointKey be))
        (\<lambda>key data. putIf files (SecretFileAgentKey @ be_ResourceSuffix be) key
                     (gm_put (AgentKey @ be_ResourceSuffix be) key data)) data) backends data"

definition keys_getData :: "instanaAgent \<Rightarrow> k8SensorBackend list \<Rightarrow> strmap" where
  "keys_getData a backends =
     (let b = ag_Agent a; files = (sp_UseSecretMounts (ag_Spec a) = Some True);
          data = [];
          data = optional_IfPresent (optional_Of '''' (ba_DownloadKey b))
            (\<lambda>k data. putIf files SecretFileDownloadKey k (gm_put DownloadKey k data)) data;
          data = storeIfPresent files SecretFileProxyUser (ba_ProxyUser b) data;
          data = storeIfPresent files SecretFileProxyPassword (ba_ProxyPassword b) data;
          data = storeIfPresent files SecretFileMirrorReleaseRepoUsername (ba_MirrorReleaseRepoUsername b) data;
          data = storeIfPresent files SecretFileMirrorReleaseRepoPassword (ba_MirrorReleaseRepoPassword b) data;
          data = storeIfPresent files SecretFileMirrorSharedRepoUsername (ba_MirrorSharedRepoUsername b) data;
          data = storeIfPresent files SecretFileMirrorSharedRepoPassword (ba_MirrorSharedRepoPassword b) data;
          data = putIf (ba_ProxyHost b \<noteq> '''' \<and> files) SecretFileHttpsProxy (httpsProxyValue b) data
      in storeBackendKeys files backends data)"

definition keys_build :: "instanaAgent \<Rightarrow> k8SensorBackend list \<Rightarrow> k8sObject" where
  "keys_build a backends = mkObject ''v1'' ''Secret'' (named (ag_Name a) (ag_Namespace a))
     (SecretBody ''Opaque'' (Some (keys_getData a backends)))"

definition keys_Build :: "instanaAgent \<Rightarrow> k8SensorBackend list \<Rightarrow> k8sObject option" where
  "keys_Build a backends = (if ba_KeysSecret (ag_Agent a) = '''' then Some (keys_build a backends) else None)"

definition newKeysSecretBuilder :: "instanaAgent \<Rightarrow> k8SensorBackend list \<Rightarrow> 's objectBuilder" where
  "newKeysSecretBuilder a backends = pureBuilder ComponentInstanaAgent True (keys_Build a backends)"

definition remote_keys_getData :: "instanaAgentRemote \<Rightarrow> k8SensorBackend list \<Rightarrow> strmap" where
  "remote_keys_getData a backends =
     (let b = ra_Agent a; files = secretMountsOn (rs_UseSecretMounts (ra_Spec a));
          data = [];
          data = optional_IfPresent (optional_Of '''' (ba_DownloadKey b))
            (\<lambda>k data. putIf files SecretFileDownloadKey k (gm_put DownloadKey k data)) data;
          data = (if files
                  then (let data = storeIfPresent True SecretKeyProxyUser (ba_ProxyUser b) data;
                            data = storeIfPresent True SecretKeyProxyPassword (ba_ProxyPassword b) data;
                            data = storeIfPresent True SecretKeyMirrorReleaseRepoUsername (ba_MirrorReleaseRepoUsername b) data;
                            data = storeIfPresent True SecretKeyMirrorReleaseRepoPassword (ba_MirrorReleaseRepoPassword b) data;
                            data = storeIfPresent True SecretKeyMirrorSharedRepoUsername (ba_MirrorSharedRepoUsername b) data;
                            data = storeIfPresent True SecretKeyMirrorSharedRepoPassword (ba_MirrorSharedRepoPassword b) data
                        in putIf (httpsProxyValue b \<noteq> '''') SecretKeyHttpsProxy (httpsProxyValue b) data)
                  else data)
      in storeBackendKeys files backends data)"

definition remote_keys_build :: "instanaAgentRemote \<Rightarrow> k8SensorBackend list \<Rightarrow> k8sObject" where
  "remote_keys_build a backends = mkObject ''v1'' ''Secret'' (named (ra_Name a) (ra_Namespace a))
     (SecretBody ''Opaque'' (Some (remote_keys_getData a backends)))"

definition remote_keys_Build :: "instanaAgentRemote \<Rightarrow> k8SensorBackend list \<Rightarrow> k8sObject option" where
  "remote_keys_Build a backends =
     (if ba_KeysSecret (ra_Agent a) = '''' then Some (remote_keys_build a backends) else None)"

definition newRemoteKeysSecretBuilder :: "instanaAgentRemote \<Rightarrow> k8SensorBackend list \<Rightarrow> 's objectBuilder" where
  "newRemoteKeysSecretBuilder a backends = pureBuilder ComponentInstanaAgentRemote True (remote_keys_Build a backends)"

subsection \<open>The configuration secret\<close>

text \<open>\<open>toInlineVariable\<close>; the fallback is the variadic argument.\<close>

definition toInlineVariable :: "string \<Rightarrow> string \<Rightarrow> string option \<Rightarrow> string" where
  "toInlineVariable key val fallback =
     (case fallback of
        Some f \<Rightarrow> if val = '''' then key @ ''='' @ f else key @ ''='' @ val
      | None \<Rightarrow> key @ ''='' @ val)"

definition backendLines :: "baseAgentSpec \<Rightarrow> k8SensorBackend \<Rightarrow> string \<Rightarrow> string list" where
  "backendLines b be backendKey =
     [toInlineVariable ''host'' (be_EndpointHost be) None,
      toInlineVariable ''port'' (be_EndpointPort be) (Some ''443''),
      toInlineVariable ''protocol'' ''HTTP/2'' None,
      toInlineVariable ''key'' backendKey None] @
     (if ba_ProxyHost b \<noteq> ''''
      then [toInlineVariable ''proxy.type'' (ba_ProxyProtocol b) (Some ''HTTP''),
            toInlineVariable ''proxy.host'' (ba_ProxyHost b) None,
            toInlineVariable ''proxy.port'' (ba_ProxyPort b) (Some ''80'')] else []) @
     (if ba_ProxyUseDNS b then [toInlineVariable ''proxy.dns'' (formatBool (ba_ProxyUseDNS b)) None] else []) @
     (if ba_ProxyUser b \<noteq> '''' \<and> ba_ProxyPassword b \<noteq> ''''
      then [toInlineVariable ''proxy.user'' (ba_ProxyUser b) None,
            toInlineVariable ''proxy.password'' (ba_ProxyPassword b) None] else [])"

definition resolvedBackendKey :: "k8sObject \<Rightarrow> k8SensorBackend \<Rightarrow> string" where
  "resolvedBackendKey keysSecret be =
     (case gm_get (secret_Data keysSecret) (''key'' @ be_ResourceSuffix be) of
        Some v \<Rightarrow> v | None \<Rightarrow> if be_EndpointKey be \<noteq> '''' then be_EndpointKey be else '''')"

abbreviation newline :: string where "newline \<equiv> [CHR 0x0A]"

definition backendFile :: "int \<Rightarrow> string" where
  "backendFile i = ''com.instana.agent.main.sender.Backend-'' @ itoa i @ ''.cfg''"

text \<open>The loop of \<open>backendConfig\<close>; \<open>i\<close> is the index of the first backend of the list.\<close>

fun backendConfigFrom ::
  "baseAgentSpec \<Rightarrow> k8sObject \<Rightarrow> int \<Rightarrow> k8SensorBackend list \<Rightarrow> strmap \<Rightarrow> strmap" where
  "backendConfigFrom b keysSecret i [] config = config"
| "backendConfigFrom b keysSecret i (be # backends) config =
     (if (get_name keysSecret = '''' \<and> be_EndpointKey be = '''') \<or> be_EndpointHost be = ''''
      then backendConfigFrom b keysSecret (i + 1) backends config
      else (let backendKey = resolvedBackendKey keysSecret be in
            if backendKey = '''' then backendConfigFrom b keysSecret (i + 1) backends config
            else backendConfigFrom b keysSecret (i + 1) backends
              (gm_put (backendFile (i + 1)) (join_strings newline (backendLines b be backendKey) @ newline) config)))"

definition backendConfig :: "baseAgentSpec \<Rightarrow> k8sObject \<Rightarrow> k8SensorBackend list \<Rightarrow> strmap \<times> error" where
  "backendConfig b keysSecret backends = (backendConfigFrom b keysSecret 0 backends [], None)"

definition mergeMaps :: "strmap \<Rightarrow> strmap \<Rightarrow> strmap" where
  "mergeMaps m1 m2 = gm_copy m1 m2"

definition config_data :: "encoders \<Rightarrow> instanaAgent \<Rightarrow> k8sObject \<Rightarrow> k8SensorBackend list \<Rightarrow> strmap \<times> error" where
  "config_data enc a keysSecret backends =
     (let s = ag_Spec a; b = sp_Agent s;
          data = putIf (sp_ClusterName s \<noteq> '''') ''cluster_name'' (sp_ClusterName s) [];
          data = putIf (ba_ConfigurationYaml b \<noteq> '''') ''configuration.yaml'' (ba_ConfigurationYaml b) data;
          data = gm_put ''configuration-opentelemetry.yaml'' (yaml_OpenTelemetry enc (sp_OpenTelemetry s)) data;
          data = putIf (derefOrEmpty False (sp_PrometheusRemoteWrite s))
            ''configuration-prometheus-remote-write.yaml'' (yaml_PrometheusRemoteWrite enc) data;
          data = gm_put ''configuration-disable-kubernetes-sensor.yaml'' (yaml_DisableKubernetes enc) data
      in case backendConfig b keysSecret backends of (cfg, e) \<Rightarrow> (mergeMaps data cfg, e))"

definition configSecret :: "string \<Rightarrow> string \<Rightarrow> strmap \<Rightarrow> k8sObject" where
  "configSecret name ns data = mkObject ''v1'' ''Secret'' (named name ns) (SecretBody ''Opaque'' (Some data))"

text \<open>
  \<open>Build\<close> of the configuration secret. A \<open>nil\<close> keys secret is dereferenced when there is a
  backend to render.
\<close>

definition config_Build ::
  "encoders \<Rightarrow> instanaAgent \<Rightarrow> k8sObject option \<Rightarrow> k8SensorBackend list \<Rightarrow> agentStatusManager \<Rightarrow>
   k8sObject option go \<times> agentStatusManager" where
  "config_Build enc a keysSecret backends s =
     (if keysSecret = None \<and> backends \<noteq> [] then (Panic nilDeref, s)
      else (case config_data enc a (case keysSecret of None \<Rightarrow> emptyObject | Some k \<Rightarrow> k) backends of (data, errs) \<Rightarrow>
        let secret = configSecret (ag_Name a @ ''-config'') (ag_Namespace a) data
        in (Ret (Some secret), setAgentSecretConfig (objectKeyFromObject secret) s)))"

definition newConfigBuilder ::
  "encoders \<Rightarrow> instanaAgent \<Rightarrow> k8sObject option \<Rightarrow> k8SensorBackend list \<Rightarrow> agentStatusManager objectBuilder" where
  "newConfigBuilder enc a keysSecret backends =
     \<lparr>ob_Build = config_Build enc a keysSecret backends, ob_ComponentName = ComponentInstanaAgent,
      ob_IsNamespaced = True\<rparr>"

definition remote_config_data ::
  "encoders \<Rightarrow> instanaAgentRemote \<Rightarrow> k8sObject \<Rightarrow> k8SensorBackend list \<Rightarrow> strmap \<times> error" where
  "remote_config_data enc a keysSecret backends =
     (let b = ra_Agent a;
          data = putIf (ba_ConfigurationYaml b \<noteq> '''') ''configuration.yaml'' (ba_ConfigurationYaml b) [];
          data = gm_put ''configuration-disable-kubernetes-sensor.yaml'' (yaml_DisableKubernetes enc) data
      in case backendConfig b keysSecret backends of (cfg, e) \<Rightarrow> (mergeMaps data cfg, e))"

definition remote_config_Build ::
  "encoders \<Rightarrow> instanaAgentRemote \<Rightarrow> k8sObject option \<Rightarrow> k8SensorBackend list \<Rightarrow> remoteStatusManager \<Rightarrow>
   k8sObject option go \<times> remoteStatusManager" where
  "remote_config_Build enc a keysSecret backends s =
     (if keysSecret = None \<and> backends \<noteq> [] then (Panic nilDeref, s)
      else (case remote_config_data enc a (case keysSecret of None \<Rightarrow> emptyObject | Some k \<Rightarrow> k) backends of
        (data, errs) \<Rightarrow>
        let secret = configSecret (''instana-agent-r-'' @ ra_Name a @ ''-config'') (ra_Namespace a) data
        in (Ret (Some secret), remote_setAgentSecretConfig (objectKeyFromObject secret) s)))"

definition newRemoteConfigBuilder ::
  "encoders \<Rightarrow> instanaAgentRemote \<Rightarrow> k8sObject option \<Rightarrow> k8SensorBackend list \<Rightarrow> remoteStatusManager objectBuilder" where
  "newRemoteConfigBuilder enc a keysSecret backends =
     \<lparr>ob_Build = remote_config_Build enc a keysSecret backends,
      ob_ComponentName = ComponentInstanaAgentRemote, ob_IsNamespaced = True\<rparr>"

subsection \<open>The image pull secret\<close>

definition downloadKey :: "baseAgentSpec \<Rightarrow> k8sObject option \<Rightarrow> string option" where
  "downloadKey b keysSecret =
     (let fromSpec = (if ba_DownloadKey b \<noteq> '''' then Some (ba_DownloadKey b)
                      else if ba_Key b \<noteq> '''' then Some (ba_Key b) else None)
      in case keysSecret of
           None \<Rightarrow> fromSpec
         | Some secret \<Rightarrow>
           (case gm_get (secret_Data secret) ''downloadKey'' of
              Some v \<Rightarrow> Some v
            | None \<Rightarrow> (case gm_get (secret_Data secret) ''key'' of Some v \<Rightarrow> Some v | None \<Rightarrow> fromSpec)))"

definition container_marshalJSON :: "encoders \<Rightarrow> string \<Rightarrow> string go" where
  "container_marshalJSON enc key =
     marshalOrDie (json_DockerConfig enc) [(ContainersInstanaIORegistry, ''_:'' @ key)]"

definition container_build ::
  "encoders \<Rightarrow> baseAgentSpec \<Rightarrow> k8sObject option \<Rightarrow> string \<Rightarrow> string \<Rightarrow> k8sObject option go" where
  "container_build enc b keysSecret name ns =
     (case downloadKey b keysSecret of
        None \<Rightarrow> Ret None
      | Some key \<Rightarrow>
        bind_outcome (container_marshalJSON enc key) (\<lambda>json.
          Ret (Some (mkObject ''v1'' ''Secret'' (named name ns)
            (SecretBody ''kubernetes.io/dockerconfigjson'' (Some [(''.dockerconfigjson'', json)]))))))"

definition container_Build :: "encoders \<Rightarrow> instanaAgent \<Rightarrow> k8sObject option \<Rightarrow> k8sObject option go" where
  "container_Build enc a keysSecret =
     (if useContainersSecret (ag_Agent a)
      then container_build enc (ag_Agent a) keysSecret (containersSecretName a) (ag_Namespace a)
      else Ret None)"

definition newContainerBuilder :: "encoders \<Rightarrow> instanaAgent \<Rightarrow> k8sObject option \<Rightarrow> 's objectBuilder" where
  "newContainerBuilder enc a keysSecret =
     \<lparr>ob_Build = (\<lambda>s. (container_Build enc a keysSecret, s)), ob_ComponentName = ComponentInstanaAgent,
      ob_IsNamespaced = True\<rparr>"

definition remote_container_Build :: "encoders \<Rightarrow> instanaAgentRemote \<Rightarrow> k8sObject option \<Rightarrow> k8sObject option go" where
  "remote_container_Build enc a keysSecret =
     (if useContainersSecret (ra_Agent a)
      then container_build enc (ra_Agent a) keysSecret (remote_containersSecretName a) (ra_Namespace a)
      else Ret None)"

definition newRemoteContainerBuilder :: "encoders \<Rightarrow> instanaAgentRemote \<Rightarrow> k8sObject option \<Rightarrow> 's objectBuilder" where
  "newRemoteContainerBuilder enc a keysSecret =
     \<lparr>ob_Build = (\<lambda>s. (remote_container_Build enc a keysSecret, s)),
      ob_ComponentName = ComponentInstanaAgentRemote, ob_IsNamespaced = True\<rparr>"

subsection \<open>The TLS secret\<close>

definition tls_build :: "string \<Rightarrow> string \<Rightarrow> baseAgentSpec \<Rightarrow> k8sObject" where
  "tls_build name ns b = mkObject ''v1'' ''Secret'' (named (tlsSecretName name b) ns)
     (SecretBody ''kubernetes.io/tls''
        (Some [(''tls.crt'', tls_Certificate (ba_TlsSpec b)), (''tls.key'', tls_Key (ba_TlsSpec b))]))"

definition tls_Build :: "string \<Rightarrow> string \<Rightarrow> baseAgentSpec \<Rightarrow> k8sObject option" where
  "tls_Build name ns b =
     (if tls_SecretName (ba_TlsSpec b) = '''' \<and> length (tls_Key (ba_TlsSpec b)) > 0 \<and>
         length (tls_Certificate (ba_TlsSpec b)) > 0
      then Some (tls_build name ns b) else None)"

definition newTlsSecretBuilder :: "instanaAgent \<Rightarrow> 's objectBuilder" where
  "newTlsSecretBuilder a =
     pureBuilder ComponentInstanaAgent True (tls_Build (ag_Name a) (ag_Namespace a) (ag_Agent a))"

definition newRemoteTlsSecretBuilder :: "instanaAgentRemote \<Rightarrow> 's objectBuilder" where
  "newRemoteTlsSecretBuilder a =
     pureBuilder ComponentInstanaAgentRemote True (tls_Build (ra_Name a) (ra_Namespace a) (ra_Agent a))"

subsection \<open>Lemmas\<close>

lemma storeIfPresent_get:
  "gm_get (storeIfPresent c key val data) k =
     (if c \<and> val \<noteq> '''' \<and> k = key then Some val else gm_get data k)"
  by (simp add: storeIfPresent_def)

lemma storeBackendKeys_other:
  "k \<notin> {AgentKey @ be_ResourceSuffix be | be. be \<in> set backends} \<union>
        {SecretFileAgentKey @ be_ResourceSuffix be | be. be \<in> set backends} \<Longrightarrow>
     gm_get (storeBackendKeys files backends data) k = gm_get data k"
  unfolding storeBackendKeys_def
  by (induction backends arbitrary: data) (auto split: if_splits)

lemma storeBackendKeys_get:
  assumes "distinct (map be_ResourceSuffix backends)" and "be \<in> set backends" and "be_EndpointKey be \<noteq> ''''"
  shows "gm_get (storeBackendKeys files backends data) (AgentKey @ be_ResourceSuffix be) = Some (be_EndpointKey be)"
    and "files \<Longrightarrow> gm_get (storeBackendKeys files backends data) (SecretFileAgentKey @ be_ResourceSuffix be) =
      Some (be_EndpointKey be)"
proof -
  from assms(2) obtain xs ys where bs: "backends = xs @ be # ys" by (auto dest: split_list)
  define data1 where "data1 = storeBackendKeys files (xs @ [be]) data"
  have split: "storeBackendKeys files backends data = storeBackendKeys files ys data1"
    by (simp add: bs data1_def storeBackendKeys_def)
  have "be_ResourceSuffix be \<notin> be_ResourceSuffix ` set ys" using assms(1) bs by auto
  then have "gm_get (storeBackendKeys files ys data1) (AgentKey @ be_ResourceSuffix be) =
      gm_get data1 (AgentKey @ be_ResourceSuffix be)"
    "gm_get (storeBackendKeys files ys data1) (SecretFileAgentKey @ be_ResourceSuffix be) =
      gm_get data1 (SecretFileAgentKey @ be_ResourceSuffix be)"
    by (auto intro!: storeBackendKeys_other)
  moreover have "gm_get data1 (AgentKey @ be_ResourceSuffix be) = Some (be_EndpointKey be)"
    "files \<Longrightarrow> gm_get data1 (SecretFileAgentKey @ be_ResourceSuffix be) = Some (be_EndpointKey be)"
    using assms(3) by (simp_all add: data1_def storeBackendKeys_def)
  ultimately show "gm_get (storeBackendKeys files backends data) (AgentKey @ be_ResourceSuffix be) = Some (be_EndpointKey be)"
    "files \<Longrightarrow> gm_get (storeBackendKeys files backends data) (SecretFileAgentKey @ be_ResourceSuffix be) =
      Some (be_EndpointKey be)"
    unfolding split by simp_all
qed

text \<open>A backend without a key leaves no entry.\<close>

lemma storeBackendKeys_filter:
  "storeBackendKeys files backends data =
     storeBackendKeys files (filter (\<lambda>be. be_EndpointKey be \<noteq> '''') backends) data"
  unfolding storeBackendKeys_def by (induction backends arbitrary: data) simp_all

lemma storeBackendKeys_none:
  assumes "distinct (map be_ResourceSuffix backends)" and "be \<in> set backends" and "be_EndpointKey be = ''''"
  shows "gm_get (storeBackendKeys files backends data) (SecretFileAgentKey @ be_ResourceSuffix be) =
    gm_get data (SecretFileAgentKey @ be_ResourceSuffix be)"
proof -
  have "be_EndpointKey x = ''''" if "x \<in> set backends" "be_ResourceSuffix x = be_ResourceSuffix be" for x
    using assms that by (metis distinct_map inj_onD)
  then show ?thesis
    by (subst storeBackendKeys_filter) (rule storeBackendKeys_other, auto dest: sym)
qed

lemma keys_getData_agentKey:
  assumes "distinct (map be_ResourceSuffix backends)" and "be \<in> set backends"
    and "sp_UseSecretMounts (ag_Spec a) = Some True"
  shows "gm_get (keys_getData a backends) (SecretFileAgentKey @ be_ResourceSuffix be) =
    (if be_EndpointKey be = '''' then None else Some (be_EndpointKey be))"
proof (cases "be_EndpointKey be = ''''")
  case True
  then show ?thesis
    unfolding keys_getData_def Let_def storeBackendKeys_none [OF assms(1,2) True]
    by (simp add: storeIfPresent_get)
next
  case False
  then show ?thesis
    using storeBackendKeys_get(2) [OF assms(1,2), of True] assms(3) by (simp add: keys_getData_def Let_def)
qed

lemma keys_getData_proxy:
  assumes "sp_UseSecretMounts (ag_Spec a) = Some True" and "ba_ProxyHost (ag_Agent a) \<noteq> ''''"
  shows "gm_get (keys_getData a backends) SecretFileHttpsProxy = Some (httpsProxyValue (ag_Agent a))"
  using assms by (simp add: keys_getData_def Let_def storeBackendKeys_other)

text \<open>The items of the Secret volume of a volume list, with the name of the Secret.\<close>

definition secretItemsExist :: "string \<Rightarrow> strmap \<Rightarrow> volume \<Rightarrow> bool" where
  "secretItemsExist secretName data vol =
     (case vol_Source vol of
        SecretVolume n _ items _ \<Rightarrow> n = secretName \<and> list_all (\<lambda>i. gm_get data (kp_Key i) \<noteq> None) items
      | _ \<Rightarrow> False)"

subsection \<open>Escaping\<close>

definition hexDigit :: "char \<Rightarrow> nat" where
  "hexDigit ch = (if ch \<le> CHR ''9'' then of_char ch - 48 else of_char ch - 55)"

text \<open>Percent decoding, the inverse a proxy client applies.\<close>

fun url_unescape :: "string \<Rightarrow> string" where
  "url_unescape (x # a # b # s) =
     (if x = CHR ''%'' then char_of (16 * hexDigit a + hexDigit b) # url_unescape s
      else x # url_unescape (a # b # s))"
| "url_unescape (x # s) = x # url_unescape s"
| "url_unescape [] = []"

lemma hexDigit_upperhex: "n < 16 \<Longrightarrow> hexDigit (upperhex n) = n"
proof -
  have "\<forall>n\<in>set [0..<16]. hexDigit (upperhex n) = n" by code_simp
  then show "n < 16 \<Longrightarrow> hexDigit (upperhex n) = n" by simp
qed

lemma of_char_div: "(of_char ch :: nat) div 16 < 16"
  by (rule less_mult_imp_div_less) simp

lemma char_of_hex: "char_of (16 * (of_char ch div 16) + of_char ch mod 16 :: nat) = ch"
  by (simp add: mult.commute)

lemma shouldEscape_percent: "shouldEscape mode (CHR ''%'')"
  by (simp add: shouldEscape_def isAlnum_def)

lemma url_unescape_Cons: "x \<noteq> CHR ''%'' \<Longrightarrow> url_unescape (x # s) = x # url_unescape s"
  by (cases "x # s" rule: url_unescape.cases) auto

lemma url_escape_roundtrip: "url_unescape (url_escape mode s) = s"
proof (induction s)
  case (Cons x s)
  show ?case
  proof (cases "shouldEscape mode x")
    case True
    with Cons show ?thesis by (simp add: url_escape_def hexDigit_upperhex char_of_hex of_char_div)
  next
    case False
    then have "x \<noteq> CHR ''%''" using shouldEscape_percent by metis
    with False Cons show ?thesis by (simp add: url_escape_def url_unescape_Cons)
  qed
qed (simp add: url_escape_def)

lemma upperhex_alnum: "n < 16 \<Longrightarrow> isAlnum (upperhex n)"
proof -
  have "\<forall>n\<in>set [0..<16]. isAlnum (upperhex n)" by code_simp
  then show "n < 16 \<Longrightarrow> isAlnum (upperhex n)" by simp
qed

lemma url_escape_chars:
  "ch \<in> set (url_escape mode s) \<Longrightarrow> ch = CHR ''%'' \<or> \<not> shouldEscape mode ch"
proof (induction s)
  case (Cons x s)
  have "\<not> shouldEscape mode (upperhex n)" if "n < 16" for n
    using upperhex_alnum [OF that] by (simp add: shouldEscape_def)
  then show ?case using Cons by (auto simp: url_escape_def of_char_div split: if_splits)
qed (simp add: url_escape_def)

lemma upperhex_in: "n < 16 \<Longrightarrow> upperhex n \<in> set ''0123456789ABCDEF''"
  by (simp add: upperhex_def del: list.set)

text \<open>Backends of the configuration secret.\<close>

definition usableBackend :: "k8sObject \<Rightarrow> k8SensorBackend \<Rightarrow> bool" where
  "usableBackend keysSecret be \<longleftrightarrow> \<not> (get_name keysSecret = '''' \<and> be_EndpointKey be = '''') \<and>
     be_EndpointHost be \<noteq> '''' \<and> resolvedBackendKey keysSecret be \<noteq> ''''"

lemma backendFile_inject: "0 \<le> i \<Longrightarrow> 0 \<le> j \<Longrightarrow> backendFile i = backendFile j \<longleftrightarrow> i = j"
  by (simp add: backendFile_def itoa_inject_nonneg)

lemma backendConfigFrom_step:
  "backendConfigFrom b ks i (be # backends) config =
     backendConfigFrom b ks (i + 1) backends
       (if usableBackend ks be
        then gm_put (backendFile (i + 1))
          (join_strings newline (backendLines b be (resolvedBackendKey ks be)) @ newline) config
        else config)"
  by (auto simp: usableBackend_def Let_def)

lemma backendConfigFrom_get:
  "0 \<le> i \<Longrightarrow> 0 \<le> j \<Longrightarrow>
     gm_get (backendConfigFrom b ks i backends config) (backendFile (j + 1)) =
       (if i \<le> j \<and> j < i + int (length backends) \<and> usableBackend ks (backends ! nat (j - i))
        then Some (join_strings newline (backendLines b (backends ! nat (j - i))
               (resolvedBackendKey ks (backends ! nat (j - i)))) @ newline)
        else gm_get config (backendFile (j + 1)))"
proof (induction backends arbitrary: i config)
  case (Cons be backends)
  have inj: "backendFile (j + 1) = backendFile (i + 1) \<longleftrightarrow> j = i"
    using Cons.prems by (simp add: backendFile_inject)
  show ?case
  proof (cases "j = i")
    case True
    then show ?thesis using Cons.IH [of "i + 1"] Cons.prems
      by (simp only: backendConfigFrom_step) (simp add: inj)
  next
    case False
    then have "i + 1 \<le> j \<Longrightarrow> nat (j - i) = Suc (nat (j - (i + 1)))" by simp
    with False show ?thesis using Cons.IH [of "i + 1"] Cons.prems
      by (simp only: backendConfigFrom_step) (auto simp: inj)
  qed
qed auto

subsection \<open>Properties\<close>

text \<open>
  C33: when the files the k8sensor of a backend mounts from the keys secret are there. With
  \<open>useSecretMounts\<close> true and no secret of the user, its volume names the Secret the operator builds
  and is not optional. Every key of the volume's items is an entry of that Secret exactly when the
  backend has a key; the agent key item then holds the key of that backend. For a backend without a
  key, which the CRD allows, the entry is missing, so the volume cannot be mounted. (The backends
  have different resource suffixes, as \<open>getK8SensorBackends_suffixes\<close> shows of those the operator
  numbers.)
\<close>

theorem k8sensor_mounted_keys_exist:
  assumes "sp_UseSecretMounts (ag_Spec a) = Some True" and "ba_KeysSecret (ag_Agent a) = ''''"
    and "distinct (map be_ResourceSuffix backends)" and "be \<in> set backends"
  shows "\<exists>vol obj mode items.
    fst (k8sensorSecretsVolume (withBackendResourceSuffix (be_ResourceSuffix be) (newVolumeBuilder a isOpenShift))) =
      Some vol \<and>
    vol_Source vol = SecretVolume (get_name obj) mode items None \<and>
    keys_Build a backends = Some obj \<and>
    (secretItemsExist (get_name obj) (secret_Data obj) vol \<longleftrightarrow> be_EndpointKey be \<noteq> '''') \<and>
    gm_get (secret_Data obj) (SecretFileAgentKey @ be_ResourceSuffix be) =
      (if be_EndpointKey be = '''' then None else Some (be_EndpointKey be))"
  using assms keys_getData_proxy [of a backends] keys_getData_agentKey [OF assms(3,4,1)]
  by (simp add: k8sensorSecretsVolume_def newVolumeBuilder_def withBackendResourceSuffix_def Let_def
      volumeWithMount_def keys_Build_def keys_build_def secretItemsExist_def secret_Data_def)

definition agentWithProxy :: instanaAgent where
  "agentWithProxy = exampleAgent\<lparr>ag_Spec := (ag_Spec exampleAgent)\<lparr>sp_UseSecretMounts := Some True,
     sp_Agent := exampleBase\<lparr>ba_ProxyHost := ''proxy''\<rparr>\<rparr>\<rparr>"

definition keylessBackend :: k8SensorBackend where
  "keylessBackend = newK8SensorBackend ''-1'' '''' '''' ''host2'' ''443''"

theorem k8sensor_mounted_keys_exist_witness:
  "\<exists>vol vol1 obj.
     fst (k8sensorSecretsVolume (withBackendResourceSuffix '''' (newVolumeBuilder agentWithProxy False))) = Some vol \<and>
     fst (k8sensorSecretsVolume (withBackendResourceSuffix ''-1'' (newVolumeBuilder agentWithProxy False))) = Some vol1 \<and>
     keys_Build agentWithProxy [exampleBackend, keylessBackend] = Some obj \<and>
     secretItemsExist (get_name obj) (secret_Data obj) vol \<and>
     \<not> secretItemsExist (get_name obj) (secret_Data obj) vol1"
  using k8sensor_mounted_keys_exist [of agentWithProxy "[exampleBackend, keylessBackend]" exampleBackend False]
    k8sensor_mounted_keys_exist [of agentWithProxy "[exampleBackend, keylessBackend]" keylessBackend False]
  by (auto simp: agentWithProxy_def exampleBackend_def keylessBackend_def newK8SensorBackend_def example_defs)

text \<open>
  the same for the remote agent, whose volume is not optional: with no secret of the user,
  every key its volume's items ask for (agent key, download key, proxy and mirror credentials,
  each where it is configured) is an entry of the Secret the operator builds.
\<close>

theorem remote_mounted_keys_exist:
  assumes "secretMountsOn (rs_UseSecretMounts (ra_Spec a))" and "ba_KeysSecret (ra_Agent a) = ''''"
    and "distinct (map be_ResourceSuffix backends)" and "be \<in> set backends"
    and "be_ResourceSuffix be = ''''" and "be_EndpointKey be \<noteq> ''''"
  shows "\<exists>vol obj. fst (remote_secretsVolume a) = Some vol \<and> remote_keys_Build a backends = Some obj \<and>
    secretItemsExist (get_name obj) (secret_Data obj) vol"
proof -
  let ?b = "ra_Agent a"
  let ?data = "remote_keys_getData a backends"
  have "gm_get ?data AgentKey = Some (be_EndpointKey be)"
    using storeBackendKeys_get(1) [OF assms(3,4,6), of True] assms(1,5)
    by (simp add: remote_keys_getData_def Let_def)
  moreover have "ba_DownloadKey ?b \<noteq> '''' \<Longrightarrow> gm_get ?data DownloadKey \<noteq> None"
    "ba_ProxyUser ?b \<noteq> '''' \<Longrightarrow> gm_get ?data SecretKeyProxyUser \<noteq> None"
    "ba_ProxyPassword ?b \<noteq> '''' \<Longrightarrow> gm_get ?data SecretKeyProxyPassword \<noteq> None"
    "ba_MirrorReleaseRepoUsername ?b \<noteq> '''' \<Longrightarrow> gm_get ?data SecretKeyMirrorReleaseRepoUsername \<noteq> None"
    "ba_MirrorReleaseRepoPassword ?b \<noteq> '''' \<Longrightarrow> gm_get ?data SecretKeyMirrorReleaseRepoPassword \<noteq> None"
    "ba_MirrorSharedRepoUsername ?b \<noteq> '''' \<Longrightarrow> gm_get ?data SecretKeyMirrorSharedRepoUsername \<noteq> None"
    "ba_MirrorSharedRepoPassword ?b \<noteq> '''' \<Longrightarrow> gm_get ?data SecretKeyMirrorSharedRepoPassword \<noteq> None"
    "ba_ProxyHost ?b \<noteq> '''' \<Longrightarrow> gm_get ?data SecretKeyHttpsProxy \<noteq> None"
    using assms(1) by (simp_all add: remote_keys_getData_def Let_def storeBackendKeys_other storeIfPresent_get
        httpsProxyValue_def url_String_def)
  ultimately show ?thesis
    using assms(1,2)
    by (simp add: remote_secretsVolume_def Let_def volumeWithMount_def remote_keys_Build_def
        remote_keys_build_def secretItemsExist_def secret_Data_def remote_secretItems_def itemIf_def)
qed

theorem remote_mounted_keys_exist_witness:
  "\<exists>vol obj. fst (remote_secretsVolume exampleRemote) = Some vol \<and>
     remote_keys_Build exampleRemote [exampleBackend] = Some obj \<and>
     secretItemsExist (get_name obj) (secret_Data obj) vol"
  by (rule remote_mounted_keys_exist [of _ _ exampleBackend])
    (simp_all add: exampleBackend_def newK8SensorBackend_def exampleRemote_def exampleBase_def)

lemma url_escape_delimiters: "set (url_escape EncodeUserPassword s) \<inter> set ''@/?:#[] '' = {}"
  by (auto dest!: url_escape_chars simp: shouldEscape_def isAlnum_def)

text \<open>
  C34: the address of the proxy that the keys secret of an agent holds, with \<open>useSecretMounts\<close> true and a
  proxy host. It is the protocol (\<open>http\<close> unless configured), \<open>://\<close>, the credentials, and host and port
  (\<open>80\<close> unless configured), escaped. The credentials appear only when both user and password are
  set; they are then two texts separated by a colon and closed by an at sign, neither of which
  contains a character that delimits the parts of an address, and which decode to the configured
  user and password. So the address can be taken apart again whatever characters they contain.
\<close>

theorem proxy_credentials_roundtrip:
  fixes a :: instanaAgent
  defines "b \<equiv> ag_Agent a"
  assumes "sp_UseSecretMounts (ag_Spec a) = Some True" and "ba_ProxyHost b \<noteq> ''''"
  shows "\<exists>eu ep credentials.
    gm_get (keys_getData a backends) SecretFileHttpsProxy = Some (
      (if ba_ProxyProtocol b = '''' then ''http'' else ba_ProxyProtocol b) @ ''://'' @ credentials @
      url_escape EncodeHost (ba_ProxyHost b @ '':'' @ (if ba_ProxyPort b = '''' then ''80'' else ba_ProxyPort b))) \<and>
    credentials = (if ba_ProxyUser b = '''' \<or> ba_ProxyPassword b = '''' then '''' else eu @ '':'' @ ep @ ''@'') \<and>
    url_unescape eu = ba_ProxyUser b \<and> url_unescape ep = ba_ProxyPassword b \<and>
    set (eu @ ep) \<inter> set ''@/?:#[] '' = {}"
proof -
  have "gm_get (keys_getData a backends) SecretFileHttpsProxy = Some (httpsProxyValue b)"
    using keys_getData_proxy [of a] assms by simp
  moreover have "set (url_escape EncodeUserPassword (ba_ProxyUser b) @ url_escape EncodeUserPassword (ba_ProxyPassword b)) \<inter>
      set ''@/?:#[] '' = {}"
    using url_escape_delimiters [of "ba_ProxyUser b"] url_escape_delimiters [of "ba_ProxyPassword b"]
    unfolding set_append by blast
  ultimately show ?thesis
    using assms(3)
    by (intro exI [of _ "url_escape EncodeUserPassword (ba_ProxyUser b)"]
        exI [of _ "url_escape EncodeUserPassword (ba_ProxyPassword b)"] exI conjI)
      (simp_all only: url_escape_roundtrip, auto simp: httpsProxyValue_def url_String_def)
qed

theorem proxy_credentials_roundtrip_witness:
  "\<exists>address. gm_get (keys_getData (agentWithProxy\<lparr>ag_Spec := (ag_Spec agentWithProxy)\<lparr>sp_Agent :=
       (ag_Agent agentWithProxy)\<lparr>ba_ProxyUser := ''us@er'', ba_ProxyPassword := ''p:w/''\<rparr>\<rparr>\<rparr>) []) SecretFileHttpsProxy =
     Some address \<and> take 7 address = ''http://''"
  using proxy_credentials_roundtrip [of "agentWithProxy\<lparr>ag_Spec := (ag_Spec agentWithProxy)\<lparr>sp_Agent :=
       (ag_Agent agentWithProxy)\<lparr>ba_ProxyUser := ''us@er'', ba_ProxyPassword := ''p:w/''\<rparr>\<rparr>\<rparr>" "[]"]
  by (auto simp: agentWithProxy_def example_defs)

text \<open>
  the agent's configuration has exactly one sender file per usable backend, numbered by the
  backend's position: a backend without host or without key (in the secret or the custom
  resource) is skipped and does not shift the numbers of the others.
\<close>

theorem backendConfig_files:
  "gm_get (fst (backendConfig b keysSecret backends)) (backendFile (int j + 1)) =
     (if j < length backends \<and> usableBackend keysSecret (backends ! j)
      then Some (join_strings newline (backendLines b (backends ! j)
             (resolvedBackendKey keysSecret (backends ! j))) @ newline)
      else None)"
  using backendConfigFrom_get [of 0 "int j" b keysSecret backends "[]"] by (simp add: backendConfig_def)

end
