(* ===== verification/Agent_Objects.thy ===== *)
theory Agent_Objects
  imports Secrets Daemon_Set
begin

text \<open>
  The remaining objects of an agent (\<open>builders/agent\<close>): service account, cluster role and its
  binding, the service and the headless service, and the ConfigMap with the labelled namespaces.
\<close>

definition agent_serviceAccount_build :: "instanaAgent \<Rightarrow> k8sObject" where
  "agent_serviceAccount_build a = mkObject ''v1'' ''ServiceAccount''
     ((named (serviceAccountName a) (ag_Namespace a))
        \<lparr>om_Annotations := sa_Annotations (sp_ServiceAccount (ag_Spec a))\<rparr>) ServiceAccountBody"

definition agent_serviceAccount :: "instanaAgent \<Rightarrow> 's objectBuilder" where
  "agent_serviceAccount a = pureBuilder ComponentInstanaAgent True
     (if derefOrEmpty False (sa_Create (sp_ServiceAccount (ag_Spec a)))
      then Some (agent_serviceAccount_build a) else None)"

definition agent_rules :: "policyRule list" where
  "agent_rules =
     [\<lparr>pr_APIGroups = [], pr_Resources = [], pr_ResourceNames = [],
       pr_NonResourceURLs = [''/version'', ''/healthz'', ''/metrics'', ''/stats/summary'', ''/metrics/cadvisor''],
       pr_Verbs = [''get'']\<rparr>,
      rule [''''] [''nodes'', ''nodes/stats'', ''nodes/metrics'', ''nodes/proxy'', ''pods''] readerVerbs,
      privilegedRule]"

definition agent_clusterRole :: "instanaAgent \<Rightarrow> 's objectBuilder" where
  "agent_clusterRole a = pureBuilder ComponentInstanaAgent False (Some (mkObject rbacApiVersion ''ClusterRole''
     (named (serviceAccountName a) '''') (ClusterRoleBody agent_rules)))"

definition agent_clusterRoleBinding :: "instanaAgent \<Rightarrow> 's objectBuilder" where
  "agent_clusterRoleBinding a = pureBuilder ComponentInstanaAgent False
     (Some (mkObject rbacApiVersion ''ClusterRoleBinding'' (named (serviceAccountName a) '''')
       (ClusterRoleBindingBody
          \<lparr>rref_APIGroup = rbacApiGroup, rref_Kind = ''ClusterRole'', rref_Name = serviceAccountName a\<rparr>
          [\<lparr>sub_Kind = ''ServiceAccount'', sub_Name = serviceAccountName a, sub_Namespace = ag_Namespace a\<rparr>])))"

definition service_build :: "instanaAgent \<Rightarrow> k8sObject go" where
  "service_build a =
     bind_outcome (getServicePorts (sp_OpenTelemetry (ag_Spec a))) (\<lambda>sports.
       Ret (mkObject ''v1'' ''Service'' (named (ag_Name a) (ag_Namespace a))
         (ServiceBody \<lparr>ss_ClusterIP = '''',
            ss_Selector = Some (getPodSelectorLabels (podSelectorLabels a ComponentInstanaAgent)),
            ss_Ports = sports, ss_InternalTrafficPolicy = Some ''Local''\<rparr>)))"

text \<open>The third case dereferences the OpenTelemetry flag.\<close>

definition service_Build :: "instanaAgent \<Rightarrow> k8sObject option go" where
  "service_Build a =
     (let s = ag_Spec a in
      if derefOrEmpty False (sp_ServiceCreate s) \<or> derefOrEmpty False (sp_PrometheusRemoteWrite s)
      then bind_outcome (service_build a) (\<lambda>obj. Ret (Some obj))
      else (case otel_Enabled (sp_OpenTelemetry s) of
              None \<Rightarrow> Panic nilDeref
            | Some True \<Rightarrow> bind_outcome (service_build a) (\<lambda>obj. Ret (Some obj))
            | Some False \<Rightarrow> Ret None))"

definition agent_service :: "instanaAgent \<Rightarrow> 's objectBuilder" where
  "agent_service a = \<lparr>ob_Build = (\<lambda>s. (service_Build a, s)), ob_ComponentName = ComponentInstanaAgent,
     ob_IsNamespaced = True\<rparr>"

definition headlessService_Build :: "instanaAgent \<Rightarrow> k8sObject option go" where
  "headlessService_Build a =
     bind_outcome (getServicePorts (sp_OpenTelemetry (ag_Spec a))) (\<lambda>sports.
       Ret (Some (mkObject ''v1'' ''Service'' (named (headlessServiceName a) (ag_Namespace a))
         (ServiceBody \<lparr>ss_ClusterIP = ''None'',
            ss_Selector = Some (getPodSelectorLabels (podSelectorLabels a ComponentInstanaAgent)),
            ss_Ports = sports, ss_InternalTrafficPolicy = None\<rparr>))))"

definition agent_headlessService :: "instanaAgent \<Rightarrow> 's objectBuilder" where
  "agent_headlessService a = \<lparr>ob_Build = (\<lambda>s. (headlessService_Build a, s)),
     ob_ComponentName = ComponentInstanaAgent, ob_IsNamespaced = True\<rparr>"

definition namespaces_getData :: "encoders \<Rightarrow> namespacesDetails \<Rightarrow> strmap go" where
  "namespaces_getData enc details =
     bind_outcome (resultOrDie (yaml_Namespaces enc details)) (\<lambda>y.
       Ret [(InstanaNamespacesDetailsFileName, y)])"

definition namespacesConfigMap_Build ::
  "encoders \<Rightarrow> instanaAgent \<Rightarrow> namespacesDetails \<Rightarrow> agentStatusManager \<Rightarrow> k8sObject option go \<times> agentStatusManager" where
  "namespacesConfigMap_Build enc a details s =
     (case namespaces_getData enc details of
        Panic p \<Rightarrow> (Panic p, s)
      | Ret data \<Rightarrow>
        let cm = mkObject ''v1'' ''ConfigMap'' (named (ag_Name a @ ''-namespaces'') (ag_Namespace a))
                   (ConfigMapBody (Some data))
        in (Ret (Some cm), setAgentNamespacesConfigMap (objectKeyFromObject cm) s))"

definition agent_namespacesConfigMap ::
  "encoders \<Rightarrow> instanaAgent \<Rightarrow> namespacesDetails \<Rightarrow> agentStatusManager objectBuilder" where
  "agent_namespacesConfigMap enc a details =
     \<lparr>ob_Build = namespacesConfigMap_Build enc a details, ob_ComponentName = ComponentInstanaAgent,
      ob_IsNamespaced = True\<rparr>"

subsection \<open>Properties\<close>

text \<open>
  the objects that refer to each other by name agree. The DaemonSet's service account, the
  subject and the role of the cluster role binding and the service account the operator creates
  carry one name, and both services select the pods of the DaemonSet (of every zone): their
  selector is matched by the labels of the pod template.
\<close>

theorem agent_objects_agree:
  assumes "ds_Build d s = (Ret (Some obj), s')"
  shows "\<exists>spec. ko_Body obj = DaemonSetBody spec emptyDaemonSetStatus \<and>
    ps_ServiceAccountName (pt_Spec (dss_Template spec)) = serviceAccountName (dsb_agent d) \<and>
    get_name (agent_serviceAccount_build (dsb_agent d)) = serviceAccountName (dsb_agent d) \<and>
    (\<exists>crb ref subs. fst (ob_Build (agent_clusterRoleBinding (dsb_agent d)) ()) = Ret (Some crb) \<and>
       ko_Body crb = ClusterRoleBindingBody ref subs \<and> rref_Name ref = serviceAccountName (dsb_agent d) \<and>
       map sub_Name subs = [serviceAccountName (dsb_agent d)]) \<and>
    selector_matches (getPodSelectorLabels (podSelectorLabels (dsb_agent d) ComponentInstanaAgent))
      (the (pt_Labels (dss_Template spec)))"
proof -
  from assms have b: "ds_build d = Ret obj"
    by (auto simp: ds_Build_def Let_def split: if_splits outcome.splits)
  then obtain spec where spec: "ko_Body obj = DaemonSetBody spec emptyDaemonSetStatus"
    "pt_Labels (dss_Template spec) = Some (ds_getPodTemplateLabels d)"
    "ps_ServiceAccountName (pt_Spec (dss_Template spec)) = serviceAccountName (dsb_agent d)"
    by (auto simp: ds_build_def Let_def split_beta)
  have "gm_get (getPodSelectorLabels (podSelectorLabels (dsb_agent d) ComponentInstanaAgent)) k = Some v \<Longrightarrow>
      gm_get (getPodSelectorLabels (dsb_selector d)) k = Some v" for k v
    by (auto simp: getPodSelectorLabels_def podSelectorLabels_def podSelectorLabelsWithZoneInfo_def Let_def
        split: if_splits option.splits)
  then have "selector_matches (getPodSelectorLabels (podSelectorLabels (dsb_agent d) ComponentInstanaAgent))
      (ds_getPodTemplateLabels d)"
    using ds_selector_matches_labels [of d] by (simp add: selector_matches_iff)
  with spec show ?thesis
    by (auto simp: agent_serviceAccount_build_def agent_clusterRoleBinding_def pureBuilder_def)
qed

theorem agent_objects_agree_witness:
  "\<exists>obj s' spec. ds_Build exampleDaemonSetBuilder newAgentStatusManager = (Ret (Some obj), s') \<and>
     ko_Body obj = DaemonSetBody spec emptyDaemonSetStatus \<and>
     ps_ServiceAccountName (pt_Spec (dss_Template spec)) = ''default''"
proof -
  obtain obj s' where b: "ds_Build exampleDaemonSetBuilder newAgentStatusManager = (Ret (Some obj), s')"
    using exampleDaemonSet_builds by blast
  from agent_objects_agree [OF b] b show ?thesis
    by (auto simp: exampleDaemonSetBuilder_def serviceAccountName_def serviceAccountNameDefault_def
        exampleAgent_def Let_def)
qed

end
