(* ===== verification/Controller.thy ===== *)
theory Controller
  imports Etcd Agent_Objects
begin

text \<open>
  The controller of \<open>InstanaAgent\<close> (\<open>src/controllers\<close>: \<open>agent.go\<close>, \<open>cleanup.go\<close>,
  \<open>finalizer.go\<close>, the rest of \<open>apply.go\<close>, \<open>instanaagent_controller.go\<close>, and
  \<open>reconciliation/helm\<close>): one reconciliation as a function from the history of calls to a
  result and the longer history. The status manager is threaded as a state. What lies outside
  the source is a parameter: the API server and Helm (\<open>world\<close>), and the record \<open>operatorEnv\<close>
  with the encoders, the digest, the operator's version, the text of a stack trace and the two
  finalizer functions of controller-runtime's \<open>controllerutil\<close>, which change a list of
  finalizers and say whether they did.
\<close>

subsection \<open>Parameters\<close>

record operatorEnv =
  oe_codec :: codec
  oe_version :: string
  oe_status :: statusEnv
  oe_encoders :: encoders
  oe_sha256 :: "string \<Rightarrow> string"
  oe_stack :: string
  oe_addFinalizer :: "string \<Rightarrow> string list \<Rightarrow> string list \<times> bool"
  oe_removeFinalizer :: "string \<Rightarrow> string list \<Rightarrow> string list \<times> bool"

text \<open>What \<open>controllerutil\<close> documents about its two functions.\<close>

definition finalizer_laws :: "operatorEnv \<Rightarrow> bool" where
  "finalizer_laws oe \<longleftrightarrow>
     (\<forall>f fs. set (fst (oe_addFinalizer oe f fs)) = insert f (set fs) \<and>
             (snd (oe_addFinalizer oe f fs) \<longleftrightarrow> f \<notin> set fs)) \<and>
     (\<forall>f fs. set (fst (oe_removeFinalizer oe f fs)) = set fs - {f} \<and>
             (snd (oe_removeFinalizer oe f fs) \<longleftrightarrow> f \<in> set fs))"

abbreviation finalizerV1 :: string where "finalizerV1 \<equiv> ''agent.instana.io/finalizer''"
abbreviation finalizerV3 :: string where "finalizerV3 \<equiv> ''v3.agent.instana.io/finalizer''"

abbreviation ag_Finalizers :: "instanaAgent \<Rightarrow> string list" where
  "ag_Finalizers a \<equiv> om_Finalizers (ag_Meta a)"

definition set_finalizers :: "string list \<Rightarrow> instanaAgent \<Rightarrow> instanaAgent" where
  "set_finalizers fs a = a\<lparr>ag_Meta := (ag_Meta a)\<lparr>om_Finalizers := fs\<rparr>\<rparr>"

subsection \<open>\<open>agent.go\<close>\<close>

definition getAgent ::
  "world \<Rightarrow> namespacedName \<Rightarrow> history \<Rightarrow> (instanaAgent option \<times> reconcileReturn) \<times> history" where
  "getAgent w req h =
     (case sv_getAgent w h req of (agent, e) \<Rightarrow>
        (if isNotFound e then (None, reconcileSuccess emptyResult)
         else if e \<noteq> None then (None, reconcileFailure e)
         else (Some agent, reconcileContinue), h @ [CGet gvk_InstanaAgent req]))"

definition updateAgent ::
  "world \<Rightarrow> instanaAgent \<Rightarrow> instanaAgent \<Rightarrow> history \<Rightarrow> reconcileReturn \<times> history" where
  "updateAgent w agentOld agentNew h =
     (let e = sv_patchAgent w h agentOld agentNew
      in (if e = None then reconcileSuccess \<lparr>cr_Requeue = True\<rparr>
          else if isNotFound e then reconcileSuccess emptyResult
          else reconcileFailure e, h @ [CPatchAgent agentOld agentNew]))"

subsection \<open>\<open>reconciliation/helm\<close>\<close>

text \<open>The constructor panics when Helm cannot be initialised.\<close>

definition newHelmReconciliation :: "world \<Rightarrow> history \<Rightarrow> unit go \<times> history" where
  "newHelmReconciliation w h =
     (case sv_helmInit w h of
        Some e \<Rightarrow> (Panic (PVal (''Failed initializing Helm Reconciliation: '' @
          err_msg (EWrapf ''failure initializing Helm configuration: '' e ''''))), h @ [CHelmInit])
      | None \<Rightarrow> (Ret (), h @ [CHelmInit]))"

text \<open>
  \<open>Delete\<close>: the world says with the error whether it is \<open>driver.ErrReleaseNotFound\<close>.
\<close>

definition helm_Delete :: "world \<Rightarrow> history \<Rightarrow> error \<times> history" where
  "helm_Delete w h =
     (case sv_helmUninstall w h ''instana-agent'' of (releaseNotFound, e) \<Rightarrow>
        (if e \<noteq> None \<and> \<not> releaseNotFound then e else None, h @ [CHelmUninstall ''instana-agent'']))"

subsection \<open>\<open>cleanup.go\<close> and \<open>finalizer.go\<close>\<close>

definition cleanupHelmChart ::
  "world \<Rightarrow> operatorEnv \<Rightarrow> instanaAgent \<Rightarrow> history \<Rightarrow> reconcileReturn go \<times> history" where
  "cleanupHelmChart w oe agentOld h =
     (case oe_removeFinalizer oe finalizerV1 (ag_Finalizers agentOld) of (fs, removed) \<Rightarrow>
        let agentNew = set_finalizers fs agentOld in
        if \<not> removed then (Ret reconcileContinue, h)
        else (case newHelmReconciliation w h of
            (Panic p, h1) \<Rightarrow> (Panic p, h1)
          | (Ret _, h1) \<Rightarrow>
            (case helm_Delete w h1 of (e, h2) \<Rightarrow>
               if e \<noteq> None then (Ret (reconcileFailure e), h2)
               else (case updateAgent w agentOld agentNew h2 of (r, h3) \<Rightarrow> (Ret r, h3)))))"

definition ctrl_cleanupDependents ::
  "world \<Rightarrow> operatorEnv \<Rightarrow> instanaAgent \<Rightarrow> operatorUtils \<Rightarrow> history \<Rightarrow> reconcileReturn \<times> history" where
  "ctrl_cleanupDependents w oe agentOld ou h =
     (case oe_removeFinalizer oe finalizerV3 (ag_Finalizers agentOld) of (fs, removed) \<Rightarrow>
        let agentNew = set_finalizers fs agentOld in
        if \<not> removed then (reconcileContinue, h)
        else (case DeleteAll ou h of (e, h1) \<Rightarrow>
          if e \<noteq> None then (reconcileFailure e, h1) else updateAgent w agentOld agentNew h1))"

abbreviation cleanup_command :: string where "cleanup_command \<equiv> ''kubectl label node --all pool-''"

definition cleanupNodeLabels :: "history \<Rightarrow> history" where
  "cleanupNodeLabels h = h @ [CRunCommand cleanup_command]"

definition handleDeletion ::
  "world \<Rightarrow> operatorEnv \<Rightarrow> instanaAgent \<Rightarrow> operatorUtils \<Rightarrow> history \<Rightarrow> reconcileReturn go \<times> history" where
  "handleDeletion w oe agent ou h =
     (let h1 = cleanupNodeLabels h in
      if om_DeletionTimestamp (ag_Meta agent) = None then (Ret reconcileContinue, h1)
      else (case cleanupHelmChart w oe agent h1 of
          (Panic p, h2) \<Rightarrow> (Panic p, h2)
        | (Ret cleanupChartRes, h2) \<Rightarrow>
          if suppliesReconcileResult cleanupChartRes then (Ret cleanupChartRes, h2)
          else (case ctrl_cleanupDependents w oe agent ou h2 of (cleanupDependentsRes, h3) \<Rightarrow>
            if suppliesReconcileResult cleanupDependentsRes then (Ret cleanupDependentsRes, h3)
            else (Ret (reconcileSuccess emptyResult), h3))))"

definition addOrUpdateFinalizers ::
  "world \<Rightarrow> operatorEnv \<Rightarrow> instanaAgent \<Rightarrow> history \<Rightarrow> reconcileReturn go \<times> history" where
  "addOrUpdateFinalizers w oe agentOld h =
     (case cleanupHelmChart w oe agentOld h of
        (Panic p, h1) \<Rightarrow> (Panic p, h1)
      | (Ret removeHelmChartRes, h1) \<Rightarrow>
        if suppliesReconcileResult removeHelmChartRes then (Ret removeHelmChartRes, h1)
        else (case oe_addFinalizer oe finalizerV3 (ag_Finalizers agentOld) of (fs, added) \<Rightarrow>
          if added then (case updateAgent w agentOld (set_finalizers fs agentOld) h1 of (r, h2) \<Rightarrow> (Ret r, h2))
          else (Ret reconcileContinue, h1)))"

subsection \<open>\<open>apply.go\<close>: the builders\<close>

fun zoneSettings ::
  "world \<Rightarrow> instanaAgent \<Rightarrow> zone list \<Rightarrow> history \<Rightarrow> (bool list \<times> reconcileReturn) \<times> history" where
  "zoneSettings w agent [] h = (([], reconcileContinue), h)"
| "zoneSettings w agent (z # zs) h =
     (case shouldSetPersistHostUniqueIDEnvVar w agent (Some z) h of ((shouldSetForZone, r), h1) \<Rightarrow>
        if suppliesReconcileResult r then (([], r), h1)
        else (case zoneSettings w agent zs h1 of ((settings, r), h2) \<Rightarrow>
          ((shouldSetForZone # settings, r), h2)))"

definition getDaemonSetBuilders ::
  "world \<Rightarrow> instanaAgent \<Rightarrow> bool \<Rightarrow> bool \<Rightarrow> history \<Rightarrow>
   (agentStatusManager objectBuilder list \<times> reconcileReturn) \<times> history" where
  "getDaemonSetBuilders w agent isOS persist h =
     (let zones = sp_Zones (ag_Spec agent) in
      if length zones = 0 then (([newDaemonSetBuilder agent isOS persist], reconcileContinue), h)
      else (case zoneSettings w agent zones h of ((settings, r), h1) \<Rightarrow>
        if suppliesReconcileResult r then (([], r), h1)
        else ((map (\<lambda>(z, setting). newDaemonSetBuilderWithZoneInfo agent isOS (Some z) setting)
                 (zip zones settings), reconcileContinue), h1)))"

definition getK8sSensorDeployments ::
  "operatorEnv \<Rightarrow> instanaAgent \<Rightarrow> bool \<Rightarrow> k8SensorBackend list \<Rightarrow> k8sObject \<Rightarrow> deploymentContext option \<Rightarrow>
   agentStatusManager objectBuilder list" where
  "getK8sSensorDeployments oe agent isOS backends keysSecret ctx =
     map (\<lambda>backend. newDeploymentBuilder (oe_sha256 oe) agent isOS backend (Some keysSecret) ctx) backends"

definition agentBuilders ::
  "operatorEnv \<Rightarrow> instanaAgent \<Rightarrow> k8sObject \<Rightarrow> k8SensorBackend list \<Rightarrow> namespacesDetails \<Rightarrow>
   agentStatusManager objectBuilder list" where
  "agentBuilders oe agent keysSecret backends details =
     [agent_headlessService agent,
      newConfigBuilder (oe_encoders oe) agent (Some keysSecret) backends,
      newContainerBuilder (oe_encoders oe) agent (Some keysSecret),
      newTlsSecretBuilder agent,
      agent_service agent,
      agent_clusterRole agent,
      agent_clusterRoleBinding agent,
      agent_serviceAccount agent,
      k8sensor_podDisruptionBudget agent,
      k8sensor_clusterRole agent,
      k8sensor_clusterRoleBinding agent,
      k8sensor_role agent,
      k8sensor_roleBinding agent,
      k8sensor_serviceAccount agent,
      k8sensor_configMap agent backends,
      newKeysSecretBuilder agent backends,
      agent_namespacesConfigMap (oe_encoders oe) agent details]"

definition applyResources ::
  "world \<Rightarrow> operatorEnv \<Rightarrow> instanaAgent \<Rightarrow> bool \<Rightarrow> bool \<Rightarrow> operatorUtils \<Rightarrow> k8sObject \<Rightarrow> k8SensorBackend list \<Rightarrow>
   namespacesDetails \<Rightarrow> agentStatusManager \<Rightarrow> history \<Rightarrow> (reconcileReturn go \<times> agentStatusManager) \<times> history" where
  "applyResources w oe agent isOS persist ou keysSecret backends details s h =
     (case createDeploymentContext w agent isOS (discoverETCDEndpoints w (oe_codec oe) (oe_version oe)) h of
        ((deploymentContext, e), h1) \<Rightarrow>
      if e \<noteq> None then ((Ret (reconcileFailure e), s), h1)
      else (case getDaemonSetBuilders w agent isOS persist h1 of ((daemonSetBuilders, r), h2) \<Rightarrow>
        if suppliesReconcileResult r then ((Ret r, s), h2)
        else (let builders = daemonSetBuilders @ agentBuilders oe agent keysSecret backends details @
                getK8sSensorDeployments oe agent isOS backends keysSecret deploymentContext
          in case ApplyAll w ou builders s h2 of
               ((Panic p, s1), h3) \<Rightarrow> ((Panic p, s1), h3)
             | ((Ret e, s1), h3) \<Rightarrow>
               ((Ret (if e \<noteq> None then reconcileFailure e else reconcileContinue), s1), h3))))"

subsection \<open>\<open>instanaagent_controller.go\<close>\<close>

definition emptySecret :: k8sObject where
  "emptySecret = mkObject '''' '''' emptyMeta (SecretBody '''' None)"

text \<open>The user's keys secret; a failed read is only logged.\<close>

definition readKeysSecret :: "world \<Rightarrow> string \<Rightarrow> string \<Rightarrow> history \<Rightarrow> k8sObject \<times> history" where
  "readKeysSecret w name namespace h =
     (if name = '''' then (emptySecret, h)
      else (case client_Get w gvk_Secret \<lparr>nn_Namespace = namespace, nn_Name = name\<rparr> h of
        ((keysSecret, _), h1) \<Rightarrow> (keysSecret, h1)))"

text \<open>The part of \<open>reconcile\<close> after the finalizers are in place.\<close>

definition reconcileResources ::
  "world \<Rightarrow> operatorEnv \<Rightarrow> instanaAgent \<Rightarrow> operatorUtils \<Rightarrow> agentStatusManager \<Rightarrow> history \<Rightarrow>
   (reconcileReturn go \<times> agentStatusManager) \<times> history" where
  "reconcileResources w oe agent ou s h =
     (case isOpenShift w ou h of ((isOS, isOpenShiftRes), h1) \<Rightarrow>
      if suppliesReconcileResult isOpenShiftRes then ((Ret isOpenShiftRes, s), h1)
      else (case (if length (sp_Zones (ag_Spec agent)) = 0 then shouldSetPersistHostUniqueIDEnvVar w agent None h1
                  else ((False, reconcileContinue), h1)) of ((persist, shouldSetRes), h2) \<Rightarrow>
        if suppliesReconcileResult shouldSetRes then ((Ret shouldSetRes, s), h2)
        else (case readKeysSecret w (ba_KeysSecret (ag_Agent agent)) (ag_Namespace agent) h2 of (keysSecret, h3) \<Rightarrow>
          case getNamespacesWithLabels w h3 of ((namespacesList, _), h4) \<Rightarrow>
          case applyResources w oe agent isOS persist ou keysSecret (getK8SensorBackends agent) namespacesList s h4 of
            ((Panic p, s1), h5) \<Rightarrow> ((Panic p, s1), h5)
          | ((Ret applyResourcesRes, s1), h5) \<Rightarrow>
            ((Ret (if suppliesReconcileResult applyResourcesRes then applyResourcesRes
                   else reconcileSuccess emptyResult), s1), h5))))"

definition reconcile ::
  "world \<Rightarrow> operatorEnv \<Rightarrow> namespacedName \<Rightarrow> agentStatusManager \<Rightarrow> history \<Rightarrow>
   (reconcileReturn go \<times> agentStatusManager) \<times> history" where
  "reconcile w oe req s h =
     (case getAgent w req h of ((got, getAgentRes), h1) \<Rightarrow>
      if suppliesReconcileResult getAgentRes then ((Ret getAgentRes, s), h1)
      else (let s1 = setAgentOld (the got) s;
                agent = agent_Default (the got);
                ou = newOperatorUtils w (oe_codec oe) (oe_version oe) agent
        in case handleDeletion w oe agent ou h1 of
             (Panic p, h2) \<Rightarrow> ((Panic p, s1), h2)
           | (Ret handleDeletionRes, h2) \<Rightarrow>
             if suppliesReconcileResult handleDeletionRes then ((Ret handleDeletionRes, s1), h2)
             else (case addOrUpdateFinalizers w oe agent h2 of
                 (Panic p, h3) \<Rightarrow> ((Panic p, s1), h3)
               | (Ret addFinalizerRes, h3) \<Rightarrow>
                 if suppliesReconcileResult addFinalizerRes then ((Ret addFinalizerRes, s1), h3)
                 else reconcileResources w oe agent ou s1 h3)))"

text \<open>The first deferred function to run: the status update, which sees the named result.\<close>

definition deferStatusUpdate ::
  "world \<Rightarrow> operatorEnv \<Rightarrow> agentStatusManager \<Rightarrow> error \<Rightarrow> history \<Rightarrow> error \<times> history" where
  "deferStatusUpdate w oe s reconcileErr h =
     (case updateAgentStatus w (oe_status oe) s reconcileErr h of (e, h1) \<Rightarrow>
        (if e \<noteq> None then meb_build (newMultiErrorBuilder [reconcileErr, e]) else reconcileErr, h1))"

text \<open>
  \<open>Reconcile\<close>. After a panic the named results still have their zero values when the status is
  updated; \<open>recovery.Catch\<close>, deferred first, runs last.
\<close>

definition Reconcile ::
  "world \<Rightarrow> operatorEnv \<Rightarrow> namespacedName \<Rightarrow> history \<Rightarrow> (ctrlResult \<times> error) \<times> history" where
  "Reconcile w oe req h =
     (case sv_getAgent w h req of (_, e) \<Rightarrow>
      let h1 = h @ [CGet gvk_InstanaAgent req] in
      if isNotFound e then ((emptyResult, None), h1)
      else (case reconcile w oe req newAgentStatusManager h1 of ((r, s), h2) \<Rightarrow>
        case bind_outcome r reconcileResult of
          Ret (result, reconcileErr) \<Rightarrow>
            (case deferStatusUpdate w oe s reconcileErr h2 of (reconcileErr, h3) \<Rightarrow> ((result, reconcileErr), h3))
        | Panic p \<Rightarrow>
            (case deferStatusUpdate w oe s None h2 of (reconcileErr, h3) \<Rightarrow>
              ((emptyResult, recovery_Catch (oe_stack oe) p reconcileErr), h3))))"

subsection \<open>Which operations leave the custom resource alone\<close>

fun no_patch :: "call \<Rightarrow> bool" where
  "no_patch (CPatchAgent _ _) = False"
| "no_patch (CPatchRemote _ _) = False"
| "no_patch _ = True"

lemma no_patch_simps [simp]:
  "update_call c d objects call \<Longrightarrow> no_patch call"
  "cleanup_call R objects call \<Longrightarrow> no_patch call"
  "status_call call \<Longrightarrow> no_patch call"
  by (cases call; simp add: update_call_def cleanup_call_def)+

lemma emits_isOpenShift: "emits no_patch (isOpenShift w ou)"
proof -
  have "emits no_patch (clusterIsOpenShift w ou)"
    unfolding clusterIsOpenShift_def [abs_def]
    by (intro emits_rules emits_bind emits_client_Exists) simp
  then show ?thesis
    unfolding isOpenShift_def [abs_def] by (intro emits_bind emits_rules)
qed


lemma emits_shouldSetPersist: "emits no_patch (shouldSetPersistHostUniqueIDEnvVar w agent z)"
  unfolding shouldSetPersistHostUniqueIDEnvVar_def [abs_def] Let_def
  by (intro emits_rules emits_bind emits_client_Get) simp

lemma emits_zoneSettings: "emits no_patch (zoneSettings w agent zones)"
  by (induction zones)
    (auto simp: zoneSettings.simps [abs_def] intro!: emits_rules emits_bind emits_shouldSetPersist)

lemma emits_getDaemonSetBuilders: "emits no_patch (getDaemonSetBuilders w agent isOS persist)"
  unfolding getDaemonSetBuilders_def [abs_def] Let_def
  by (intro emits_rules emits_bind emits_zoneSettings)

lemma emits_setupOpenShift: "emits no_patch (setupOpenShiftETCDMonitoring w agent)"
proof -
  have "emits no_patch (copyETCDResourcesToNamespace w agent cm secret)" for cm secret
    unfolding copyETCDResourcesToNamespace_def [abs_def]
    by (intro emits_rules emits_bind emits_client_Apply) simp_all
  moreover have "emits no_patch (\<lambda>h. (r, logAndCleanupETCDErrors w agent e1 e2 h))" for r e1 e2
    by (simp add: emits_def logAndCleanupETCDErrors_def cleanupCopiedETCDResources_def client_Delete_def)
  ultimately show ?thesis unfolding setupOpenShiftETCDMonitoring_def [abs_def]
    by (intro emits_rules emits_bind emits_client_Get) simp_all
qed

lemma emits_firstService:
  "list_all (emits P) lookups \<Longrightarrow> emits P (firstService lookups)"
  by (induction lookups)
    (auto simp: firstService.simps [abs_def] intro!: emits_rules emits_bind)

lemma emits_getService:
  "emits no_patch (getServiceByName w name)" "emits no_patch (getServiceWithLabel w name k v)"
proof -
  show *: "emits no_patch (getServiceByName w name)" for name
    unfolding getServiceByName_def [abs_def] by (intro emits_rules emits_bind emits_client_Get) simp
  show "emits no_patch (getServiceWithLabel w name k v)"
    unfolding getServiceWithLabel_def [abs_def] by (intro emits_rules emits_bind *)
qed

lemma emits_buildTargets: "emits no_patch (buildTargetsFromEndpoints w service port scheme)"
proof -
  have "emits no_patch (\<lambda>h. buildTargetsFromLegacyEndpoints w service port scheme h)"
    by (auto simp: emits_def buildTargetsFromLegacyEndpoints_def Let_def split: prod.split)
  from emits_after [OF this] show ?thesis
    unfolding buildTargetsFromEndpoints_def [abs_def] Let_def
    by (intro emits_response emits_if emits_call emits_bind emits_rules) simp_all
qed

lemma emits_discoverETCD: "emits no_patch (discoverETCDEndpoints w c ver agent)"
proof -
  have "emits no_patch (shouldSkipDiscovery w c ver agent)"
    unfolding shouldSkipDiscovery_def [abs_def] by (intro emits_rules emits_bind emits_isOpenShift)
  moreover have "emits no_patch (findETCDService w)"
    unfolding findETCDService_def [abs_def] by (intro emits_firstService) (simp add: emits_getService)
  moreover have "emits no_patch (checkCASecretExists w agent)"
    unfolding checkCASecretExists_def [abs_def] by (intro emits_rules emits_bind emits_client_Get) simp
  ultimately show ?thesis unfolding discoverETCDEndpoints_def [abs_def]
    by (intro emits_rules emits_bind emits_buildTargets)
qed

lemma emits_createDeploymentContext:
  "emits no_patch (createDeploymentContext w agent isOS (discoverETCDEndpoints w c ver))"
  unfolding createDeploymentContext_def [abs_def]
  by (intro emits_rules emits_bind emits_setupOpenShift emits_discoverETCD emits_client_Get) simp

context operator_utils
begin

lemma emits_ApplyAll: "emits no_patch (ApplyAll w ou builders s)"
proof (rule emitsI)
  fix h
  obtain r s' h' where run: "ApplyAll w ou builders s h = ((r, s'), h')" by (metis surj_pair)
  from ApplyAll_phases [OF run] obtain dryObjects objects upd app del where
    "apply_all_phases w ou c d builders s h h' dryObjects objects upd app del" by blast
  then have h': "h' = h @ map (apply_call True) dryObjects @ upd @ app @ del"
    and upd: "list_all no_patch upd" and del: "list_all no_patch del"
    and app: "app = [] \<or> app = map (apply_call False) objects"
    by (auto simp: apply_all_phases_def Let_def elim!: list.pred_mono_strong)
  have "list_all no_patch (map (apply_call True) dryObjects @ upd @ app @ del)"
    using upd del app by (auto simp: list.pred_map list_all_iff)
  with h' run show "\<exists>tr. snd (ApplyAll w ou builders s h) = h @ tr \<and> list_all no_patch tr" by auto
qed

lemma emits_DeleteAll: "emits no_patch (DeleteAll ou)"
  unfolding DeleteAll_def [abs_def] by (rule emits_mono [OF cleanup_emits]) simp

end

text \<open>Everything after the finalizers are in place leaves the custom resource alone.\<close>

lemma emits_applyResources:
  "emits no_patch (applyResources w oe agent isOS persist (newOperatorUtils w c ver agent)
     keysSecret backends details s)"
  unfolding applyResources_def [abs_def] Let_def
  by (intro emits_rules emits_bind emits_createDeploymentContext emits_getDaemonSetBuilders
      agent_ou.emits_ApplyAll)

lemma emits_readKeysSecret: "emits no_patch (readKeysSecret w name namespace)"
  unfolding readKeysSecret_def [abs_def] by (intro emits_rules emits_bind emits_client_Get) simp

lemma emits_getNamespaces: "emits no_patch (getNamespacesWithLabels w)"
  by (auto simp: emits_def getNamespacesWithLabels_def Let_def split: prod.split option.split)

lemma emits_reconcileResources:
  "emits no_patch (reconcileResources w oe agent (newOperatorUtils w c ver agent) s)"
  unfolding reconcileResources_def [abs_def]
  by (intro emits_rules emits_bind emits_isOpenShift emits_shouldSetPersist emits_readKeysSecret
      emits_getNamespaces emits_applyResources)

fun status_update_call :: "call \<Rightarrow> bool" where
  "status_update_call (CStatusPatchAgent _ _) = True"
| "status_update_call c = status_call c"

lemma emits_deferStatusUpdate: "emits status_update_call (deferStatusUpdate w oe s reconcileErr)"
proof -
  have "emits status_update_call (updateAgentStatus w (oe_status oe) s reconcileErr)"
  proof (cases "sm_agentOld s")
    case None
    then show ?thesis by (simp add: updateAgentStatus_def [abs_def] emits_return)
  next
    case (Some old)
    have "\<exists>tr. snd (updateAgentStatus w (oe_status oe) s reconcileErr h) = h @ tr \<and> list_all status_update_call tr" for h
    proof -
      obtain r h1 where run: "agentWithUpdatedStatus w (oe_status oe) s reconcileErr h = (r, h1)" by force
      with agentWithUpdatedStatus_shape [OF Some, of w "oe_status oe" reconcileErr h] obtain tr where
        "h1 = h @ tr" "list_all status_call tr" by auto
      moreover from this(2) have "list_all status_update_call tr" by (rule list.pred_mono_strong) (case_tac z; simp)
      ultimately have "h1 = h @ tr" "list_all status_update_call tr" by blast+
      then show ?thesis using updateAgentStatus_run [OF Some run] by (auto simp: Let_def)
    qed
    then show ?thesis by (simp add: emits_def)
  qed
  then show ?thesis unfolding deferStatusUpdate_def [abs_def] by (rule emits_result)
qed

subsection \<open>The finalizers as a state machine\<close>

text \<open>
  One reconciliation sees the custom resource with a set of finalizers, under deletion or not.
  \<open>finalizer_step\<close> says which change of the set it may ask for.
\<close>

inductive finalizer_step :: "bool \<Rightarrow> string set \<Rightarrow> string set \<Rightarrow> bool" where
  drop_chart: "finalizerV1 \<in> F \<Longrightarrow> finalizer_step deleting F (F - {finalizerV1})"
| add: "finalizerV1 \<notin> F \<Longrightarrow> finalizerV3 \<notin> F \<Longrightarrow> finalizer_step False F (insert finalizerV3 F)"
| release: "finalizerV1 \<notin> F \<Longrightarrow> finalizerV3 \<in> F \<Longrightarrow> finalizer_step True F (F - {finalizerV3})"

text \<open>
  The part of a reconciliation that deals with the finalizers, from \<open>handleDeletion\<close> to the end of
  \<open>addOrUpdateFinalizers\<close>: its calls, and whether the reconciliation goes on.
\<close>

abbreviation ag_deleting :: "instanaAgent \<Rightarrow> bool" where
  "ag_deleting a \<equiv> om_DeletionTimestamp (ag_Meta a) \<noteq> None"

abbreviation ag_FinalizerSet :: "instanaAgent \<Rightarrow> string set" where
  "ag_FinalizerSet a \<equiv> set (ag_Finalizers a)"

inductive finalizer_phase ::
  "world \<Rightarrow> operatorUtils \<Rightarrow> instanaAgent \<Rightarrow> history \<Rightarrow> history \<Rightarrow> bool \<Rightarrow> bool"
  for w :: world and ou :: operatorUtils and a :: instanaAgent where
  helm_init_fails: "finalizerV1 \<in> ag_FinalizerSet a \<Longrightarrow> sv_helmInit w h \<noteq> None \<Longrightarrow>
    finalizer_phase w ou a h (h @ [CHelmInit]) False"
| helm_uninstall_fails: "finalizerV1 \<in> ag_FinalizerSet a \<Longrightarrow> fst (helm_Delete w (h @ [CHelmInit])) \<noteq> None \<Longrightarrow>
    finalizer_phase w ou a h (h @ [CHelmInit, CHelmUninstall ''instana-agent'']) False"
| chart_dropped: "finalizerV1 \<in> ag_FinalizerSet a \<Longrightarrow> sv_helmInit w h = None \<Longrightarrow>
    fst (helm_Delete w (h @ [CHelmInit])) = None \<Longrightarrow> set fs = ag_FinalizerSet a - {finalizerV1} \<Longrightarrow>
    finalizer_phase w ou a h
      (h @ [CHelmInit, CHelmUninstall ''instana-agent'', CPatchAgent a (set_finalizers fs a)]) False"
| cleanup_fails: "ag_deleting a \<Longrightarrow> finalizerV1 \<notin> ag_FinalizerSet a \<Longrightarrow> finalizerV3 \<in> ag_FinalizerSet a \<Longrightarrow>
    DeleteAll ou h = (Some e, h1) \<Longrightarrow> finalizer_phase w ou a h h1 False"
| released: "ag_deleting a \<Longrightarrow> finalizerV1 \<notin> ag_FinalizerSet a \<Longrightarrow> finalizerV3 \<in> ag_FinalizerSet a \<Longrightarrow>
    DeleteAll ou h = (None, h1) \<Longrightarrow> set fs = ag_FinalizerSet a - {finalizerV3} \<Longrightarrow>
    finalizer_phase w ou a h (h1 @ [CPatchAgent a (set_finalizers fs a)]) False"
| gone: "ag_deleting a \<Longrightarrow> finalizerV1 \<notin> ag_FinalizerSet a \<Longrightarrow> finalizerV3 \<notin> ag_FinalizerSet a \<Longrightarrow>
    finalizer_phase w ou a h h False"
| added: "\<not> ag_deleting a \<Longrightarrow> finalizerV1 \<notin> ag_FinalizerSet a \<Longrightarrow> finalizerV3 \<notin> ag_FinalizerSet a \<Longrightarrow>
    set fs = insert finalizerV3 (ag_FinalizerSet a) \<Longrightarrow>
    finalizer_phase w ou a h (h @ [CPatchAgent a (set_finalizers fs a)]) False"
| ready: "\<not> ag_deleting a \<Longrightarrow> finalizerV1 \<notin> ag_FinalizerSet a \<Longrightarrow> finalizerV3 \<in> ag_FinalizerSet a \<Longrightarrow>
    finalizer_phase w ou a h h True"

inductive_cases finalizer_phaseE: "finalizer_phase w ou a h h' continues"
inductive_cases finalizer_readyE: "finalizer_phase w ou a h h' True"

lemma set_finalizers_simps [simp]:
  "ag_Finalizers (set_finalizers fs a) = fs"
  "om_DeletionTimestamp (ag_Meta (set_finalizers fs a)) = om_DeletionTimestamp (ag_Meta a)"
  "set_finalizers fs (set_finalizers gs a) = set_finalizers fs a"
  by (simp_all add: set_finalizers_def)

text \<open>Whether a step ends the reconciliation, by a result or by a panic.\<close>

fun finishes :: "reconcileReturn go \<Rightarrow> bool" where
  "finishes (Ret r) = suppliesReconcileResult r"
| "finishes (Panic p) = True"

lemma updateAgent_eq [simp]:
  "snd (updateAgent w old new h) = h @ [CPatchAgent old new]"
  "suppliesReconcileResult (fst (updateAgent w old new h))"
  by (simp_all add: updateAgent_def Let_def)

lemma removeFinalizerE:
  assumes "finalizer_laws oe"
  obtains fs where "oe_removeFinalizer oe f gs = (fs, f \<in> set gs)" "set fs = set gs - {f}"
  by (rule that [of "fst (oe_removeFinalizer oe f gs)"])
    (use assms in \<open>simp_all add: finalizer_laws_def prod_eq_iff\<close>)

lemma addFinalizerE:
  assumes "finalizer_laws oe"
  obtains fs where "oe_addFinalizer oe f gs = (fs, f \<notin> set gs)" "set fs = insert f (set gs)"
  by (rule that [of "fst (oe_addFinalizer oe f gs)"])
    (use assms in \<open>simp_all add: finalizer_laws_def prod_eq_iff\<close>)

lemma helm_Delete_calls [simp]: "snd (helm_Delete w h) = h @ [CHelmUninstall ''instana-agent'']"
  by (simp add: helm_Delete_def split_beta)

lemma cleanupHelmChart_absent:
  assumes "finalizer_laws oe" and "finalizerV1 \<notin> ag_FinalizerSet a"
  shows "cleanupHelmChart w oe a h = (Ret reconcileContinue, h)"
  by (rule removeFinalizerE [OF assms(1), of finalizerV1 "ag_Finalizers a"])
    (simp add: cleanupHelmChart_def assms(2))

lemma cleanupHelmChart_present:
  assumes laws: "finalizer_laws oe" and V1: "finalizerV1 \<in> ag_FinalizerSet a"
  shows "finishes (fst (cleanupHelmChart w oe a h)) \<and>
    finalizer_phase w ou a h (snd (cleanupHelmChart w oe a h)) False"
proof -
  obtain fs where rm: "oe_removeFinalizer oe finalizerV1 (ag_Finalizers a) = (fs, True)"
    and fs: "set fs = ag_FinalizerSet a - {finalizerV1}"
    using removeFinalizerE [OF laws, of finalizerV1 "ag_Finalizers a"] V1 by auto
  show ?thesis
  proof (cases "sv_helmInit w h")
    case (Some e)
    with V1 rm show ?thesis
      by (auto simp: cleanupHelmChart_def newHelmReconciliation_def intro: helm_init_fails)
  next
    case None
    have eq: "cleanupHelmChart w oe a h = (let e = fst (helm_Delete w (h @ [CHelmInit]));
        h2 = h @ [CHelmInit, CHelmUninstall ''instana-agent''] in
        if e \<noteq> None then (Ret (reconcileFailure e), h2)
        else (Ret (fst (updateAgent w a (set_finalizers fs a) h2)),
              h2 @ [CPatchAgent a (set_finalizers fs a)]))"
      unfolding cleanupHelmChart_def newHelmReconciliation_def rm None by (simp add: split_beta)
    show ?thesis
    proof (cases "fst (helm_Delete w (h @ [CHelmInit]))")
      case None': None
      with eq chart_dropped [OF V1 None None' fs, of ou] show ?thesis by simp
    next
      case (Some e)
      with eq V1 show ?thesis by (auto intro: helm_uninstall_fails)
    qed
  qed
qed

lemma handleDeletion_deleting:
  assumes laws: "finalizer_laws oe" and del: "ag_deleting a"
  shows "finishes (fst (handleDeletion w oe a ou h)) \<and>
    finalizer_phase w ou a (cleanupNodeLabels h) (snd (handleDeletion w oe a ou h)) False"
proof (cases "finalizerV1 \<in> ag_FinalizerSet a")
  case True
  from cleanupHelmChart_present [OF laws this, of w "cleanupNodeLabels h" ou] del show ?thesis
    by (auto simp: handleDeletion_def Let_def split: prod.splits outcome.splits)
next
  case V1: False
  let ?h = "cleanupNodeLabels h"
  obtain fs where rm: "oe_removeFinalizer oe finalizerV3 (ag_Finalizers a) =
      (fs, finalizerV3 \<in> ag_FinalizerSet a)"
    and fs: "set fs = ag_FinalizerSet a - {finalizerV3}"
    by (rule removeFinalizerE [OF laws])
  have hd: "handleDeletion w oe a ou h = (case ctrl_cleanupDependents w oe a ou ?h of (r, h3) \<Rightarrow>
      if suppliesReconcileResult r then (Ret r, h3) else (Ret (reconcileSuccess emptyResult), h3))"
    using del by (auto simp: handleDeletion_def Let_def cleanupHelmChart_absent [OF laws V1])
  show ?thesis
  proof (cases "finalizerV3 \<in> ag_FinalizerSet a")
    case False
    with rm hd gone [OF del V1 False] show ?thesis by (simp add: ctrl_cleanupDependents_def)
  next
    case V3: True
    obtain e h1 where da: "DeleteAll ou ?h = (e, h1)" by force
    show ?thesis
    proof (cases e)
      case None
      with hd rm V3 da released [OF del V1 V3 _ fs, of ou ?h h1] show ?thesis
        by (simp add: ctrl_cleanupDependents_def split_beta)
    next
      case (Some x)
      with hd rm V3 da cleanup_fails [OF del V1 V3, of ou ?h x h1] show ?thesis
        by (simp add: ctrl_cleanupDependents_def)
    qed
  qed
qed

lemma addOrUpdateFinalizers_phase:
  assumes laws: "finalizer_laws oe" and del: "\<not> ag_deleting a"
  shows "finalizer_phase w ou a h (snd (addOrUpdateFinalizers w oe a h))
    (\<not> finishes (fst (addOrUpdateFinalizers w oe a h)))"
proof (cases "finalizerV1 \<in> ag_FinalizerSet a")
  case True
  from cleanupHelmChart_present [OF laws this, of w h ou] show ?thesis
    by (auto simp: addOrUpdateFinalizers_def Let_def split: prod.splits outcome.splits)
next
  case V1: False
  obtain fs where "oe_addFinalizer oe finalizerV3 (ag_Finalizers a) = (fs, finalizerV3 \<notin> ag_FinalizerSet a)"
    and fs: "set fs = insert finalizerV3 (ag_FinalizerSet a)"
    by (rule addFinalizerE [OF laws])
  then show ?thesis
    using added [OF del V1 _ fs] ready [OF del V1]
    by (auto simp: addOrUpdateFinalizers_def cleanupHelmChart_absent [OF laws V1] split_beta)
qed

subsection \<open>A whole reconciliation\<close>

lemma agent_Default_Meta [simp]: "ag_Meta (agent_Default a) = ag_Meta a"
  by (simp add: agent_Default_def Let_def)

abbreviation agentUtils :: "world \<Rightarrow> operatorEnv \<Rightarrow> instanaAgent \<Rightarrow> operatorUtils" where
  "agentUtils w oe a \<equiv> newOperatorUtils w (oe_codec oe) (oe_version oe) a"

abbreviation getAgentCall :: "namespacedName \<Rightarrow> call" where
  "getAgentCall req \<equiv> CGet gvk_InstanaAgent req"

text \<open>
  \<open>reconcile\<close> after the agent was fetched: the finalizer phase, then the resources if the phase
  says so.
\<close>

lemma reconcile_phase:
  assumes laws: "finalizer_laws oe" and got: "sv_getAgent w h req = (a0, None)"
    and run: "reconcile w oe req s h = ((r, s'), h')"
  defines "a \<equiv> agent_Default a0"
  shows "\<exists>h1 continues. finalizer_phase w (agentUtils w oe a) a (h @ [getAgentCall req, CRunCommand cleanup_command]) h1 continues \<and>
    (if continues then reconcileResources w oe a (agentUtils w oe a) (setAgentOld a0 s) h1 = ((r, s'), h')
     else finishes r \<and> s' = setAgentOld a0 s \<and> h' = h1)"
proof -
  let ?ou = "agentUtils w oe a" and ?h1 = "h @ [getAgentCall req]" and ?s = "setAgentOld a0 s"
  have lab: "cleanupNodeLabels ?h1 = h @ [getAgentCall req, CRunCommand cleanup_command]"
    by (simp add: cleanupNodeLabels_def)
  obtain r1 h2 where hd: "handleDeletion w oe a ?ou ?h1 = (r1, h2)" by force
  have ga: "getAgent w req h = ((Some a0, reconcileContinue), ?h1)"
    using got by (simp add: getAgent_def isNotFound_def)
  show ?thesis
  proof (cases "ag_deleting a")
    case True
    from handleDeletion_deleting [OF laws this, of w ?ou ?h1] hd run show ?thesis
      unfolding reconcile_def ga lab
      by (intro exI [of _ h2] exI [of _ False]) (cases r1; auto simp: Let_def simp flip: a_def)
  next
    case False
    then have hd': "handleDeletion w oe a ?ou ?h1 = (Ret reconcileContinue, cleanupNodeLabels ?h1)"
      by (simp add: handleDeletion_def Let_def)
    obtain r2 h3 where au: "addOrUpdateFinalizers w oe a (cleanupNodeLabels ?h1) = (r2, h3)" by force
    from addOrUpdateFinalizers_phase [OF laws False, of w ?ou "cleanupNodeLabels ?h1"] au run show ?thesis
      unfolding reconcile_def ga lab
      by (intro exI [of _ h3] exI [of _ "\<not> finishes r2"])
        (cases r2; auto simp: Let_def hd' lab simp flip: a_def split: if_splits)
  qed
qed

text \<open>What a run of \<open>Reconcile\<close> has done when its deferred status update starts.\<close>

lemma Reconcile_phase:
  assumes laws: "finalizer_laws oe" and run: "Reconcile w oe req h = (out, h')"
  defines "h0 \<equiv> h @ [getAgentCall req]"
  shows "((isNotFound (snd (sv_getAgent w h req)) \<and> h' = h0) \<or>
      (snd (sv_getAgent w h0 req) \<noteq> None \<and> h' = h0 @ [getAgentCall req])) \<or>
    (\<exists>a0 h1 h2 continues. sv_getAgent w h0 req = (a0, None) \<and>
       finalizer_phase w (agentUtils w oe (agent_Default a0)) (agent_Default a0)
         (h0 @ [getAgentCall req, CRunCommand cleanup_command]) h1 continues \<and>
       (if continues then h2 = snd (reconcileResources w oe (agent_Default a0) (agentUtils w oe (agent_Default a0))
            (setAgentOld a0 newAgentStatusManager) h1) else h2 = h1) \<and>
       (\<exists>tr. h' = h2 @ tr \<and> list_all status_update_call tr))"
proof (cases "isNotFound (snd (sv_getAgent w h req))")
  case True
  with run show ?thesis by (auto simp: Reconcile_def h0_def split_beta)
next
  case False
  obtain r s h2 where rec: "reconcile w oe req newAgentStatusManager h0 = ((r, s), h2)" by (metis surj_pair)
  have "\<exists>e. h' = snd (deferStatusUpdate w oe s e h2)"
    using run False rec
    by (auto simp: Reconcile_def h0_def Let_def split: prod.splits outcome.splits) (metis snd_conv)+
  then obtain e where h': "h' = snd (deferStatusUpdate w oe s e h2)" ..
  then obtain tr where tr: "h' = h2 @ tr" "list_all status_update_call tr"
    using emits_deferStatusUpdate [of w oe s e] by (metis emitsE)
  obtain a0 e0 where got: "sv_getAgent w h0 req = (a0, e0)" by force
  show ?thesis
  proof (cases e0)
    case None
    with reconcile_phase [OF laws _ rec] got tr show ?thesis by (fastforce split: if_splits)
  next
    case (Some x)
    then have "s = newAgentStatusManager" "h2 = h0 @ [getAgentCall req]"
      using rec got by (auto simp: reconcile_def getAgent_def split: if_splits)
    then show ?thesis using h' got Some
      by (simp add: deferStatusUpdate_def updateAgentStatus_def newAgentStatusManager_def)
  qed
qed

text \<open>The patch of a finalizer phase: at most one, the last call, and a step of the machine.\<close>

definition guarded_patch ::
  "world \<Rightarrow> operatorUtils \<Rightarrow> instanaAgent \<Rightarrow> instanaAgent \<Rightarrow> history \<Rightarrow> bool" where
  "guarded_patch w ou old new h \<longleftrightarrow>
     new = set_finalizers (ag_Finalizers new) old \<and>
     finalizer_step (ag_deleting old) (ag_FinalizerSet old) (ag_FinalizerSet new) \<and>
     (finalizerV3 \<in> ag_FinalizerSet old - ag_FinalizerSet new \<longrightarrow>
        ag_deleting old \<and> (\<exists>g. DeleteAll ou g = (None, h))) \<and>
     (finalizerV1 \<in> ag_FinalizerSet old - ag_FinalizerSet new \<longrightarrow>
        (\<exists>g. helm_Delete w g = (None, h)))"

lemma phase_patch:
  assumes "finalizer_phase w (agentUtils w oe a) a h h1 continues"
  shows "\<exists>tr. list_all no_patch tr \<and> (h1 = h @ tr \<or>
    (\<exists>new. h1 = h @ tr @ [CPatchAgent a new] \<and> \<not> continues \<and> guarded_patch w (agentUtils w oe a) a new (h @ tr)))"
  using assms
proof cases
  case (chart_dropped fs)
  then have "guarded_patch w (agentUtils w oe a) a (set_finalizers fs a)
      (h @ [CHelmInit, CHelmUninstall ''instana-agent''])"
    by (auto simp: guarded_patch_def prod_eq_iff intro: finalizer_step.intros)
  with chart_dropped show ?thesis
    by (intro exI [of _ "[CHelmInit, CHelmUninstall ''instana-agent'']"]) auto
next
  case (cleanup_fails e)
  then show ?thesis using agent_ou.emits_DeleteAll [of w "oe_codec oe" "oe_version oe" a]
    by (metis emitsE snd_conv)
next
  case (released h2 fs)
  then obtain tr where "h2 = h @ tr" "list_all no_patch tr"
    using agent_ou.emits_DeleteAll [of w "oe_codec oe" "oe_version oe" a] by (metis emitsE snd_conv)
  moreover have "finalizer_step (ag_deleting a) (ag_FinalizerSet a) (set fs)"
    using released finalizer_step.release [of "ag_FinalizerSet a"] by simp
  then have "guarded_patch w (agentUtils w oe a) a (set_finalizers fs a) h2"
    using released by (auto simp: guarded_patch_def)
  ultimately show ?thesis using released by auto
next
  case (added fs)
  then have "guarded_patch w (agentUtils w oe a) a (set_finalizers fs a) h"
    using finalizer_step.add [of "ag_FinalizerSet a"] by (auto simp: guarded_patch_def)
  with added show ?thesis by (intro exI [of _ "[]"]) auto
qed auto

subsection \<open>Properties\<close>

lemma status_update_no_patch [simp]: "status_update_call c \<Longrightarrow> no_patch c"
  by (cases c) simp_all

lemma list_all_no_patch:
  "list_all status_update_call tr \<Longrightarrow> list_all no_patch tr"
  by (erule list.pred_mono_strong) simp

lemma no_patch_notin: "list_all no_patch tr \<Longrightarrow> CPatchAgent old new \<notin> set tr"
  by (auto simp: list_all_iff)

text \<open>
  C2: the finalizers of an agent follow a state machine. A reconciliation patches the custom
  resource at most once; the patch changes the finalizers of the agent just fetched and nothing
  else, and is one of three steps: the finalizer of the old Helm installation is dropped right
  after Helm reported the release uninstalled, the finalizer of the operator is added to an agent
  that is not under deletion, or it is dropped from one that is, right after the clean-up of all
  recorded dependents returned no error.
\<close>

theorem finalizer_patches_guarded:
  assumes laws: "finalizer_laws oe" and run: "Reconcile w oe req h = (out, h')"
    and patch: "CPatchAgent old new \<in> set (drop (length h) h')"
  shows "\<exists>pre post a0. h' = h @ pre @ [CPatchAgent old new] @ post \<and>
    list_all no_patch (pre @ post) \<and>
    sv_getAgent w (h @ [getAgentCall req]) req = (a0, None) \<and> old = agent_Default a0 \<and>
    guarded_patch w (agentUtils w oe old) old new (h @ pre)"
proof -
  let ?h0 = "h @ [getAgentCall req]"
  have "CPatchAgent old new \<notin> set (drop (length h) h')"
    if "h' = ?h0 \<or> h' = ?h0 @ [getAgentCall req]" using that by auto
  with Reconcile_phase [OF laws run] patch obtain a0 h1 h2 continues tr where
    got: "sv_getAgent w ?h0 req = (a0, None)" and
    ph: "finalizer_phase w (agentUtils w oe (agent_Default a0)) (agent_Default a0)
         (?h0 @ [getAgentCall req, CRunCommand cleanup_command]) h1 continues" and
    rest: "if continues then h2 = snd (reconcileResources w oe (agent_Default a0)
      (agentUtils w oe (agent_Default a0)) (setAgentOld a0 newAgentStatusManager) h1) else h2 = h1" and
    tr: "h' = h2 @ tr" "list_all status_update_call tr" by blast
  define a where "a = agent_Default a0"
  note ph = ph [folded a_def] and rest = rest [folded a_def]
  obtain tr1 where tr1: "h2 = h1 @ tr1" "list_all no_patch tr1" "continues \<or> tr1 = []"
    using emits_reconcileResources [of w oe a "oe_codec oe" "oe_version oe" "setAgentOld a0 newAgentStatusManager"]
      rest by (cases continues) (auto elim!: emitsE [of _ _ h1])
  from phase_patch [OF ph] obtain tr0 where tr0: "list_all no_patch tr0" and
    h1: "h1 = (?h0 @ [getAgentCall req, CRunCommand cleanup_command]) @ tr0 \<or>
     (\<exists>new. h1 = (?h0 @ [getAgentCall req, CRunCommand cleanup_command]) @ tr0 @ [CPatchAgent a new] \<and> \<not> continues \<and>
       guarded_patch w (agentUtils w oe a) a new ((?h0 @ [getAgentCall req, CRunCommand cleanup_command]) @ tr0))"
    by blast
  let ?pre = "[getAgentCall req, getAgentCall req, CRunCommand cleanup_command] @ tr0"
  show ?thesis
  proof (cases "h1 = h @ ?pre")
    case True
    then have "drop (length h) h' = ?pre @ tr1 @ tr" using tr(1) tr1(1) by simp
    with patch tr0 tr1 tr(2) show ?thesis by (auto simp: no_patch_notin list_all_no_patch)
  next
    case False
    with h1 obtain new' where h1: "h1 = h @ ?pre @ [CPatchAgent a new']" "\<not> continues"
      "guarded_patch w (agentUtils w oe a) a new' (h @ ?pre)" by auto
    then have h': "h' = h @ ?pre @ [CPatchAgent a new'] @ tr" using tr(1) tr1 by simp
    with patch tr0 tr(2) have "old = a" "new = new'" by (auto simp: no_patch_notin list_all_no_patch)
    with h' h1 got tr0 tr(2) show ?thesis
      by (intro exI [of _ ?pre] exI [of _ tr] exI [of _ a0]) (simp add: list_all_no_patch a_def)
  qed
qed

text \<open>A server that stores what is patched, and a small environment of the operator.\<close>

definition current_agent :: "instanaAgent \<Rightarrow> history \<Rightarrow> instanaAgent" where
  "current_agent a0 h = fold (\<lambda>c a. case c of CPatchAgent old new \<Rightarrow> new | _ \<Rightarrow> a) h a0"

definition uninstallWorld :: "instanaAgent \<Rightarrow> world" where
  "uninstallWorld a0 = (simWorld [] a0 exampleRemote)\<lparr>
     sv_get := (\<lambda>h gvk key. (emptyObject, Some notFoundErr)),
     sv_getAgent := (\<lambda>h key. (current_agent a0 h, None))\<rparr>"

definition exampleEncoders :: encoders where
  "exampleEncoders = \<lparr>yaml_OpenTelemetry = (\<lambda>_. ''''), yaml_PrometheusRemoteWrite = '''',
     yaml_DisableKubernetes = '''', yaml_Namespaces = (\<lambda>_. ('''', None)),
     json_DockerConfig = (\<lambda>_. ('''', None))\<rparr>"

definition exampleEnv :: operatorEnv where
  "exampleEnv = \<lparr>oe_codec = oneEntryCodec, oe_version = ''v1'', oe_status = exampleStatusEnv,
     oe_encoders = exampleEncoders, oe_sha256 = id, oe_stack = ''stack'',
     oe_addFinalizer = (\<lambda>f fs. if f \<in> set fs then (fs, False) else (fs @ [f], True)),
     oe_removeFinalizer = (\<lambda>f fs. (filter (\<lambda>g. g \<noteq> f) fs, f \<in> set fs))\<rparr>"

definition exampleKey :: namespacedName where
  "exampleKey = \<lparr>nn_Namespace = ''ns'', nn_Name = ''agent''\<rparr>"

definition agentWith :: "string list \<Rightarrow> int option \<Rightarrow> instanaAgent" where
  "agentWith fs deletion =
     exampleAgent\<lparr>ag_Meta := exampleMeta\<lparr>om_Finalizers := fs, om_DeletionTimestamp := deletion\<rparr>\<rparr>"

lemma agentWith_simps [simp]:
  "ag_Finalizers (agentWith fs deletion) = fs"
  "om_DeletionTimestamp (ag_Meta (agentWith fs deletion)) = deletion"
  by (simp_all add: agentWith_def)

lemma exampleEnv_laws [simp]: "finalizer_laws exampleEnv"
  by (auto simp: finalizer_laws_def exampleEnv_def)

lemma uninstallWorld_simps [simp]:
  "sv_get (uninstallWorld a0) h gvk key = (emptyObject, Some notFoundErr)"
  "sv_getAgent (uninstallWorld a0) h key = (current_agent a0 h, None)"
  "sv_apply (uninstallWorld a0) h obj dryRun = (obj, None)"
  "sv_patchAgent (uninstallWorld a0) h old new = None"
  "sv_helmInit (uninstallWorld a0) h = None"
  "sv_helmUninstall (uninstallWorld a0) h name = (False, None)"
  by (simp_all add: uninstallWorld_def simWorld_def)

lemma uninstallWorld_DeleteAll:
  "\<exists>g cm. DeleteAll (newOperatorUtils (uninstallWorld a0) c ver a) h = (None, h @ [g, CApply cm False])"
proof -
  let ?d = "newDependentLifecycleManager ver a"
  have "\<exists>g cm. cleanupOnce (uninstallWorld a0) c ?d [] h = (None, h @ [g, CApply cm False])"
    by (simp add: cleanupOnce_def getLifecycleConfigMap_def client_Get_def cm_Data_def emptyObject_def
        client_Apply_def result_defs newMultiErrorBuilder_def Let_def)
  then obtain g cm where "cleanupAttempt (uninstallWorld a0) c ?d [] h = ((True, None), h @ [g, CApply cm False])"
    by (auto simp: cleanupAttempt_def)
  from retry_first_finished [of "cleanupAttempt (uninstallWorld a0) c ?d []" h, OF this, of 5 "ms 100"] show ?thesis
    by (auto simp: DeleteAll_def newOperatorUtils_def Let_def cleanupDependents_def)
qed

abbreviation uninstalledAgent :: instanaAgent where
  "uninstalledAgent \<equiv> agentWith [finalizerV3] (Some 0)"

lemma uninstall_run:
  obtains out h' new cm where
    "Reconcile (uninstallWorld uninstalledAgent) exampleEnv exampleKey [] = (out, h')"
    "CPatchAgent (agent_Default uninstalledAgent) new \<in> set h'" "CApply cm False \<in> set h'"
proof -
  let ?w = "uninstallWorld uninstalledAgent" and ?old = "agent_Default uninstalledAgent"
  obtain out h' where run: "Reconcile ?w exampleEnv exampleKey [] = (out, h')" by (rule prod.exhaust)
  have cur: "current_agent uninstalledAgent [getAgentCall exampleKey] = uninstalledAgent"
    by (simp add: current_agent_def)
  obtain h1 tr where ph: "finalizer_phase ?w (agentUtils ?w exampleEnv ?old) ?old
      [getAgentCall exampleKey, getAgentCall exampleKey, CRunCommand cleanup_command] h1 False"
    and h': "h' = h1 @ tr"
    using Reconcile_phase [OF exampleEnv_laws run] cur
    by (auto simp: isNotFound_def split: if_splits elim: finalizer_readyE)
  from ph have "\<exists>new cm. CPatchAgent ?old new \<in> set h1 \<and> CApply cm False \<in> set h1"
    by (rule finalizer_phaseE)
      (use uninstallWorld_DeleteAll [of uninstalledAgent "oe_codec exampleEnv" "oe_version exampleEnv" ?old
         "[getAgentCall exampleKey, getAgentCall exampleKey, CRunCommand cleanup_command]"] in auto)
  with that [OF run] h' show thesis by auto
qed

theorem finalizer_patches_guarded_witness:
  "\<exists>out h' pre post new. let w = uninstallWorld uninstalledAgent; old = agent_Default uninstalledAgent in
     Reconcile w exampleEnv exampleKey [] = (out, h') \<and>
     h' = pre @ [CPatchAgent old new] @ post \<and> list_all no_patch (pre @ post) \<and>
     guarded_patch w (agentUtils w exampleEnv old) old new pre"
proof -
  obtain out h' new cm where
    run: "Reconcile (uninstallWorld uninstalledAgent) exampleEnv exampleKey [] = (out, h')"
    and patch: "CPatchAgent (agent_Default uninstalledAgent) new \<in> set h'" by (rule uninstall_run)
  from patch have "CPatchAgent (agent_Default uninstalledAgent) new \<in> set (drop (length ([] :: history)) h')"
    by simp
  from finalizer_patches_guarded [OF exampleEnv_laws run this] run show ?thesis
    by (auto simp: Let_def)
qed

text \<open>Calls that change objects of the cluster.\<close>

fun changes_objects :: "call \<Rightarrow> bool" where
  "changes_objects (CApply _ _) = True"
| "changes_objects (CDelete _) = True"
| "changes_objects _ = False"

lemma status_update_keeps_objects: "list_all status_update_call tr \<Longrightarrow> c \<in> set tr \<Longrightarrow> \<not> changes_objects c"
  by (cases c) (auto simp: list_all_iff)

lemma phase_quiet:
  assumes "finalizer_phase w ou a h h1 continues"
  shows "(finalizerV3 \<in> ag_FinalizerSet a \<and> finalizerV1 \<notin> ag_FinalizerSet a) \<or>
    (\<not> continues \<and> (\<exists>tr. h1 = h @ tr \<and> (\<forall>c\<in>set tr. \<not> changes_objects c)))"
  using assms by induction simp_all

text \<open>
  C3: nothing is applied to the cluster, and nothing deleted from it, on behalf of an agent that
  does not carry the operator's finalizer: whatever a reconciliation creates will be cleaned up
  before the custom resource can go. It also waits until the old Helm installation is gone.
\<close>

theorem changes_need_finalizer:
  assumes laws: "finalizer_laws oe" and run: "Reconcile w oe req h = (out, h')"
    and c: "c \<in> set (drop (length h) h')" "changes_objects c"
  shows "\<exists>a0. sv_getAgent w (h @ [getAgentCall req]) req = (a0, None) \<and>
    finalizerV3 \<in> ag_FinalizerSet a0 \<and> finalizerV1 \<notin> ag_FinalizerSet a0"
proof -
  let ?h0 = "h @ [getAgentCall req]"
  have "\<not> (h' = ?h0 \<or> h' = ?h0 @ [getAgentCall req])" using c by auto
  with Reconcile_phase [OF laws run] obtain a0 h1 h2 continues tr where
    got: "sv_getAgent w ?h0 req = (a0, None)" and
    ph: "finalizer_phase w (agentUtils w oe (agent_Default a0)) (agent_Default a0)
         (?h0 @ [getAgentCall req, CRunCommand cleanup_command]) h1 continues" and
    rest: "continues \<or> h2 = h1" and tr: "h' = h2 @ tr" "list_all status_update_call tr"
    by metis
  have quiet: "c \<notin> set tr" using tr(2) c(2) status_update_keeps_objects by blast
  then have c1: "continues \<or> c \<in> set (drop (length h) h1)"
    using c(1) tr(1) rest by (auto dest: in_set_dropD)
  show ?thesis
  proof (rule ccontr)
    assume "\<not> ?thesis"
    with phase_quiet [OF ph] got obtain tr0 where "\<not> continues"
      "h1 = (?h0 @ [getAgentCall req, CRunCommand cleanup_command]) @ tr0" "\<forall>c\<in>set tr0. \<not> changes_objects c"
      by auto
    with c1 c(2) show False by auto
  qed
qed

theorem changes_need_finalizer_witness:
  "\<exists>out h' c. let w = uninstallWorld uninstalledAgent in
     Reconcile w exampleEnv exampleKey [] = (out, h') \<and> c \<in> set h' \<and> changes_objects c \<and>
     (\<exists>a0. sv_getAgent w [getAgentCall exampleKey] exampleKey = (a0, None) \<and>
        finalizerV3 \<in> ag_FinalizerSet a0 \<and> finalizerV1 \<notin> ag_FinalizerSet a0)"
proof -
  obtain out h' new cm where
    run: "Reconcile (uninstallWorld uninstalledAgent) exampleEnv exampleKey [] = (out, h')"
    and c: "CApply cm False \<in> set h'" by (rule uninstall_run)
  from c have c': "CApply cm False \<in> set (drop (length ([] :: history)) h')" by simp
  show ?thesis unfolding Let_def
    using run c changes_need_finalizer [OF exampleEnv_laws run c']
    by (intro exI [of _ out] exI [of _ h'] exI [of _ "CApply cm False"]) auto
qed

text \<open>
  C19: a panic during a reconciliation is reported in two ways. The caller gets an error that
  wraps the recovered panic, so the request is retried. The status of the custom resource,
  written before, shows the phase and the reason of a successful reconciliation: the deferred
  status update runs before the deferred recovery and still sees the zero value of the result.
\<close>

theorem panic_status_reports_success:
  assumes found: "\<not> isNotFound (snd (sv_getAgent w h req))"
    and panics: "reconcile w oe req newAgentStatusManager (h @ [getAgentCall req]) = ((Panic p, s), h2)"
    and agent: "sm_agentOld s = Some a"
  shows "\<exists>e tr new. Reconcile w oe req h =
      ((emptyResult, Some (ECaught e)), h2 @ tr @ [CStatusPatchAgent a new]) \<and>
    list_all status_call tr \<and> agent_status_updated (oe_status oe) a None (sv_now w h2) new"
proof -
  obtain r h3 where run: "agentWithUpdatedStatus w (oe_status oe) s None h2 = (r, h3)" by (rule prod.exhaust)
  with agentWithUpdatedStatus_shape [OF agent, of w "oe_status oe" None h2] obtain tr where
    tr: "h3 = h2 @ tr" "list_all status_call tr"
    "agent_status_updated (oe_status oe) a None (sv_now w h2) (res r)" by auto
  obtain e' where d: "deferStatusUpdate w oe s None h2 = (e', h3 @ [CStatusPatchAgent a (res r)])"
    using updateAgentStatus_run [OF agent run] by (simp add: deferStatusUpdate_def Let_def)
  obtain e where "recovery_Catch (oe_stack oe) p e' = Some (ECaught e)" using recovery_Catch_Some by blast
  with d panics found have "Reconcile w oe req h =
      ((emptyResult, Some (ECaught e)), h2 @ tr @ [CStatusPatchAgent a (res r)])"
    by (simp add: Reconcile_def split_beta Let_def tr(1))
  with tr show ?thesis by blast
qed

text \<open>An agent of an old Helm installation, and a cluster where Helm cannot be initialised.\<close>

abbreviation helmAgent :: instanaAgent where
  "helmAgent \<equiv> agentWith [finalizerV1] None"

definition helmlessWorld :: world where
  "helmlessWorld = (uninstallWorld helmAgent)\<lparr>sv_helmInit := (\<lambda>h. Some (EPlain ''no kubeconfig''))\<rparr>"

lemma helmless_getAgent: "sv_getAgent helmlessWorld h exampleKey = (current_agent helmAgent h, None)"
  by (simp add: helmlessWorld_def)

lemma helmless_panics:
  obtains p h2 where "reconcile helmlessWorld exampleEnv exampleKey newAgentStatusManager [getAgentCall exampleKey] =
      ((Panic p, setAgentOld helmAgent newAgentStatusManager), h2)"
proof -
  let ?h0 = "[getAgentCall exampleKey]"
  have helm: "sv_helmInit helmlessWorld h = Some (EPlain ''no kubeconfig'')" for h
    by (simp add: helmlessWorld_def)
  have ga: "getAgent helmlessWorld exampleKey ?h0 = ((Some helmAgent, reconcileContinue), ?h0 @ [getAgentCall exampleKey])"
    by (simp add: getAgent_def helmless_getAgent isNotFound_def current_agent_def)
  have cl: "\<exists>p. cleanupHelmChart helmlessWorld exampleEnv (agent_Default helmAgent) h = (Panic p, h @ [CHelmInit])" for h
    by (rule removeFinalizerE [OF exampleEnv_laws, of finalizerV1 "[finalizerV1]"])
      (simp add: cleanupHelmChart_def newHelmReconciliation_def helm)
  let ?a = "agent_Default helmAgent" and ?h1 = "cleanupNodeLabels (?h0 @ [getAgentCall exampleKey])"
  obtain p where "cleanupHelmChart helmlessWorld exampleEnv ?a ?h1 = (Panic p, ?h1 @ [CHelmInit])"
    using cl by blast
  then have "addOrUpdateFinalizers helmlessWorld exampleEnv ?a ?h1 = (Panic p, ?h1 @ [CHelmInit])"
    by (simp only: addOrUpdateFinalizers_def prod.case outcome.case)
  moreover have "handleDeletion helmlessWorld exampleEnv ?a ou (?h0 @ [getAgentCall exampleKey]) =
      (Ret reconcileContinue, ?h1)" for ou by (simp add: handleDeletion_def Let_def)
  ultimately have "\<exists>p h2. reconcile helmlessWorld exampleEnv exampleKey newAgentStatusManager ?h0 =
      ((Panic p, setAgentOld helmAgent newAgentStatusManager), h2)"
    unfolding reconcile_def ga by (simp del: append.simps append_Nil)
  with that show thesis by blast
qed

theorem panic_status_reports_success_witness:
  "\<exists>e h' new. Reconcile helmlessWorld exampleEnv exampleKey [] =
      ((emptyResult, Some (ECaught e)), h' @ [CStatusPatchAgent helmAgent new]) \<and>
    st_Status (ag_Status new) = getAgentPhase None \<and> st_Reason (ag_Status new) = getReason None"
proof -
  obtain p h2 where "reconcile helmlessWorld exampleEnv exampleKey newAgentStatusManager ([] @ [getAgentCall exampleKey]) =
      ((Panic p, setAgentOld helmAgent newAgentStatusManager), h2)" using helmless_panics by auto
  from panic_status_reports_success [OF _ this, of helmAgent] show ?thesis
    by (auto simp: helmless_getAgent isNotFound_def setAgentOld_def agent_status_updated_def)
qed

text \<open>
  A server that accepts every patch of the agent and answers with what was patched last.
\<close>

definition serves_agent :: "world \<Rightarrow> namespacedName \<Rightarrow> instanaAgent \<Rightarrow> bool" where
  "serves_agent w req a0 \<longleftrightarrow> (\<forall>h. sv_getAgent w h req = (current_agent a0 h, None)) \<and>
     (\<forall>h old new. sv_patchAgent w h old new = None)"

text \<open>The finalizers the next reconciliation leaves, and where they come to rest.\<close>

definition next_finalizers :: "bool \<Rightarrow> string set \<Rightarrow> string set" where
  "next_finalizers deleting F =
     (if finalizerV1 \<in> F then F - {finalizerV1}
      else if deleting then F - {finalizerV3} else insert finalizerV3 F)"

definition final_finalizers :: "bool \<Rightarrow> string set \<Rightarrow> string set" where
  "final_finalizers deleting F =
     (if deleting then F - {finalizerV1, finalizerV3} else insert finalizerV3 (F - {finalizerV1}))"

lemma next_finalizers_converge:
  assumes "2 \<le> n" shows "(next_finalizers deleting ^^ n) F = final_finalizers deleting F"
proof -
  have 1: "next_finalizers deleting (next_finalizers deleting F) = final_finalizers deleting F"
    by (auto simp: next_finalizers_def final_finalizers_def)
  have 2: "next_finalizers deleting (final_finalizers deleting F) = final_finalizers deleting F"
    by (auto simp: next_finalizers_def final_finalizers_def)
  have 3: "(next_finalizers deleting ^^ k) (final_finalizers deleting F) = final_finalizers deleting F" for k
    by (induction k) (simp_all add: 2)
  from assms obtain k where "n = k + 2" by (metis add.commute le_Suc_ex)
  then have "(next_finalizers deleting ^^ n) F =
      (next_finalizers deleting ^^ k) ((next_finalizers deleting ^^ 2) F)" by (simp only: funpow_add comp_def)
  also have "(next_finalizers deleting ^^ 2) F = final_finalizers deleting F"
    by (simp add: numeral_2_eq_2 1)
  finally show ?thesis by (simp add: 3)
qed

lemma current_agent_append: "current_agent a0 (h @ tr) = current_agent (current_agent a0 h) tr"
  by (simp add: current_agent_def)

lemma current_agent_no_patch: "list_all no_patch tr \<Longrightarrow> current_agent a0 tr = a0"
  unfolding current_agent_def by (induction tr) (auto split: call.split)

lemma current_agent_patch [simp]: "current_agent a0 (h @ [CPatchAgent old new]) = new"
  by (simp add: current_agent_def)

text \<open>The laws under which nothing blocks the finalizers.\<close>

definition cleanup_works :: "world \<Rightarrow> operatorEnv \<Rightarrow> bool" where
  "cleanup_works w oe \<longleftrightarrow> (\<forall>h. sv_helmInit w h = None) \<and> (\<forall>h. fst (helm_Delete w h) = None) \<and>
     (\<forall>a h. fst (DeleteAll (agentUtils w oe a) h) = None)"

lemma phase_next_finalizers:
  assumes ph: "finalizer_phase w (agentUtils w oe a) a h h1 continues" and works: "cleanup_works w oe"
    and cur: "ag_Meta (current_agent a0 h) = ag_Meta a"
  shows "ag_FinalizerSet (current_agent a0 h1) = next_finalizers (ag_deleting a) (ag_FinalizerSet a) \<and>
    om_DeletionTimestamp (ag_Meta (current_agent a0 h1)) = om_DeletionTimestamp (ag_Meta a)"
  using ph
proof cases
  case (chart_dropped fs)
  then show ?thesis
    using current_agent_patch [of a0 "h @ [CHelmInit, CHelmUninstall ''instana-agent'']" a "set_finalizers fs a"]
    by (simp add: next_finalizers_def)
next
  case (cleanup_fails e)
  with works have "fst (Some e, h1) = None" unfolding cleanup_works_def by metis
  then show ?thesis by simp
qed (use works cur in \<open>auto simp: cleanup_works_def next_finalizers_def\<close>)

lemma Reconcile_next_finalizers:
  fixes h :: history
  assumes laws: "finalizer_laws oe" and serves: "serves_agent w req a0" and works: "cleanup_works w oe"
  defines "cur \<equiv> current_agent a0 h" and "cur' \<equiv> current_agent a0 (snd (Reconcile w oe req h))"
  shows "ag_FinalizerSet cur' = next_finalizers (ag_deleting cur) (ag_FinalizerSet cur) \<and>
    om_DeletionTimestamp (ag_Meta cur') = om_DeletionTimestamp (ag_Meta cur)"
proof -
  let ?a = "agent_Default cur" and ?h0 = "h @ [getAgentCall req]"
  obtain out h' where run: "Reconcile w oe req h = (out, h')" by (rule prod.exhaust)
  have same: "current_agent a0 (h @ tr) = cur" if "list_all no_patch tr" for tr
    using that by (simp add: cur_def current_agent_append current_agent_no_patch)
  have got: "sv_getAgent w ?h0 req = (cur, None)" "snd (sv_getAgent w h req) = None"
    using serves same [of "[getAgentCall req]"] by (simp_all add: serves_agent_def)
  obtain h1 h2 continues tr where
    ph: "finalizer_phase w (agentUtils w oe ?a) ?a (?h0 @ [getAgentCall req, CRunCommand cleanup_command]) h1 continues" and
    rest: "if continues then h2 = snd (reconcileResources w oe ?a (agentUtils w oe ?a)
      (setAgentOld cur newAgentStatusManager) h1) else h2 = h1" and
    tr: "h' = h2 @ tr" "list_all status_update_call tr"
    using Reconcile_phase [OF laws run] got by (auto simp: isNotFound_def)
  obtain tr1 where tr1: "h2 = h1 @ tr1" "list_all no_patch tr1"
    using emits_reconcileResources [of w oe ?a "oe_codec oe" "oe_version oe" "setAgentOld cur newAgentStatusManager"]
      rest by (cases continues) (auto elim!: emitsE [of _ _ h1])
  have "cur' = current_agent a0 h1"
    using tr tr1 run by (simp add: cur'_def current_agent_append current_agent_no_patch list_all_no_patch)
  moreover have "ag_Meta (current_agent a0 (?h0 @ [getAgentCall req, CRunCommand cleanup_command])) = ag_Meta ?a"
    using same [of "[getAgentCall req, getAgentCall req, CRunCommand cleanup_command]"] by simp
  ultimately show ?thesis using phase_next_finalizers [OF ph works] by simp
qed

text \<open>
  C4: repeated reconciliations bring the finalizers to rest. When the API server stores every
  patch, Helm works and the clean-up of the dependents returns no error, then after two
  reconciliations, and ever after, an agent under deletion carries neither finalizer of the
  operator, so that the API server can remove it, and any other agent carries the current
  finalizer and not the one of the Helm installation. All other finalizers are kept.
\<close>

theorem finalizers_converge:
  assumes "finalizer_laws oe" and "serves_agent w req a0" and "cleanup_works w oe" and "2 \<le> n"
  shows "ag_FinalizerSet (current_agent a0 (((\<lambda>h. snd (Reconcile w oe req h)) ^^ n) [])) =
    final_finalizers (ag_deleting a0) (ag_FinalizerSet a0)"
proof -
  let ?run = "\<lambda>h. snd (Reconcile w oe req h)"
  have "ag_FinalizerSet (current_agent a0 ((?run ^^ k) [])) =
      (next_finalizers (ag_deleting a0) ^^ k) (ag_FinalizerSet a0) \<and>
    om_DeletionTimestamp (ag_Meta (current_agent a0 ((?run ^^ k) []))) = om_DeletionTimestamp (ag_Meta a0)" for k
    by (induction k) (use Reconcile_next_finalizers [OF assms(1-3)] in \<open>simp_all add: current_agent_def [of _ "[]"]\<close>)
  then show ?thesis using next_finalizers_converge [OF assms(4)] by simp
qed

theorem finalizers_converge_witness:
  "let a = agentWith [finalizerV1, ''other'', finalizerV3] (Some 0); w = uninstallWorld a in
   set (ag_Finalizers (current_agent a (((\<lambda>h. snd (Reconcile w exampleEnv exampleKey h)) ^^ 2) []))) = {''other''}"
proof -
  let ?a = "agentWith [finalizerV1, ''other'', finalizerV3] (Some 0)"
  let ?w = "uninstallWorld ?a"
  have "serves_agent ?w exampleKey ?a" by (simp add: serves_agent_def)
  moreover have "fst (DeleteAll (agentUtils ?w exampleEnv a) h) = None" for a h
    using uninstallWorld_DeleteAll [of ?a "oe_codec exampleEnv" "oe_version exampleEnv" a h] by auto
  then have "cleanup_works ?w exampleEnv" by (simp add: cleanup_works_def helm_Delete_def)
  ultimately show ?thesis
    using finalizers_converge [of exampleEnv ?w exampleKey ?a 2]
    by (simp add: final_finalizers_def insert_Diff_if)
qed

end
