(* ===== verification/Agent_Reconcile.thy ===== *)
theory Agent_Reconcile
  imports Controller
begin

text \<open>
  What the reconciliation of an \<open>InstanaAgent\<close> achieves as a whole: none of the builders it runs
  can panic once the defaults are applied, so that the only panic left comes from Helm; and a
  reconciliation that returns without error has had every object it built accepted by the API
  server and has written the status. This theory adds no model of its own code; it composes the
  components behind \<open>InstanaAgentReconciler.reconcile\<close>.
\<close>

subsection \<open>Builders that return\<close>

text \<open>The encoders that the builders call through \<open>or_die\<close> do not fail.\<close>

definition encoders_total :: "encoders \<Rightarrow> bool" where
  "encoders_total enc \<longleftrightarrow> (\<forall>details. snd (yaml_Namespaces enc details) = None) \<and>
     (\<forall>cfg. snd (json_DockerConfig enc cfg) = None)"

definition builder_returns :: "'s objectBuilder \<Rightarrow> bool" where
  "builder_returns b \<longleftrightarrow> (\<forall>s. \<exists>opt. fst (ob_Build b s) = Ret opt)"

lemma builder_returns_pure [simp]: "builder_returns (pureBuilder c n obj)"
  by (simp add: builder_returns_def pureBuilder_def)

lemma builderTransformer_returns:
  assumes "builder_returns b" shows "\<exists>opt s'. builderTransformer_Apply ver t b s = (Ret opt, s')"
proof -
  obtain opt where "fst (ob_Build b s) = Ret opt" using assms by (auto simp: builder_returns_def)
  then show ?thesis
    by (cases "ob_Build b s"; cases opt) (simp_all add: builderTransformer_Apply_def Let_def)
qed

lemma buildObjects_returns:
  assumes "list_all builder_returns builders"
  shows "\<exists>objects s'. buildObjects ou builders s = (Ret objects, s')"
proof -
  have "\<exists>opts s'. buildOptionals ou builders s = (Ret opts, s')"
    using assms
  proof (induction builders arbitrary: s)
    case (Cons b bs)
    then obtain opt s1 where b: "builderTransformer_Apply (ou_Version ou) (ou_Transformations ou) b s = (Ret opt, s1)"
      using builderTransformer_returns by fastforce
    from Cons obtain opts s2 where "buildOptionals ou bs s1 = (Ret opts, s2)" by fastforce
    with b show ?case by simp
  qed simp
  then show ?thesis by (auto simp: buildObjects_def)
qed

text \<open>The list of builders \<open>applyResources\<close> runs.\<close>

definition daemonSetBuilders ::
  "instanaAgent \<Rightarrow> bool \<Rightarrow> bool \<Rightarrow> bool list \<Rightarrow> agentStatusManager objectBuilder list" where
  "daemonSetBuilders a isOS persist settings =
     (if sp_Zones (ag_Spec a) = [] then [newDaemonSetBuilder a isOS persist]
      else map (\<lambda>(z, setting). newDaemonSetBuilderWithZoneInfo a isOS (Some z) setting)
             (zip (sp_Zones (ag_Spec a)) settings))"

definition reconciledBuilders ::
  "operatorEnv \<Rightarrow> instanaAgent \<Rightarrow> bool \<Rightarrow> bool \<Rightarrow> bool list \<Rightarrow> k8sObject \<Rightarrow> namespacesDetails \<Rightarrow>
   deploymentContext option \<Rightarrow> agentStatusManager objectBuilder list" where
  "reconciledBuilders oe a isOS persist settings keysSecret details ctx =
     daemonSetBuilders a isOS persist settings @
     agentBuilders oe a keysSecret (getK8SensorBackends a) details @
     getK8sSensorDeployments oe a isOS (getK8SensorBackends a) keysSecret ctx"

lemma daemonSet_returns: "builder_returns (newDaemonSetBuilderWithZoneInfo (agent_Default a) isOS z setting)"
  using ds_build_returns [of "\<lparr>dsb_agent = agent_Default a, dsb_isOpenshift = isOS, dsb_zone = z,
    dsb_shouldSetPersistHostUniqueIDEnvVar = setting\<rparr>" a]
  by (auto simp: builder_returns_def newDaemonSetBuilderWithZoneInfo_def ds_Build_def Let_def)

lemma deployment_returns: "builder_returns (newDeploymentBuilder sha256 a isOS backend keysSecret ctx)"
proof -
  let ?d = "\<lparr>dpb_agent = a, dpb_isOpenShift = isOS, dpb_backend = backend,
    dpb_keysSecret = keysSecret, dpb_deploymentContext = ctx\<rparr>"
  obtain obj where "dep_build sha256 ?d = Ret obj" by (rule dep_build_shape)
  then show ?thesis by (simp add: builder_returns_def newDeploymentBuilder_def dep_Build_def Let_def)
qed

lemma default_servicePorts:
  "\<exists>ps. getServicePorts (sp_OpenTelemetry (ag_Spec (agent_Default a))) = Ret ps"
  "\<exists>b. otel_Enabled (sp_OpenTelemetry (ag_Spec (agent_Default a))) = Some b"
  by (auto simp: agent_Default_OpenTelemetry getServicePorts_def getPorts_def defaultOpenTelemetry_def
      Let_def split: option.splits)

lemma services_return:
  "builder_returns (agent_headlessService (agent_Default a))"
  "builder_returns (agent_service (agent_Default a))"
  using default_servicePorts [of a]
  by (auto simp: builder_returns_def agent_headlessService_def headlessService_Build_def
      agent_service_def service_Build_def service_build_def Let_def split: bool.split)

lemma secrets_return:
  "builder_returns (newConfigBuilder enc a (Some keysSecret) backends)"
  "encoders_total enc \<Longrightarrow> builder_returns (newContainerBuilder enc a keys)"
  "encoders_total enc \<Longrightarrow> builder_returns (agent_namespacesConfigMap enc a details)"
  by (simp_all add: builder_returns_def newConfigBuilder_def config_Build_def Let_def newContainerBuilder_def
      container_Build_def container_build_def container_marshalJSON_def marshalOrDie_def encoders_total_def
      agent_namespacesConfigMap_def namespacesConfigMap_Build_def namespaces_getData_def resultOrDie_def
      split_beta split: option.split)

lemma reconciledBuilders_return:
  assumes "encoders_total (oe_encoders oe)"
  shows "list_all builder_returns
    (reconciledBuilders oe (agent_Default a) isOS persist settings keysSecret details ctx)"
proof -
  have "list_all builder_returns (daemonSetBuilders (agent_Default a) isOS persist settings)"
    by (auto simp: daemonSetBuilders_def newDaemonSetBuilder_def daemonSet_returns list_all_iff)
  moreover have "list_all builder_returns (agentBuilders oe (agent_Default a) keysSecret backends details)" for backends
    using assms
    by (simp add: agentBuilders_def services_return secrets_return newTlsSecretBuilder_def agent_clusterRole_def
        agent_clusterRoleBinding_def agent_serviceAccount_def k8sensor_podDisruptionBudget_def
        k8sensor_clusterRole_def k8sensor_clusterRoleBinding_def k8sensor_role_def k8sensor_roleBinding_def
        k8sensor_serviceAccount_def k8sensor_configMap_def newKeysSecretBuilder_def)
  ultimately show ?thesis
    by (simp add: reconciledBuilders_def getK8sSensorDeployments_def deployment_returns list.pred_map
        list.pred_True comp_def)
qed

text \<open>The builders register what they build, and leave the fetched agent in the status manager.\<close>

definition builder_keeps_agent :: "agentStatusManager objectBuilder \<Rightarrow> bool" where
  "builder_keeps_agent b \<longleftrightarrow> (\<forall>s. sm_agentOld (snd (ob_Build b s)) = sm_agentOld s)"

lemma setters_keep_agent [simp]:
  "sm_agentOld (addAgentDaemonset k s) = sm_agentOld s"
  "sm_agentOld (setK8sSensorDeployment k s) = sm_agentOld s"
  "sm_agentOld (setAgentSecretConfig k s) = sm_agentOld s"
  "sm_agentOld (setAgentNamespacesConfigMap k s) = sm_agentOld s"
  by (simp_all add: addAgentDaemonset_def setK8sSensorDeployment_def setAgentSecretConfig_def
      setAgentNamespacesConfigMap_def Let_def)

lemma builder_keeps_agent_pure [simp]: "builder_keeps_agent (pureBuilder c n obj)"
  by (simp add: builder_keeps_agent_def pureBuilder_def)

lemma builders_keep_agent:
  "builder_keeps_agent (newDaemonSetBuilderWithZoneInfo a isOS z setting)"
  "builder_keeps_agent (newDeploymentBuilder sha256 a isOS backend keysSecret ctx)"
  "builder_keeps_agent (agent_headlessService a)" "builder_keeps_agent (agent_service a)"
  "builder_keeps_agent (newConfigBuilder enc a keys backends)"
  "builder_keeps_agent (newContainerBuilder enc a keys)"
  "builder_keeps_agent (agent_namespacesConfigMap enc a details)"
  by (simp_all add: builder_keeps_agent_def newDaemonSetBuilderWithZoneInfo_def ds_Build_def
      newDeploymentBuilder_def dep_Build_def agent_headlessService_def agent_service_def newConfigBuilder_def
      config_Build_def newContainerBuilder_def agent_namespacesConfigMap_def namespacesConfigMap_Build_def
      Let_def split_beta split: outcome.split)

lemma reconciledBuilders_keep_agent:
  "list_all builder_keeps_agent (reconciledBuilders oe a isOS persist settings keysSecret details ctx)"
proof -
  have "list_all builder_keeps_agent (daemonSetBuilders a isOS persist settings)"
    by (auto simp: daemonSetBuilders_def newDaemonSetBuilder_def builders_keep_agent list_all_iff)
  then show ?thesis
    by (simp add: reconciledBuilders_def getK8sSensorDeployments_def builders_keep_agent list.pred_map
        list.pred_True comp_def agentBuilders_def newTlsSecretBuilder_def agent_clusterRole_def
        agent_clusterRoleBinding_def agent_serviceAccount_def k8sensor_podDisruptionBudget_def
        k8sensor_clusterRole_def k8sensor_clusterRoleBinding_def k8sensor_role_def k8sensor_roleBinding_def
        k8sensor_serviceAccount_def k8sensor_configMap_def newKeysSecretBuilder_def)
qed

lemma builderTransformer_keeps_agent:
  "builder_keeps_agent b \<Longrightarrow> sm_agentOld (snd (builderTransformer_Apply ver t b s)) = sm_agentOld s"
  by (cases "ob_Build b s") (auto simp: builder_keeps_agent_def builderTransformer_Apply_def Let_def
      split: outcome.split option.split dest: spec [of _ s])

lemma buildObjects_keeps_agent:
  assumes "list_all builder_keeps_agent builders"
  shows "sm_agentOld (snd (buildObjects ou builders s)) = sm_agentOld s"
proof -
  have "sm_agentOld (snd (buildOptionals ou builders s)) = sm_agentOld s"
    using assms
  proof (induction builders arbitrary: s)
    case (Cons b bs)
    from Cons.prems builderTransformer_keeps_agent [of b "ou_Version ou" "ou_Transformations ou" s]
      Cons.IH [of "snd (builderTransformer_Apply (ou_Version ou) (ou_Transformations ou) b s)"]
    show ?case by (auto split: prod.split outcome.split)
  qed simp
  then show ?thesis by (auto simp: buildObjects_def split: prod.split outcome.split)
qed

subsection \<open>The steps before the builders\<close>

text \<open>These steps go on or fail with an error; they never finish the reconciliation with success.\<close>

definition goes_on_or_fails :: "reconcileReturn \<Rightarrow> bool" where
  "goes_on_or_fails r \<longleftrightarrow> r = reconcileContinue \<or> (\<exists>e. r = reconcileFailure (Some e))"

lemma goes_on_or_failsE:
  assumes "goes_on_or_fails r"
  obtains "r = reconcileContinue" "\<not> suppliesReconcileResult r" |
    e where "r = reconcileFailure (Some e)" "suppliesReconcileResult r" "reconcileResult r = Ret (emptyResult, Some e)"
  using assms by (auto simp: goes_on_or_fails_def)

lemma steps_go_on_or_fail:
  "goes_on_or_fails (snd (fst (isOpenShift w ou h)))"
  "goes_on_or_fails (snd (fst (shouldSetPersistHostUniqueIDEnvVar w a z h)))"
  by (auto simp: goes_on_or_fails_def isOpenShift_def shouldSetPersistHostUniqueIDEnvVar_def Let_def split_beta
      split: option.split)

lemma zoneSettings_shape:
  assumes "zoneSettings w a zones h = ((settings, r), h')"
  shows "goes_on_or_fails r \<and> (r = reconcileContinue \<longrightarrow> length settings = length zones)"
  using assms
proof (induction zones arbitrary: h settings)
  case (Cons z zs)
  obtain b r1 h1 where 1: "shouldSetPersistHostUniqueIDEnvVar w a (Some z) h = ((b, r1), h1)" by (metis surj_pair)
  obtain ss r2 h2 where 2: "zoneSettings w a zs h1 = ((ss, r2), h2)" by (metis surj_pair)
  from steps_go_on_or_fail(2) [of w a "Some z" h] 1 have "goes_on_or_fails r1" by simp
  with 1 2 Cons show ?case by (auto split: if_splits elim!: goes_on_or_failsE)
qed (auto simp: goes_on_or_fails_def)

lemma getDaemonSetBuilders_shape:
  assumes "getDaemonSetBuilders w a isOS persist h = ((bs, r), h')"
  shows "goes_on_or_fails r \<and> (r = reconcileContinue \<longrightarrow>
    (\<exists>settings. length settings = length (sp_Zones (ag_Spec a)) \<and> bs = daemonSetBuilders a isOS persist settings))"
proof (cases "sp_Zones (ag_Spec a) = []")
  case True
  with assms show ?thesis
    by (auto simp: getDaemonSetBuilders_def goes_on_or_fails_def daemonSetBuilders_def Let_def)
next
  case False
  obtain settings r1 h1 where z: "zoneSettings w a (sp_Zones (ag_Spec a)) h = ((settings, r1), h1)" by (metis surj_pair)
  from zoneSettings_shape [OF z] z False assms show ?thesis
    by (auto simp: getDaemonSetBuilders_def daemonSetBuilders_def Let_def elim!: goes_on_or_failsE split: if_splits)
      (auto simp: goes_on_or_fails_def)
qed

lemma applyResources_shape:
  fixes h :: history
  assumes run: "applyResources w oe a isOS persist ou keysSecret (getK8SensorBackends a) details s h = ((r, s'), h')"
  defines "bs \<equiv> reconciledBuilders oe a isOS persist"
  shows "(\<exists>settings ctx g rr. length settings = length (sp_Zones (ag_Spec a)) \<and>
      ApplyAll w ou (bs settings keysSecret details ctx) s g = ((rr, s'), h') \<and> prefix h g \<and>
      r = bind_outcome rr (\<lambda>e. Ret (if e \<noteq> None then reconcileFailure e else reconcileContinue))) \<or>
    (\<exists>e. r = Ret (reconcileFailure (Some e)))"
proof -
  obtain ctx e h1 where 1: "createDeploymentContext w a isOS
      (discoverETCDEndpoints w (oe_codec oe) (oe_version oe)) h = ((ctx, e), h1)" by (metis surj_pair)
  obtain ds r2 h2 where 2: "getDaemonSetBuilders w a isOS persist h1 = ((ds, r2), h2)" by (metis surj_pair)
  have "prefix h h1" "prefix h1 h2"
    using emits_prefix [OF emits_createDeploymentContext, of h w a isOS "oe_codec oe" "oe_version oe"] 1
      emits_prefix [OF emits_getDaemonSetBuilders, of h1 w a isOS persist] 2 by simp_all
  then have pre: "prefix h h2" by (rule prefix_order.trans)
  from getDaemonSetBuilders_shape [OF 2] have "goes_on_or_fails r2" by blast
  then show ?thesis
  proof (cases rule: goes_on_or_failsE)
    case 1: 1
    with getDaemonSetBuilders_shape [OF 2] obtain settings where
      st: "length settings = length (sp_Zones (ag_Spec a))" "ds = daemonSetBuilders a isOS persist settings" by blast
    obtain rr s1 h3 where aa: "ApplyAll w ou (bs settings keysSecret details ctx) s h2 = ((rr, s1), h3)" by (metis surj_pair)
    show ?thesis
    proof (cases e)
      case None
      with run \<open>createDeploymentContext _ _ _ _ _ = _\<close> 2 1 st aa have
        "r = bind_outcome rr (\<lambda>e. Ret (if e \<noteq> None then reconcileFailure e else reconcileContinue))" "s1 = s'" "h3 = h'"
        by (cases rr; auto simp: applyResources_def bs_def reconciledBuilders_def Let_def)+
      with aa st pre show ?thesis by blast
    next
      case (Some x)
      with run \<open>createDeploymentContext _ _ _ _ _ = _\<close> show ?thesis by (auto simp: applyResources_def)
    qed
  next
    case (2 x)
    with run \<open>createDeploymentContext _ _ _ _ _ = _\<close> \<open>getDaemonSetBuilders _ _ _ _ _ = _\<close> show ?thesis
      by (cases e) (auto simp: applyResources_def)
  qed
qed

lemma reconcileResources_shape:
  fixes h :: history
  assumes run: "reconcileResources w oe a ou s h = ((r, s'), h')"
  shows "(\<exists>isOS persist settings keysSecret details ctx g rr. length settings = length (sp_Zones (ag_Spec a)) \<and>
      ApplyAll w ou (reconciledBuilders oe a isOS persist settings keysSecret details ctx) s g = ((rr, s'), h') \<and>
      prefix h g \<and>
      r = bind_outcome rr (\<lambda>e. Ret (if e \<noteq> None then reconcileFailure e else reconcileSuccess emptyResult))) \<or>
    (\<exists>e. r = Ret (reconcileFailure (Some e)))"
proof -
  obtain isOS r1 h1 where 1: "isOpenShift w ou h = ((isOS, r1), h1)" by (metis surj_pair)
  let ?step = "\<lambda>h1. if length (sp_Zones (ag_Spec a)) = 0 then shouldSetPersistHostUniqueIDEnvVar w a None h1
      else ((False, reconcileContinue), h1)"
  obtain persist r2 h2 where 2: "?step h1 = ((persist, r2), h2)" by (metis surj_pair)
  obtain keysSecret h3 where 3: "readKeysSecret w (ba_KeysSecret (ag_Agent a)) (ag_Namespace a) h2 = (keysSecret, h3)"
    by (metis surj_pair)
  obtain details e4 h4 where 4: "getNamespacesWithLabels w h3 = ((details, e4), h4)" by (metis surj_pair)
  obtain r5 s5 h5 where 5: "applyResources w oe a isOS persist ou keysSecret (getK8SensorBackends a) details s h4 =
      ((r5, s5), h5)" by (metis surj_pair)
  have "emits no_patch ?step" by (intro emits_rules emits_shouldSetPersist)
  from emits_prefix [OF this, of h1] 2 have "prefix h1 h2" by simp
  then have pre: "prefix h h4"
    using emits_prefix [OF emits_isOpenShift, of h w ou] 1
      emits_prefix [OF emits_readKeysSecret, of h2 w "ba_KeysSecret (ag_Agent a)" "ag_Namespace a"] 3
      emits_prefix [OF emits_getNamespaces, of h3 w] 4
    by (metis prefix_order.trans snd_conv)
  have "goes_on_or_fails r1" using steps_go_on_or_fail(1) [of w ou h] 1 by simp
  moreover have "goes_on_or_fails r2"
    using steps_go_on_or_fail(2) [of w a None h1] 2 by (auto simp: goes_on_or_fails_def split: if_splits)
  ultimately consider e where "r = Ret (reconcileFailure (Some e))" |
    "\<not> suppliesReconcileResult r1" "\<not> suppliesReconcileResult r2"
    using run 1 2 unfolding reconcileResources_def by (auto elim!: goes_on_or_failsE)
  then show ?thesis
  proof cases
    case on: 2
    have run': "((r, s'), h') = (case r5 of Panic p \<Rightarrow> ((Panic p, s5), h5)
        | Ret x \<Rightarrow> ((Ret (if suppliesReconcileResult x then x else reconcileSuccess emptyResult), s5), h5))"
      using run 1 2 3 4 5 on unfolding reconcileResources_def by (cases r5) auto
    from applyResources_shape [OF 5] show ?thesis
    proof (elim disjE exE conjE)
      fix settings ctx g rr
      assume *: "length settings = length (sp_Zones (ag_Spec a))"
        "ApplyAll w ou (reconciledBuilders oe a isOS persist settings keysSecret details ctx) s g = ((rr, s5), h5)"
        "prefix h4 g" "r5 = bind_outcome rr (\<lambda>e. Ret (if e \<noteq> None then reconcileFailure e else reconcileContinue))"
      from pre *(3) have "prefix h g" by (rule prefix_order.trans)
      moreover have "s5 = s'" "h5 = h'"
        "r = bind_outcome rr (\<lambda>e. Ret (if e \<noteq> None then reconcileFailure e else reconcileSuccess emptyResult))"
        using run' *(4) by (cases rr; auto)+
      ultimately show ?thesis using *(1,2) by blast
    next
      fix e assume "r5 = Ret (reconcileFailure (Some e))"
      with run' show ?thesis by auto
    qed
  qed blast
qed

subsection \<open>Panics\<close>

lemma cleanupHelmChart_panic:
  assumes laws: "finalizer_laws oe" and "cleanupHelmChart w oe a h = (Panic p, h')"
  shows "finalizerV1 \<in> ag_FinalizerSet a \<and> sv_helmInit w h \<noteq> None \<and> h' = h @ [CHelmInit]"
proof -
  obtain fs where "oe_removeFinalizer oe finalizerV1 (ag_Finalizers a) = (fs, finalizerV1 \<in> ag_FinalizerSet a)"
    by (rule removeFinalizerE [OF laws])
  with assms(2) show ?thesis
    by (auto simp: cleanupHelmChart_def newHelmReconciliation_def split_beta split: if_splits option.splits)
qed

lemma handleDeletion_panic:
  assumes "finalizer_laws oe" and "handleDeletion w oe a ou h = (Panic p, h')"
  shows "cleanupHelmChart w oe a (cleanupNodeLabels h) = (Panic p, h')"
  using assms(2) by (auto simp: handleDeletion_def Let_def split: if_splits prod.splits outcome.splits)

lemma addOrUpdateFinalizers_panic:
  assumes "addOrUpdateFinalizers w oe a h = (Panic p, h')"
  shows "cleanupHelmChart w oe a h = (Panic p, h')"
  using assms by (auto simp: addOrUpdateFinalizers_def split: if_splits prod.splits outcome.splits)

lemma ApplyAll_returns:
  assumes "list_all builder_returns builders"
  shows "\<exists>e. fst (fst (ApplyAll w ou builders s h)) = Ret e"
proof -
  obtain objs s1 where 1: "buildObjects ou builders s = (Ret objs, s1)"
    using buildObjects_returns [OF assms] by blast
  obtain objs2 s2 where 2: "buildObjects ou builders s1 = (Ret objs2, s2)"
    using buildObjects_returns [OF assms] by blast
  show ?thesis by (simp add: ApplyAll_def 1 2 split_beta)
qed

lemma reconcileResources_returns:
  assumes "encoders_total (oe_encoders oe)"
  shows "\<exists>x. fst (fst (reconcileResources w oe (agent_Default a) ou s h)) = Ret x"
proof -
  obtain r s' h' where run: "reconcileResources w oe (agent_Default a) ou s h = ((r, s'), h')" by (metis surj_pair)
  have "\<exists>x. r = Ret x" using reconcileResources_shape [OF run]
  proof (elim disjE exE conjE)
    fix isOS persist settings keysSecret details ctx g rr
    assume aa: "ApplyAll w ou (reconciledBuilders oe (agent_Default a) isOS persist settings keysSecret details ctx) s g =
        ((rr, s'), h')"
      and r: "r = bind_outcome rr (\<lambda>e. Ret (if e \<noteq> None then reconcileFailure e else reconcileSuccess emptyResult))"
    from ApplyAll_returns [OF reconciledBuilders_return [OF assms]] obtain e where
      "fst (fst (ApplyAll w ou (reconciledBuilders oe (agent_Default a) isOS persist settings keysSecret details ctx) s g)) =
        Ret e" by blast
    with aa r show ?thesis by simp
  qed blast
  with run show ?thesis by simp
qed

subsection \<open>Properties\<close>

text \<open>
  C6: the reconciliation of an agent is free of panics but for one. If the YAML and JSON encoders
  do not fail, then, whatever the custom resource contains and the API server answers, the only
  panic is the one the constructor of the Helm client raises, for an agent that still carries the
  finalizer of the old Helm installation when Helm cannot be initialised.
\<close>

theorem reconcile_panics_only_from_helm:
  assumes laws: "finalizer_laws oe" and enc: "encoders_total (oe_encoders oe)"
    and run: "reconcile w oe req s h = ((Panic p, s'), h')"
  shows "\<exists>a0 g. sv_getAgent w h req = (a0, None) \<and> finalizerV1 \<in> ag_FinalizerSet a0 \<and>
    h' = g @ [CHelmInit] \<and> sv_helmInit w g \<noteq> None"
proof -
  obtain a0 e where got: "sv_getAgent w h req = (a0, e)" by (rule prod.exhaust)
  with run have e: "e = None" by (cases e) (auto simp: reconcile_def getAgent_def split: if_splits)
  let ?a = "agent_Default a0" and ?h1 = "h @ [getAgentCall req]"
  let ?ou = "agentUtils w oe ?a"
  have ga: "getAgent w req h = ((Some a0, reconcileContinue), ?h1)"
    using got e by (simp add: getAgent_def isNotFound_def)
  obtain r1 h2 where 1: "handleDeletion w oe ?a ?ou ?h1 = (r1, h2)" by (rule prod.exhaust)
  obtain r2 h3 where 2: "addOrUpdateFinalizers w oe ?a h2 = (r2, h3)" by (rule prod.exhaust)
  have "r1 = Panic p \<and> h2 = h' \<or> r2 = Panic p \<and> h3 = h'"
    using run 1 2 reconcileResources_returns [OF enc, of w a0 ?ou "setAgentOld a0 s" h3]
    unfolding reconcile_def ga
    by (auto simp: Let_def split: outcome.splits if_splits)
  then obtain g where "cleanupHelmChart w oe ?a g = (Panic p, h')"
    using 1 2 handleDeletion_panic [OF laws] addOrUpdateFinalizers_panic by blast
  from cleanupHelmChart_panic [OF laws this] got e show ?thesis by auto
qed

lemma exampleEncoders_total: "encoders_total (oe_encoders exampleEnv)"
  by (simp add: encoders_total_def exampleEnv_def exampleEncoders_def)

theorem reconcile_panics_only_from_helm_witness:
  "\<exists>p s h'. reconcile helmlessWorld exampleEnv exampleKey newAgentStatusManager [getAgentCall exampleKey] = ((Panic p, s), h') \<and>
    (\<exists>a0 g. finalizerV1 \<in> ag_FinalizerSet a0 \<and> h' = g @ [CHelmInit] \<and> sv_helmInit helmlessWorld g \<noteq> None)"
proof -
  obtain p h' where run: "reconcile helmlessWorld exampleEnv exampleKey newAgentStatusManager [getAgentCall exampleKey] =
      ((Panic p, setAgentOld helmAgent newAgentStatusManager), h')" by (rule helmless_panics)
  from reconcile_panics_only_from_helm [OF exampleEnv_laws exampleEncoders_total run] run show ?thesis by auto
qed

text \<open>What is left of a run that returned no error.\<close>

lemma Reconcile_no_error:
  assumes run: "Reconcile w oe req h = ((result, None), h')" and got: "snd (sv_getAgent w h req) = None"
  shows "\<exists>x s h2. reconcile w oe req newAgentStatusManager (h @ [getAgentCall req]) = ((Ret x, s), h2) \<and>
    reconcileResult x = Ret (result, None) \<and>
    updateAgentStatus w (oe_status oe) s None h2 = (None, h')"
proof -
  obtain r s h2 where rec: "reconcile w oe req newAgentStatusManager (h @ [getAgentCall req]) = ((r, s), h2)"
    by (metis surj_pair)
  have eq: "Reconcile w oe req h = (case bind_outcome r reconcileResult of
        Ret (result, e) \<Rightarrow> (case deferStatusUpdate w oe s e h2 of (e, h3) \<Rightarrow> ((result, e), h3))
      | Panic p \<Rightarrow> (case deferStatusUpdate w oe s None h2 of (e, h3) \<Rightarrow>
          ((emptyResult, recovery_Catch (oe_stack oe) p e), h3)))"
    using got rec by (cases "sv_getAgent w h req") (simp add: Reconcile_def Let_def isNotFound_def)
  show ?thesis
  proof (cases "bind_outcome r reconcileResult")
    case (Panic p)
    obtain e h3 where d: "deferStatusUpdate w oe s None h2 = (e, h3)" by (rule prod.exhaust)
    obtain c where "recovery_Catch (oe_stack oe) p e = Some (ECaught c)" using recovery_Catch_Some by blast
    with eq Panic d run show ?thesis by simp
  next
    case (Ret y)
    obtain res e where y: "y = (res, e)" by (rule prod.exhaust)
    with eq Ret run have d: "deferStatusUpdate w oe s e h2 = (None, h')" "res = result" by (auto split: prod.splits)
    obtain u h3 where u: "updateAgentStatus w (oe_status oe) s e h2 = (u, h3)" by (rule prod.exhaust)
    have "u = None"
      using d(1) u by (cases u) (auto simp: deferStatusUpdate_def newMultiErrorBuilder_def meb_build_eq split: if_splits)
    with d u have "e = None" "h3 = h'" by (simp_all add: deferStatusUpdate_def)
    with \<open>u = None\<close> u y d(2) Ret rec show ?thesis by (cases r) simp_all
  qed
qed

lemma reconcileResources_success:
  assumes run: "reconcileResources w oe a ou s h = ((Ret x, s'), h')" and x: "reconcileResult x = Ret (result, None)"
  obtains isOS persist settings keysSecret details ctx g where
    "length settings = length (sp_Zones (ag_Spec a))" "prefix h g" "result = emptyResult"
    "ApplyAll w ou (reconciledBuilders oe a isOS persist settings keysSecret details ctx) s g = ((Ret None, s'), h')"
proof -
  from reconcileResources_shape [OF run] show thesis
  proof (elim disjE exE conjE)
    fix isOS persist settings keysSecret details ctx g rr
    assume *: "length settings = length (sp_Zones (ag_Spec a))"
      "ApplyAll w ou (reconciledBuilders oe a isOS persist settings keysSecret details ctx) s g = ((rr, s'), h')" "prefix h g"
      "Ret x = bind_outcome rr (\<lambda>e. Ret (if e \<noteq> None then reconcileFailure e else reconcileSuccess emptyResult))"
    then obtain e where rr: "rr = Ret e" by (cases rr) auto
    with *(4) x have "e = None" "result = emptyResult" by (auto split: if_splits)
    with * rr that show thesis by blast
  next
    fix e assume "Ret x = Ret (reconcileFailure (Some e))"
    with x show thesis by simp
  qed
qed

lemma updateAgentStatus_last:
  assumes old: "sm_agentOld s = Some a0" and run: "updateAgentStatus w env s e h = (x, h')"
  obtains tr new where "h' = h @ tr @ [CStatusPatchAgent a0 new]" "agent_status_updated env a0 e (sv_now w h) new"
proof -
  obtain r h3 where ru: "agentWithUpdatedStatus w env s e h = (r, h3)" by (rule prod.exhaust)
  with agentWithUpdatedStatus_shape [OF old, of w env e h] obtain tr where
    tr: "h3 = h @ tr" "agent_status_updated env a0 e (sv_now w h) (res r)" by auto
  moreover have "h' = h3 @ [CStatusPatchAgent a0 (res r)]"
    using updateAgentStatus_run [OF old ru] run by (simp add: Let_def)
  ultimately show thesis using that by simp
qed

lemma ApplyAll_keeps_agent:
  assumes "list_all builder_keeps_agent builders"
  shows "sm_agentOld (snd (fst (ApplyAll w ou builders s h))) = sm_agentOld s"
proof -
  obtain r1 s1 where 1: "buildObjects ou builders s = (r1, s1)" by (rule prod.exhaust)
  obtain r2 s2 where 2: "buildObjects ou builders s1 = (r2, s2)" by (rule prod.exhaust)
  have "sm_agentOld s1 = sm_agentOld s" "sm_agentOld s2 = sm_agentOld s1"
    using buildObjects_keeps_agent [OF assms, of ou] 1 2 by (metis snd_conv)+
  with 1 2 show ?thesis by (cases r1; cases r2) (auto simp: ApplyAll_def split_beta)
qed

lemma reconcileResources_agentOld:
  assumes run: "reconcileResources w oe a ou (setAgentOld a0 s) h = ((Ret x, s'), h')"
    and x: "reconcileResult x = Ret (result, None)"
  shows "sm_agentOld s' = Some a0"
proof -
  obtain isOS persist settings keysSecret details ctx g where
    aa: "ApplyAll w ou (reconciledBuilders oe a isOS persist settings keysSecret details ctx) (setAgentOld a0 s) g =
      ((Ret None, s'), h')" by (rule reconcileResources_success [OF run x])
  from ApplyAll_keeps_agent [OF reconciledBuilders_keep_agent, of w ou oe a isOS persist settings keysSecret details ctx
      "setAgentOld a0 s" g] aa show ?thesis by (simp add: setAgentOld_def)
qed

text \<open>
  C1: what a successful reconciliation means. When the finalizers of an agent are in place and
  \<open>Reconcile\<close> returns no error, it asks for no requeue; all builders (one DaemonSet per zone or one
  for all, the other objects of the agent and of the k8sensor, one Deployment per backend)
  returned, every object they built was sent to the API server after \<open>Reconcile\<close> started and was
  accepted; and the last call writes the status of a successful reconciliation.
\<close>

theorem reconcile_success_complete:
  assumes laws: "finalizer_laws oe" and run: "Reconcile w oe req h = ((result, None), h')"
    and found: "snd (sv_getAgent w h req) = None"
    and got: "sv_getAgent w (h @ [getAgentCall req]) req = (a0, None)"
    and ready: "\<not> ag_deleting a0" "finalizerV1 \<notin> ag_FinalizerSet a0" "finalizerV3 \<in> ag_FinalizerSet a0"
  shows "result = emptyResult \<and> (\<exists>isOS persist settings keysSecret details ctx s1 s2 objects pre rest new now.
    let a = agent_Default a0 in
    length settings = length (sp_Zones (ag_Spec a)) \<and>
    buildObjects (agentUtils w oe a) (reconciledBuilders oe a isOS persist settings keysSecret details ctx) s1 =
      (Ret objects, s2) \<and>
    h' = h @ pre @ map (apply_call False) objects @ rest @ [CStatusPatchAgent a0 new] \<and>
    batch_accepted w objects False (h @ pre) \<and>
    agent_status_updated (oe_status oe) a0 None now new)"
proof -
  let ?a = "agent_Default a0" and ?h0 = "h @ [getAgentCall req]" and ?s0 = "setAgentOld a0 newAgentStatusManager"
  let ?ou = "agentUtils w oe ?a"
  obtain x s h2 where rec: "reconcile w oe req newAgentStatusManager ?h0 = ((Ret x, s), h2)"
    and x: "reconcileResult x = Ret (result, None)"
    and st: "updateAgentStatus w (oe_status oe) s None h2 = (None, h')"
    using Reconcile_no_error [OF run found] by blast
  obtain h1 continues where
    ph: "finalizer_phase w ?ou ?a (?h0 @ [getAgentCall req, CRunCommand cleanup_command]) h1 continues" and
    rest: "continues \<longrightarrow> reconcileResources w oe ?a ?ou ?s0 h1 = ((Ret x, s), h2)"
    using reconcile_phase [OF laws got rec] by (auto split: if_splits)
  have "continues \<and> prefix h h1" using ph by cases (use ready in auto)
  with rest have h1: "prefix h h1" and rr: "reconcileResources w oe ?a ?ou ?s0 h1 = ((Ret x, s), h2)" by auto
  obtain isOS persist settings keysSecret details ctx g where
    set: "length settings = length (sp_Zones (ag_Spec ?a))" and g: "prefix h1 g" and res: "result = emptyResult" and
    aa: "ApplyAll w ?ou (reconciledBuilders oe ?a isOS persist settings keysSecret details ctx) ?s0 g = ((Ret None, s), h2)"
    by (rule reconcileResources_success [OF rr x])
  let ?bs = "reconciledBuilders oe ?a isOS persist settings keysSecret details ctx"
  from agent_ou.ApplyAll_phases [OF aa] obtain dry objects upd app del s1 where
    app: "apply_all_phases w ?ou (oe_codec oe) (newDependentLifecycleManager (oe_version oe) ?a) ?bs ?s0 g h2 dry objects upd app del"
    and nil: "apply_all_done w ?ou g h2 dry objects upd app"
    and b0: "buildObjects ?ou ?bs ?s0 = (Ret dry, s1)" and b: "buildObjects ?ou ?bs s1 = (Ret objects, s)"
    by blast
  from nil have app1: "app = map (apply_call False) objects"
    and acc: "batch_accepted w objects False (g @ map (apply_call True) dry @ upd)"
    by (simp_all add: apply_all_done_def Let_def)
  from app app1 have h2: "h2 = g @ map (apply_call True) dry @ upd @ map (apply_call False) objects @ del"
    by (simp add: apply_all_phases_def Let_def)
  obtain pre0 where pre0: "g = h @ pre0" using h1 g by (meson prefixE prefix_order.trans)
  have old: "sm_agentOld s = Some a0" by (rule reconcileResources_agentOld [OF rr x])
  obtain tr new where "h' = h2 @ tr @ [CStatusPatchAgent a0 new]"
    "agent_status_updated (oe_status oe) a0 None (sv_now w h2) new"
    by (rule updateAgentStatus_last [OF old st])
  with h2 pre0 acc b set res show ?thesis
    unfolding Let_def
    by (intro conjI exI [of _ isOS] exI [of _ persist] exI [of _ settings] exI [of _ keysSecret] exI [of _ details]
        exI [of _ ctx] exI [of _ s1] exI [of _ s] exI [of _ objects] exI [of _ "pre0 @ map (apply_call True) dry @ upd"]
        exI [of _ "del @ tr"] exI [of _ new] exI [of _ "sv_now w h2"]) simp_all
qed

text \<open>
  A cluster that accepts everything, where the agent is already running: every read returns a
  DaemonSet with the agent's container.
\<close>

definition runningObject :: k8sObject where
  "runningObject = emptyObject\<lparr>ko_Body := DaemonSetBody
     \<lparr>dss_MinReadySeconds = 0, dss_Selector = None,
      dss_Template = emptyPodTemplate\<lparr>pt_Spec := emptyPodSpec\<lparr>ps_Containers :=
        [\<lparr>c_Name = ''instana-agent'', c_Image = '''', c_ImagePullPolicy = '''', c_Command = [], c_Args = [],
          c_Env = [], c_VolumeMounts = [], c_Resources = emptyResourceRequirements, c_Ports = [],
          c_Privileged = None, c_LivenessProbe = None\<rparr>]\<rparr>\<rparr>,
      dss_UpdateStrategy = \<lparr>us_Type = '''', us_RollingUpdate = None\<rparr>\<rparr>
     emptyDaemonSetStatus\<rparr>"

abbreviation readyAgent :: instanaAgent where
  "readyAgent \<equiv> agentWith [finalizerV3] None"

definition runningWorld :: world where
  "runningWorld = (simWorld [] readyAgent exampleRemote)\<lparr>sv_get := (\<lambda>h gvk key. (runningObject, None))\<rparr>"

lemma runningWorld_simps [simp]:
  "sv_get runningWorld h gvk key = (runningObject, None)"
  "sv_getAgent runningWorld h req = (readyAgent, None)"
  "sv_apply runningWorld h obj dryRun = (obj, None)"
  "sv_statusPatchAgent runningWorld h old new = None"
  by (simp_all add: runningWorld_def simWorld_def)

lemma running_cm_Data [simp]: "cm_Data runningObject = None"
  by (simp add: cm_Data_def runningObject_def)

lemma running_fetches:
  "err (fst (getDaemonSet runningWorld s h)) = None"
  "err (fst (getConfigSecret runningWorld s h)) = None"
  "err (fst (getNamespacesConfigMap runningWorld s h)) = None"
  by (simp_all add: getDaemonSet_def getConfigSecret_def getNamespacesConfigMap_def fetchInfo_eq
      result_defs split: list.split)

lemma running_agents: "err (fst (getAllAgentsAvailableCondition runningWorld s h)) = None"
proof -
  have "\<exists>objs. fst (fetchAll runningWorld gvk_DaemonSet (sm_agentDaemonsets s) h) = Inr objs"
    unfolding fetchAll_ok by simp
  then show ?thesis
    by (auto simp: getAllAgentsAvailableCondition_def result_defs Let_def split_beta)
qed

lemma running_sensors:
  assumes "sm_agentOld s = Some readyAgent"
  shows "err (fst (getAllK8sSensorsAvailableCondition runningWorld s h)) = None"
  using assms
  by (simp add: getAllK8sSensorsAvailableCondition_def agentWith_def exampleAgent_def emptyK8sSensor_def
      client_GetAsResult_def client_Get_def result_defs Let_def)

lemma running_status:
  assumes old: "sm_agentOld s = Some readyAgent"
  shows "fst (updateAgentStatus runningWorld env s None h) = None"
proof -
  obtain r h1 where run: "agentWithUpdatedStatus runningWorld env s None h = (r, h1)" by (rule prod.exhaust)
  have none: "onFailure x meb_addSingle eb = eb" if "err x = None" for x :: "'x result" and eb
    using that by (simp add: onFailure_def isFailure_def isSuccess_def)
  have "err (fst (agentWithUpdatedStatus runningWorld env s None h)) = None"
    by (simp add: agentWithUpdatedStatus_def setConditionAndFireEvent_def Let_def split_beta none running_fetches
        running_agents running_sensors [OF old] result_Of_def newMultiErrorBuilder_def)
  with run updateAgentStatus_run [OF old run] show ?thesis by (simp add: Let_def meb_build_eq)
qed

lemma running_ApplyAll:
  assumes "list_all builder_returns builders"
  shows "fst (fst (ApplyAll runningWorld (newOperatorUtils runningWorld c ver a) builders s h)) = Ret None"
proof -
  let ?d = "newDependentLifecycleManager ver a" and ?ou = "newOperatorUtils runningWorld c ver a"
  obtain objs s1 where 1: "buildObjects ?ou builders s = (Ret objs, s1)"
    using buildObjects_returns [OF assms] by blast
  obtain objs2 s2 where 2: "buildObjects ?ou builders s1 = (Ret objs2, s2)"
    using buildObjects_returns [OF assms] by blast
  have app: "snd (fst (applyObjects runningWorld xs dryRun [] g)) = None" for xs dryRun g
    using applyObjects_error [of runningWorld xs dryRun "[]" g] by (simp add: batch_accepted_def apply_response_def)
  have upd: "fst (ou_Update ?ou xs g) = None" for xs g
    using updateDependentLifecycleInfo_first [of runningWorld c ?d xs g]
    by (auto simp: newOperatorUtils_def Let_def)
  have "fst (cleanupOnce runningWorld c ?d xs g) = None" for xs g
    by (simp add: cleanupOnce_def getLifecycleConfigMap_def client_Get_def client_Apply_def result_defs
        newMultiErrorBuilder_def Let_def)
  then have "cleanupAttempt runningWorld c ?d xs g = ((True, None), snd (cleanupOnce runningWorld c ?d xs g))" for xs g
    by (simp add: cleanupAttempt_def split_beta)
  then have cl: "fst (ou_Cleanup ?ou xs g) = None" for xs g
    using retry_first_finished [of "cleanupAttempt runningWorld c ?d xs" g None _ 5 "ms 100"]
    by (simp add: newOperatorUtils_def Let_def cleanupDependents_def)
  show ?thesis by (simp add: ApplyAll_def 1 2 split_beta newMultiErrorBuilder_def app upd cl)
qed

lemma running_resources:
  assumes enc: "encoders_total (oe_encoders oe)"
  defines "a \<equiv> agent_Default readyAgent"
  shows "fst (fst (reconcileResources runningWorld oe a (agentUtils runningWorld oe a) s h)) =
    Ret (reconcileSuccess emptyResult)"
proof -
  have spec: "sp_OpenShift (ag_Spec a) = Some False" "sp_Zones (ag_Spec a) = []" "ba_KeysSecret (ag_Agent a) = []"
    by (simp_all add: a_def agent_Default_def agentWith_def exampleAgent_def exampleBase_def defaultBaseAgent_def Let_def)
  have os: "isOpenShift runningWorld (agentUtils runningWorld oe a) g = ((False, reconcileContinue), g)" for g
    by (simp add: isOpenShift_def clusterIsOpenShift_def newOperatorUtils_def Let_def spec)
  have ps: "shouldSetPersistHostUniqueIDEnvVar runningWorld a None g =
      ((False, reconcileContinue), g @ [CGet gvk_DaemonSet \<lparr>nn_Namespace = ag_Namespace a, nn_Name = ag_Name a\<rparr>])" for g
    by (simp add: shouldSetPersistHostUniqueIDEnvVar_def client_Get_def runningObject_def daemonSet_Containers_def
        emptyPodSpec_def emptyPodTemplate_def)
  have ctx: "snd (fst (createDeploymentContext runningWorld a False d g)) = None" for d g
    by (simp add: createDeploymentContext_def split_beta split: option.split)
  have ds: "getDaemonSetBuilders runningWorld a False b g = ((daemonSetBuilders a False b [], reconcileContinue), g)" for b g
    by (simp add: getDaemonSetBuilders_def daemonSetBuilders_def spec)
  have "fst (fst (ApplyAll runningWorld (agentUtils runningWorld oe a)
      (reconciledBuilders oe a False b [] ks details ctx) s g)) = Ret None" for b ks details ctx g
    unfolding a_def by (rule running_ApplyAll [OF reconciledBuilders_return [OF enc]])
  then have app: "fst (fst (applyResources runningWorld oe a False b (agentUtils runningWorld oe a) ks (getK8SensorBackends a)
      details s g)) = Ret reconcileContinue" for b ks details g
    by (simp add: applyResources_def split_beta ctx ds reconciledBuilders_def Let_def)
  show ?thesis
    by (simp add: reconcileResources_def os ps spec readKeysSecret_def split_beta app)
qed

theorem reconcile_success_complete_witness:
  "\<exists>h' objects pre rest new. Reconcile runningWorld exampleEnv exampleKey [] = ((emptyResult, None), h') \<and>
     h' = pre @ map (apply_call False) objects @ rest @ [CStatusPatchAgent readyAgent new] \<and>
     batch_accepted runningWorld objects False pre"
proof -
  let ?a = "agent_Default readyAgent" and ?h0 = "[] @ [getAgentCall exampleKey]"
  have got: "sv_getAgent runningWorld ?h0 exampleKey = (readyAgent, None)" by simp
  obtain r s h2 where rec: "reconcile runningWorld exampleEnv exampleKey newAgentStatusManager ?h0 = ((r, s), h2)"
    by (metis surj_pair)
  obtain h1 continues where
    ph: "finalizer_phase runningWorld (agentUtils runningWorld exampleEnv ?a) ?a
      (?h0 @ [getAgentCall exampleKey, CRunCommand cleanup_command]) h1 continues" and
    rest: "continues \<longrightarrow> reconcileResources runningWorld exampleEnv ?a (agentUtils runningWorld exampleEnv ?a)
      (setAgentOld readyAgent newAgentStatusManager) h1 = ((r, s), h2)"
    using reconcile_phase [OF exampleEnv_laws got rec] by (auto split: if_splits)
  have continues using ph by cases auto
  with rest have rr: "reconcileResources runningWorld exampleEnv ?a (agentUtils runningWorld exampleEnv ?a)
      (setAgentOld readyAgent newAgentStatusManager) h1 = ((r, s), h2)" by blast
  then have r: "r = Ret (reconcileSuccess emptyResult)"
    using running_resources [OF exampleEncoders_total, of "setAgentOld readyAgent newAgentStatusManager" h1] by simp
  have old: "sm_agentOld s = Some readyAgent" 
    using reconcileResources_agentOld [OF rr [unfolded r]] by simp
  have "fst (Reconcile runningWorld exampleEnv exampleKey []) = (emptyResult, None)"
    using rec r running_status [OF old, of "oe_status exampleEnv" h2]
    by (simp add: Reconcile_def isNotFound_def deferStatusUpdate_def split_beta Let_def)
  then obtain h' where run: "Reconcile runningWorld exampleEnv exampleKey [] = ((emptyResult, None), h')"
    by (metis prod.collapse)
  from reconcile_success_complete [OF exampleEnv_laws run _ got] run show ?thesis
    by (fastforce simp: Let_def)
qed

end
