(* ===== verification/Remote_Agent.thy ===== *)
theory Remote_Agent
  imports Secrets Daemon_Set
begin

text \<open>
  The remote agent's Deployment and service account (\<open>builders/remote-agent\<close>). Host names are
  ASCII strings: for these a byte is a character, as \<open>strings.ToLower\<close> and the regular
  expressions of \<open>sanitizeHostname\<close> treat it.
\<close>

subsection \<open>\<open>sanitizeHostname\<close>\<close>

definition toLower :: "char \<Rightarrow> char" where
  "toLower ch = (if CHR ''A'' \<le> ch \<and> ch \<le> CHR ''Z'' then char_of (of_char ch + 32 :: nat) else ch)"

text \<open>The classes \<open>[a-z0-9]\<close> and \<open>[^a-z0-9-]\<close>.\<close>

definition lowerAlnum :: "char \<Rightarrow> bool" where
  "lowerAlnum ch = (CHR ''a'' \<le> ch \<and> ch \<le> CHR ''z'' \<or> CHR ''0'' \<le> ch \<and> ch \<le> CHR ''9'')"

definition replaceInvalid :: "char \<Rightarrow> char" where
  "replaceInvalid ch = (if \<not> lowerAlnum ch \<and> ch \<noteq> CHR ''-'' then CHR ''-'' else ch)"

definition startsAlnum :: "string \<Rightarrow> bool" where
  "startsAlnum s = (s \<noteq> '''' \<and> lowerAlnum (hd s))"

definition endsAlnum :: "string \<Rightarrow> bool" where
  "endsAlnum s = (s \<noteq> '''' \<and> lowerAlnum (last s))"

definition sanitizeHostname :: "string \<Rightarrow> string" where
  "sanitizeHostname hostname =
     (let hostname = map toLower hostname;
          hostname = map replaceInvalid hostname;
          hostname = (if length hostname > 0 \<and> \<not> startsAlnum hostname then ''a'' @ hostname else hostname);
          hostname = (if length hostname > 0 \<and> \<not> endsAlnum hostname then hostname @ ''0'' else hostname)
      in if length hostname > 63
         then (let hostname = take 63 hostname
               in if \<not> endsAlnum hostname then take 62 hostname @ ''0'' else hostname)
         else hostname)"

subsection \<open>The Deployment\<close>

record remoteDeploymentBuilder =
  rdb_agent :: instanaAgentRemote
  rdb_zone :: "zone option"

abbreviation rdb_selector :: "remoteDeploymentBuilder \<Rightarrow> podSelectorLabelGenerator" where
  "rdb_selector d \<equiv> podSelectorLabelsRemote (rdb_agent d) ComponentInstanaAgentRemote"

definition rd_getPodTemplateLabels :: "remoteDeploymentBuilder \<Rightarrow> strmap" where
  "rd_getPodTemplateLabels d =
     (let b = ra_Agent (rdb_agent d);
          podLabels = modeLabels (ap_Labels (ba_Pod b))
            (optional_GetOrDefault (optional_Of '''' (ba_Mode b)) ''APM'')
      in getPodLabels (rdb_selector d) (Some podLabels))"

definition remoteEnvVars :: "envVarRemoteKind list" where
  "remoteEnvVars =
     [AgentModeEnvRemote, ZoneNameEnvRemote, AgentEndpointEnvRemote, AgentEndpointPortEnvRemote,
      MavenRepoURLEnvRemote, MavenRepoFeaturesPathRemote, MavenRepoSharedPathRemote,
      MirrorReleaseRepoUrlEnvRemote, MirrorReleaseRepoUsernameEnvRemote,
      MirrorReleaseRepoPasswordEnvRemote, MirrorSharedRepoUrlEnvRemote,
      MirrorSharedRepoUsernameEnvRemote, MirrorSharedRepoPasswordEnvRemote, ProxyHostEnvRemote,
      ProxyPortEnvRemote, ProxyProtocolEnvRemote, ProxyUserEnvRemote, ProxyPasswordEnvRemote,
      ProxyUseDNSEnvRemote, ListenAddressEnvRemote, RedactK8sSecretsEnvRemote, ConfigPathEnvRemote,
      EntrypointSkipBackendTemplateGenerationRemote, InstanaAgentKeyEnvRemote, DownloadKeyEnvRemote,
      InstanaAgentPodNameEnvRemote, PodIPEnvRemote]"

definition rd_getEnvVars :: "remoteDeploymentBuilder \<Rightarrow> envVar list" where
  "rd_getEnvVars d =
     (let baseEnvVars = remote_envBuilder_Build (rdb_agent d) None remoteEnvVars;
          envVarMap = putAllEnv baseEnvVars [];
          envVarMap = putAllEnv (ap_Env (ba_Pod (ra_Agent (rdb_agent d)))) envVarMap
      in sortEnvVarsByName (map snd envVarMap))"

definition rd_getVolumes :: "remoteDeploymentBuilder \<Rightarrow> volume list \<times> volumeMount list" where
  "rd_getVolumes d = remote_volumeBuilder_Build (rdb_agent d)
     [ConfigVolumeRemote, TlsVolumeRemote, RepoVolumeRemote, SecretsVolumeRemote]"

definition rd_getUserVolumes :: "remoteDeploymentBuilder \<Rightarrow> volume list \<times> volumeMount list" where
  "rd_getUserVolumes d = buildFromUserConfig (ra_Agent (rdb_agent d))"

definition rd_getName :: "remoteDeploymentBuilder \<Rightarrow> string" where
  "rd_getName d = (case rdb_zone d of None \<Rightarrow> ra_Name (rdb_agent d)
     | Some z \<Rightarrow> ra_Name (rdb_agent d) @ ''-'' @ zone_Name z)"

definition rd_getHostName :: "remoteDeploymentBuilder \<Rightarrow> string" where
  "rd_getHostName d =
     (case rs_Hostname (ra_Spec (rdb_agent d)) of
        Some name \<Rightarrow> if name \<noteq> '''' then sanitizeHostname name
          else ''instana-agent-r-'' @ rd_getName d @ ''-'' @ ra_Namespace (rdb_agent d)
      | None \<Rightarrow> ''instana-agent-r-'' @ rd_getName d @ ''-'' @ ra_Namespace (rdb_agent d))"

definition rd_getNonStandardLabels :: "remoteDeploymentBuilder \<Rightarrow> strmap option" where
  "rd_getNonStandardLabels d =
     (case rdb_zone d of None \<Rightarrow> None | Some z \<Rightarrow> Some [(ZoneLabel, zone_Name z)])"

definition rd_getAffinity :: "remoteDeploymentBuilder \<Rightarrow> affinity" where
  "rd_getAffinity d = (case rdb_zone d of None \<Rightarrow> ap_Affinity (ba_Pod (ra_Agent (rdb_agent d)))
     | Some z \<Rightarrow> zone_Affinity z)"

definition rd_getTolerations :: "remoteDeploymentBuilder \<Rightarrow> opaque list" where
  "rd_getTolerations d = (case rdb_zone d of None \<Rightarrow> ap_Tolerations (ba_Pod (ra_Agent (rdb_agent d)))
     | Some z \<Rightarrow> zone_Tolerations z)"

definition rd_getLivenessProbe :: "baseAgentSpec \<Rightarrow> probe" where
  "rd_getLivenessProbe b =
     (case ap_LivenessProbe (ba_Pod b) of Some p \<Rightarrow> p
      | None \<Rightarrow> HTTPGetProbe ''127.0.0.1'' ''/status'' 42699 600 5 10 6)"

definition rd_build :: "remoteDeploymentBuilder \<Rightarrow> k8sObject" where
  "rd_build d =
     (let a = rdb_agent d; b = ra_Agent a; pod = ba_Pod b;
          (volumes, volumeMounts) = rd_getVolumes d;
          (userVolumes, userVolumeMounts) = rd_getUserVolumes d
      in mkObject ''apps/v1'' ''Deployment''
           ((named (''instana-agent-r-'' @ rd_getName d) (ra_Namespace a))\<lparr>om_Labels := rd_getNonStandardLabels d\<rparr>)
           (DeploymentBody
             \<lparr>dps_Replicas = Some 1,
              dps_MinReadySeconds = 0,
              dps_Selector = Some (getPodSelectorLabels (rdb_selector d)),
              dps_Template = \<lparr>
                pt_Labels = Some (rd_getPodTemplateLabels d),
                pt_Annotations = ap_Annotations pod,
                pt_Spec = emptyPodSpec\<lparr>
                  ps_ServiceAccountName := ''instana-agent-remote'',
                  ps_Volumes := volumes @ userVolumes,
                  ps_NodeSelector := ap_NodeSelector pod,
                  ps_PriorityClassName := ap_PriorityClassName pod,
                  ps_DNSPolicy := ''ClusterFirstWithHostNet'',
                  ps_ImagePullSecrets := remote_imagePullSecrets a,
                  ps_Hostname := rd_getHostName d,
                  ps_Containers := [\<lparr>
                    c_Name = rd_getName d,
                    c_Image = Image (ba_ImageSpec b),
                    c_ImagePullPolicy = im_PullPolicy (ba_ImageSpec b),
                    c_Command = [], c_Args = [],
                    c_Env = rd_getEnvVars d,
                    c_VolumeMounts = volumeMounts @ userVolumeMounts,
                    c_Resources = resources_GetOrDefault (ap_ResourceRequirements pod),
                    c_Ports = [],
                    c_Privileged = None,
                    c_LivenessProbe = Some (rd_getLivenessProbe b)\<rparr>],
                  ps_Tolerations := rd_getTolerations d,
                  ps_Affinity := Some (rd_getAffinity d)\<rparr>\<rparr>,
              dps_StrategyType = ''RollingUpdate''\<rparr>
             emptyDeploymentStatus))"

definition rd_Build :: "remoteDeploymentBuilder \<Rightarrow> remoteStatusManager \<Rightarrow> k8sObject option go \<times> remoteStatusManager" where
  "rd_Build d s =
     (let a = rdb_agent d; b = ra_Agent a in
      if ba_Key b = '''' \<and> ba_KeysSecret b = '''' \<or>
         rdb_zone d = None \<and> rs_ZoneName (ra_Spec a) = '''' \<or>
         rdb_zone d \<noteq> None
      then (Ret None, s)
      else (let obj = rd_build d in (Ret (Some obj), addAgentDeployment (objectKeyFromObject obj) s)))"

text \<open>The backend and the keys secret are stored in the builder but not read by it.\<close>

definition newRemoteDeploymentBuilder ::
  "instanaAgentRemote \<Rightarrow> k8SensorBackend \<Rightarrow> k8sObject option \<Rightarrow> remoteStatusManager objectBuilder" where
  "newRemoteDeploymentBuilder a backend keysSecret =
     \<lparr>ob_Build = rd_Build \<lparr>rdb_agent = a, rdb_zone = None\<rparr>,
      ob_ComponentName = ComponentInstanaAgentRemote, ob_IsNamespaced = True\<rparr>"

definition remote_serviceAccount_build :: "instanaAgentRemote \<Rightarrow> k8sObject" where
  "remote_serviceAccount_build a = mkObject ''v1'' ''ServiceAccount''
     ((named ''instana-agent-remote'' (ra_Namespace a))
        \<lparr>om_Annotations := sa_Annotations (rs_ServiceAccount (ra_Spec a))\<rparr>) ServiceAccountBody"

definition remote_serviceAccount :: "instanaAgentRemote \<Rightarrow> 's objectBuilder" where
  "remote_serviceAccount a = pureBuilder ComponentInstanaAgentRemote True
     (if derefOrEmpty False (sa_Create (rs_ServiceAccount (ra_Spec a)))
      then Some (remote_serviceAccount_build a) else None)"

subsection \<open>Lemmas\<close>

lemma lowerAlnum_digits [simp]: "lowerAlnum (CHR ''a'')" "lowerAlnum (CHR ''0'')" "\<not> lowerAlnum (CHR ''-'')"
  by (simp_all add: lowerAlnum_def)

abbreviation hostChar :: "char \<Rightarrow> bool" where
  "hostChar ch \<equiv> lowerAlnum ch \<or> ch = CHR ''-''"

lemma replaceInvalid_hostChar: "hostChar (replaceInvalid ch)"
  by (simp add: replaceInvalid_def)

lemma rd_selector_matches: "selector_matches (getPodSelectorLabels (rdb_selector d)) (rd_getPodTemplateLabels d)"
  unfolding rd_getPodTemplateLabels_def Let_def by (rule psl.selector_matches_pods)

lemma rd_volumes:
  "distinct (map vol_Name (fst (rd_getVolumes d)))"
  "map vm_Name (snd (rd_getVolumes d)) = map vol_Name (fst (rd_getVolumes d))"
  unfolding rd_getVolumes_def remote_volumeBuilder_Build_def
  by (rule remote_volumes.distinct_names, simp, rule remote_volumes.mount_names)

lemma remote_secretItems_redacted: "remote_secretItems (redactSecrets b) = remote_secretItems b"
  by (simp add: remote_secretItems_def itemIf_def)

lemma remote_getBuilder_redacted: "remote_getBuilder (remote_redacted a) = remote_getBuilder a"
proof
  fix k
  have "remote_tlsVolume (remote_redacted a) = remote_tlsVolume a"
    by (auto simp: remote_tlsVolume_def tlsIsEnabled_def tlsSecretName_def)
  then show "remote_getBuilder (remote_redacted a) k = remote_getBuilder a k"
    by (cases k) (simp_all add: remote_getBuilder_def remote_configVolume_def remote_repoVolume_def
        remote_secretsVolume_def remote_secretItems_redacted Let_def)
qed

lemma rd_getEnvVars_redacted:
  assumes "secretMountsOn (rs_UseSecretMounts (ra_Spec (rdb_agent d)))"
  shows "rd_getEnvVars (d\<lparr>rdb_agent := remote_redacted (rdb_agent d)\<rparr>) = rd_getEnvVars d"
proof -
  have "buildRemote (remote_redacted (rdb_agent d)) z = buildRemote (rdb_agent d) z" for z
    using buildRemote_redacted [OF assms] by (rule ext)
  then show ?thesis by (simp add: rd_getEnvVars_def remote_Build_eq userEnvs_eq)
qed

lemma rd_parts_redacted:
  "rd_getVolumes (d\<lparr>rdb_agent := remote_redacted (rdb_agent d)\<rparr>) = rd_getVolumes d"
  "rd_getUserVolumes (d\<lparr>rdb_agent := remote_redacted (rdb_agent d)\<rparr>) = rd_getUserVolumes d"
  "rd_getName (d\<lparr>rdb_agent := remote_redacted (rdb_agent d)\<rparr>) = rd_getName d"
  "rd_getNonStandardLabels (d\<lparr>rdb_agent := remote_redacted (rdb_agent d)\<rparr>) = rd_getNonStandardLabels d"
  "rd_getAffinity (d\<lparr>rdb_agent := remote_redacted (rdb_agent d)\<rparr>) = rd_getAffinity d"
  "rd_getTolerations (d\<lparr>rdb_agent := remote_redacted (rdb_agent d)\<rparr>) = rd_getTolerations d"
  "rd_getPodTemplateLabels (d\<lparr>rdb_agent := remote_redacted (rdb_agent d)\<rparr>) = rd_getPodTemplateLabels d"
  by (simp_all add: rd_getVolumes_def remote_volumeBuilder_Build_def remote_getBuilder_redacted
      rd_getUserVolumes_def buildFromUserConfig_def rd_getName_def rd_getNonStandardLabels_def
      rd_getAffinity_def rd_getTolerations_def rd_getPodTemplateLabels_def podSelectorLabelsRemote_def
      podSelectorLabelsWithZoneInfoRemote_def Let_def cong: option.case_cong)

lemma rd_getHostName_redacted:
  "rd_getHostName (d\<lparr>rdb_agent := remote_redacted (rdb_agent d)\<rparr>) = rd_getHostName d"
  by (simp add: rd_getHostName_def rd_parts_redacted split: option.split)

lemma rd_build_redacted:
  assumes "secretMountsOn (rs_UseSecretMounts (ra_Spec (rdb_agent d)))"
  shows "rd_build (d\<lparr>rdb_agent := remote_redacted (rdb_agent d)\<rparr>) = rd_build d"
  unfolding rd_build_def rd_getEnvVars_redacted [OF assms] rd_parts_redacted rd_getHostName_redacted
  by (simp add: podSelectorLabelsRemote_def podSelectorLabelsWithZoneInfoRemote_def rd_getLivenessProbe_def
      remote_imagePullSecrets_def useContainersSecret_def remote_containersSecretName_def Let_def)

text \<open>What a pod's host name must be, a DNS label.\<close>

definition validLabel :: "string \<Rightarrow> bool" where
  "validLabel s \<longleftrightarrow> s \<noteq> '''' \<and> length s \<le> 63 \<and> list_all (\<lambda>ch. lowerAlnum ch \<or> ch = CHR ''-'') s \<and>
     lowerAlnum (hd s) \<and> lowerAlnum (last s)"

lemma toLower_valid: "hostChar ch \<Longrightarrow> replaceInvalid (toLower ch) = ch"
proof -
  assume ch: "hostChar ch"
  have "\<not> (CHR ''A'' \<le> ch \<and> ch \<le> CHR ''Z'')"
  proof
    assume *: "CHR ''A'' \<le> ch \<and> ch \<le> CHR ''Z''"
    then have "\<not> CHR ''a'' \<le> ch" "\<not> ch \<le> CHR ''9''" "ch \<noteq> CHR ''-''"
      by (auto dest: order.trans [of "CHR ''a''"] order.trans [of _ _ "CHR ''9''"])
    with ch show False by (auto simp: lowerAlnum_def)
  qed
  with ch show ?thesis by (auto simp: toLower_def replaceInvalid_def)
qed

lemma validLabel_take:
  assumes "list_all hostChar s" and "startsAlnum s" and "length s > 63"
  shows "validLabel (if \<not> endsAlnum (take 63 s) then take 62 (take 63 s) @ ''0'' else take 63 s)"
proof -
  have ne: "take 63 s \<noteq> []" "take 62 s \<noteq> []" using assms(3) by auto
  have "list_all hostChar (take n s)" for n
    using assms(1) by (auto simp: list_all_iff dest: in_set_takeD)
  moreover have "hd (take 62 s @ ''0'') = hd s" "hd (take 63 s) = hd s"
    using ne by (simp_all add: hd_append)
  ultimately show ?thesis
    using assms(2,3) ne by (auto simp: validLabel_def startsAlnum_def endsAlnum_def)
qed

subsection \<open>Properties\<close>

text \<open>
  C39: a host name given in the custom resource is turned into a valid host name for a pod, a DNS
  label: not empty, at most 63 characters, only lower case letters, digits and hyphens, a letter
  or digit at either end. A name that is already valid is left unchanged.
\<close>

theorem sanitizeHostname_valid:
  assumes "hostname \<noteq> ''''"
  shows "validLabel (sanitizeHostname hostname) \<and>
    (validLabel hostname \<longrightarrow> sanitizeHostname hostname = hostname)"
proof
  define h1 where "h1 = map replaceInvalid (map toLower hostname)"
  define h2 where "h2 = (if length h1 > 0 \<and> \<not> startsAlnum h1 then ''a'' @ h1 else h1)"
  define h3 where "h3 = (if length h2 > 0 \<and> \<not> endsAlnum h2 then h2 @ ''0'' else h2)"
  have 1: "list_all hostChar h1" "h1 \<noteq> []"
    using assms by (auto simp: h1_def list_all_iff replaceInvalid_hostChar)
  then have 2: "list_all hostChar h2" "h2 \<noteq> []" "startsAlnum h2"
    by (auto simp: h2_def startsAlnum_def)
  then have 3: "list_all hostChar h3" "h3 \<noteq> []" "startsAlnum h3" "endsAlnum h3"
    by (auto simp: h3_def startsAlnum_def endsAlnum_def)
  have eq: "sanitizeHostname hostname =
      (if length h3 > 63 then (if \<not> endsAlnum (take 63 h3) then take 62 (take 63 h3) @ ''0'' else take 63 h3) else h3)"
    by (simp only: sanitizeHostname_def Let_def h1_def h2_def h3_def)
  show "validLabel (sanitizeHostname hostname)"
    using 3 validLabel_take [of h3] by (auto simp: eq validLabel_def startsAlnum_def endsAlnum_def)
  show "validLabel hostname \<longrightarrow> sanitizeHostname hostname = hostname"
  proof
    assume v: "validLabel hostname"
    then have "h1 = hostname" by (auto simp: h1_def validLabel_def list_all_iff toLower_valid intro!: map_idI)
    with v have "h2 = hostname" "h3 = hostname"
      by (auto simp: h2_def h3_def validLabel_def startsAlnum_def endsAlnum_def)
    with v show "sanitizeHostname hostname = hostname" by (simp add: eq validLabel_def)
  qed
qed

theorem sanitizeHostname_valid_witness:
  "validLabel (sanitizeHostname ''-My.Host_'') \<and> sanitizeHostname ''-My.Host_'' = ''a-my-host-0''"
proof -
  have "sanitizeHostname ''-My.Host_'' = ''a-my-host-0''" by code_simp
  with sanitizeHostname_valid [of "''-My.Host_''"] show ?thesis by simp
qed

text \<open>
  the remote agent's Deployment: its selector matches its pod template whatever labels the
  user adds, the operator's volumes have different names and every mount of the operator names
  one of them; with secret mounts on it does not depend on the values of the credentials; and
  it is registered with the status manager.
\<close>

theorem remote_deployment_well_formed:
  assumes "rd_Build d s = (Ret (Some obj), s')"
  shows "\<exists>spec. ko_Body obj = DeploymentBody spec emptyDeploymentStatus \<and>
    selector_matches (the (dps_Selector spec)) (the (pt_Labels (dps_Template spec))) \<and>
    distinct (map vol_Name (fst (rd_getVolumes d))) \<and>
    (\<exists>user. ps_Volumes (pt_Spec (dps_Template spec)) = fst (rd_getVolumes d) @ user) \<and>
    map vm_Name (snd (rd_getVolumes d)) = map vol_Name (fst (rd_getVolumes d)) \<and>
    (secretMountsOn (rs_UseSecretMounts (ra_Spec (rdb_agent d))) \<longrightarrow>
      rd_Build (d\<lparr>rdb_agent := remote_redacted (rdb_agent d)\<rparr>) s = (Ret (Some obj), s')) \<and>
    set (rsm_agentDeployments s') = insert (objectKeyFromObject obj) (set (rsm_agentDeployments s))"
proof -
  from assms have obj: "obj = rd_build d" and s': "s' = addAgentDeployment (objectKeyFromObject obj) s"
    by (auto simp: rd_Build_def Let_def split: if_splits)
  let ?d' = "d\<lparr>rdb_agent := remote_redacted (rdb_agent d)\<rparr>"
  have "rd_Build ?d' s = (Ret (Some obj), s')" if "secretMountsOn (rs_UseSecretMounts (ra_Spec (rdb_agent d)))"
    using assms rd_build_redacted [OF that] by (auto simp: rd_Build_def Let_def split: if_splits)
  moreover have "\<exists>spec. ko_Body obj = DeploymentBody spec emptyDeploymentStatus \<and>
      dps_Selector spec = Some (getPodSelectorLabels (rdb_selector d)) \<and>
      pt_Labels (dps_Template spec) = Some (rd_getPodTemplateLabels d) \<and>
      ps_Volumes (pt_Spec (dps_Template spec)) = fst (rd_getVolumes d) @ fst (rd_getUserVolumes d)"
    by (simp add: obj rd_build_def Let_def split_beta)
  ultimately show ?thesis
    using s' rd_selector_matches [of d] rd_volumes [of d]
    by (auto simp: addAgentDeployment_def set_Contains_toSet)
qed

definition exampleRemoteBuilder :: remoteDeploymentBuilder where
  "exampleRemoteBuilder = \<lparr>rdb_agent = exampleRemote, rdb_zone = None\<rparr>"

theorem remote_deployment_well_formed_witness:
  "\<exists>obj s' spec. rd_Build exampleRemoteBuilder newRemoteStatusManager = (Ret (Some obj), s') \<and>
     ko_Body obj = DeploymentBody spec emptyDeploymentStatus \<and>
     selector_matches (the (dps_Selector spec)) (the (pt_Labels (dps_Template spec)))"
proof -
  obtain obj s' where b: "rd_Build exampleRemoteBuilder newRemoteStatusManager = (Ret (Some obj), s')"
    by (auto simp: rd_Build_def exampleRemoteBuilder_def exampleRemote_def exampleBase_def Let_def)
  from remote_deployment_well_formed [OF b] b show ?thesis by blast
qed

end
