(* ===== verification/Remote_Controller.thy ===== *)
theory Remote_Controller
  imports Agent_Reconcile Remote_Agent
begin

text \<open>
  The controller of \<open>InstanaAgentRemote\<close> (\<open>src/controllers\<close>: \<open>remote_agent.go\<close>,
  \<open>remote_cleanup.go\<close>, \<open>remote_finalizer.go\<close>, \<open>remote_apply.go\<close>, \<open>remoteagent_controller.go\<close>),
  modelled as the controller of the agent is: a function from the history of calls to a result
  and the longer history, with the status manager as a state.
\<close>

subsection \<open>\<open>remote_agent.go\<close>\<close>

abbreviation ra_Finalizers :: "instanaAgentRemote \<Rightarrow> string list" where
  "ra_Finalizers a \<equiv> om_Finalizers (ra_Meta a)"

definition remote_set_finalizers :: "string list \<Rightarrow> instanaAgentRemote \<Rightarrow> instanaAgentRemote" where
  "remote_set_finalizers fs a = a\<lparr>ra_Meta := (ra_Meta a)\<lparr>om_Finalizers := fs\<rparr>\<rparr>"

definition getInstanaAgentRemote ::
  "world \<Rightarrow> namespacedName \<Rightarrow> history \<Rightarrow> (instanaAgentRemote option \<times> reconcileReturn) \<times> history" where
  "getInstanaAgentRemote w req h =
     (case sv_getRemote w h req of (agent, e) \<Rightarrow>
        (if isNotFound e then (None, reconcileSuccess emptyResult)
         else if e \<noteq> None then (None, reconcileFailure e)
         else (Some agent, reconcileContinue), h @ [CGet gvk_InstanaAgentRemote req]))"

text \<open>Unlike the agent's controller, a patch of an object that is gone is a failure here.\<close>

definition remote_updateAgent ::
  "world \<Rightarrow> instanaAgentRemote \<Rightarrow> instanaAgentRemote \<Rightarrow> history \<Rightarrow> reconcileReturn \<times> history" where
  "remote_updateAgent w agentOld agentNew h =
     (let e = sv_patchRemote w h agentOld agentNew
      in (if e = None then reconcileSuccess \<lparr>cr_Requeue = True\<rparr> else reconcileFailure e,
          h @ [CPatchRemote agentOld agentNew]))"

subsection \<open>\<open>remote_cleanup.go\<close> and \<open>remote_finalizer.go\<close>\<close>

definition remote_ctrl_cleanupDependents ::
  "world \<Rightarrow> operatorEnv \<Rightarrow> instanaAgentRemote \<Rightarrow> operatorUtils \<Rightarrow> history \<Rightarrow> reconcileReturn \<times> history" where
  "remote_ctrl_cleanupDependents w oe agentOld ou h =
     (case oe_removeFinalizer oe finalizerV3 (ra_Finalizers agentOld) of (fs, removed) \<Rightarrow>
        let agentNew = remote_set_finalizers fs agentOld in
        if \<not> removed then (reconcileContinue, h)
        else (case DeleteAll ou h of (e, h1) \<Rightarrow>
          if e \<noteq> None then (reconcileFailure e, h1) else remote_updateAgent w agentOld agentNew h1))"

definition remote_cleanupNodeLabels :: "history \<Rightarrow> history" where
  "remote_cleanupNodeLabels h = h @ [CRunCommand cleanup_command]"

definition remote_handleDeletion ::
  "world \<Rightarrow> operatorEnv \<Rightarrow> instanaAgentRemote \<Rightarrow> operatorUtils \<Rightarrow> history \<Rightarrow> reconcileReturn \<times> history" where
  "remote_handleDeletion w oe agent ou h =
     (let h1 = remote_cleanupNodeLabels h in
      if om_DeletionTimestamp (ra_Meta agent) = None then (reconcileContinue, h1)
      else (case remote_ctrl_cleanupDependents w oe agent ou h1 of (cleanupDependentsRes, h2) \<Rightarrow>
        if suppliesReconcileResult cleanupDependentsRes then (cleanupDependentsRes, h2)
        else (reconcileSuccess emptyResult, h2)))"

definition remote_addOrUpdateFinalizers ::
  "world \<Rightarrow> operatorEnv \<Rightarrow> instanaAgentRemote \<Rightarrow> history \<Rightarrow> reconcileReturn \<times> history" where
  "remote_addOrUpdateFinalizers w oe agentOld h =
     (case oe_addFinalizer oe finalizerV3 (ra_Finalizers agentOld) of (fs, added) \<Rightarrow>
        if added then remote_updateAgent w agentOld (remote_set_finalizers fs agentOld) h
        else (reconcileContinue, h))"

subsection \<open>\<open>remote_apply.go\<close>\<close>

definition getInstanaAgentRemoteDeployments ::
  "instanaAgentRemote \<Rightarrow> k8SensorBackend list \<Rightarrow> k8sObject \<Rightarrow> remoteStatusManager objectBuilder list" where
  "getInstanaAgentRemoteDeployments agent additionalBackends keysSecret =
     map (\<lambda>backend. newRemoteDeploymentBuilder agent backend (Some keysSecret)) additionalBackends"

definition remoteBuilders ::
  "operatorEnv \<Rightarrow> instanaAgentRemote \<Rightarrow> k8sObject \<Rightarrow> k8SensorBackend list \<Rightarrow> remoteStatusManager objectBuilder list" where
  "remoteBuilders oe agent keysSecret additionalBackends =
     getInstanaAgentRemoteDeployments agent additionalBackends keysSecret @
     [newRemoteConfigBuilder (oe_encoders oe) agent (Some keysSecret) additionalBackends,
      newRemoteContainerBuilder (oe_encoders oe) agent (Some keysSecret),
      newRemoteTlsSecretBuilder agent,
      remote_serviceAccount agent,
      newRemoteKeysSecretBuilder agent additionalBackends]"

definition remote_applyResources ::
  "world \<Rightarrow> operatorEnv \<Rightarrow> instanaAgentRemote \<Rightarrow> k8sObject \<Rightarrow> k8SensorBackend list \<Rightarrow> remoteStatusManager \<Rightarrow>
   history \<Rightarrow> (reconcileReturn go \<times> remoteStatusManager) \<times> history" where
  "remote_applyResources w oe agent keysSecret additionalBackends s h =
     (case remote_ApplyAll w (oe_codec oe) (oe_version oe) agent
             (remoteBuilders oe agent keysSecret additionalBackends) s h of
        ((Panic p, s1), h1) \<Rightarrow> ((Panic p, s1), h1)
      | ((Ret e, s1), h1) \<Rightarrow>
        ((Ret (if e \<noteq> None then reconcileFailure e else reconcileContinue), s1), h1))"

subsection \<open>\<open>remoteagent_controller.go\<close>\<close>

definition remote_reconcileResources ::
  "world \<Rightarrow> operatorEnv \<Rightarrow> instanaAgentRemote \<Rightarrow> remoteStatusManager \<Rightarrow> history \<Rightarrow>
   (reconcileReturn go \<times> remoteStatusManager) \<times> history" where
  "remote_reconcileResources w oe agent s h =
     (case readKeysSecret w (ba_KeysSecret (ra_Agent agent)) (ra_Namespace agent) h of (keysSecret, h1) \<Rightarrow>
      case remote_applyResources w oe agent keysSecret (getRemoteSensorBackends agent) s h1 of
        ((Panic p, s1), h2) \<Rightarrow> ((Panic p, s1), h2)
      | ((Ret applyResourcesRes, s1), h2) \<Rightarrow>
        ((Ret (if suppliesReconcileResult applyResourcesRes then applyResourcesRes
               else reconcileSuccess emptyResult), s1), h2))"

definition remote_reconcile ::
  "world \<Rightarrow> operatorEnv \<Rightarrow> namespacedName \<Rightarrow> remoteStatusManager \<Rightarrow> history \<Rightarrow>
   (reconcileReturn go \<times> remoteStatusManager) \<times> history" where
  "remote_reconcile w oe req s h =
     (case getInstanaAgentRemote w req h of ((got, getAgentRes), h1) \<Rightarrow>
      if suppliesReconcileResult getAgentRes then ((Ret getAgentRes, s), h1)
      else (let s1 = remote_setAgentOld (the got) s;
                agent = remote_Default (the got);
                ou = newRemoteOperatorUtils w (oe_codec oe) (oe_version oe) agent
        in case remote_handleDeletion w oe agent ou h1 of (handleDeletionRes, h2) \<Rightarrow>
           if suppliesReconcileResult handleDeletionRes then ((Ret handleDeletionRes, s1), h2)
           else (case remote_addOrUpdateFinalizers w oe agent h2 of (addFinalizerRes, h3) \<Rightarrow>
             if suppliesReconcileResult addFinalizerRes then ((Ret addFinalizerRes, s1), h3)
             else remote_reconcileResources w oe agent s1 h3)))"

definition remote_deferStatusUpdate ::
  "world \<Rightarrow> operatorEnv \<Rightarrow> remoteStatusManager \<Rightarrow> error \<Rightarrow> history \<Rightarrow> error \<times> history" where
  "remote_deferStatusUpdate w oe s reconcileErr h =
     (case remote_updateAgentStatus w (oe_status oe) s reconcileErr h of (e, h1) \<Rightarrow>
        (if e \<noteq> None then meb_build (newMultiErrorBuilder [reconcileErr, e]) else reconcileErr, h1))"

definition remote_Reconcile ::
  "world \<Rightarrow> operatorEnv \<Rightarrow> namespacedName \<Rightarrow> history \<Rightarrow> (ctrlResult \<times> error) \<times> history" where
  "remote_Reconcile w oe req h =
     (case remote_reconcile w oe req newRemoteStatusManager h of ((r, s), h1) \<Rightarrow>
        case bind_outcome r reconcileResult of
          Ret (result, reconcileErr) \<Rightarrow>
            (case remote_deferStatusUpdate w oe s reconcileErr h1 of (reconcileErr, h2) \<Rightarrow> ((result, reconcileErr), h2))
        | Panic p \<Rightarrow>
            (case remote_deferStatusUpdate w oe s None h1 of (reconcileErr, h2) \<Rightarrow>
              ((emptyResult, recovery_Catch (oe_stack oe) p reconcileErr), h2)))"

subsection \<open>Lemmas\<close>

abbreviation remoteUtils :: "world \<Rightarrow> operatorEnv \<Rightarrow> instanaAgentRemote \<Rightarrow> operatorUtils" where
  "remoteUtils w oe a \<equiv> newRemoteOperatorUtils w (oe_codec oe) (oe_version oe) a"

abbreviation ra_deleting :: "instanaAgentRemote \<Rightarrow> bool" where
  "ra_deleting a \<equiv> om_DeletionTimestamp (ra_Meta a) \<noteq> None"

abbreviation ra_FinalizerSet :: "instanaAgentRemote \<Rightarrow> string set" where
  "ra_FinalizerSet a \<equiv> set (ra_Finalizers a)"

abbreviation getRemoteCall :: "namespacedName \<Rightarrow> call" where
  "getRemoteCall req \<equiv> CGet gvk_InstanaAgentRemote req"

lemma remote_set_finalizers_simps [simp]:
  "ra_Finalizers (remote_set_finalizers fs a) = fs"
  by (simp add: remote_set_finalizers_def)

lemma remote_updateAgent_eq [simp]:
  "snd (remote_updateAgent w old new h) = h @ [CPatchRemote old new]"
  "suppliesReconcileResult (fst (remote_updateAgent w old new h))"
  by (simp_all add: remote_updateAgent_def Let_def)

lemma remote_Default_Meta [simp]: "ra_Meta (remote_Default a) = ra_Meta a"
  by (simp add: remote_Default_def Let_def)

text \<open>What a patch of the remote agent's finalizers may be.\<close>

definition remote_guarded_patch ::
  "operatorUtils \<Rightarrow> instanaAgentRemote \<Rightarrow> instanaAgentRemote \<Rightarrow> history \<Rightarrow> bool" where
  "remote_guarded_patch ou old new h \<longleftrightarrow>
     new = remote_set_finalizers (ra_Finalizers new) old \<and>
     (if ra_deleting old
      then finalizerV3 \<in> ra_FinalizerSet old \<and> ra_FinalizerSet new = ra_FinalizerSet old - {finalizerV3} \<and>
           (\<exists>g. DeleteAll ou g = (None, h))
      else finalizerV3 \<notin> ra_FinalizerSet old \<and> ra_FinalizerSet new = insert finalizerV3 (ra_FinalizerSet old))"

text \<open>The finalizer part of a run: at most one patch, the last call, and then the run is over.\<close>

definition remote_phase :: "operatorUtils \<Rightarrow> instanaAgentRemote \<Rightarrow> history \<Rightarrow> history \<Rightarrow> bool \<Rightarrow> bool" where
  "remote_phase ou a h h1 continues \<longleftrightarrow>
     (continues \<longrightarrow> \<not> ra_deleting a \<and> finalizerV3 \<in> ra_FinalizerSet a) \<and>
     (\<exists>tr. list_all no_patch tr \<and> (h1 = h @ tr \<or>
        (\<not> continues \<and> (ra_deleting a \<longrightarrow> DeleteAll ou h = (None, h @ tr)) \<and>
          (\<exists>new. h1 = h @ tr @ [CPatchRemote a new] \<and> remote_guarded_patch ou a new (h @ tr)))))"

lemma remote_handleDeletion_phase:
  assumes laws: "finalizer_laws oe" and del: "ra_deleting a"
  shows "suppliesReconcileResult (fst (remote_handleDeletion w oe a (remoteUtils w oe a) h)) \<and>
    remote_phase (remoteUtils w oe a) a (remote_cleanupNodeLabels h)
      (snd (remote_handleDeletion w oe a (remoteUtils w oe a) h)) False"
proof -
  let ?ou = "remoteUtils w oe a" and ?h = "remote_cleanupNodeLabels h"
  obtain fs where rm: "oe_removeFinalizer oe finalizerV3 (ra_Finalizers a) = (fs, finalizerV3 \<in> ra_FinalizerSet a)"
    and fs: "set fs = ra_FinalizerSet a - {finalizerV3}" by (rule removeFinalizerE [OF laws])
  obtain e h1 where da: "DeleteAll ?ou ?h = (e, h1)" by (rule prod.exhaust)
  obtain tr where tr: "h1 = ?h @ tr" "list_all no_patch tr"
    using remote_ou.emits_DeleteAll [of w "oe_codec oe" "oe_version oe" a] da by (metis emitsE snd_conv)
  have hd: "remote_handleDeletion w oe a ?ou h = (case remote_ctrl_cleanupDependents w oe a ?ou ?h of (r, h2) \<Rightarrow>
      if suppliesReconcileResult r then (r, h2) else (reconcileSuccess emptyResult, h2))"
    using del by (auto simp: remote_handleDeletion_def Let_def)
  show ?thesis
  proof (cases "finalizerV3 \<in> ra_FinalizerSet a \<and> e = None")
    case True
    then have "remote_guarded_patch ?ou a (remote_set_finalizers fs a) h1"
      using del fs da by (auto simp: remote_guarded_patch_def)
    with True hd rm da tr show ?thesis
      by (auto simp: remote_ctrl_cleanupDependents_def split_beta remote_phase_def)
  next
    case False
    with hd rm da tr show ?thesis
      by (auto simp: remote_ctrl_cleanupDependents_def remote_phase_def intro: exI [of _ "[]"])
  qed
qed

lemma remote_addOrUpdateFinalizers_phase:
  assumes laws: "finalizer_laws oe" and del: "\<not> ra_deleting a"
  shows "remote_phase ou a h (snd (remote_addOrUpdateFinalizers w oe a h))
    (\<not> suppliesReconcileResult (fst (remote_addOrUpdateFinalizers w oe a h)))"
proof -
  obtain fs where "oe_addFinalizer oe finalizerV3 (ra_Finalizers a) = (fs, finalizerV3 \<notin> ra_FinalizerSet a)"
    and "set fs = insert finalizerV3 (ra_FinalizerSet a)" by (rule addFinalizerE [OF laws])
  moreover from this(2) del have "finalizerV3 \<notin> ra_FinalizerSet a \<Longrightarrow>
      remote_guarded_patch ou a (remote_set_finalizers fs a) h"
    by (simp add: remote_guarded_patch_def)
  ultimately show ?thesis using del
    by (auto simp: remote_addOrUpdateFinalizers_def remote_phase_def intro!: exI [of _ "[]"])
qed

lemma remote_reconcile_phase:
  assumes laws: "finalizer_laws oe" and got: "sv_getRemote w h req = (a0, None)"
    and run: "remote_reconcile w oe req s h = ((r, s'), h')"
  defines "a \<equiv> remote_Default a0"
  shows "\<exists>h1 continues. remote_phase (remoteUtils w oe a) a (h @ [getRemoteCall req, CRunCommand cleanup_command]) h1 continues \<and>
    (if continues then remote_reconcileResources w oe a (remote_setAgentOld a0 s) h1 = ((r, s'), h')
     else (\<exists>x. r = Ret x) \<and> s' = remote_setAgentOld a0 s \<and> h' = h1)"
proof -
  let ?ou = "remoteUtils w oe a" and ?h1 = "h @ [getRemoteCall req]"
  have lab: "remote_cleanupNodeLabels ?h1 = h @ [getRemoteCall req, CRunCommand cleanup_command]"
    by (simp add: remote_cleanupNodeLabels_def)
  have ga: "getInstanaAgentRemote w req h = ((Some a0, reconcileContinue), ?h1)"
    using got by (simp add: getInstanaAgentRemote_def isNotFound_def)
  obtain r1 h2 where hd: "remote_handleDeletion w oe a ?ou ?h1 = (r1, h2)" by (rule prod.exhaust)
  show ?thesis
  proof (cases "ra_deleting a")
    case True
    from remote_handleDeletion_phase [OF laws this, of w ?h1] hd run show ?thesis
      unfolding remote_reconcile_def ga lab
      by (intro exI [of _ h2] exI [of _ False]) (auto simp: Let_def simp flip: a_def)
  next
    case False
    then have hd': "remote_handleDeletion w oe a ?ou ?h1 = (reconcileContinue, remote_cleanupNodeLabels ?h1)"
      by (simp add: remote_handleDeletion_def Let_def)
    obtain r2 h3 where au: "remote_addOrUpdateFinalizers w oe a (remote_cleanupNodeLabels ?h1) = (r2, h3)"
      by (rule prod.exhaust)
    from remote_addOrUpdateFinalizers_phase [OF laws False, of ?ou "remote_cleanupNodeLabels ?h1" w] au run show ?thesis
      unfolding remote_reconcile_def ga lab
      by (intro exI [of _ h3] exI [of _ "\<not> suppliesReconcileResult r2"])
        (auto simp: Let_def hd' lab simp flip: a_def split: if_splits)
  qed
qed

lemma emits_remote_resources: "emits no_patch (remote_reconcileResources w oe a s)"
  unfolding remote_reconcileResources_def [abs_def] remote_applyResources_def [abs_def] remote_ApplyAll_def [abs_def]
  by (intro emits_rules emits_bind emits_readKeysSecret remote_ou.emits_ApplyAll)

lemma emits_remote_status: "emits no_patch (remote_deferStatusUpdate w oe s e)"
proof -
  have [simp]: "emits no_patch (fetchInfo w gvk key)" "emits no_patch (fetchAll w gvk keys)" for gvk key keys
    by (rule emits_mono [OF emits_fetchInfo] emits_mono [OF emits_fetchAll]; simp)+
  have cond: "emits no_patch (setConditionAndFireEvent env c conds)" for env c conds
    by (simp add: emits_def setConditionAndFireEvent_def)
  have 1: "emits no_patch (remote_getConfigSecret w s)"
    unfolding remote_getConfigSecret_def [abs_def] by (intro emits_rules) simp
  have 2: "emits no_patch (remote_getDeployment w s)"
    by (cases "rsm_agentDeployments s" rule: remdups_adj.cases)
      (simp_all add: remote_getDeployment_def [abs_def] emits_return)
  have 3: "emits no_patch (remote_getAllAgentsAvailableCondition w s)"
  proof (rule emitsI)
    fix h
    obtain tr where "snd (fetchAll w gvk_Deployment (rsm_agentDeployments s) h) = h @ tr" "list_all no_patch tr"
      by (rule emitsE [of no_patch "fetchAll w gvk_Deployment (rsm_agentDeployments s)" h]) simp
    then show "\<exists>tr. snd (remote_getAllAgentsAvailableCondition w s h) = h @ tr \<and> list_all no_patch tr"
      by (auto simp: remote_getAllAgentsAvailableCondition_def Let_def split_beta split: sum.split)
  qed
  have 4: "emits no_patch (remoteWithUpdatedStatus w (oe_status oe) s e)"
    unfolding remoteWithUpdatedStatus_def [abs_def] Let_def
    by (intro emits_bind emits_rules cond 1 2 3)
  have "emits no_patch (remote_updateAgentStatus w (oe_status oe) s e)"
  proof (rule emitsI)
    fix h
    obtain r h1 where r: "remoteWithUpdatedStatus w (oe_status oe) s e h = (r, h1)" by (rule prod.exhaust)
    obtain tr where "h1 = h @ tr" "list_all no_patch tr" using emitsE [OF 4, of h] r by auto
    with r show "\<exists>tr. snd (remote_updateAgentStatus w (oe_status oe) s e h) = h @ tr \<and> list_all no_patch tr"
      by (cases "rsm_agentOld s") (simp_all add: remote_updateAgentStatus_def Let_def)
  qed
  then show ?thesis unfolding remote_deferStatusUpdate_def [abs_def] by (rule emits_result)
qed

lemma remote_Reconcile_phase:
  assumes laws: "finalizer_laws oe" and run: "remote_Reconcile w oe req h = (out, h')"
  shows "h' = h @ [getRemoteCall req] \<or>
    (\<exists>a0 h1 tr continues. sv_getRemote w h req = (a0, None) \<and>
       remote_phase (remoteUtils w oe (remote_Default a0)) (remote_Default a0)
         (h @ [getRemoteCall req, CRunCommand cleanup_command]) h1 continues \<and>
       h' = h1 @ tr \<and> list_all no_patch tr)"
proof -
  obtain r s h2 where rec: "remote_reconcile w oe req newRemoteStatusManager h = ((r, s), h2)" by (metis surj_pair)
  have "\<exists>e. h' = snd (remote_deferStatusUpdate w oe s e h2)"
    using run rec
    by (auto simp: remote_Reconcile_def Let_def split: prod.splits outcome.splits) (metis snd_conv)+
  then obtain e where h': "h' = snd (remote_deferStatusUpdate w oe s e h2)" ..
  then obtain tr where tr: "h' = h2 @ tr" "list_all no_patch tr"
    using emits_remote_status [of w oe s e] by (metis emitsE)
  obtain a0 e0 where got: "sv_getRemote w h req = (a0, e0)" by (rule prod.exhaust)
  show ?thesis
  proof (cases e0)
    case None
    with got have got': "sv_getRemote w h req = (a0, None)" by simp
    obtain h1 continues where
      ph: "remote_phase (remoteUtils w oe (remote_Default a0)) (remote_Default a0)
         (h @ [getRemoteCall req, CRunCommand cleanup_command]) h1 continues" and
      rest: "if continues then h2 = snd (remote_reconcileResources w oe (remote_Default a0)
         (remote_setAgentOld a0 newRemoteStatusManager) h1) else h2 = h1"
      using remote_reconcile_phase [OF laws got' rec] by (auto split: if_splits)
    obtain tr1 where "h2 = h1 @ tr1" "list_all no_patch tr1"
      using emits_remote_resources [of w oe "remote_Default a0" "remote_setAgentOld a0 newRemoteStatusManager"]
        rest by (cases continues) (auto elim!: emitsE [of _ _ h1])
    with ph got' tr show ?thesis by (intro disjI2 exI [of _ a0] exI [of _ h1] exI [of _ "tr1 @ tr"] exI [of _ continues]) simp
  next
    case (Some x)
    then have "s = newRemoteStatusManager" "h2 = h @ [getRemoteCall req]"
      using rec got by (auto simp: remote_reconcile_def getInstanaAgentRemote_def split: if_splits)
    then show ?thesis using h'
      by (simp add: remote_deferStatusUpdate_def remote_updateAgentStatus_def newRemoteStatusManager_def)
  qed
qed

lemma no_patch_notin_remote: "list_all no_patch tr \<Longrightarrow> CPatchRemote old new \<notin> set tr"
  by (auto simp: list_all_iff)

lemma remoteBuilders_return:
  assumes "encoders_total (oe_encoders oe)"
  shows "list_all builder_returns (remoteBuilders oe a keysSecret backends)"
proof -
  have "builder_returns (newRemoteDeploymentBuilder a b k)" for b k
    by (simp add: builder_returns_def newRemoteDeploymentBuilder_def rd_Build_def Let_def)
  moreover have "builder_returns (newRemoteConfigBuilder enc a (Some keysSecret) backends)" for enc
    by (simp add: builder_returns_def newRemoteConfigBuilder_def remote_config_Build_def Let_def split_beta)
  moreover have "builder_returns (newRemoteContainerBuilder (oe_encoders oe) a (Some keysSecret))"
    using assms by (simp add: builder_returns_def newRemoteContainerBuilder_def remote_container_Build_def
        container_build_def container_marshalJSON_def marshalOrDie_def encoders_total_def resultOrDie_def
        split_beta split: option.split)
  ultimately show ?thesis
    by (simp add: remoteBuilders_def getInstanaAgentRemoteDeployments_def newRemoteTlsSecretBuilder_def
        remote_serviceAccount_def newRemoteKeysSecretBuilder_def list.pred_map list.pred_True comp_def)
qed

lemma remote_resources_return:
  assumes "encoders_total (oe_encoders oe)"
  shows "\<exists>x. fst (fst (remote_reconcileResources w oe a s h)) = Ret x"
proof -
  obtain keysSecret h1 where k: "readKeysSecret w (ba_KeysSecret (ra_Agent a)) (ra_Namespace a) h = (keysSecret, h1)"
    by (rule prod.exhaust)
  obtain e where "fst (fst (ApplyAll w (remoteUtils w oe a)
      (remoteBuilders oe a keysSecret (getRemoteSensorBackends a)) s h1)) = Ret e"
    using ApplyAll_returns [OF remoteBuilders_return [OF assms]] by blast
  with k show ?thesis
    by (simp add: remote_reconcileResources_def remote_applyResources_def remote_ApplyAll_def split_beta)
qed

subsection \<open>Properties\<close>

text \<open>The one patch of a run: where it is, what it changes, and what came right before it.\<close>

lemma remote_patch_placed:
  assumes laws: "finalizer_laws oe" and run: "remote_Reconcile w oe req h = (out, h')"
    and patch: "CPatchRemote old new \<in> set (drop (length h) h')"
  shows "\<exists>pre post a0. h' = h @ pre @ [CPatchRemote old new] @ post \<and>
    list_all no_patch (pre @ post) \<and>
    sv_getRemote w h req = (a0, None) \<and> old = remote_Default a0 \<and>
    remote_guarded_patch (remoteUtils w oe old) old new (h @ pre) \<and>
    (ra_deleting old \<longrightarrow> DeleteAll (remoteUtils w oe old)
       (h @ [getRemoteCall req, CRunCommand cleanup_command]) = (None, h @ pre))"
proof -
  have "h' \<noteq> h @ [getRemoteCall req]" using patch by auto
  with remote_Reconcile_phase [OF laws run] obtain a0 h1 tr continues where
    got: "sv_getRemote w h req = (a0, None)" and
    ph: "remote_phase (remoteUtils w oe (remote_Default a0)) (remote_Default a0)
         (h @ [getRemoteCall req, CRunCommand cleanup_command]) h1 continues" and
    tr: "h' = h1 @ tr" "list_all no_patch tr" by blast
  define a where "a = remote_Default a0"
  let ?g0 = "h @ [getRemoteCall req, CRunCommand cleanup_command]"
  from ph obtain tr0 where tr0: "list_all no_patch tr0" and
    h1: "h1 = ?g0 @ tr0 \<or> (ra_deleting a \<longrightarrow> DeleteAll (remoteUtils w oe a) ?g0 = (None, ?g0 @ tr0)) \<and>
      (\<exists>new. h1 = ?g0 @ tr0 @ [CPatchRemote a new] \<and> remote_guarded_patch (remoteUtils w oe a) a new (?g0 @ tr0))"
    unfolding remote_phase_def a_def by blast
  let ?pre = "[getRemoteCall req, CRunCommand cleanup_command] @ tr0"
  show ?thesis
  proof (cases "h1 = h @ ?pre")
    case True
    with patch tr0 tr show ?thesis by (auto simp: no_patch_notin_remote)
  next
    case False
    with h1 obtain new' where h1: "h1 = h @ ?pre @ [CPatchRemote a new']"
      "remote_guarded_patch (remoteUtils w oe a) a new' (h @ ?pre)"
      "ra_deleting a \<longrightarrow> DeleteAll (remoteUtils w oe a) ?g0 = (None, h @ ?pre)" by auto
    with patch tr0 tr have "old = a" "new = new'" by (auto simp: no_patch_notin_remote)
    with tr h1 got tr0 show ?thesis
      by (intro exI [of _ ?pre] exI [of _ tr] exI [of _ a0]) (simp add: a_def)
  qed
qed

text \<open>
  C35: the finalizer of a remote agent. A reconciliation patches the custom resource at most once;
  the patch changes the finalizers of the remote agent just fetched and nothing else. It drops the
  operator's finalizer only under deletion and right after the clean-up of all recorded dependents
  returned no error, and adds it only when there is no deletion.
\<close>

theorem remote_finalizer_patches_guarded:
  assumes laws: "finalizer_laws oe" and run: "remote_Reconcile w oe req h = (out, h')"
    and patch: "CPatchRemote old new \<in> set (drop (length h) h')"
  shows "\<exists>pre post a0. h' = h @ pre @ [CPatchRemote old new] @ post \<and>
    list_all no_patch (pre @ post) \<and>
    sv_getRemote w h req = (a0, None) \<and> old = remote_Default a0 \<and>
    remote_guarded_patch (remoteUtils w oe old) old new (h @ pre)"
  using remote_patch_placed [OF assms] by blast

theorem remote_finalizer_patches_guarded_witness:
  "\<exists>out h' new pre post. remote_Reconcile (simWorld [] exampleAgent exampleRemote) exampleEnv exampleKey [] = (out, h') \<and>
     h' = pre @ [CPatchRemote (remote_Default exampleRemote) new] @ post \<and> list_all no_patch (pre @ post) \<and>
     finalizerV3 \<in> ra_FinalizerSet new"
proof -
  let ?w = "simWorld [] exampleAgent exampleRemote" and ?old = "remote_Default exampleRemote"
  let ?new = "remote_set_finalizers [finalizerV3] ?old"
  have w: "sv_getRemote ?w h req = (exampleRemote, None)" "sv_patchRemote ?w h old new = None" for h req old new
    by (simp_all add: simWorld_def)
  have meta: "ra_Finalizers exampleRemote = []" "\<not> ra_deleting exampleRemote" by (simp_all add: example_defs)
  have ga: "getInstanaAgentRemote ?w exampleKey [] = ((Some exampleRemote, reconcileContinue), [getRemoteCall exampleKey])"
    by (simp add: getInstanaAgentRemote_def w isNotFound_def)
  have "remote_handleDeletion ?w exampleEnv ?old ou g = (reconcileContinue, g @ [CRunCommand cleanup_command])" for ou g
    using meta by (simp add: remote_handleDeletion_def remote_cleanupNodeLabels_def Let_def)
  moreover have "oe_addFinalizer exampleEnv finalizerV3 [] = ([finalizerV3], True)" by (simp add: exampleEnv_def)
  then have "remote_addOrUpdateFinalizers ?w exampleEnv ?old g = remote_updateAgent ?w ?old ?new g" for g
    using meta by (simp add: remote_addOrUpdateFinalizers_def)
  ultimately have rec: "snd (remote_reconcile ?w exampleEnv exampleKey s []) =
      [getRemoteCall exampleKey, CRunCommand cleanup_command, CPatchRemote ?old ?new]" for s
    unfolding remote_reconcile_def ga by (simp add: Let_def split_beta)
  obtain out h' where run: "remote_Reconcile ?w exampleEnv exampleKey [] = (out, h')" by (rule prod.exhaust)
  obtain r s h2 where rec2: "remote_reconcile ?w exampleEnv exampleKey newRemoteStatusManager [] = ((r, s), h2)"
    by (metis surj_pair)
  have "\<exists>e. h' = snd (remote_deferStatusUpdate ?w exampleEnv s e h2)"
    using run rec2
    by (auto simp: remote_Reconcile_def Let_def split: prod.splits outcome.splits) (metis snd_conv)+
  then obtain tr where "h' = h2 @ tr" using emits_remote_status by (metis emitsE)
  moreover have "h2 = [getRemoteCall exampleKey, CRunCommand cleanup_command, CPatchRemote ?old ?new]"
    using rec [of newRemoteStatusManager] rec2 by simp
  ultimately have "CPatchRemote ?old ?new \<in> set (drop (length ([] :: history)) h')" by simp
  from remote_finalizer_patches_guarded [OF exampleEnv_laws run this] run show ?thesis
    by (fastforce simp: remote_guarded_patch_def)
qed

text \<open>
  C36: the reconciliation of a remote agent does not panic: if the JSON encoder does not fail, it
  ends with a result, whatever the custom resource contains and the API server answers.
\<close>

theorem remote_reconcile_returns:
  assumes laws: "finalizer_laws oe" and enc: "encoders_total (oe_encoders oe)"
  shows "\<exists>x. fst (fst (remote_reconcile w oe req s h)) = Ret x"
proof -
  obtain r s' h' where run: "remote_reconcile w oe req s h = ((r, s'), h')" by (metis surj_pair)
  obtain a0 e where got: "sv_getRemote w h req = (a0, e)" by (rule prod.exhaust)
  have "\<exists>x. r = Ret x"
  proof (cases e)
    case None
    with remote_reconcile_phase [OF laws _ run] got remote_resources_return [OF enc, of w "remote_Default a0"]
    show ?thesis by (auto split: if_splits) (metis fst_conv)
  next
    case (Some y)
    with run got show ?thesis by (auto simp: remote_reconcile_def getInstanaAgentRemote_def split: if_splits)
  qed
  with run show ?thesis by simp
qed

theorem remote_reconcile_returns_witness:
  "\<exists>x. fst (fst (remote_reconcile (simWorld [] exampleAgent exampleRemote) exampleEnv exampleKey
     newRemoteStatusManager [])) = Ret x"
  by (rule remote_reconcile_returns [OF exampleEnv_laws exampleEncoders_total])

text \<open>
  The backend of a remote Deployment is not read by its builder: an agent with \<open>n\<close> additional
  backends gets the same Deployment built, and applied, \<open>n + 1\<close> times.
\<close>

lemma remote_deployments_identical:
  "map (\<lambda>b. fst (ob_Build b s)) (getInstanaAgentRemoteDeployments a (getRemoteSensorBackends a) keysSecret) =
     replicate (Suc (length (ba_AdditionalBackends (ra_Agent a)))) (fst (rd_Build \<lparr>rdb_agent = a, rdb_zone = None\<rparr> s))"
  by (simp add: getInstanaAgentRemoteDeployments_def newRemoteDeploymentBuilder_def comp_def map_replicate_const
      getRemoteSensorBackends_def appendBackends_eq Let_def)

end
