(* ===== verification/Ownership.thy ===== *)
theory Ownership
  imports Startup Remote_Controller
begin

text \<open>
  How what the controllers build (\<open>builders\<close>, \<open>operator_utils\<close>), what they watch (\<open>Watch\<close>) and what
  the cache holds (\<open>Startup\<close>) fit together: every object of a reconciliation carries the operator's
  label, so the filtered caches hold it; it is owned by the custom resource it was built for; and
  a change of it by someone else asks for that resource again. The locale \<open>watched_dependents\<close> proves
  this once for both controllers.
\<close>

subsection \<open>Where builders place their objects\<close>

definition clusterKinds :: "groupVersionKind list" where
  "clusterKinds = [gvk_ClusterRole, gvk_ClusterRoleBinding]"

definition roleKinds :: "groupVersionKind list" where
  "roleKinds =
     [\<lparr>gvk_Group = ''rbac.authorization.k8s.io'', gvk_Version = ''v1'', gvk_Kind = ''Role''\<rparr>,
      \<lparr>gvk_Group = ''rbac.authorization.k8s.io'', gvk_Version = ''v1'', gvk_Kind = ''RoleBinding''\<rparr>]"

text \<open>
  A built object is fresh (no owner references) and is, for a builder that is not namespaced, a
  cluster role or its binding, otherwise an object of a watched kind in the namespace of the custom
  resource or the role or role binding of the k8sensor in \<open>kube-system\<close>.
\<close>

definition placed :: "controllerSpec \<Rightarrow> string \<Rightarrow> 's objectBuilder \<Rightarrow> bool" where
  "placed cs ns b \<longleftrightarrow> (\<forall>s raw s1. ob_Build b s = (Ret (Some raw), s1) \<longrightarrow>
     get_ownerRefs raw = [] \<and>
     (if ob_IsNamespaced b
      then get_gvk raw \<in> set (cs_Owns cs) - set clusterKinds \<and> get_namespace raw = ns \<or>
           get_gvk raw \<in> set roleKinds \<and> get_namespace raw = ''kube-system''
      else get_gvk raw \<in> set clusterKinds))"

lemma placedD:
  assumes "placed cs ns b" and "ob_Build b s = (Ret (Some raw), s1)"
  shows "get_ownerRefs raw = []"
    and "if ob_IsNamespaced b
      then get_gvk raw \<in> set (cs_Owns cs) - set clusterKinds \<and> get_namespace raw = ns \<or>
           get_gvk raw \<in> set roleKinds \<and> get_namespace raw = ''kube-system''
      else get_gvk raw \<in> set clusterKinds"
  using assms unfolding placed_def by blast+

lemma get_gvk_mkObject [simp]: "get_gvk (mkObject v k m body) = fromAPIVersionAndKind v k"
  by (simp add: get_gvk_def mkObject_def)

lemma builtKinds [simp]:
  "fromAPIVersionAndKind ''v1'' ''ServiceAccount'' = gvk_ServiceAccount"
  "fromAPIVersionAndKind ''v1'' ''ConfigMap'' = gvk_ConfigMap"
  "fromAPIVersionAndKind ''v1'' ''Secret'' = gvk_Secret"
  "fromAPIVersionAndKind ''v1'' ''Service'' = gvk_Service"
  "fromAPIVersionAndKind ''apps/v1'' ''DaemonSet'' = gvk_DaemonSet"
  "fromAPIVersionAndKind ''apps/v1'' ''Deployment'' = gvk_Deployment"
  "fromAPIVersionAndKind ''policy/v1'' ''PodDisruptionBudget'' = gvk_PodDisruptionBudget"
  "fromAPIVersionAndKind rbacApiVersion ''ClusterRole'' = gvk_ClusterRole"
  "fromAPIVersionAndKind rbacApiVersion ''ClusterRoleBinding'' = gvk_ClusterRoleBinding"
  "fromAPIVersionAndKind rbacApiVersion ''Role'' = roleKinds ! 0"
  "fromAPIVersionAndKind rbacApiVersion ''RoleBinding'' = roleKinds ! Suc 0"
  by (simp_all add: fromAPIVersionAndKind_def gvk_defs roleKinds_def)

lemma plainKinds [simp]:
  "gvk_ServiceAccount \<notin> set clusterKinds" "gvk_ConfigMap \<notin> set clusterKinds" "gvk_Secret \<notin> set clusterKinds"
  "gvk_Service \<notin> set clusterKinds" "gvk_DaemonSet \<notin> set clusterKinds" "gvk_Deployment \<notin> set clusterKinds"
  "gvk_PodDisruptionBudget \<notin> set clusterKinds" "gvk_ClusterRole \<in> set clusterKinds"
  "gvk_ClusterRoleBinding \<in> set clusterKinds" "roleKinds ! 0 \<in> set roleKinds" "roleKinds ! Suc 0 \<in> set roleKinds"
  by (simp_all add: clusterKinds_def gvk_defs roleKinds_def)

lemma ownedKinds [simp]:
  "gvk_ServiceAccount \<in> set (cs_Owns (Add rt l))" "gvk_ConfigMap \<in> set (cs_Owns (Add rt l))"
  "gvk_Secret \<in> set (cs_Owns (Add rt l))" "gvk_Service \<in> set (cs_Owns (Add rt l))"
  "gvk_DaemonSet \<in> set (cs_Owns (Add rt l))" "gvk_Deployment \<in> set (cs_Owns (Add rt l))"
  "gvk_PodDisruptionBudget \<in> set (cs_Owns (Add rt l))"
  "gvk_ServiceAccount \<in> set (cs_Owns AddRemote)" "gvk_Secret \<in> set (cs_Owns AddRemote)"
  "gvk_Deployment \<in> set (cs_Owns AddRemote)"
  by (simp_all add: Add_def AddRemote_def)

text \<open>The placement of every builder of the agent's controller.\<close>

lemma placed_workloads:
  "placed (Add rt l) (ag_Namespace a) (newDaemonSetBuilderWithZoneInfo a isOS z setting)"
  "placed (Add rt l) (ag_Namespace a) (newDeploymentBuilder sha256 a isOS backend keysSecret ctx)"
  by (auto simp: placed_def newDaemonSetBuilderWithZoneInfo_def ds_Build_def ds_build_def
      newDeploymentBuilder_def dep_Build_def dep_build_def Let_def split_beta
      split: if_splits outcome.splits)

lemma placed_secrets:
  "placed (Add rt l) (ag_Namespace a) (newConfigBuilder enc a keys backends)"
  "placed (Add rt l) (ag_Namespace a) (newContainerBuilder enc a keys)"
  "placed (Add rt l) (ag_Namespace a) (newTlsSecretBuilder a)"
  "placed (Add rt l) (ag_Namespace a) (newKeysSecretBuilder a backends)"
  by (auto simp: placed_def newConfigBuilder_def config_Build_def configSecret_def newContainerBuilder_def
      container_Build_def container_build_def newTlsSecretBuilder_def tls_Build_def tls_build_def
      newKeysSecretBuilder_def keys_Build_def keys_build_def pureBuilder_def Let_def split_beta
      split: if_splits option.splits)

lemma placed_others:
  "placed (Add rt l) (ag_Namespace a) (agent_headlessService a)"
  "placed (Add rt l) (ag_Namespace a) (agent_service a)"
  "placed (Add rt l) (ag_Namespace a) (agent_serviceAccount a)"
  "placed (Add rt l) (ag_Namespace a) (agent_namespacesConfigMap enc a details)"
  "placed (Add rt l) (ag_Namespace a) (k8sensor_podDisruptionBudget a)"
  "placed (Add rt l) (ag_Namespace a) (k8sensor_serviceAccount a)"
  "placed (Add rt l) (ag_Namespace a) (k8sensor_configMap a backends)"
  by (auto simp: placed_def agent_headlessService_def headlessService_Build_def agent_service_def
      service_Build_def service_build_def agent_serviceAccount_def agent_serviceAccount_build_def
      agent_namespacesConfigMap_def namespacesConfigMap_Build_def k8sensor_podDisruptionBudget_def pdb_Build_def
      pdb_build_def k8sensor_serviceAccount_def k8sensor_configMap_def pureBuilder_def Let_def
      split: if_splits outcome.splits option.splits bool.splits)

lemma placed_rbac:
  "placed cs ns (agent_clusterRole a)" "placed cs ns (agent_clusterRoleBinding a)"
  "placed cs ns (k8sensor_clusterRole a)" "placed cs ns (k8sensor_clusterRoleBinding a)"
  "placed cs ns (k8sensor_role a)" "placed cs ns (k8sensor_roleBinding a)"
  by (simp_all add: placed_def agent_clusterRole_def agent_clusterRoleBinding_def k8sensor_clusterRole_def
      k8sensor_clusterRoleBinding_def k8sensor_role_def k8sensor_roleBinding_def pureBuilder_def)

lemma placed_reconciledBuilders:
  "list_all (placed (Add rt l) (ag_Namespace a)) (reconciledBuilders oe a isOS persist settings keysSecret details ctx)"
  by (auto simp: reconciledBuilders_def daemonSetBuilders_def newDaemonSetBuilder_def getK8sSensorDeployments_def
      agentBuilders_def list_all_iff placed_workloads placed_secrets placed_others placed_rbac)

lemma placed_remoteBuilders:
  "list_all (placed AddRemote (ra_Namespace a)) (remoteBuilders oe a keysSecret backends)"
proof -
  have "placed AddRemote (ra_Namespace a) (newRemoteDeploymentBuilder a backend keys)" for backend keys
    by (auto simp: placed_def newRemoteDeploymentBuilder_def rd_Build_def rd_build_def Let_def split_beta
        split: if_splits)
  moreover have "placed AddRemote (ra_Namespace a) (newRemoteConfigBuilder enc a keys backends)"
    "placed AddRemote (ra_Namespace a) (newRemoteContainerBuilder enc a keys)"
    "placed AddRemote (ra_Namespace a) (newRemoteTlsSecretBuilder a)"
    "placed AddRemote (ra_Namespace a) (remote_serviceAccount a)"
    "placed AddRemote (ra_Namespace a) (newRemoteKeysSecretBuilder a backends)" for enc keys
    by (auto simp: placed_def newRemoteConfigBuilder_def remote_config_Build_def configSecret_def
        newRemoteContainerBuilder_def remote_container_Build_def container_build_def newRemoteTlsSecretBuilder_def
        tls_Build_def tls_build_def remote_serviceAccount_def remote_serviceAccount_build_def
        newRemoteKeysSecretBuilder_def remote_keys_Build_def remote_keys_build_def pureBuilder_def Let_def split_beta
        split: if_splits option.splits)
  ultimately show ?thesis
    by (auto simp: remoteBuilders_def getInstanaAgentRemoteDeployments_def list_all_iff)
qed

subsection \<open>What the builder transformer adds\<close>

lemma buildOptionals_origin:
  "buildOptionals ou builders s = (Ret opts, s') \<Longrightarrow> Some obj \<in> set opts \<Longrightarrow>
     \<exists>b\<in>set builders. \<exists>s1 s2. builderTransformer_Apply (ou_Version ou) (ou_Transformations ou) b s1 = (Ret (Some obj), s2)"
proof (induction builders arbitrary: s opts)
  case (Cons b bs)
  then obtain opt s1 opts' where
    1: "builderTransformer_Apply (ou_Version ou) (ou_Transformations ou) b s = (Ret opt, s1)" and
    2: "buildOptionals ou bs s1 = (Ret opts', s')" "opts = opt # opts'"
    by (auto split: prod.splits outcome.splits)
  show ?case
  proof (cases "opt = Some obj")
    case True
    with 1 show ?thesis by (metis list.set_intros(1))
  next
    case False
    with Cons.prems 2 have "Some obj \<in> set opts'" by auto
    from Cons.IH [OF 2(1) this] show ?thesis by (metis list.set_intros(2))
  qed
qed auto

lemma buildObjects_origin:
  assumes "buildObjects ou builders s = (Ret objects, s')" and "obj \<in> set objects"
  obtains b s1 s2 where "b \<in> set builders"
    "builderTransformer_Apply (ou_Version ou) (ou_Transformations ou) b s1 = (Ret (Some obj), s2)"
proof -
  from assms obtain opts where opts: "buildOptionals ou builders s = (Ret opts, s')" "Some obj \<in> set opts"
    by (auto simp: buildObjects_def split: prod.splits outcome.splits)
  from buildOptionals_origin [OF opts] that show ?thesis by blast
qed

lemma builderTransformer_raw:
  assumes "builderTransformer_Apply ver t b s = (Ret (Some obj), s1)"
  obtains raw where "ob_Build b s = (Ret (Some raw), s1)"
    "get_gvk obj = get_gvk raw" "get_namespace obj = get_namespace raw"
    "gm_get (derefOrEmpty [] (get_labels obj)) ManagedByLabel = Some managedBy"
    "gm_get (derefOrEmpty [] (get_labels obj)) GenerationLabel = Some (tr_generation t)"
    "get_ownerRefs raw = [] \<longrightarrow> get_ownerRefs obj = (if ob_IsNamespaced b then [tr_OwnerReference t] else [])"
proof -
  from assms obtain raw where raw: "ob_Build b s = (Ret (Some raw), s1)"
    and obj: "obj = (let o1 = addCommonLabels ver t raw (ob_ComponentName b)
                     in if ob_IsNamespaced b then addOwnerReference t o1 else o1)"
    by (auto simp: builderTransformer_Apply_def Let_def split: prod.splits outcome.splits option.splits)
  have l: "get_labels obj = Some (gm_copy (newMapDefaulter (get_labels raw)) (commonLabels ver t (ob_ComponentName b)))"
    by (simp add: obj Let_def addCommonLabels_labels)
  have "gm_get (commonLabels ver t (ob_ComponentName b)) ManagedByLabel = Some managedBy"
    "gm_get (commonLabels ver t (ob_ComponentName b)) GenerationLabel = Some (tr_generation t)"
    by (simp_all add: commonLabels_def)
  with l show ?thesis
    by (intro that [of raw] raw) (simp_all add: obj Let_def gm_get_copy addOwnerReference_fresh)
qed

lemma visible_managed:
  assumes "parse_law parse" and "gm_get (derefOrEmpty [] (get_labels obj)) ManagedByLabel = Some managedBy"
  shows "visible (fst (getCacheOptions parse)) obj"
proof -
  have "sel (get_labels obj)" if "(gvk, Some sel) \<in> set (fst (getCacheOptions parse))" for gvk sel
    using that assms by (auto simp: getCacheOptions_def parse_law_def split_beta split: if_splits)
  then show ?thesis
    by (auto simp: visible_def dest: map_of_SomeD split: option.split)
qed

subsection \<open>Both controllers\<close>

locale watched_dependents =
  fixes cs :: controllerSpec and ou :: operatorUtils and ns :: string and builders :: "'s objectBuilder list"
  assumes controller: "or_Controller (tr_OwnerReference (ou_Transformations ou)) = Some True"
    and builders_placed: "list_all (placed cs ns) builders"
    and only_owned: "set (cs_Owns cs) \<inter> insert (cs_For cs) (fst ` set (cs_Watches cs)) = {}"
    and roles_unwatched: "set (cs_Owns cs) \<inter> set roleKinds = {}"
begin

lemma built_object:
  assumes "buildObjects ou builders s = (Ret objects, s')" and "obj \<in> set objects"
  shows "gm_get (derefOrEmpty [] (get_labels obj)) ManagedByLabel = Some managedBy \<and>
    gm_get (derefOrEmpty [] (get_labels obj)) GenerationLabel = Some (tr_generation (ou_Transformations ou)) \<and>
    (get_gvk obj \<in> set clusterKinds \<and> get_ownerRefs obj = [] \<or>
     get_gvk obj \<in> set (cs_Owns cs) - set clusterKinds \<and> get_namespace obj = ns \<and> get_ownerRefs obj = [tr_OwnerReference (ou_Transformations ou)] \<or>
     get_gvk obj \<in> set roleKinds \<and> get_namespace obj = ''kube-system'' \<and> get_ownerRefs obj = [tr_OwnerReference (ou_Transformations ou)])"
proof -
  obtain b s1 s2 where b: "b \<in> set builders"
    "builderTransformer_Apply (ou_Version ou) (ou_Transformations ou) b s1 = (Ret (Some obj), s2)"
    by (rule buildObjects_origin [OF assms])
  obtain raw where raw: "ob_Build b s1 = (Ret (Some raw), s2)" and eq: "get_gvk obj = get_gvk raw"
    "get_namespace obj = get_namespace raw"
    and labels: "gm_get (derefOrEmpty [] (get_labels obj)) ManagedByLabel = Some managedBy"
      "gm_get (derefOrEmpty [] (get_labels obj)) GenerationLabel = Some (tr_generation (ou_Transformations ou))"
    and refs: "get_ownerRefs raw = [] \<longrightarrow> get_ownerRefs obj = (if ob_IsNamespaced b then [tr_OwnerReference (ou_Transformations ou)] else [])"
    by (rule builderTransformer_raw [OF b(2)])
  from builders_placed b(1) have "placed cs ns b" by (simp add: list_all_iff)
  from placedD [OF this raw] eq labels refs show ?thesis by (auto split: if_splits)
qed

lemma built_event:
  assumes laws: "runtime_laws rt" and refers: "refersTo (cs_For cs) (tr_OwnerReference (ou_Transformations ou))"
    and built: "buildObjects ou builders s = (Ret objects, s')" "obj \<in> set objects"
    and kind: "get_gvk obj \<in> set (cs_Owns cs)"
    and objs: "\<forall>m\<in>set (eventObjects e). om_OwnerReferences m = get_ownerRefs obj \<and> om_Namespace m = get_namespace obj"
  shows "case cs_EventFilter cs e of
      Panic p \<Rightarrow> requestsFor rt cs (get_gvk obj) e h = Panic p
    | Ret passes \<Rightarrow> \<exists>rs. requestsFor rt cs (get_gvk obj) e h = Ret (rs, h) \<and>
        set rs = (if passes \<and> get_gvk obj \<notin> set clusterKinds
          then {\<lparr>nn_Namespace = ns, nn_Name = or_Name (tr_OwnerReference (ou_Transformations ou))\<rparr>} else {})"
proof (cases "cs_EventFilter cs e = Ret True")
  case False
  then show ?thesis by (auto simp: requestsFor_def split: outcome.split)
next
  case pass: True
  have "get_gvk obj \<notin> set roleKinds" using kind roles_unwatched by auto
  with built_object [OF built] have refs: "get_ownerRefs obj = (if get_gvk obj \<in> set clusterKinds then [] else [tr_OwnerReference (ou_Transformations ou)])"
    and space: "get_gvk obj \<notin> set clusterKinds \<Longrightarrow> get_namespace obj = ns" by auto
  have "get_gvk obj \<noteq> cs_For cs" "get_gvk obj \<notin> fst ` set (cs_Watches cs)" using kind only_owned by auto
  from dependent_event_requests [OF laws kind this _ objs pass, of h] refs refers controller space
  show ?thesis by (auto simp: pass split: if_splits)
qed

end

interpretation agent_watched: watched_dependents "Add rt l" "newOperatorUtils w c ver a" "ag_Namespace a"
  "reconciledBuilders oe a isOS persist settings keysSecret details ctx"
  for rt l w c ver a oe isOS persist settings keysSecret details ctx
proof
  show "list_all (placed (Add rt l) (ag_Namespace a)) (reconciledBuilders oe a isOS persist settings keysSecret details ctx)"
    by (rule placed_reconciledBuilders)
qed (auto simp: newOperatorUtils_def newTransformations_def Add_def gvk_defs roleKinds_def Let_def)

interpretation remote_watched: watched_dependents AddRemote "newRemoteOperatorUtils w c ver a" "ra_Namespace a"
  "remoteBuilders oe a keysSecret backends"
  for w c ver a oe keysSecret backends
proof
  show "list_all (placed AddRemote (ra_Namespace a)) (remoteBuilders oe a keysSecret backends)"
    by (rule placed_remoteBuilders)
qed (auto simp: newRemoteOperatorUtils_def newTransformationsRemote_def AddRemote_def gvk_defs roleKinds_def Let_def)

lemma buildOptionals_includes:
  assumes "buildOptionals ou builders s = (Ret opts, s')" and "b \<in> set builders"
    and some: "\<And>s. \<exists>raw s1. ob_Build b s = (Ret (Some raw), s1)"
  shows "\<exists>obj s1 s2. Some obj \<in> set opts \<and>
    builderTransformer_Apply (ou_Version ou) (ou_Transformations ou) b s1 = (Ret (Some obj), s2)"
  using assms(1,2)
proof (induction builders arbitrary: s opts)
  case (Cons x xs)
  then obtain opt s1 opts' where
    1: "builderTransformer_Apply (ou_Version ou) (ou_Transformations ou) x s = (Ret opt, s1)" and
    2: "buildOptionals ou xs s1 = (Ret opts', s')" "opts = opt # opts'"
    by (auto split: prod.splits outcome.splits)
  show ?case
  proof (cases "x = b")
    case True
    obtain raw s2 where "ob_Build b s = (Ret (Some raw), s2)" using some by blast
    with True 1 obtain obj where "opt = Some obj" by (auto simp: builderTransformer_Apply_def Let_def)
    with True 1 2 show ?thesis by (intro exI [of _ obj] exI [of _ s] exI [of _ s1]) simp
  next
    case False
    with Cons.prems(2) have "b \<in> set xs" by auto
    from Cons.IH [OF 2(1) this] 2(2) show ?thesis by auto
  qed
qed simp

lemma buildObjects_includes:
  assumes run: "buildObjects ou builders s = (Ret objects, s')" and b: "b \<in> set builders"
    and some: "\<And>s. \<exists>raw s1. ob_Build b s = (Ret (Some raw), s1)"
  obtains obj s1 s2 where "obj \<in> set objects"
    "builderTransformer_Apply (ou_Version ou) (ou_Transformations ou) b s1 = (Ret (Some obj), s2)"
proof -
  obtain opts where opts: "buildOptionals ou builders s = (Ret opts, s')"
    "objects = map the (filter (\<lambda>v. v \<noteq> None) opts)"
    using run by (auto simp: buildObjects_def split: prod.splits outcome.splits)
  from buildOptionals_includes [OF opts(1) b some] obtain obj s1 s2 where "Some obj \<in> set opts"
    and 1: "builderTransformer_Apply (ou_Version ou) (ou_Transformations ou) b s1 = (Ret (Some obj), s2)" by blast
  then have "obj \<in> set objects" unfolding opts(2) by (auto intro!: image_eqI [of _ the "Some obj"])
  then show ?thesis using 1 by (rule that)
qed

subsection \<open>Properties\<close>

text \<open>
  C20: every object a reconciliation of an agent builds carries the operator's label, so that the
  cache, which is filtered by it for most kinds, holds the object, and the label of the current
  generation. It has exactly one owner reference, to the agent, and lies in the agent's namespace
  and is of a watched kind, or it is a cluster role or binding without owner. The exception are the role
  and the role binding of the k8sensor: they lie in \<open>kube-system\<close> and name an owner that Kubernetes
  only looks for in that namespace.
\<close>

theorem agent_objects_owned:
  assumes "parse_law parse"
    and "buildObjects (newOperatorUtils w c ver a)
      (reconciledBuilders oe a isOS persist settings keysSecret details ctx) s = (Ret objects, s')"
    and "obj \<in> set objects"
  shows "visible (fst (getCacheOptions parse)) obj \<and>
    gm_get (derefOrEmpty [] (get_labels obj)) ManagedByLabel = Some managedBy \<and>
    gm_get (derefOrEmpty [] (get_labels obj)) GenerationLabel = Some (itoa (om_Generation (ag_Meta a))) \<and>
    (get_gvk obj \<in> set clusterKinds \<and> get_ownerRefs obj = [] \<or>
     get_ownerRefs obj = [tr_OwnerReference (newTransformations a)] \<and>
     (get_gvk obj \<in> set (cs_Owns (Add rt l)) - set clusterKinds \<and> get_namespace obj = ag_Namespace a \<or>
      get_gvk obj \<in> set roleKinds \<and> get_namespace obj = ''kube-system''))"
proof -
  have t: "ou_Transformations (newOperatorUtils w c ver a) = newTransformations a"
    "tr_generation (newTransformations a) = itoa (om_Generation (ag_Meta a))"
    by (simp_all add: newOperatorUtils_def newTransformations_def Let_def)
  from agent_watched.built_object [OF assms(2,3), of rt l, unfolded t] visible_managed [OF assms(1), of obj]
  show ?thesis by auto
qed

text \<open>A parser, and the objects built for the example agent.\<close>

definition plainParse :: "string \<Rightarrow> labelSelector \<times> error" where
  "plainParse s = (\<lambda>labels. gm_get (derefOrEmpty [] labels) ManagedByLabel = Some managedBy, None)"

lemma plainParse_law: "parse_law plainParse"
  by (simp add: parse_law_def plainParse_def)

abbreviation exampleUtilsOf :: "instanaAgent \<Rightarrow> operatorUtils" where
  "exampleUtilsOf a \<equiv> newOperatorUtils (simWorld [] a exampleRemote) oneEntryCodec ''v1'' a"

abbreviation exampleBuilders :: "agentStatusManager objectBuilder list" where
  "exampleBuilders \<equiv> reconciledBuilders exampleEnv (agent_Default exampleAgent) False False [] emptyObject
     \<lparr>nd_Version = 1, nd_Namespaces = []\<rparr> None"

lemma example_serviceAccount_built:
  obtains objects s' obj where
    "buildObjects (exampleUtilsOf (agent_Default exampleAgent)) exampleBuilders newAgentStatusManager = (Ret objects, s')"
    and "obj \<in> set objects" and "get_gvk obj = gvk_ServiceAccount"
proof -
  let ?a = "agent_Default exampleAgent"
  obtain objects s' where b: "buildObjects (exampleUtilsOf ?a) exampleBuilders newAgentStatusManager = (Ret objects, s')"
    using buildObjects_returns [OF reconciledBuilders_return [OF exampleEncoders_total]] by blast
  have "k8sensor_serviceAccount ?a \<in> set exampleBuilders"
    by (simp add: reconciledBuilders_def agentBuilders_def)
  from buildObjects_includes [OF b this] obtain obj and s1 s2 :: agentStatusManager where obj: "obj \<in> set objects" and
    app: "builderTransformer_Apply (ou_Version (exampleUtilsOf ?a)) (ou_Transformations (exampleUtilsOf ?a))
      (k8sensor_serviceAccount ?a) s1 = (Ret (Some obj), s2)"
    by (auto simp: k8sensor_serviceAccount_def pureBuilder_def)
  have "get_gvk obj = gvk_ServiceAccount"
    by (rule builderTransformer_raw [OF app]) (auto simp: k8sensor_serviceAccount_def pureBuilder_def)
  with b obj show ?thesis by (rule that)
qed

theorem agent_objects_owned_witness:
  "\<exists>objects s' obj. buildObjects (exampleUtilsOf (agent_Default exampleAgent)) exampleBuilders newAgentStatusManager =
       (Ret objects, s') \<and> obj \<in> set objects \<and> visible (fst (getCacheOptions plainParse)) obj \<and>
     get_ownerRefs obj = [tr_OwnerReference (newTransformations (agent_Default exampleAgent))]"
proof -
  obtain objects s' obj where b:
    "buildObjects (exampleUtilsOf (agent_Default exampleAgent)) exampleBuilders newAgentStatusManager = (Ret objects, s')"
    and obj: "obj \<in> set objects" and kind: "get_gvk obj = gvk_ServiceAccount"
    by (rule example_serviceAccount_built)
  from agent_objects_owned [OF plainParse_law b obj] kind b obj show ?thesis
    by (intro exI [of _ objects] exI [of _ s'] exI [of _ obj]) auto
qed

text \<open>
  C21: which events on a dependent reach the agent it was built for. The events are on an object of
  a watched kind that a reconciliation built and that kept its owner references. A deletion asks for
  exactly that agent, a creation for nothing, and an update asks for the agent exactly when the event
  filter lets it pass, that is as \<open>dependentUpdate\<close> says; when the filter panics, so does the
  delivery. On a cluster role or its binding no event asks for anything, since these have no owner
  reference: the two watches on them start no reconciliation.
\<close>

theorem dependent_events:
  assumes "runtime_laws rt" and "ag_APIVersion a = ''instana.io/v1''" and "ag_Kind a = ''InstanaAgent''"
    and "buildObjects (newOperatorUtils w c ver a)
      (reconciledBuilders oe a isOS persist settings keysSecret details ctx) s = (Ret objects, s')"
    and "obj \<in> set objects" and "get_gvk obj \<in> set (cs_Owns (Add rt l))"
    and "\<forall>m\<in>set (eventObjects e). om_OwnerReferences m = get_ownerRefs obj \<and> om_Namespace m = get_namespace obj"
    and "eventType e = TOther"
  shows "case dependentPasses e of
      Panic p \<Rightarrow> requestsFor rt (Add rt l) (get_gvk obj) e h = Panic p
    | Ret passes \<Rightarrow> \<exists>rs. requestsFor rt (Add rt l) (get_gvk obj) e h = Ret (rs, h) \<and>
        set rs = (if passes \<and> get_gvk obj \<notin> {gvk_ClusterRole, gvk_ClusterRoleBinding}
                  then {\<lparr>nn_Namespace = ag_Namespace a, nn_Name = ag_Name a\<rparr>} else {})"
proof -
  have t: "ou_Transformations (newOperatorUtils w c ver a) = newTransformations a"
    by (simp add: newOperatorUtils_def Let_def)
  have "refersTo (cs_For (Add rt l)) (tr_OwnerReference (ou_Transformations (newOperatorUtils w c ver a)))"
    using refersTo_agent [OF assms(2,3)] by (simp add: t)
  moreover have "or_Name (tr_OwnerReference (newTransformations a)) = ag_Name a"
    "set clusterKinds = {gvk_ClusterRole, gvk_ClusterRoleBinding}"
    by (simp_all add: newTransformations_def clusterKinds_def)
  ultimately show ?thesis
    using agent_watched.built_event [OF assms(1) _ assms(4,5,6,7), of h]
    by (simp only: t Add_simps filterPredicate_dependent [OF assms(8)])
qed

theorem dependent_events_witness:
  "\<exists>obj l. get_gvk obj = gvk_ServiceAccount \<and>
     (\<exists>rs. requestsFor plainRuntime (Add plainRuntime l) gvk_ServiceAccount (DeleteEvent TOther (ko_Meta obj) False) [] =
        Ret (rs, []) \<and> set rs = {\<lparr>nn_Namespace = ''ns'', nn_Name = ''agent''\<rparr>})"
proof -
  let ?a = "agent_Default exampleAgent"
  obtain objects s' obj where b: "buildObjects (exampleUtilsOf ?a) exampleBuilders newAgentStatusManager = (Ret objects, s')"
    and obj: "obj \<in> set objects" and kind: "get_gvk obj = gvk_ServiceAccount"
    by (rule example_serviceAccount_built)
  have a: "ag_APIVersion ?a = ''instana.io/v1''" "ag_Kind ?a = ''InstanaAgent''"
    "ag_Namespace ?a = ''ns''" "ag_Name ?a = ''agent''"
    by (simp_all add: agent_Default_def Let_def exampleAgent_def exampleMeta_def)
  have "\<forall>m\<in>set (eventObjects (DeleteEvent TOther (ko_Meta obj) False)).
      om_OwnerReferences m = get_ownerRefs obj \<and> om_Namespace m = get_namespace obj"
    by (simp add: obj_accessors)
  moreover have "gvk_ServiceAccount \<notin> {gvk_ClusterRole, gvk_ClusterRoleBinding}" by (simp add: gvk_defs)
  ultimately have "\<exists>rs. requestsFor plainRuntime (Add plainRuntime l) gvk_ServiceAccount
      (DeleteEvent TOther (ko_Meta obj) False) [] = Ret (rs, []) \<and> set rs = {\<lparr>nn_Namespace = ''ns'', nn_Name = ''agent''\<rparr>}" for l
    using dependent_events [OF plainRuntime_laws a(1,2) b obj, of l "DeleteEvent TOther (ko_Meta obj) False" "[]"]
      kind a(3,4) by simp
  with kind show ?thesis by blast
qed

text \<open>The same for the remote agent, whose objects are all namespaced.\<close>

lemma remote_dependent_events:
  assumes "runtime_laws rt" and "ra_APIVersion a = ''instana.io/v1''" and "ra_Kind a = ''InstanaAgentRemote''"
    and "buildObjects (newRemoteOperatorUtils w c ver a) (remoteBuilders oe a keysSecret backends) s = (Ret objects, s')"
    and "obj \<in> set objects" and "get_gvk obj \<in> set (cs_Owns AddRemote)"
    and "\<forall>m\<in>set (eventObjects e). om_OwnerReferences m = get_ownerRefs obj \<and> om_Namespace m = get_namespace obj"
    and "eventType e = TOther"
  shows "case dependentPasses e of
      Panic p \<Rightarrow> requestsFor rt AddRemote (get_gvk obj) e h = Panic p
    | Ret passes \<Rightarrow> \<exists>rs. requestsFor rt AddRemote (get_gvk obj) e h = Ret (rs, h) \<and>
        set rs = (if passes then {\<lparr>nn_Namespace = ra_Namespace a, nn_Name = ra_Name a\<rparr>} else {})"
proof -
  have t: "ou_Transformations (newRemoteOperatorUtils w c ver a) = newTransformationsRemote a"
    by (simp add: newRemoteOperatorUtils_def Let_def)
  have "refersTo (cs_For AddRemote) (tr_OwnerReference (ou_Transformations (newRemoteOperatorUtils w c ver a)))"
    using refersTo_remote [OF assms(2,3)] by (simp add: t)
  moreover have "(get_gvk obj \<in> set clusterKinds) = False" using assms(6) by (auto simp: AddRemote_def)
  moreover have "or_Name (tr_OwnerReference (newTransformationsRemote a)) = ra_Name a"
    by (simp add: newTransformationsRemote_def)
  ultimately show ?thesis
    using remote_watched.built_event [OF assms(1) _ assms(4,5,6,7), of h]
    by (simp only: t Add_simps filterPredicate_dependent [OF assms(8)] not_False_eq_True simp_thms)
qed

end
