(* ===== verification/Remote_Copies.thy ===== *)
theory Remote_Copies
  imports Remote_Controller
begin

text \<open>
  The source of the remote agent repeats whole files of the agent, or methods of them: \<open>remote_env_builder.go\<close>,
  \<open>remote_helpers.go\<close>, \<open>remote_pod_selector.go\<close>, the secret builders,
  \<open>remote_dependent_lifecycle_manager.go\<close> and \<open>remote_operator_utils.go\<close>. The other theories use
  one definition for both. Here the copies are transcribed one by one, and shown to be what those
  definitions compute for a remote agent: an abstraction function maps the state of a copy to the
  state of the shared definition, and each operation commutes with it.
\<close>

subsection \<open>\<open>remote_env_builder.go\<close>\<close>

definition remote_agentModeEnv :: "instanaAgentRemote \<Rightarrow> zone option \<Rightarrow> envVar option" where
  "remote_agentModeEnv a z =
     (let envVarName = ''INSTANA_AGENT_MODE'' in
      if z \<noteq> None then Some (valueEnv envVarName (zone_Mode (the z)))
      else stringToEnvVar envVarName (ba_Mode (ra_Agent a)))"

definition remote_zoneNameEnv :: "instanaAgentRemote \<Rightarrow> zone option \<Rightarrow> envVar option" where
  "remote_zoneNameEnv a z =
     (let envVarName = ''INSTANA_ZONE'' in
      if z \<noteq> None then Some (valueEnv envVarName (zone_Name (the z)))
      else stringToEnvVar envVarName (rs_ZoneName (ra_Spec a)))"

definition remote_httpsProxyEnv :: "instanaAgentRemote \<Rightarrow> envVar option" where
  "remote_httpsProxyEnv a =
     (if ba_ProxyHost (ra_Agent a) = '''' then None
      else if ba_ProxyUser (ra_Agent a) = '''' \<or> ba_ProxyPassword (ra_Agent a) = ''''
      then Some (valueEnv ''HTTPS_PROXY''
        (optional_GetOrDefault (optional_Of '''' (ba_ProxyProtocol (ra_Agent a))) ''http'' @ ''://'' @
         ba_ProxyHost (ra_Agent a) @ '':'' @
         optional_GetOrDefault (optional_Of '''' (ba_ProxyPort (ra_Agent a))) ''80''))
      else Some (valueEnv ''HTTPS_PROXY''
        (optional_GetOrDefault (optional_Of '''' (ba_ProxyProtocol (ra_Agent a))) ''http'' @ ''://'' @
         (ba_ProxyUser (ra_Agent a) @ '':'' @ ba_ProxyPassword (ra_Agent a) @ ''@'') @
         ba_ProxyHost (ra_Agent a) @ '':'' @
         optional_GetOrDefault (optional_Of '''' (ba_ProxyPort (ra_Agent a))) ''80'')))"

definition remote_backendEnv :: "instanaAgentRemote \<Rightarrow> envVar option" where
  "remote_backendEnv a = Some (sourceEnv ''BACKEND'' (ConfigMapKeyRef (remoteResourcesName a) BackendKey))"

definition remote_agentKeyHelper :: "instanaAgentRemote \<Rightarrow> string \<Rightarrow> envVar option" where
  "remote_agentKeyHelper a name =
     Some (sourceEnv name (SecretKeyRef
       (optional_GetOrDefault (optional_Of '''' (ba_KeysSecret (ra_Agent a))) (ra_Name a)) AgentKey None))"

definition remote_downloadKeyEnv :: "instanaAgentRemote \<Rightarrow> envVar option" where
  "remote_downloadKeyEnv a =
     Some (sourceEnv ''INSTANA_DOWNLOAD_KEY'' (SecretKeyRef
       (optional_GetOrDefault (optional_Of '''' (ba_KeysSecret (ra_Agent a))) (ra_Name a))
       DownloadKey (Some True)))"

definition remote_envWithObjectFieldSelector :: "string \<Rightarrow> string \<Rightarrow> envVar option" where
  "remote_envWithObjectFieldSelector name fieldPath = Some (sourceEnv name (FieldRef fieldPath))"

definition remote_getUserProvidedEnvs :: "instanaAgentRemote \<Rightarrow> envVar list" where
  "remote_getUserProvidedEnvs a =
     for_each (\<lambda>(name, val) envVars. envVars @ [valueEnv name val]) (ba_Env (ra_Agent a)) []"

subsection \<open>\<open>remote_helpers.go\<close>\<close>

definition remote_serviceAccountNameDefault :: "instanaAgentRemote \<Rightarrow> string" where
  "remote_serviceAccountNameDefault h =
     (case derefOrEmpty False (sa_Create (rs_ServiceAccount (ra_Spec h))) of
        True \<Rightarrow> ra_Name h | False \<Rightarrow> ''default'')"

definition remote_TLSIsEnabled :: "instanaAgentRemote \<Rightarrow> bool" where
  "remote_TLSIsEnabled h =
     (tls_SecretName (ba_TlsSpec (ra_Agent h)) \<noteq> '''' \<or>
      (length (tls_Certificate (ba_TlsSpec (ra_Agent h))) > 0 \<and> length (tls_Key (ba_TlsSpec (ra_Agent h))) > 0))"

definition remote_TLSSecretName :: "instanaAgentRemote \<Rightarrow> string" where
  "remote_TLSSecretName h =
     optional_GetOrDefault (optional_Of '''' (tls_SecretName (ba_TlsSpec (ra_Agent h)))) (ra_Name h @ ''-tls'')"

definition remote_UseContainersSecret :: "instanaAgentRemote \<Rightarrow> bool" where
  "remote_UseContainersSecret h =
     (ba_PullSecrets (ra_Agent h) = None \<and>
      has_prefix (im_Name (ba_ImageSpec (ra_Agent h))) ContainersInstanaIORegistry)"

definition remote_SortEnvVarsByName :: "envVar list \<Rightarrow> envVar list" where
  "remote_SortEnvVarsByName envVars = sort_key ev_Name envVars"

subsection \<open>\<open>remote_volume_builder.go\<close> and \<open>remote_agent_status_manager.go\<close>\<close>

definition remote_BuildFromUserConfig :: "instanaAgentRemote \<Rightarrow> volume list \<times> volumeMount list" where
  "remote_BuildFromUserConfig a = (ap_Volumes (ba_Pod (ra_Agent a)), ap_VolumeMounts (ba_Pod (ra_Agent a)))"

definition remote_setConditionAndFireEvent ::
  "statusEnv \<Rightarrow> instanaAgentRemote \<Rightarrow> condition \<Rightarrow> history \<Rightarrow> instanaAgentRemote \<times> history" where
  "remote_setConditionAndFireEvent env agentNew c h =
     (agentNew\<lparr>ra_Status := (ra_Status agentNew)\<lparr>rst_Conditions :=
        se_setCondition env c (rst_Conditions (ra_Status agentNew))\<rparr>\<rparr>,
      h @ [CEvent (eventTypeFromCondition c) (cond_Reason c) (cond_Message c)])"

subsection \<open>\<open>remote_pod_selector.go\<close>\<close>

record podSelectorLabelGeneratorRemote =
  pslr_InstanaAgentRemote :: instanaAgentRemote
  pslr_zone :: "zone option"
  pslr_component :: string

definition remote_GetPodLabels :: "podSelectorLabelGeneratorRemote \<Rightarrow> strmap option \<Rightarrow> strmap" where
  "remote_GetPodLabels p userLabels =
     (let podLabels = newMapDefaulter (map_option map_Copy userLabels);
          podLabels = gm_put NameLabel labelNameRemote podLabels;
          podLabels = gm_put InstanceLabel (ra_Name (pslr_InstanaAgentRemote p)) podLabels;
          podLabels = gm_put ComponentLabel (pslr_component p) podLabels;
          podLabels = gm_put PartOfLabel partOf podLabels;
          podLabels = gm_put ManagedByLabel managedBy podLabels
      in if pslr_zone p \<noteq> None then gm_put ZoneLabel (zone_Name (the (pslr_zone p))) podLabels else podLabels)"

definition remote_GetPodSelectorLabels :: "podSelectorLabelGeneratorRemote \<Rightarrow> strmap" where
  "remote_GetPodSelectorLabels p =
     (let labels = [(NameLabel, labelNameRemote), (InstanceLabel, ra_Name (pslr_InstanaAgentRemote p)),
                    (ComponentLabel, pslr_component p)]
      in if pslr_zone p \<noteq> None then gm_put ZoneLabel (zone_Name (the (pslr_zone p))) labels else labels)"

subsection \<open>The secret builders\<close>

definition remote_toInlineVariable :: "string \<Rightarrow> string \<Rightarrow> string list \<Rightarrow> string" where
  "remote_toInlineVariable key val fallback =
     (if length fallback > 0 \<and> val = '''' then key @ ''='' @ fallback ! 0 else key @ ''='' @ val)"

definition remote_mergeMaps :: "strmap \<Rightarrow> strmap \<Rightarrow> strmap" where
  "remote_mergeMaps map1 map2' = gm_copy map1 map2'"

text \<open>The loop of \<open>backendConfig\<close> on the index and the map, the lines in the order they are appended.\<close>

definition remote_backendStep ::
  "instanaAgentRemote \<Rightarrow> k8sObject \<Rightarrow> k8SensorBackend \<Rightarrow> int \<times> strmap \<Rightarrow> int \<times> strmap" where
  "remote_backendStep a keysSecret backend s = (case s of (i, config) \<Rightarrow>
     let b = ra_Agent a in
     if (get_name keysSecret = '''' \<and> be_EndpointKey backend = '''') \<or> be_EndpointHost backend = ''''
     then (i + 1, config)
     else (let backendKey = (case gm_get (secret_Data keysSecret) (''key'' @ be_ResourceSuffix backend) of
                 Some keyValueFromSecret \<Rightarrow> keyValueFromSecret
               | None \<Rightarrow> if be_EndpointKey backend \<noteq> '''' then be_EndpointKey backend else '''')
       in if backendKey = '''' then (i + 1, config)
          else (let lines =
                  [remote_toInlineVariable ''host'' (be_EndpointHost backend) [],
                   remote_toInlineVariable ''port'' (be_EndpointPort backend) [''443''],
                   remote_toInlineVariable ''protocol'' ''HTTP/2'' [],
                   remote_toInlineVariable ''key'' backendKey []];
                  lines = (if ba_ProxyHost b \<noteq> '''' then lines @
                    [remote_toInlineVariable ''proxy.type'' (ba_ProxyProtocol b) [''HTTP''],
                     remote_toInlineVariable ''proxy.host'' (ba_ProxyHost b) [],
                     remote_toInlineVariable ''proxy.port'' (ba_ProxyPort b) [''80'']] else lines);
                  lines = (if ba_ProxyUseDNS b
                    then lines @ [remote_toInlineVariable ''proxy.dns'' (formatBool (ba_ProxyUseDNS b)) []] else lines);
                  lines = (if ba_ProxyUser b \<noteq> '''' \<and> ba_ProxyPassword b \<noteq> '''' then lines @
                    [remote_toInlineVariable ''proxy.user'' (ba_ProxyUser b) [],
                     remote_toInlineVariable ''proxy.password'' (ba_ProxyPassword b) []] else lines)
                in (i + 1, gm_put (''com.instana.agent.main.sender.Backend-'' @ itoa (i + 1) @ ''.cfg'')
                             (join_strings newline lines @ newline) config))))"

definition remote_backendConfig ::
  "instanaAgentRemote \<Rightarrow> k8sObject \<Rightarrow> k8SensorBackend list \<Rightarrow> strmap \<times> error" where
  "remote_backendConfig a keysSecret backends =
     (snd (for_each (remote_backendStep a keysSecret) backends (0, [])), None)"

definition remote_downloadKey :: "instanaAgentRemote \<Rightarrow> k8sObject option \<Rightarrow> string option" where
  "remote_downloadKey a keysSecret =
     (let fromSecret = (case keysSecret of None \<Rightarrow> None | Some secret \<Rightarrow>
            (case gm_get (secret_Data secret) ''downloadKey'' of
               Some downloadKeyValueFromSecret \<Rightarrow> Some downloadKeyValueFromSecret
             | None \<Rightarrow> gm_get (secret_Data secret) ''key''))
      in if fromSecret \<noteq> None then fromSecret
         else if ba_DownloadKey (ra_Agent a) \<noteq> '''' then Some (ba_DownloadKey (ra_Agent a))
         else if ba_Key (ra_Agent a) \<noteq> '''' then Some (ba_Key (ra_Agent a)) else None)"

definition remote_marshalJSON :: "encoders \<Rightarrow> string \<Rightarrow> string go" where
  "remote_marshalJSON enc key =
     marshalOrDie (json_DockerConfig enc) [(ContainersInstanaIORegistry, ''_:'' @ key)]"

definition remote_container_build :: "encoders \<Rightarrow> instanaAgentRemote \<Rightarrow> k8sObject option \<Rightarrow> k8sObject option go" where
  "remote_container_build enc a keysSecret =
     (if remote_downloadKey a keysSecret \<noteq> None
      then bind_outcome (remote_marshalJSON enc (the (remote_downloadKey a keysSecret))) (\<lambda>json.
        Ret (Some (mkObject ''v1'' ''Secret'' (named (remote_containersSecretName a) (ra_Namespace a))
          (SecretBody ''kubernetes.io/dockerconfigjson'' (Some [(''.dockerconfigjson'', json)])))))
      else Ret None)"

definition remote_tls_build :: "instanaAgentRemote \<Rightarrow> k8sObject" where
  "remote_tls_build a = mkObject ''v1'' ''Secret'' (named (remote_TLSSecretName a) (ra_Namespace a))
     (SecretBody ''kubernetes.io/tls''
        (Some [(''tls.crt'', tls_Certificate (ba_TlsSpec (ra_Agent a))),
               (''tls.key'', tls_Key (ba_TlsSpec (ra_Agent a)))]))"

definition remote_tls_Build :: "instanaAgentRemote \<Rightarrow> k8sObject option" where
  "remote_tls_Build a =
     (let tls = ba_TlsSpec (ra_Agent a) in
      if tls_SecretName tls = '''' \<and> length (tls_Key tls) > 0 \<and> length (tls_Certificate tls) > 0
      then Some (remote_tls_build a) else None)"

subsection \<open>\<open>remote_dependent_lifecycle_manager.go\<close>\<close>

record remoteDependentLifecycleManager =
  rlm_agent :: instanaAgentRemote
  rlm_transformations :: transformations

definition rlm_New :: "instanaAgentRemote \<Rightarrow> remoteDependentLifecycleManager" where
  "rlm_New agent = \<lparr>rlm_agent = agent, rlm_transformations = newTransformationsRemote agent\<rparr>"

definition rlm_getConfigMapName :: "remoteDependentLifecycleManager \<Rightarrow> string" where
  "rlm_getConfigMapName d = ra_Name (rlm_agent d) @ ''-dependents''"

definition rlm_getCurrentGenKey :: "string \<Rightarrow> remoteDependentLifecycleManager \<Rightarrow> string" where
  "rlm_getCurrentGenKey ver d = ver @ ''_'' @ itoa (om_Generation (ra_Meta (rlm_agent d)))"

definition rlm_getLifecycleConfigMap ::
  "world \<Rightarrow> remoteDependentLifecycleManager \<Rightarrow> history \<Rightarrow> (k8sObject \<times> error) \<times> history" where
  "rlm_getLifecycleConfigMap w d h =
     client_Get w gvk_ConfigMap
       \<lparr>nn_Namespace = ra_Namespace (rlm_agent d), nn_Name = rlm_getConfigMapName d\<rparr> h"

definition rlm_getOrInitializeLifecycleCm ::
  "world \<Rightarrow> remoteDependentLifecycleManager \<Rightarrow> history \<Rightarrow> (k8sObject \<times> error) \<times> history" where
  "rlm_getOrInitializeLifecycleCm w d h =
     (case rlm_getLifecycleConfigMap w d h of ((lifecycleConfigMap, e), h1) \<Rightarrow>
        let lifecycleConfigMap =
              (if e \<noteq> None
               then (if isNotFound e
                     then mkObject ''v1'' ''ConfigMap''
                            (named (rlm_getConfigMapName d) (ra_Namespace (rlm_agent d))) (ConfigMapBody None)
                     else emptyConfigMap)
               else lifecycleConfigMap);
            lifecycleConfigMap =
              (if cm_Data lifecycleConfigMap = None then set_cm_Data [] lifecycleConfigMap else lifecycleConfigMap)
        in ((lifecycleConfigMap, e), h1))"

definition rlm_unmarshalToUnstructured :: "codec \<Rightarrow> string \<Rightarrow> unstructured list \<times> error" where
  "rlm_unmarshalToUnstructured c jsonString = cd_unmarshal c jsonString"

definition rlm_deleteAll ::
  "world \<Rightarrow> unstructured list \<Rightarrow> history \<Rightarrow> (k8sObject list \<times> error) \<times> history" where
  "rlm_deleteAll w toBeDeleted h =
     (case client_DeleteAllInTimeLimit w (list_MapTo toBeDeleted asObject) (seconds 30) (seconds 5) h of
        (r, h1) \<Rightarrow> (result_Get r, h1))"

definition rlm_UpdateDependentLifecycleInfo ::
  "world \<Rightarrow> codec \<Rightarrow> string \<Rightarrow> remoteDependentLifecycleManager \<Rightarrow> k8sObject list \<Rightarrow> history \<Rightarrow> error \<times> history" where
  "rlm_UpdateDependentLifecycleInfo w c ver d currentGenerationDependents h =
     (case rlm_getOrInitializeLifecycleCm w d h of ((lifecycleCm, _), h1) \<Rightarrow>
        let currentGenKey = rlm_getCurrentGenKey ver d;
            data = the (cm_Data lifecycleCm);
            data = (if gm_get data currentGenKey \<noteq> None
                    then gm_put (currentGenKey @ ''-dirty'') (the (gm_get data currentGenKey)) data else data);
            data = gm_put currentGenKey (fst (cd_marshal c (asUnstructureds currentGenerationDependents))) data;
            lifecycleCm = set_cm_Data data lifecycleCm;
            lifecycleCm = addCommonLabels ver (rlm_transformations d) lifecycleCm ComponentInstanaAgent;
            lifecycleCm = addOwnerReference (rlm_transformations d) lifecycleCm
        in case client_Apply w lifecycleCm False h1 of (r, h2) \<Rightarrow> (snd (result_Get r), h2))"

fun rlm_cleanupLoop ::
  "world \<Rightarrow> codec \<Rightarrow> string \<Rightarrow> remoteDependentLifecycleManager \<Rightarrow> unstructured list \<Rightarrow> (string \<times> string) list \<Rightarrow>
   strmap \<Rightarrow> multiErrorBuilder \<Rightarrow> history \<Rightarrow> (strmap \<times> multiErrorBuilder) \<times> history" where
  "rlm_cleanupLoop w c ver d currentGeneration [] data errBuilder h = ((data, errBuilder), h)"
| "rlm_cleanupLoop w c ver d currentGeneration ((key, jsonString) # entries) data errBuilder h =
     (let olderGeneration = fst (rlm_unmarshalToUnstructured c jsonString);
          deprecatedDependents = newDeepDiff olderGeneration currentGeneration
      in case rlm_deleteAll w deprecatedDependents h of ((_, deleteErr), h1) \<Rightarrow>
           let errBuilder = (if deleteErr \<noteq> None then meb_addSingle deleteErr errBuilder else errBuilder);
               data = (if deleteErr = None \<and> key \<noteq> rlm_getCurrentGenKey ver d then gm_del key data else data)
           in rlm_cleanupLoop w c ver d currentGeneration entries data errBuilder h1)"

definition rlm_CleanupDependents ::
  "world \<Rightarrow> codec \<Rightarrow> string \<Rightarrow> remoteDependentLifecycleManager \<Rightarrow> k8sObject list \<Rightarrow> history \<Rightarrow> error \<times> history" where
  "rlm_CleanupDependents w c ver d currentDependents h =
     (case rlm_getLifecycleConfigMap w d h of ((lifecycleConfigMap, _), h1) \<Rightarrow>
        let currentGeneration = asUnstructureds currentDependents;
            data = derefOrEmpty [] (cm_Data lifecycleConfigMap)
        in case rlm_cleanupLoop w c ver d currentGeneration data data (newMultiErrorBuilder []) h1 of
             ((data, errBuilder), h2) \<Rightarrow>
               let lifecycleConfigMap = (if cm_Data lifecycleConfigMap = None then lifecycleConfigMap
                                         else set_cm_Data data lifecycleConfigMap)
               in case client_Apply w lifecycleConfigMap False h2 of (r, h3) \<Rightarrow>
                    (meb_build (onFailure r meb_addSingle errBuilder), h3))"

subsection \<open>\<open>remote_operator_utils.go\<close>\<close>

record remoteOperatorUtils =
  rou_version :: string
  rou_builderTransformer :: transformations
  rou_dependentLifecycleManager :: remoteDependentLifecycleManager

definition rou_New :: "string \<Rightarrow> instanaAgentRemote \<Rightarrow> remoteOperatorUtils" where
  "rou_New ver agent =
     \<lparr>rou_version = ver, rou_builderTransformer = newTransformationsRemote agent,
      rou_dependentLifecycleManager = rlm_New agent\<rparr>"

fun rou_optionals ::
  "remoteOperatorUtils \<Rightarrow> 's objectBuilder list \<Rightarrow> 's \<Rightarrow> k8sObject option list go \<times> 's" where
  "rou_optionals o' [] s = (Ret [], s)"
| "rou_optionals o' (b # builders) s =
     (case builderTransformer_Apply (rou_version o') (rou_builderTransformer o') b s of
        (Panic p, s1) \<Rightarrow> (Panic p, s1)
      | (Ret opt, s1) \<Rightarrow>
          (case rou_optionals o' builders s1 of
             (Panic p, s2) \<Rightarrow> (Panic p, s2)
           | (Ret opts, s2) \<Rightarrow> (Ret (opt # opts), s2)))"

definition rou_buildObjects ::
  "remoteOperatorUtils \<Rightarrow> 's objectBuilder list \<Rightarrow> 's \<Rightarrow> k8sObject list go \<times> 's" where
  "rou_buildObjects o' builders s =
     (case rou_optionals o' builders s of
        (Panic p, s1) \<Rightarrow> (Panic p, s1)
      | (Ret optionals, s1) \<Rightarrow> (Ret (map the (filter (\<lambda>opt. opt \<noteq> None) optionals)), s1))"

fun rou_applyAll ::
  "world \<Rightarrow> k8sObject list \<Rightarrow> bool \<Rightarrow> multiErrorBuilder \<Rightarrow> history \<Rightarrow> (k8sObject list \<times> error) \<times> history" where
  "rou_applyAll w [] dryRun errBuilder h = (([], meb_build errBuilder), h)"
| "rou_applyAll w (obj # objects) dryRun errBuilder h =
     (case client_Apply w obj dryRun h of (r, h1) \<Rightarrow>
      case rou_applyAll w objects dryRun (onFailure r meb_addSingle errBuilder) h1 of
        ((objs, e), h2) \<Rightarrow> ((fst (result_Get r) # objs, e), h2))"

definition rou_ApplyAll ::
  "world \<Rightarrow> codec \<Rightarrow> remoteOperatorUtils \<Rightarrow> 's objectBuilder list \<Rightarrow> 's \<Rightarrow> history \<Rightarrow> (error go \<times> 's) \<times> history" where
  "rou_ApplyAll w c o' builders s h =
     (case rou_buildObjects o' builders s of
        (Panic p, s1) \<Rightarrow> ((Panic p, s1), h)
      | (Ret dryObjects, s1) \<Rightarrow>
        (case rou_applyAll w dryObjects True (newMultiErrorBuilder []) h of ((_, e1), h1) \<Rightarrow>
         if e1 \<noteq> None then ((Ret e1, s1), h1)
         else (case rou_buildObjects o' builders s1 of
            (Panic p, s2) \<Rightarrow> ((Panic p, s2), h1)
          | (Ret objects, s2) \<Rightarrow>
            (case rlm_UpdateDependentLifecycleInfo w c (rou_version o') (rou_dependentLifecycleManager o') objects h1 of
               (e2, h2) \<Rightarrow>
             if e2 \<noteq> None then ((Ret e2, s2), h2)
             else (case rou_applyAll w objects False (newMultiErrorBuilder []) h2 of ((objects1, e3), h3) \<Rightarrow>
               if e3 \<noteq> None then ((Ret e3, s2), h3)
               else (case rlm_CleanupDependents w c (rou_version o') (rou_dependentLifecycleManager o') objects1 h3 of
                 (e4, h4) \<Rightarrow> ((Ret e4, s2), h4)))))))"

definition rou_DeleteAll :: "world \<Rightarrow> codec \<Rightarrow> remoteOperatorUtils \<Rightarrow> history \<Rightarrow> error \<times> history" where
  "rou_DeleteAll w c o' h =
     rlm_CleanupDependents w c (rou_version o') (rou_dependentLifecycleManager o') [] h"

subsection \<open>The copies and the shared definitions\<close>

text \<open>The abstraction functions: from the state of a copy to the state of the shared definition.\<close>

definition abs_generator :: "podSelectorLabelGeneratorRemote \<Rightarrow> podSelectorLabelGenerator" where
  "abs_generator p = podSelectorLabelsWithZoneInfoRemote (pslr_InstanaAgentRemote p) (pslr_component p) (pslr_zone p)"

definition abs_manager :: "string \<Rightarrow> remoteDependentLifecycleManager \<Rightarrow> lifecycleManager" where
  "abs_manager ver d =
     \<lparr>lm_Name = ra_Name (rlm_agent d), lm_Namespace = ra_Namespace (rlm_agent d),
      lm_Generation = om_Generation (ra_Meta (rlm_agent d)),
      lm_Transformations = rlm_transformations d, lm_Version = ver\<rparr>"

definition abs_utils :: "world \<Rightarrow> codec \<Rightarrow> remoteOperatorUtils \<Rightarrow> operatorUtils" where
  "abs_utils w c o' =
     \<lparr>ou_Version = rou_version o', ou_Transformations = rou_builderTransformer o',
      ou_Update = remote_updateDependentLifecycleInfo w c (abs_manager (rou_version o') (rou_dependentLifecycleManager o')),
      ou_Cleanup = remote_cleanupDependents w c (abs_manager (rou_version o') (rou_dependentLifecycleManager o')),
      ou_OpenShift = None\<rparr>"

named_theorems copy_eqs \<open>a copied operation is the shared one on the abstract state\<close>

lemma env_copies [copy_eqs]:
  "remote_agentModeEnv a z = agentModeEnv (ra_Agent a) z"
  "remote_zoneNameEnv a z = zoneNameEnv (rs_ZoneName (ra_Spec a)) z"
  "remote_httpsProxyEnv a = httpsProxyEnv (ra_Agent a)"
  "remote_backendEnv a = backendEnv (remoteResourcesName a)"
  "remote_agentKeyHelper a name = agentKeyHelper (ra_Name a) (ra_Agent a) name"
  "remote_downloadKeyEnv a = downloadKeyEnv (ra_Name a) (ra_Agent a)"
  "remote_envWithObjectFieldSelector name path = envWithObjectFieldSelector name path"
  "remote_getUserProvidedEnvs a = getUserProvidedEnvs (ra_Agent a)"
  by (simp_all add: remote_agentModeEnv_def agentModeEnv_def remote_zoneNameEnv_def zoneNameEnv_def
      remote_httpsProxyEnv_def httpsProxyEnv_def remote_backendEnv_def backendEnv_def remote_agentKeyHelper_def
      agentKeyHelper_def keysSecretName_def remote_downloadKeyEnv_def downloadKeyEnv_def
      remote_envWithObjectFieldSelector_def envWithObjectFieldSelector_def remote_getUserProvidedEnvs_def
      getUserProvidedEnvs_def Let_def split: option.split)

lemma helper_copies [copy_eqs]:
  "remote_serviceAccountNameDefault a = serviceAccountNameDefault (rs_ServiceAccount (ra_Spec a)) (ra_Name a)"
  "remote_TLSIsEnabled a = tlsIsEnabled (ra_Agent a)"
  "remote_TLSSecretName a = tlsSecretName (ra_Name a) (ra_Agent a)"
  "remote_UseContainersSecret a = useContainersSecret (ra_Agent a)"
  "remote_SortEnvVarsByName vs = sortEnvVarsByName vs"
  by (simp_all add: remote_serviceAccountNameDefault_def serviceAccountNameDefault_def remote_TLSIsEnabled_def
      tlsIsEnabled_def remote_TLSSecretName_def tlsSecretName_def remote_UseContainersSecret_def
      useContainersSecret_def remote_SortEnvVarsByName_def sortEnvVarsByName_def)

lemma volume_copies [copy_eqs]: "remote_BuildFromUserConfig a = buildFromUserConfig (ra_Agent a)"
  by (simp add: remote_BuildFromUserConfig_def buildFromUserConfig_def)

lemma condition_copies [copy_eqs]:
  "remote_setConditionAndFireEvent env a c h =
     (case setConditionAndFireEvent env c (rst_Conditions (ra_Status a)) h of (conds, h1) \<Rightarrow>
        (a\<lparr>ra_Status := (ra_Status a)\<lparr>rst_Conditions := conds\<rparr>\<rparr>, h1))"
  by (simp add: remote_setConditionAndFireEvent_def setConditionAndFireEvent_def)

lemma selector_copies [copy_eqs]:
  "remote_GetPodLabels p u = getPodLabels (abs_generator p) u"
  "remote_GetPodSelectorLabels p = getPodSelectorLabels (abs_generator p)"
  by (simp_all add: remote_GetPodLabels_def getPodLabels_def remote_GetPodSelectorLabels_def
      getPodSelectorLabels_def abs_generator_def podSelectorLabelsWithZoneInfoRemote_def Let_def split: option.split)

lemma toInlineVariable_copies [copy_eqs]:
  "remote_toInlineVariable key val [] = toInlineVariable key val None"
  "remote_toInlineVariable key val [f] = toInlineVariable key val (Some f)"
  by (simp_all add: remote_toInlineVariable_def toInlineVariable_def)

lemma backendStep_eq:
  "remote_backendStep a keysSecret be (i, config) = (i + 1,
     if (get_name keysSecret = '''' \<and> be_EndpointKey be = '''') \<or> be_EndpointHost be = '''' then config
     else if resolvedBackendKey keysSecret be = '''' then config
     else gm_put (backendFile (i + 1))
       (join_strings newline (backendLines (ra_Agent a) be (resolvedBackendKey keysSecret be)) @ newline) config)"
proof -
  have opt: "(if b then xs @ ys else xs) = xs @ (if b then ys else [])" for b and xs ys :: "string list" by simp
  have pair: "(if b then (x, y) else (x, z)) = (x, if b then y else z)" for b x y z by simp
  show ?thesis
    by (simp only: remote_backendStep_def prod.case Let_def copy_eqs opt pair append_assoc
        resolvedBackendKey_def [symmetric] backendLines_def backendFile_def)
qed

lemma backendStep_copies:
  "snd (for_each (remote_backendStep a keysSecret) backends (i, config)) =
     backendConfigFrom (ra_Agent a) keysSecret i backends config"
  by (induction backends arbitrary: i config) (simp_all add: backendStep_eq Let_def)

lemma secret_copies [copy_eqs]:
  "remote_backendConfig a keysSecret backends = backendConfig (ra_Agent a) keysSecret backends"
  "remote_mergeMaps m m' = mergeMaps m m'"
  "remote_downloadKey a keys = downloadKey (ra_Agent a) keys"
  "remote_marshalJSON enc key = container_marshalJSON enc key"
  "remote_tls_Build a = tls_Build (ra_Name a) (ra_Namespace a) (ra_Agent a)"
  by (simp_all add: remote_backendConfig_def backendConfig_def backendStep_copies remote_mergeMaps_def
      mergeMaps_def remote_downloadKey_def downloadKey_def remote_marshalJSON_def container_marshalJSON_def
      remote_tls_Build_def tls_Build_def remote_tls_build_def tls_build_def copy_eqs Let_def split: option.split)

lemma container_copies [copy_eqs]:
  "remote_container_build enc a keys =
     container_build enc (ra_Agent a) keys (remote_containersSecretName a) (ra_Namespace a)"
  by (simp add: remote_container_build_def container_build_def copy_eqs split: option.split)

lemma abs_manager_simps [simp]:
  "lm_Name (abs_manager ver d) = ra_Name (rlm_agent d)"
  "lm_Namespace (abs_manager ver d) = ra_Namespace (rlm_agent d)"
  "lm_Generation (abs_manager ver d) = om_Generation (ra_Meta (rlm_agent d))"
  "lm_Transformations (abs_manager ver d) = rlm_transformations d"
  "lm_Version (abs_manager ver d) = ver"
  "abs_manager ver (rlm_New a) = newRemoteDependentLifecycleManager ver a"
  by (simp_all add: abs_manager_def rlm_New_def newRemoteDependentLifecycleManager_def)

lemma manager_names:
  "getConfigMapName (abs_manager ver d) = rlm_getConfigMapName d"
  "getCurrentGenKey (abs_manager ver d) = rlm_getCurrentGenKey ver d"
  by (simp_all add: rlm_getConfigMapName_def getConfigMapName_def rlm_getCurrentGenKey_def getCurrentGenKey_def)

lemma manager_reads:
  "getLifecycleConfigMap w (abs_manager ver d) = rlm_getLifecycleConfigMap w d"
  "getOrInitializeLifecycleCm w (abs_manager ver d) = rlm_getOrInitializeLifecycleCm w d"
  "deleteDependents w = rlm_deleteAll w"
proof -
  show 1: "getLifecycleConfigMap w (abs_manager ver d) = rlm_getLifecycleConfigMap w d"
    by (simp add: fun_eq_iff getLifecycleConfigMap_def rlm_getLifecycleConfigMap_def manager_names)
  show "getOrInitializeLifecycleCm w (abs_manager ver d) = rlm_getOrInitializeLifecycleCm w d"
    unfolding fun_eq_iff getOrInitializeLifecycleCm_def rlm_getOrInitializeLifecycleCm_def 1 manager_names
      abs_manager_simps by simp
  show "deleteDependents w = rlm_deleteAll w"
    by (simp add: fun_eq_iff deleteDependents_def rlm_deleteAll_def)
qed

lemma manager_update:
  "rlm_UpdateDependentLifecycleInfo w c ver d objects h =
     remote_updateDependentLifecycleInfo w c (abs_manager ver d) objects h"
proof -
  have "recordDependents c (abs_manager ver d) objects data =
      gm_put (rlm_getCurrentGenKey ver d) (fst (cd_marshal c (asUnstructureds objects)))
        (if gm_get data (rlm_getCurrentGenKey ver d) \<noteq> None
         then gm_put (rlm_getCurrentGenKey ver d @ ''-dirty'') (the (gm_get data (rlm_getCurrentGenKey ver d))) data
         else data)" for data
    by (simp add: recordDependents_def manager_names Let_def split: option.split)
  then show ?thesis
    by (simp only: rlm_UpdateDependentLifecycleInfo_def remote_updateDependentLifecycleInfo_def
        applyDependentsRecord_def manager_reads abs_manager_simps Let_def)
qed

lemma manager_loop:
  "rlm_cleanupLoop w c ver d cur entries data eb h = cleanupLoop w c (abs_manager ver d) cur entries data eb h"
proof (induction entries arbitrary: data eb h)
  case (Cons e entries)
  obtain key json where e: "e = (key, json)" by (rule prod.exhaust)
  show ?case
    by (simp only: e rlm_cleanupLoop.simps cleanupLoop.simps rlm_unmarshalToUnstructured_def manager_reads
        manager_names Cons.IH)
qed simp

lemma manager_cleanup:
  "rlm_CleanupDependents w c ver d current h = remote_cleanupDependents w c (abs_manager ver d) current h"
  by (simp only: rlm_CleanupDependents_def remote_cleanupDependents_def cleanupOnce_def manager_reads manager_loop Let_def)

lemma utils_build: "rou_buildObjects o' builders s = buildObjects (abs_utils w c o') builders s"
proof -
  have "rou_optionals o' builders s = buildOptionals (abs_utils w c o') builders s"
  proof (induction builders arbitrary: s)
    case (Cons b builders)
    have "ou_Version (abs_utils w c o') = rou_version o'" "ou_Transformations (abs_utils w c o') = rou_builderTransformer o'"
      by (simp_all add: abs_utils_def)
    then show ?case by (simp only: rou_optionals.simps buildOptionals.simps Cons.IH)
  qed simp
  then show ?thesis by (simp only: rou_buildObjects_def buildObjects_def)
qed

lemma utils_apply: "rou_applyAll w objects dryRun eb h = applyObjects w objects dryRun eb h"
  by (induction w objects dryRun eb h rule: rou_applyAll.induct) (simp_all split: prod.splits)

lemma abs_utils_New: "abs_utils w c (rou_New ver a) = newRemoteOperatorUtils w c ver a"
  by (simp add: abs_utils_def rou_New_def newRemoteOperatorUtils_def Let_def)

lemma utils_ApplyAll:
  "rou_ApplyAll w c o' builders s h = ApplyAll w (abs_utils w c o') builders s h"
  "rou_DeleteAll w c o' h = DeleteAll (abs_utils w c o') h"
proof -
  have ou: "ou_Update (abs_utils w c o') =
      remote_updateDependentLifecycleInfo w c (abs_manager (rou_version o') (rou_dependentLifecycleManager o'))"
    "ou_Cleanup (abs_utils w c o') =
      remote_cleanupDependents w c (abs_manager (rou_version o') (rou_dependentLifecycleManager o'))"
    by (simp_all add: abs_utils_def)
  show "rou_ApplyAll w c o' builders s h = ApplyAll w (abs_utils w c o') builders s h"
    by (simp only: rou_ApplyAll_def ApplyAll_def utils_build [of _ _ _ w c] utils_apply manager_update manager_cleanup ou)
  show "rou_DeleteAll w c o' h = DeleteAll (abs_utils w c o') h"
    by (simp only: rou_DeleteAll_def DeleteAll_def manager_cleanup ou)
qed

subsection \<open>Properties\<close>

text \<open>
  the copies of the environment and volume builders, of the helpers, of the label generator, of
  the setter of conditions and of the secret builders compute what the definitions shared with the agent compute: the values and names
  they put into the remote agent's objects are those the other theorems are about.
\<close>

theorem remote_builder_copies:
  "remote_agentModeEnv a z = agentModeEnv (ra_Agent a) z \<and>
   remote_zoneNameEnv a z = zoneNameEnv (rs_ZoneName (ra_Spec a)) z \<and>
   remote_httpsProxyEnv a = httpsProxyEnv (ra_Agent a) \<and>
   remote_agentKeyHelper a name = agentKeyHelper (ra_Name a) (ra_Agent a) name \<and>
   remote_downloadKeyEnv a = downloadKeyEnv (ra_Name a) (ra_Agent a) \<and>
   remote_getUserProvidedEnvs a = getUserProvidedEnvs (ra_Agent a) \<and>
   remote_serviceAccountNameDefault a = serviceAccountNameDefault (rs_ServiceAccount (ra_Spec a)) (ra_Name a) \<and>
   remote_TLSIsEnabled a = tlsIsEnabled (ra_Agent a) \<and>
   remote_UseContainersSecret a = useContainersSecret (ra_Agent a) \<and>
   remote_BuildFromUserConfig a = buildFromUserConfig (ra_Agent a) \<and>
   remote_setConditionAndFireEvent env a cond h =
     (case setConditionAndFireEvent env cond (rst_Conditions (ra_Status a)) h of (conds, h1) \<Rightarrow>
        (a\<lparr>ra_Status := (ra_Status a)\<lparr>rst_Conditions := conds\<rparr>\<rparr>, h1)) \<and>
   remote_GetPodLabels p u = getPodLabels (abs_generator p) u \<and>
   remote_GetPodSelectorLabels p = getPodSelectorLabels (abs_generator p) \<and>
   remote_backendConfig a secret backends = backendConfig (ra_Agent a) secret backends \<and>
   remote_container_build enc a keys =
     container_build enc (ra_Agent a) keys (remote_containersSecretName a) (ra_Namespace a) \<and>
   remote_tls_Build a = tls_Build (ra_Name a) (ra_Namespace a) (ra_Agent a)"
  by (simp only: copy_eqs simp_thms)

text \<open>
  the remote agent's copies of the lifecycle manager and of the operator utils refine the shared
  definitions: with the state mapped by \<open>abs_utils\<close>, which maps a fresh copy to the fresh shared
  state, applying and deleting give the same result and make the same calls, for every behaviour of
  the server.
\<close>

theorem remote_utils_refine:
  "abs_utils w c (rou_New ver a) = newRemoteOperatorUtils w c ver a \<and>
   rou_ApplyAll w c (rou_New ver a) builders s h = remote_ApplyAll w c ver a builders s h \<and>
   rou_ApplyAll w c o' builders s h = ApplyAll w (abs_utils w c o') builders s h \<and>
   rou_DeleteAll w c o' h = DeleteAll (abs_utils w c o') h"
  by (simp only: utils_ApplyAll abs_utils_New remote_ApplyAll_def simp_thms)

end
