(* ===== verification/Composition.thy ===== *)
theory Composition
  imports Ownership Remote_Copies
begin

text \<open>
  Properties of several reconciliations together, and of the two controllers together: what the
  record of the dependents remembers from one reconciliation to the next, and what two custom
  resources of one name do to each other. This theory adds no model of its own; it composes
  \<open>Lifecycle\<close> and \<open>Operator_Utils\<close>.
\<close>

subsection \<open>What the record remembers\<close>

text \<open>The references that some entry of the data of the ConfigMap holds.\<close>

definition remembered :: "codec \<Rightarrow> strmap \<Rightarrow> unstructured set" where
  "remembered c data = {u. \<exists>k json. gm_get data k = Some json \<and> u \<in> set (fst (cd_unmarshal c json))}"

text \<open>The documented behaviour of encoding and decoding: what was encoded is decoded again.\<close>

definition decodes :: "codec \<Rightarrow> k8sObject list \<Rightarrow> bool" where
  "decodes c objects \<longleftrightarrow>
     fst (cd_unmarshal c (fst (cd_marshal c (map asUnstructured objects)))) = map asUnstructured objects"

text \<open>
  The entries that survive a write of the record: all but the \<open>-dirty\<close> entry of the current
  generation, which is overwritten when that generation has an entry already.
\<close>

definition survives :: "lifecycleManager \<Rightarrow> strmap \<Rightarrow> string \<Rightarrow> bool" where
  "survives d data k \<longleftrightarrow>
     (k = getCurrentGenKey d @ ''-dirty'' \<longrightarrow> gm_get data (getCurrentGenKey d) = None)"

lemma recordDependents_survives:
  assumes "gm_get data k = Some json" "survives d data k"
  shows "\<exists>k'. gm_get (recordDependents c d objects data) k' = Some json"
  using assms
  by (intro exI [of _ "if k = getCurrentGenKey d then getCurrentGenKey d @ ''-dirty'' else k"])
    (auto simp: gm_get_recordDependents survives_def)

lemma recordDependents_entry:
  assumes "gm_get (recordDependents c d objects data) k = Some json"
  shows "json = fst (cd_marshal c (map asUnstructured objects)) \<or>
    (\<exists>k'. gm_get data k' = Some json \<and> survives d data k')"
proof (cases "k = getCurrentGenKey d")
  case True
  with assms show ?thesis by (simp add: gm_get_recordDependents)
next
  case False
  show ?thesis
  proof (cases "k = getCurrentGenKey d @ ''-dirty'' \<and> gm_get data (getCurrentGenKey d) \<noteq> None")
    case True
    then have "gm_get data (getCurrentGenKey d) = Some json"
      using assms by (simp add: gm_get_recordDependents)
    then show ?thesis by (intro disjI2 exI [of _ "getCurrentGenKey d"]) (simp add: survives_def)
  next
    case dirty: False
    with False assms have "gm_get data k = Some json" by (auto simp: gm_get_recordDependents split: if_splits)
    with dirty show ?thesis by (intro disjI2 exI [of _ k]) (auto simp: survives_def)
  qed
qed

text \<open>
  C14: what writing the record of the dependents remembers: the current dependents and whatever a
  surviving entry held before. The entry of an earlier interrupted clean-up of the same generation
  (key \<open>-dirty\<close>) does not survive when the generation has an entry already: references that only
  this entry held are forgotten.
\<close>

theorem recordDependents_remembers:
  assumes "decodes c objects"
  shows "remembered c (recordDependents c d objects data) =
    set (map asUnstructured objects) \<union>
    {u. \<exists>k json. gm_get data k = Some json \<and> survives d data k \<and> u \<in> set (fst (cd_unmarshal c json))}"
    (is "?l = ?new \<union> ?old")
proof (intro equalityI subsetI)
  fix u assume "u \<in> ?l"
  then obtain k json where "gm_get (recordDependents c d objects data) k = Some json"
    "u \<in> set (fst (cd_unmarshal c json))" by (auto simp: remembered_def)
  with recordDependents_entry [OF this(1)] assms show "u \<in> ?new \<union> ?old" by (auto simp: decodes_def)
next
  fix u assume "u \<in> ?new \<union> ?old"
  then show "u \<in> ?l"
  proof
    have "gm_get (recordDependents c d objects data) (getCurrentGenKey d) =
        Some (fst (cd_marshal c (map asUnstructured objects)))" by (simp add: gm_get_recordDependents)
    moreover assume "u \<in> ?new"
    ultimately show ?thesis using assms unfolding remembered_def decodes_def mem_Collect_eq by metis
  next
    assume "u \<in> ?old"
    then show ?thesis using recordDependents_survives unfolding remembered_def by blast
  qed
qed

text \<open>
  The second of two failed clean-ups of one generation: the Service that only the \<open>-dirty\<close> entry
  held is forgotten.
\<close>

definition serviceRef :: unstructured where
  "serviceRef = \<lparr>un_GVK = gvk_Service, un_Name = ''agent'', un_Namespace = ''ns''\<rparr>"

definition twoEntryCodec :: codec where
  "twoEntryCodec = \<lparr>cd_marshal = (\<lambda>us. (''new'', None)),
     cd_unmarshal = (\<lambda>s. (if s = ''old'' then [serviceRef] else [secretRef], None))\<rparr>"

definition dirtyData :: "lifecycleManager \<Rightarrow> strmap" where
  "dirtyData d = [(getCurrentGenKey d, ''new''), (getCurrentGenKey d @ ''-dirty'', ''old'')]"

lemma asUnstructured_asObject_secretRef [simp]: "asUnstructured (asObject secretRef) = secretRef"
  by (simp add: asUnstructured_def)
    (simp add: asObject_def secretRef_def mkObject_def get_name_def get_namespace_def)

theorem recordDependents_remembers_witness:
  "decodes twoEntryCodec [asObject secretRef] \<and>
   remembered twoEntryCodec (dirtyData exampleManager) = {serviceRef, secretRef} \<and>
   remembered twoEntryCodec (recordDependents twoEntryCodec exampleManager [asObject secretRef]
     (dirtyData exampleManager)) = {secretRef}"
proof -
  have 1: "decodes twoEntryCodec [asObject secretRef]" by (simp add: decodes_def twoEntryCodec_def)
  have get: "gm_get (dirtyData d) k = (if k = getCurrentGenKey d then Some ''new''
      else if k = getCurrentGenKey d @ ''-dirty'' then Some ''old'' else None)" for d k
    by (simp add: dirtyData_def)
  have 2: "remembered twoEntryCodec (dirtyData exampleManager) = {serviceRef, secretRef}"
    unfolding remembered_def get by (auto simp: twoEntryCodec_def split: if_splits)
  have old: "{u. \<exists>k json. gm_get (dirtyData exampleManager) k = Some json \<and>
      survives exampleManager (dirtyData exampleManager) k \<and> u \<in> set (fst (cd_unmarshal twoEntryCodec json))} = {secretRef}"
    unfolding get survives_def by (auto simp: twoEntryCodec_def split: if_splits)
  show ?thesis using 1 2 recordDependents_remembers [OF 1, of exampleManager "dirtyData exampleManager"]
    unfolding old by simp
qed

subsection \<open>Two custom resources of one name\<close>

lemma cleanupLoop_deletes:
  assumes "(k, json) \<in> set entries" "u \<in> set (fst (cd_unmarshal c json))" "u \<notin> set (map asUnstructured cur)"
  shows "CDelete (asObject u) \<in>
    set (drop (length h) (snd (cleanupLoop w c d (asUnstructureds cur) entries data m h)))"
  using assms(1)
proof (induction entries arbitrary: data m h)
  case (Cons kv entries)
  obtain key json' where kv: "kv = (key, json')" by (cases kv)
  obtain objs e h1 where del: "deleteDependents w (deprecated c cur json') h = ((objs, e), h1)"
    by (metis prod.collapse)
  let ?m = "if e \<noteq> None then meb_addSingle e m else m"
  let ?data = "if e = None \<and> key \<noteq> getCurrentGenKey d then gm_del key data else data"
  let ?rest = "cleanupLoop w c d (asUnstructureds cur) entries ?data ?m h1"
  have run: "cleanupLoop w c d (asUnstructureds cur) (kv # entries) data m h = ?rest"
    using del by (simp add: kv Let_def deprecated_def del: asUnstructureds_eq)
  obtain tr where tr: "h1 = h @ map CDelete (map asObject (deprecated c cur json')) @ tr"
    using deleteAllInTimeLimit_calls [of w "map asObject (deprecated c cur json')" "seconds 30" "seconds 5" h] del
    by (auto simp: deleteDependents_def client_DeleteAllInTimeLimit_def split: prod.splits)
  obtain tr' where tr': "snd ?rest = h1 @ tr'"
    using emits_prefix [OF emits_cleanupLoop, of entries c "\<lambda>_. True" h1 w d cur ?data ?m]
    by (auto simp: prefix_def simp del: asUnstructureds_eq)
  show ?case
  proof (cases "kv = (k, json)")
    case True
    then have "u \<in> set (deprecated c cur json')"
      using assms by (simp add: kv deprecated_def deep_checker.diff_set)
    with tr tr' show ?thesis unfolding run by auto
  next
    case False
    with Cons have "CDelete (asObject u) \<in> set (drop (length h1) (snd ?rest))" by auto
    with tr tr' show ?thesis unfolding run by auto
  qed
qed simp

lemma cleanupOnce_calls:
  assumes "fst (sv_get w h gvk_ConfigMap (lifecycleKey d)) = cm"
  defines "data \<equiv> derefOrEmpty [] (cm_Data cm)"
  shows "\<exists>cm'. snd (cleanupOnce w c d cur h) =
    snd (cleanupLoop w c d (asUnstructureds cur) data data [] (h @ [CGet gvk_ConfigMap (lifecycleKey d)])) @
    [CApply cm' False]"
  using assms by (auto simp: cleanupOnce_def getLifecycleConfigMap_def client_Get_def client_Apply_def
      lifecycleKey_def newMultiErrorBuilder_def Let_def split_beta simp del: asUnstructureds_eq)

lemma cleanupOnce_deletes:
  assumes "(k, json) \<in> set (derefOrEmpty [] (cm_Data (fst (sv_get w h gvk_ConfigMap (lifecycleKey d)))))"
    and "u \<in> set (fst (cd_unmarshal c json))" "u \<notin> set (map asUnstructured cur)"
  shows "CDelete (asObject u) \<in> set (drop (length h) (snd (cleanupOnce w c d cur h)))"
proof -
  let ?data = "derefOrEmpty [] (cm_Data (fst (sv_get w h gvk_ConfigMap (lifecycleKey d))))"
  let ?h1 = "h @ [CGet gvk_ConfigMap (lifecycleKey d)]"
  let ?h2 = "snd (cleanupLoop w c d (asUnstructureds cur) ?data ?data [] ?h1)"
  obtain cm' where run: "snd (cleanupOnce w c d cur h) = ?h2 @ [CApply cm' False]"
    using cleanupOnce_calls [OF refl] by blast
  obtain tr where tr: "?h2 = ?h1 @ tr"
    using emits_prefix [OF emits_cleanupLoop, of ?data c "\<lambda>_. True" ?h1 w d cur ?data "[]"]
    by (auto simp: prefix_def simp del: asUnstructureds_eq)
  have "CDelete (asObject u) \<in> set (drop (length ?h1) ?h2)"
    by (rule cleanupLoop_deletes [OF assms])
  then show ?thesis unfolding run tr by simp
qed

text \<open>
  C15: an agent and a remote agent of one name and namespace keep their records in one ConfigMap.
  A clean-up of the remote agent that reads the agent's record (also the one of the remote agent's
  deletion) deletes every object of the agent that is not one of its own.
\<close>

theorem same_name_deletes_each_others_dependents:
  assumes "ag_Name agent = ra_Name remote" "ag_Namespace agent = ra_Namespace remote"
    and "sv_get w h gvk_ConfigMap (lifecycleKey (newDependentLifecycleManager ver agent)) = (cm, None)"
    and "records_dependents c (newDependentLifecycleManager ver agent) objects cm" "decodes c objects"
    and "obj \<in> set objects" "asUnstructured obj \<notin> set (map asUnstructured current)"
  shows "CDelete (asObject (asUnstructured obj)) \<in> set (drop (length h)
    (snd (remote_cleanupDependents w c (newRemoteDependentLifecycleManager ver' remote) current h)))"
proof -
  let ?a = "newDependentLifecycleManager ver agent" and ?r = "newRemoteDependentLifecycleManager ver' remote"
  have key: "lifecycleKey ?r = lifecycleKey ?a"
    using assms(1,2) by (simp add: lifecycleKey_def getConfigMapName_def newDependentLifecycleManager_def
        newRemoteDependentLifecycleManager_def)
  from assms(4) obtain data where data: "cm_Data cm = Some data"
    "gm_get data (getCurrentGenKey ?a) = Some (fst (cd_marshal c (map asUnstructured objects)))"
    by (auto simp: records_dependents_def split: option.splits)
  then have "(getCurrentGenKey ?a, fst (cd_marshal c (map asUnstructured objects))) \<in>
      set (derefOrEmpty [] (cm_Data (fst (sv_get w h gvk_ConfigMap (lifecycleKey ?r)))))"
    using assms(3) by (simp add: key map_of_SomeD)
  moreover have "asUnstructured obj \<in> set (fst (cd_unmarshal c (fst (cd_marshal c (map asUnstructured objects)))))"
    using assms(5,6) by (simp add: decodes_def)
  ultimately show ?thesis
    unfolding remote_cleanupDependents_def using assms(7) by (rule cleanupOnce_deletes)
qed

text \<open>The agent of the examples and the remote agent of the examples have one name.\<close>

definition agentRecord :: k8sObject where
  "agentRecord = mkObject ''v1'' ''ConfigMap'' (named ''agent-dependents'' ''ns'')
     (ConfigMapBody (Some [(getCurrentGenKey exampleManager, '''')]))"

abbreviation agentRecordWorld :: world where
  "agentRecordWorld \<equiv> simWorld [agentRecord] exampleAgent exampleRemote"

lemma gvk_agentRecord [simp]: "get_gvk agentRecord = gvk_ConfigMap"
  by (simp add: agentRecord_def get_gvk_def mkObject_def fromAPIVersionAndKind_def gvk_ConfigMap_def)

lemma key_agentRecord [simp]: "objectKeyFromObject agentRecord = lifecycleKey exampleManager"
  by (simp add: agentRecord_def lifecycleKey_def exampleManager_def newDependentLifecycleManager_def
      getConfigMapName_def example_defs objectKeyFromObject_def mkObject_def get_name_def get_namespace_def)

lemma agentRecord_records: "records_dependents oneEntryCodec exampleManager [asObject secretRef] agentRecord"
  by (simp add: records_dependents_def agentRecord_def oneEntryCodec_def)

theorem same_name_deletes_each_others_dependents_witness:
  "records_dependents oneEntryCodec exampleManager [asObject secretRef] agentRecord \<and>
   CDelete (asObject secretRef) \<in> set (snd (remote_cleanupDependents agentRecordWorld oneEntryCodec
     (newRemoteDependentLifecycleManager ''v1'' exampleRemote) [] []))"
proof -
  have "sv_get agentRecordWorld [] gvk_ConfigMap (lifecycleKey exampleManager) = (agentRecord, None)"
    by (simp add: simWorld_def)
  moreover have "decodes oneEntryCodec [asObject secretRef]" by (simp add: decodes_def oneEntryCodec_def)
  ultimately have "CDelete (asObject (asUnstructured (asObject secretRef))) \<in> set (drop (length ([] :: history))
      (snd (remote_cleanupDependents agentRecordWorld oneEntryCodec
        (newRemoteDependentLifecycleManager ''v1'' exampleRemote) [] [])))"
    using same_name_deletes_each_others_dependents [of exampleAgent exampleRemote agentRecordWorld "[]" "''v1''"
        agentRecord oneEntryCodec "[asObject secretRef]" "asObject secretRef" "[]" "''v1''"] agentRecord_records
    by (simp add: exampleManager_def exampleAgent_def exampleRemote_def)
  then show ?thesis using agentRecord_records by simp
qed

end
