(* ===== verification/Generations.thy ===== *)
theory Generations
  imports Composition
begin

text \<open>
  Several runs of \<open>ApplyAll\<close>, one after the other: a run that succeeds has removed what earlier ones
  left behind, and a run that builds the same objects again deletes nothing. The proofs are done
  once, for an \<open>operatorUtils\<close> whose lifecycle manager makes one attempt, which is the manager of the
  remote agent; the manager of the agent, which retries, is one of these as long as the API server
  answers no call with a conflict.
\<close>

subsection \<open>The record in the API server\<close>

text \<open>
  The documented behaviour of the API server on the ConfigMap with the key \<open>key\<close>: a ConfigMap that
  is found has that key, and once an apply of it was accepted, it is found with the data applied
  until something else writes it.
\<close>

definition of_key :: "namespacedName \<Rightarrow> k8sObject \<Rightarrow> bool" where
  "of_key key cm \<longleftrightarrow> get_gvk cm = gvk_ConfigMap \<and> objectKeyFromObject cm = key"

definition writes_key :: "namespacedName \<Rightarrow> call \<Rightarrow> bool" where
  "writes_key key call =
     (case call of CApply obj dryRun \<Rightarrow> \<not> dryRun \<and> of_key key obj | CDelete obj \<Rightarrow> of_key key obj | _ \<Rightarrow> False)"

definition configmap_store :: "world \<Rightarrow> namespacedName \<Rightarrow> bool" where
  "configmap_store w key \<longleftrightarrow>
     (\<forall>h cm. sv_get w h gvk_ConfigMap key = (cm, None) \<longrightarrow> of_key key cm) \<and>
     (\<forall>h cm tr. of_key key cm \<and> snd (sv_apply w h cm False) = None \<and> list_all (\<lambda>c. \<not> writes_key key c) tr \<longrightarrow>
        (\<exists>cm'. sv_get w (h @ CApply cm False # tr) gvk_ConfigMap key = (cm', None) \<and> cm_Data cm' = cm_Data cm))"

lemma configmap_storeD:
  assumes "configmap_store w key"
  shows "sv_get w h gvk_ConfigMap key = (cm, None) \<Longrightarrow> of_key key cm"
    and "of_key key cm \<Longrightarrow> snd (sv_apply w h cm False) = None \<Longrightarrow> list_all (\<lambda>c. \<not> writes_key key c) tr \<Longrightarrow>
      \<exists>cm'. sv_get w (h @ CApply cm False # tr) gvk_ConfigMap key = (cm', None) \<and> cm_Data cm' = cm_Data cm"
  using assms unfolding configmap_store_def by blast+

lemma writes_key_simps [simp]:
  "writes_key key (CApply obj True) = False" "writes_key key (CApply obj False) = of_key key obj"
  "writes_key key (CGet gvk k) = False" "writes_key key (CSleep t) = False"
  "writes_key key (CDelete obj) = of_key key obj" "of_key key (set_managedFields fs obj) = of_key key obj"
  by (simp_all add: writes_key_def of_key_def objectKeyFromObject_def)

lemma applies_write_nothing:
  "list_all (\<lambda>c. \<not> writes_key key c) (map (apply_call True) objects)"
  "\<forall>obj\<in>set objects. \<not> of_key key obj \<Longrightarrow> list_all (\<lambda>c. \<not> writes_key key c) (map (apply_call False) objects)"
  by (simp_all add: list_all_iff)

text \<open>
  The data that a read of the record gives to \<open>recordDependents\<close>: nothing when the ConfigMap is not
  there. Its keys are distinct, as those of every map.
\<close>

definition record_data :: "world \<Rightarrow> namespacedName \<Rightarrow> history \<Rightarrow> strmap option" where
  "record_data w key h =
     (case sv_get w h gvk_ConfigMap key of (cm, e) \<Rightarrow>
        let data = (if e = None then derefOrEmpty [] (cm_Data cm) else [])
        in if (e = None \<or> isNotFound e) \<and> distinct (map fst data) then Some data else None)"

lemma recordDependents_distinct:
  "distinct (map fst data) \<Longrightarrow> distinct (map fst (recordDependents c d objects data))"
  by (simp add: recordDependents_def Let_def distinct_update split: option.split)

lemma filter_current:
  assumes "distinct (map fst data)"
  shows "filter (\<lambda>(k, _). k = getCurrentGenKey d) (recordDependents c d objects data) =
    [(getCurrentGenKey d, fst (cd_marshal c (map asUnstructured objects)))]"
proof -
  have "filter (\<lambda>(k, _). k = a) xs = [(a, b)]" if "distinct (map fst xs)" "map_of xs a = Some b"
    for xs :: strmap and a b
    using that
  proof (induction xs)
    case (Cons x xs)
    then show ?case by (cases x) (auto simp: filter_empty_conv image_iff dest: map_of_SomeD)
  qed simp
  moreover have "gm_get (recordDependents c d objects data) (getCurrentGenKey d) =
      Some (fst (cd_marshal c (map asUnstructured objects)))" by (simp add: gm_get_recordDependents)
  ultimately show ?thesis using recordDependents_distinct [OF assms] by blast
qed

text \<open>One attempt to record, answered without an error: what is then stored.\<close>

lemma applied_record:
  assumes store: "configmap_store w (lifecycleKey d)" and data: "record_data w (lifecycleKey d) h = Some data"
    and run: "applyDependentsRecord w c d objects h = (None, h')"
  obtains cm where "of_key (lifecycleKey d) cm"
    "snd (sv_apply w (h @ [CGet gvk_ConfigMap (lifecycleKey d)]) cm False) = None"
    "cm_Data cm = Some (recordDependents c d objects data)"
    "h' = h @ [CGet gvk_ConfigMap (lifecycleKey d), CApply cm False]"
proof -
  obtain cm0 e where get: "sv_get w h gvk_ConfigMap (lifecycleKey d) = (cm0, e)" by (rule prod.exhaust)
  let ?init = "if e = None then cm0
    else mkObject ''v1'' ''ConfigMap'' (named (getConfigMapName d) (lm_Namespace d)) (ConfigMapBody None)"
  let ?cm = "set_managedFields [] (addOwnerReference (lm_Transformations d)
      (addCommonLabels (lm_Version d) (lm_Transformations d)
        (set_cm_Data (recordDependents c d objects data) ?init) ComponentInstanaAgent))"
  have found: "e = None \<or> isNotFound e"
    using data get by (simp add: record_data_def Let_def split: if_splits)
  have d: "derefOrEmpty [] (cm_Data ?init) = data"
    using data get by (cases e) (simp_all add: record_data_def Let_def split: if_splits)
  have "of_key (lifecycleKey d) ?init"
    using get configmap_storeD(1) [OF store]
    by (cases e) (auto simp: of_key_def lifecycleKey_def objectKeyFromObject_def get_name_def get_namespace_def
        mkObject_def get_gvk_def fromAPIVersionAndKind_def gvk_ConfigMap_def)
  then have "of_key (lifecycleKey d) ?cm" by (simp add: of_key_def objectKeyFromObject_def)
  moreover have "snd (sv_apply w (h @ [CGet gvk_ConfigMap (lifecycleKey d)]) ?cm False) = None"
    "h' = h @ [CGet gvk_ConfigMap (lifecycleKey d), CApply ?cm False]"
    using run get found d by (cases e; simp add: applyDependentsRecord_eq)+
  ultimately show thesis by (intro that) simp_all
qed

subsection \<open>A run of \<open>ApplyAll\<close>\<close>

text \<open>A run without an error, phase by phase.\<close>

lemma ApplyAll_nil:
  assumes run: "ApplyAll w ou builders s h = ((Ret None, s'), h')"
    and b1: "buildObjects ou builders s = (Ret dryObjects, s1)"
    and b2: "buildObjects ou builders s1 = (Ret objects, s2)"
  defines "h1 \<equiv> h @ map (apply_call True) dryObjects"
  obtains h2 where "ou_Update ou objects h1 = (None, h2)" "batch_accepted w objects False h2"
    "ou_Cleanup ou (map (\<lambda>i. fst (apply_response w objects False h2 i)) [0..<length objects])
       (h2 @ map (apply_call False) objects) = (None, h')"
proof -
  obtain e2 h2 where u: "ou_Update ou objects h1 = (e2, h2)" by force
  have "snd (fst (applyObjects w dryObjects True [] h)) = None"
    using run b1 by (auto simp: ApplyAll_def newMultiErrorBuilder_def split_beta split: if_splits)
  then have "e2 = None \<and> snd (fst (applyObjects w objects False [] h2)) = None \<and>
      ou_Cleanup ou (fst (fst (applyObjects w objects False [] h2))) (snd (applyObjects w objects False [] h2)) = (None, h')"
    using run b1 b2 u
    by (auto simp: ApplyAll_def newMultiErrorBuilder_def split_beta applyObjects_history h1_def prod_eq_iff split: if_splits)
  with u that [of h2] show thesis
    by (simp add: applyObjects_history applyObjects_objects applyObjects_error)
qed

text \<open>The dependents that the clean-up gets are the server's answers; they have the references of the objects applied.\<close>

lemma responses_identity:
  assumes "keeps_identity w"
  shows "map asUnstructured (map (\<lambda>i. fst (apply_response w objects dryRun h i)) [0..<length objects]) =
    map asUnstructured objects"
  using assms by (auto intro!: nth_equalityI simp: apply_response_def keeps_identity_def asUnstructured_def)

text \<open>
  An \<open>operatorUtils\<close> whose lifecycle manager makes one attempt; and the ConfigMap that a clean-up
  reads after a record was applied and then objects that are not that ConfigMap: the record.
\<close>

definition single_attempt :: "world \<Rightarrow> codec \<Rightarrow> lifecycleManager \<Rightarrow> operatorUtils \<Rightarrow> bool" where
  "single_attempt w c d ou \<longleftrightarrow>
     ou_Update ou = applyDependentsRecord w c d \<and> ou_Cleanup ou = cleanupOnce w c d"

lemma record_read_back:
  assumes store: "configmap_store w (lifecycleKey d)" and "record_data w (lifecycleKey d) h = Some data"
    and "applyDependentsRecord w c d objects h = (None, h2)"
    and "\<forall>obj\<in>set objects. \<not> of_key (lifecycleKey d) obj"
  obtains cm where "sv_get w (h2 @ map (apply_call False) objects) gvk_ConfigMap (lifecycleKey d) = (cm, None)"
    "of_key (lifecycleKey d) cm" "cm_Data cm = Some (recordDependents c d objects data)" "prefix h h2"
proof -
  obtain cm where cm: "of_key (lifecycleKey d) cm"
    "snd (sv_apply w (h @ [CGet gvk_ConfigMap (lifecycleKey d)]) cm False) = None"
    "cm_Data cm = Some (recordDependents c d objects data)"
    "h2 = h @ [CGet gvk_ConfigMap (lifecycleKey d), CApply cm False]"
    using applied_record [OF assms(1-3)] by blast
  obtain cm' where "sv_get w ((h @ [CGet gvk_ConfigMap (lifecycleKey d)]) @ CApply cm False # map (apply_call False) objects)
      gvk_ConfigMap (lifecycleKey d) = (cm', None)" "cm_Data cm' = cm_Data cm"
    using configmap_storeD(2) [OF store cm(1,2) applies_write_nothing(2) [OF assms(4)]] by blast
  with cm(3,4) configmap_storeD(1) [OF store] show thesis by (intro that [of cm']) auto
qed

text \<open>What a run without an error has removed.\<close>

lemma orphans_removed:
  assumes "single_attempt w c d ou" "keeps_identity w" and store: "configmap_store w (lifecycleKey d)"
    and run: "ApplyAll w ou builders s h = ((Ret None, s'), h')"
    and b1: "buildObjects ou builders s = (Ret dryObjects, s1)" and b2: "buildObjects ou builders s1 = (Ret objects, s2)"
    and others: "\<forall>obj\<in>set objects. \<not> of_key (lifecycleKey d) obj"
    and data: "record_data w (lifecycleKey d) (h @ map (apply_call True) dryObjects) = Some data"
    and k: "gm_get data k = Some json" "survives d data k"
    and u: "u \<in> set (fst (cd_unmarshal c json))" "u \<notin> set (map asUnstructured objects)"
  shows "seen_absent w h h' (asObject u)"
proof -
  obtain h2 where upd: "applyDependentsRecord w c d objects (h @ map (apply_call True) dryObjects) = (None, h2)" and
    cl: "cleanupOnce w c d (map (\<lambda>i. fst (apply_response w objects False h2 i)) [0..<length objects])
      (h2 @ map (apply_call False) objects) = (None, h')" (is "cleanupOnce w c d ?cur ?h3 = _")
    using ApplyAll_nil [OF run b1 b2] assms(1) unfolding single_attempt_def by metis
  obtain cm where cm: "sv_get w ?h3 gvk_ConfigMap (lifecycleKey d) = (cm, None)"
    "cm_Data cm = Some (recordDependents c d objects data)" "prefix (h @ map (apply_call True) dryObjects) h2"
    using record_read_back [OF store data upd others] by blast
  obtain k' where "gm_get (recordDependents c d objects data) k' = Some json"
    using recordDependents_survives [OF k] by blast
  then have entry: "(k', json) \<in> set (derefOrEmpty [] (cm_Data (fst (sv_get w ?h3 gvk_ConfigMap (lifecycleKey d)))))"
    by (simp add: cm map_of_SomeD)
  have "u \<in> set (deprecated c ?cur json)"
    using u responses_identity [OF assms(2), of objects False h2]
    by (simp add: deprecated_def deep_checker.diff_set del: map_map)
  with cl entry have "seen_absent w ?h3 h' (asObject u)" by (elim cleanupOnce_success) fastforce
  moreover have "prefix h ?h3" using cm(3) by (auto simp: prefix_def)
  ultimately show ?thesis by (rule seen_absent_mono) simp
qed

subsection \<open>Without conflicts the manager of the agent makes one attempt\<close>

text \<open>No answer of the API server, and no error of the context, is one that \<open>retry\<close> takes for a conflict.\<close>

definition conflict_free :: "world \<Rightarrow> bool" where
  "conflict_free w \<longleftrightarrow>
     (\<forall>h obj dryRun. \<not> isConflictError (snd (sv_apply w h obj dryRun))) \<and>
     (\<forall>h obj. \<not> isConflictError (sv_delete w h obj)) \<and> (\<forall>h. \<not> isConflictError (sv_ctxErr w h))"

lemma isConflictError_nil [simp]: "\<not> isConflictError None"
  by (simp add: isConflictError_def)

lemma reason_for_error_multi:
  "reason_for_error (EMulti es) = Some r \<Longrightarrow> \<exists>e\<in>set es. reason_for_error e = Some r"
proof (induction es)
  case (Cons e es)
  then show ?case
    by (cases "filter is_status (err_tree e)") (auto simp: reason_for_error_def split: list.splits goerr.splits)
qed (simp add: reason_for_error_def)

lemma isConflictError_multi:
  assumes "\<forall>e\<in>set es. \<not> isConflictError (Some e)" "es \<noteq> []"
  shows "\<not> isConflictError (Some (EMulti es))"
proof (cases "\<exists>e. es = [e]")
  case True
  with assms show ?thesis by (auto simp: isConflictError_def isConflict_def)
next
  case False
  then have "\<exists>s. err_msg (EMulti es) = ''Multiple Errors:'' @ s" by (auto split: list.splits)
  moreover have "\<not> isConflict (Some (EMulti es))"
    using reason_for_error_multi [of es Conflict] assms
    by (fastforce simp: isConflict_def isConflictError_def split: if_splits)
  ultimately show ?thesis by (auto simp: isConflictError_def)
qed

lemma isConflictError_meb_build:
  assumes "\<forall>e\<in>set m. \<not> isConflictError e"
  shows "\<not> isConflictError (meb_build m)"
  using assms isConflictError_multi [of "map the (filter (\<lambda>e. e \<noteq> None) m)"]
  by (auto simp: meb_build_eq filter_empty_conv)

lemma conflict_free_ctx: "conflict_free w \<Longrightarrow> \<not> isConflictError (ctx_Err w deadline h)"
  by (simp add: ctx_Err_def conflict_free_def DeadlineExceeded_def isConflictError_def)

lemma conflict_free_verify:
  "conflict_free w \<Longrightarrow> \<not> isConflictError (fst (verifyDeletion w deadline objects waitTime h))"
  using verifyDeletion_trace [of w deadline objects waitTime h, OF prod.collapse [symmetric]] conflict_free_ctx
  by (metis isConflictError_nil)

lemma conflict_free_delete:
  "conflict_free w \<Longrightarrow> \<not> isConflictError (fst (deleteAllInTimeLimit w objects timeout waitTime h))"
  by (auto simp: deleteAllInTimeLimit_def deleteAll_eq newMultiErrorBuilder_def Let_def conflict_free_verify
      conflict_free_def delete_response_def ignoreNotFound_def intro!: isConflictError_meb_build)

lemma conflict_free_loop:
  assumes "conflict_free w" "\<forall>e\<in>set m. \<not> isConflictError e"
  shows "\<forall>e\<in>set (snd (fst (cleanupLoop w c d cur entries data m h))). \<not> isConflictError e"
  using assms(2)
proof (induction entries arbitrary: data m h)
  case (Cons kv entries)
  obtain key json where kv: "kv = (key, json)" by (cases kv)
  have "\<not> isConflictError (snd (fst (deleteDependents w us h)))" for us
    using conflict_free_delete [OF assms(1)]
    by (simp add: deleteDependents_def client_DeleteAllInTimeLimit_def result_defs split_beta)
  with Cons.prems have "\<forall>e\<in>set (if e1 \<noteq> None then meb_addSingle e1 m else m). \<not> isConflictError e"
    if "e1 = snd (fst (deleteDependents w us h))" for us e1 using that by (auto simp: meb_defs)
  from Cons.IH [OF this [OF refl]] show ?case by (simp add: kv Let_def split_beta del: if_not_P)
qed simp

lemma conflict_free_onFailure:
  "\<not> isConflictError (err r) \<Longrightarrow> \<forall>e\<in>set m. \<not> isConflictError e \<Longrightarrow>
   \<forall>e\<in>set (onFailure r meb_addSingle m). \<not> isConflictError e"
  by (auto simp: onFailure_def meb_defs)

lemma conflict_free_cleanup:
  assumes "conflict_free w" shows "\<not> isConflictError (fst (cleanupOnce w c d cur h))"
proof -
  let ?cm = "fst (sv_get w h gvk_ConfigMap (lifecycleKey d))"
  let ?h1 = "h @ [CGet gvk_ConfigMap (lifecycleKey d)]"
  let ?data = "derefOrEmpty [] (cm_Data ?cm)"
  let ?loop = "cleanupLoop w c d (asUnstructureds cur) ?data ?data [] ?h1"
  let ?r = "client_Apply w (if cm_Data ?cm = None then ?cm else set_cm_Data (fst (fst ?loop)) ?cm) False (snd ?loop)"
  have once: "cleanupOnce w c d cur h = (meb_build (onFailure (fst ?r) meb_addSingle (snd (fst ?loop))), snd ?r)"
    by (simp only: cleanupOnce_def getLifecycleConfigMap_def client_Get_def lifecycleKey_def
        newMultiErrorBuilder_def Let_def split_beta fst_conv snd_conv)
  have loop: "\<forall>e\<in>set (snd (fst ?loop)). \<not> isConflictError e"
    using conflict_free_loop [OF assms, of "[]"] by simp
  have app: "\<not> isConflictError (err (fst (client_Apply w cm False g)))" for cm g
    using assms by (simp add: client_Apply_def Let_def split_beta result_Of_def conflict_free_def)
  show ?thesis
    unfolding once fst_conv by (rule isConflictError_meb_build [OF conflict_free_onFailure [OF app loop]])
qed

lemma conflict_free_update:
  "conflict_free w \<Longrightarrow> \<not> isConflict (fst (applyDependentsRecord w c d objects h))"
  unfolding conflict_free_def applyDependentsRecord_eq fst_conv isConflictError_def
  by (metis (no_types, lifting) isConflict_None option.case_eq_if option.collapse)

lemma update_without_conflicts:
  assumes "conflict_free w"
  shows "updateDependentLifecycleInfo w c d objects h = remote_updateDependentLifecycleInfo w c d objects h"
  unfolding updateDependentLifecycleInfo_def remote_updateDependentLifecycleInfo_def
  using conflict_free_update [OF assms, of c d objects h]
  by (subst retry_first_finished) (auto simp: updateAttempt_def split_beta)

lemma cleanup_without_conflicts:
  assumes "conflict_free w"
  shows "cleanupDependents w c d objects h = remote_cleanupDependents w c d objects h"
  unfolding cleanupDependents_def remote_cleanupDependents_def
  using conflict_free_cleanup [OF assms, of c d objects h]
  by (subst retry_first_finished) (auto simp: cleanupAttempt_def split_beta)

text \<open>
  C38: the two lifecycle managers are one as long as no answer is a conflict: recording and cleaning
  up have the same result and make the same calls, since \<open>retry\<close> returns after its first attempt.
\<close>

theorem managers_agree_without_conflicts:
  assumes "conflict_free w"
  shows "updateDependentLifecycleInfo w c d objects h = remote_updateDependentLifecycleInfo w c d objects h \<and>
    cleanupDependents w c d objects h = remote_cleanupDependents w c d objects h"
  using assms by (simp add: update_without_conflicts cleanup_without_conflicts)

lemma conflict_free_simWorld [simp]: "conflict_free (simWorld initial agent remote)"
  by (simp add: conflict_free_def simWorld_def isConflictError_def notFoundErr_def split: option.splits)

theorem managers_agree_without_conflicts_witness:
  "conflict_free exampleWorld \<and>
   cleanupDependents exampleWorld exampleCodec exampleManager [exampleSecret] [] =
     remote_cleanupDependents exampleWorld exampleCodec exampleManager [exampleSecret] []"
  using managers_agree_without_conflicts [of exampleWorld exampleCodec exampleManager "[exampleSecret]" "[]"]
  by simp

lemma single_attempt_remote:
  "single_attempt w c (newRemoteDependentLifecycleManager ver agent) (newRemoteOperatorUtils w c ver agent)"
  by (simp add: single_attempt_def newRemoteOperatorUtils_def Let_def fun_eq_iff
      remote_updateDependentLifecycleInfo_def remote_cleanupDependents_def)

lemma single_attempt_agent:
  "conflict_free w \<Longrightarrow>
   single_attempt w c (newDependentLifecycleManager ver agent) (newOperatorUtils w c ver agent)"
  by (simp add: single_attempt_def newOperatorUtils_def Let_def fun_eq_iff update_without_conflicts
      cleanup_without_conflicts remote_updateDependentLifecycleInfo_def remote_cleanupDependents_def)

subsection \<open>What an older generation left behind is removed\<close>

text \<open>
  C9: a run for an agent that succeeds, with no conflict on the way, has removed what earlier runs
  left behind: every reference that a surviving entry of the record held when the record was read,
  and that is not among the objects the run built, was reported absent by the end of the run.
\<close>

theorem agent_orphans_removed:
  fixes w c ver agent
  defines "d \<equiv> newDependentLifecycleManager ver agent" and "ou \<equiv> newOperatorUtils w c ver agent"
  assumes "conflict_free w" "keeps_identity w" "configmap_store w (lifecycleKey d)"
    and "ApplyAll w ou builders s h = ((Ret None, s'), h')"
    and "buildObjects ou builders s = (Ret dryObjects, s1)" "buildObjects ou builders s1 = (Ret objects, s2)"
    and "\<forall>obj\<in>set objects. \<not> of_key (lifecycleKey d) obj"
    and "record_data w (lifecycleKey d) (h @ map (apply_call True) dryObjects) = Some data"
    and "gm_get data k = Some json" "survives d data k"
    and "u \<in> set (fst (cd_unmarshal c json))" "u \<notin> set (map asUnstructured objects)"
  shows "seen_absent w h h' (asObject u)"
  using single_attempt_agent [OF assms(3)] assms(4-) unfolding d_def ou_def by (rule orphans_removed)

text \<open>The same for a remote agent, whose manager needs no assumption on conflicts.\<close>

lemma remote_orphans_removed:
  fixes w c ver agent
  defines "d \<equiv> newRemoteDependentLifecycleManager ver agent" and "ou \<equiv> newRemoteOperatorUtils w c ver agent"
  assumes "keeps_identity w" "configmap_store w (lifecycleKey d)"
    and "remote_ApplyAll w c ver agent builders s h = ((Ret None, s'), h')"
    and "buildObjects ou builders s = (Ret dryObjects, s1)" "buildObjects ou builders s1 = (Ret objects, s2)"
    and "\<forall>obj\<in>set objects. \<not> of_key (lifecycleKey d) obj"
    and "record_data w (lifecycleKey d) (h @ map (apply_call True) dryObjects) = Some data"
    and "gm_get data k = Some json" "survives d data k"
    and "u \<in> set (fst (cd_unmarshal c json))" "u \<notin> set (map asUnstructured objects)"
  shows "seen_absent w h h' (asObject u)"
  using single_attempt_remote assms(3-) unfolding d_def ou_def remote_ApplyAll_def by (rule orphans_removed)

text \<open>The in-memory server stores ConfigMaps as required, deletes at once and answers without delay.\<close>

lemma simWorld_get:
  "sv_get (simWorld initial agent remote) h gvk key =
     (case sim_stored initial (rev h) gvk key of Some obj \<Rightarrow> (obj, None) | None \<Rightarrow> (emptyObject, Some notFoundErr))"
  by (simp add: simWorld_def)

lemma simWorld_timing [simp]:
  "sv_ctxErr (simWorld initial agent remote) h = None"
  "sv_latency (simWorld initial agent remote) i = 0"
  "sv_apply (simWorld initial agent remote) h obj dryRun = (obj, None)"
  by (simp_all add: simWorld_def)

lemma sim_stored_unwritten:
  "list_all (\<lambda>c. \<not> writes_key key c) tr \<Longrightarrow>
     sim_stored initial (tr @ h) gvk_ConfigMap key = sim_stored initial h gvk_ConfigMap key"
  by (induction tr) (auto simp: writes_key_def of_key_def split: call.splits)

lemma configmap_store_simWorld: "configmap_store (simWorld initial agent remote) key"
proof -
  have "of_key key cm" if "sv_get (simWorld initial agent remote) h gvk_ConfigMap key = (cm, None)" for h cm
    using that sim_stored_key [of initial "rev h" gvk_ConfigMap key cm]
    by (simp add: simWorld_get of_key_def split: option.splits)
  moreover have "sim_stored initial (rev (h @ CApply cm False # tr)) gvk_ConfigMap key = Some cm"
    if "of_key key cm" "list_all (\<lambda>c. \<not> writes_key key c) tr" for h cm tr
    using that sim_stored_unwritten [of key "rev tr" initial "CApply cm False # rev h"] by (simp add: of_key_def)
  ultimately show ?thesis by (simp add: configmap_store_def simWorld_get del: rev_append)
qed

lemma simWorld_delete:
  "deleteAllInTimeLimit (simWorld initial agent remote) [asObject secretRef] t p h =
     (None, h @ [CDelete (asObject secretRef), existence_check (asObject secretRef)])" if "2 < t" for t p
proof -
  have "ignoreNotFound (sv_delete (simWorld initial agent remote) h obj) = None" for obj
    by (auto simp: simWorld_def ignoreNotFound_def notFoundErr_def split: option.splits)
  moreover have "sv_get (simWorld initial agent remote) (h @ [CDelete (asObject secretRef)]) gvk_Secret
      \<lparr>nn_Namespace = ''ns'', nn_Name = ''agent''\<rparr> = (emptyObject, Some notFoundErr)"
    by (simp add: simWorld_def)
  ultimately show ?thesis
    using that clock_snoc [of "simWorld initial agent remote" h "CDelete (asObject secretRef)"]
    by (simp add: deleteAllInTimeLimit_def deleteAll_eq delete_response_def newMultiErrorBuilder_def
        Let_def verifyDeletion.simps [of _ _ _ _ "h @ [CDelete (asObject secretRef)]"]
        ctx_Err_def notFoundErr_def list_All_def doNotExist_iff client_Exists_result split_beta)
qed

lemma simWorld_delete_nothing:
  "deleteAllInTimeLimit (simWorld initial agent remote) [] t p h = (None, h)" if "0 < t" for t p
  using that by (simp add: deleteAllInTimeLimit_def deleteAll_eq newMultiErrorBuilder_def Let_def
      verifyDeletion.simps [of _ _ _ _ h] ctx_Err_def list_All_def)

lemma simWorld_run:
  fixes initial agent remote
  defines "w \<equiv> simWorld initial agent remote"
  assumes one: "single_attempt w c d ou"
    and b1: "buildObjects ou builders s = (Ret dryObjects, s1)" and b2: "buildObjects ou builders s1 = (Ret objects, s2)"
    and others: "\<forall>obj\<in>set objects. \<not> of_key (lifecycleKey d) obj"
    and data: "record_data w (lifecycleKey d) (h @ map (apply_call True) dryObjects) = Some data"
    and cl: "\<And>g cm cur. sv_get w g gvk_ConfigMap (lifecycleKey d) = (cm, None) \<Longrightarrow>
      cm_Data cm = Some (recordDependents c d objects data) \<Longrightarrow> map asUnstructured cur = map asUnstructured objects \<Longrightarrow>
      fst (cleanupOnce w c d cur g) = None"
  shows "\<exists>h'. ApplyAll w ou builders s h = ((Ret None, s2), h')"
proof -
  obtain h2 where upd: "applyDependentsRecord w c d objects (h @ map (apply_call True) dryObjects) = (None, h2)"
    by (simp add: applyDependentsRecord_eq w_def)
  let ?cur = "map (\<lambda>i. fst (apply_response w objects False h2 i)) [0..<length objects]"
  let ?h3 = "h2 @ map (apply_call False) objects"
  obtain cm where "sv_get w ?h3 gvk_ConfigMap (lifecycleKey d) = (cm, None)"
    "cm_Data cm = Some (recordDependents c d objects data)"
    using record_read_back [OF configmap_store_simWorld data [unfolded w_def] upd [unfolded w_def] others]
    unfolding w_def by blast
  then have "fst (cleanupOnce w c d ?cur ?h3) = None"
    by (rule cl) (use responses_identity [of w objects False h2] in \<open>simp add: w_def\<close>)
  then obtain h' where "cleanupOnce w c d ?cur ?h3 = (None, h')" by (metis prod.collapse)
  moreover have "snd (fst (applyObjects w objs dryRun [] g)) = None" for objs dryRun g
    by (simp add: applyObjects_error batch_accepted_def apply_response_def w_def)
  ultimately show ?thesis
    using one b1 b2 upd by (simp add: ApplyAll_def newMultiErrorBuilder_def split_beta single_attempt_def
        applyObjects_history applyObjects_objects)
qed

text \<open>A ConfigMap of an older operator version records a Secret; the run builds nothing.\<close>

definition emptyingCodec :: codec where
  "emptyingCodec = \<lparr>cd_marshal = (\<lambda>us. (''[]'', None)),
     cd_unmarshal = (\<lambda>s. (if s = '''' then [secretRef] else [], None))\<rparr>"

abbreviation orphanWorld :: world where
  "orphanWorld \<equiv> simWorld [oldRecord, exampleSecret] exampleAgent exampleRemote"

lemma oldRecord_simps [simp]:
  "get_gvk oldRecord = gvk_ConfigMap" "objectKeyFromObject oldRecord = lifecycleKey exampleManager"
  "cm_Data oldRecord = Some [(''v0_1'', '''')]" "getCurrentGenKey exampleManager = ''v1_1''"
proof -
  show "get_gvk oldRecord = gvk_ConfigMap"
    by (simp add: oldRecord_def get_gvk_def mkObject_def fromAPIVersionAndKind_def gvk_ConfigMap_def)
  show "objectKeyFromObject oldRecord = lifecycleKey exampleManager"
    by (simp add: oldRecord_def lifecycleKey_def exampleManager_def newDependentLifecycleManager_def getConfigMapName_def
        example_defs objectKeyFromObject_def mkObject_def get_name_def get_namespace_def)
  show "cm_Data oldRecord = Some [(''v0_1'', '''')]" by (simp add: oldRecord_def)
  show "getCurrentGenKey exampleManager = ''v1_1''"
    by (simp add: getCurrentGenKey_def exampleManager_def newDependentLifecycleManager_def example_defs itoa_def
        itoa_nat.simps [of "Suc 0"] digit_char_def char_of_def bit_0)
qed

lemma orphan_recorded: "record_data orphanWorld (lifecycleKey exampleManager) [] = Some [(''v0_1'', '''')]"
  by (simp add: record_data_def simWorld_get)

lemma orphan_cleanup:
  assumes "sv_get orphanWorld h gvk_ConfigMap (lifecycleKey exampleManager) = (cm, None)"
    and "cm_Data cm = Some [(''v0_1'', ''''), (''v1_1'', ''[]'')]"
  shows "fst (cleanupOnce orphanWorld emptyingCodec exampleManager [] h) = None"
  using assms
  by (simp add: cleanupOnce_def getLifecycleConfigMap_def client_Get_def flip: lifecycleKey_def)
    (simp add: emptyingCodec_def deleteDependents_def client_DeleteAllInTimeLimit_def
      list_Diff_def newDeepChecker_def simWorld_delete simWorld_delete_nothing result_defs client_Apply_def
      newMultiErrorBuilder_def Let_def split_beta)

abbreviation orphanUtils :: operatorUtils where
  "orphanUtils \<equiv> newOperatorUtils orphanWorld emptyingCodec ''v1'' exampleAgent"

lemma single_attempt_orphan: "single_attempt orphanWorld emptyingCodec exampleManager orphanUtils"
  by (simp add: exampleManager_def single_attempt_agent)

lemma orphan_build: "buildObjects orphanUtils [] () = (Ret [], ())"
  by (simp add: buildObjects_def)

lemma orphan_run: "\<exists>h'. ApplyAll orphanWorld orphanUtils [] () [] = ((Ret None, ()), h')"
proof (rule simWorld_run [OF single_attempt_orphan orphan_build orphan_build])
  have data: "recordDependents emptyingCodec exampleManager [] [(''v0_1'', '''')] =
      [(''v0_1'', ''''), (''v1_1'', ''[]'')]"
    by (simp add: recordDependents_def Let_def emptyingCodec_def)
  fix g cm cur
  assume "cm_Data cm = Some (recordDependents emptyingCodec exampleManager [] [(''v0_1'', '''')])"
  then have "cm_Data cm = Some [(''v0_1'', ''''), (''v1_1'', ''[]'')]" by (simp only: data)
  moreover assume "sv_get orphanWorld g gvk_ConfigMap (lifecycleKey exampleManager) = (cm, None)"
    "map asUnstructured cur = map asUnstructured []"
  ultimately show "fst (cleanupOnce orphanWorld emptyingCodec exampleManager cur g) = None"
    using orphan_cleanup by simp
qed (simp_all add: orphan_recorded)

theorem agent_orphans_removed_witness:
  "\<exists>h'. ApplyAll orphanWorld orphanUtils [] () [] = ((Ret None, ()), h') \<and>
     seen_absent orphanWorld [] h' (asObject secretRef)"
proof -
  obtain h' where run: "ApplyAll orphanWorld orphanUtils [] () [] = ((Ret None, ()), h')"
    using orphan_run by blast
  have "seen_absent orphanWorld [] h' (asObject secretRef)"
    by (rule agent_orphans_removed [OF _ _ configmap_store_simWorld run orphan_build orphan_build,
          of "[(''v0_1'', '''')]" "''v0_1''" "''''"])
      (use orphan_recorded in \<open>simp_all add: exampleManager_def [symmetric] survives_def emptyingCodec_def\<close>)
  with run show ?thesis by blast
qed

subsection \<open>A run that builds the same objects again deletes nothing\<close>

text \<open>The ConfigMap that a clean-up applies has the key of the one it has read.\<close>

lemma cleanupOnce_applies:
  assumes "sv_get w h gvk_ConfigMap (lifecycleKey d) = (cm, e)" "of_key (lifecycleKey d) cm"
  obtains g cm' where "snd (cleanupOnce w c d cur h) = g @ [CApply cm' False]" "of_key (lifecycleKey d) cm'"
proof -
  let ?data = "derefOrEmpty [] (cm_Data cm)"
  let ?loop = "cleanupLoop w c d (asUnstructureds cur) ?data ?data [] (h @ [CGet gvk_ConfigMap (lifecycleKey d)])"
  let ?cm = "set_managedFields [] (if cm_Data cm = None then cm else set_cm_Data (fst (fst ?loop)) cm)"
  have "snd (cleanupOnce w c d cur h) = snd ?loop @ [CApply ?cm False]"
    using assms(1) by (simp add: cleanupOnce_def getLifecycleConfigMap_def client_Get_def client_Apply_def
        newMultiErrorBuilder_def Let_def split_beta flip: lifecycleKey_def del: asUnstructureds_eq)
  moreover have "of_key (lifecycleKey d) ?cm"
    using assms(2) by (simp add: of_key_def objectKeyFromObject_def)
  ultimately show thesis by (rule that)
qed

text \<open>After a run without an error the stored record has one entry, with the objects of the run.\<close>

lemma stored_after_run:
  assumes one: "single_attempt w c d ou" and store: "configmap_store w (lifecycleKey d)"
    and run: "ApplyAll w ou builders s h = ((Ret None, s'), h')"
    and b1: "buildObjects ou builders s = (Ret dryObjects, s1)" and b2: "buildObjects ou builders s1 = (Ret objects, s2)"
    and others: "\<forall>obj\<in>set objects. \<not> of_key (lifecycleKey d) obj"
    and data: "record_data w (lifecycleKey d) (h @ map (apply_call True) dryObjects) = Some data"
  obtains g cm where "h' = g @ [CApply cm False]" "snd (sv_apply w g cm False) = None" "of_key (lifecycleKey d) cm"
    "cm_Data cm = Some [(getCurrentGenKey d, fst (cd_marshal c (map asUnstructured objects)))]"
proof -
  obtain h2 where upd: "applyDependentsRecord w c d objects (h @ map (apply_call True) dryObjects) = (None, h2)" and
    cl: "cleanupOnce w c d (map (\<lambda>i. fst (apply_response w objects False h2 i)) [0..<length objects])
      (h2 @ map (apply_call False) objects) = (None, h')" (is "cleanupOnce w c d ?cur ?h3 = _")
    using ApplyAll_nil [OF run b1 b2] one unfolding single_attempt_def by metis
  obtain cm where cm: "sv_get w ?h3 gvk_ConfigMap (lifecycleKey d) = (cm, None)" "of_key (lifecycleKey d) cm"
    "cm_Data cm = Some (recordDependents c d objects data)"
    using record_read_back [OF store data upd others] by blast
  obtain g cm' where g: "h' = g @ [CApply cm' False]" "of_key (lifecycleKey d) cm'"
    using cleanupOnce_applies [OF cm(1,2), of c ?cur] cl by auto
  have "gm_wf data" using data by (auto simp: record_data_def Let_def split: prod.splits if_splits)
  then have filt: "filter (\<lambda>(k, _). k = getCurrentGenKey d) (recordDependents c d objects data) =
      [(getCurrentGenKey d, fst (cd_marshal c (map asUnstructured objects)))]" by (rule filter_current)
  from cl obtain g' cm'' where "h' = g' @ [CApply cm'' False]" "snd (sv_apply w g' cm'' False) = None"
    "cm_Data cm'' = map_option (filter (\<lambda>(k, _). k = getCurrentGenKey d)) (cm_Data cm)"
    by (rule cleanupOnce_success) (simp add: cm(1))
  with g filt cm(3) show thesis by (intro that [of g cm']) simp_all
qed

text \<open>A clean-up deletes only references of the ConfigMap it has read.\<close>

lemma cleanupOnce_deletes_nothing:
  assumes "\<And>k json. (k, json) \<in> set (derefOrEmpty [] (cm_Data (fst (sv_get w h gvk_ConfigMap (lifecycleKey d))))) \<Longrightarrow>
    set (fst (cd_unmarshal c json)) \<subseteq> set (map asUnstructured cur)"
  shows "\<exists>tr. snd (cleanupOnce w c d cur h) = h @ tr \<and> CDelete x \<notin> set tr"
proof -
  let ?data = "derefOrEmpty [] (cm_Data (fst (sv_get w h gvk_ConfigMap (lifecycleKey d))))"
  let ?h1 = "h @ [CGet gvk_ConfigMap (lifecycleKey d)]"
  let ?P = "cleanup_call (\<lambda>u. u \<in> set (map asUnstructured cur)) cur"
  obtain cm' where run: "snd (cleanupOnce w c d cur h) =
      snd (cleanupLoop w c d (asUnstructureds cur) ?data ?data [] ?h1) @ [CApply cm' False]"
    using cleanupOnce_calls [OF refl] by blast
  have "emits ?P (cleanupLoop w c d (asUnstructureds cur) ?data ?data [])"
    using assms by (intro emits_cleanupLoop) blast
  then obtain tr where "snd (cleanupLoop w c d (asUnstructureds cur) ?data ?data [] ?h1) = ?h1 @ tr" "list_all ?P tr"
    by (rule emitsE)
  with run show ?thesis
    by (intro exI [of _ "CGet gvk_ConfigMap (lifecycleKey d) # tr @ [CApply cm' False]"])
      (auto simp: list_all_iff cleanup_call_def)
qed

text \<open>Where the deletions of a run come from, for a manager that makes one attempt.\<close>

lemma ApplyAll_deletes_in_cleanup:
  assumes one: "single_attempt w c d ou"
    and b1: "buildObjects ou builders s = (Ret dryObjects, s1)" and b2: "buildObjects ou builders s1 = (Ret objects, s2)"
    and del: "CDelete x \<in> set (drop (length h) (snd (ApplyAll w ou builders s h)))"
  defines "h1 \<equiv> h @ map (apply_call True) dryObjects"
  obtains h2 cur where "applyDependentsRecord w c d objects h1 = (None, h2)"
    "cur = map (\<lambda>i. fst (apply_response w objects False h2 i)) [0..<length objects]"
    "CDelete x \<in> set (drop (length h) (snd (cleanupOnce w c d cur (h2 @ map (apply_call False) objects))))"
    "CDelete x \<notin> set (drop (length h) (h2 @ map (apply_call False) objects))"
proof -
  obtain e2 h2 where u: "applyDependentsRecord w c d objects h1 = (e2, h2)" by force
  obtain upd where upd: "h2 = h1 @ upd" "list_all (update_call c d objects) upd"
    using emits_applyDependentsRecord [of c d objects w] u unfolding emits_def by (metis snd_conv)
  have quiet: "CDelete x \<notin> set (drop (length h) (h2 @ map (apply_call False) objects))"
    "CDelete x \<notin> set (drop (length h) h2)" "CDelete x \<notin> set (drop (length h) h1)"
    using upd by (auto simp: h1_def list_all_iff update_call_def)
  let ?cur = "map (\<lambda>i. fst (apply_response w objects False h2 i)) [0..<length objects]"
  have "e2 = None \<and> CDelete x \<in> set (drop (length h) (snd (cleanupOnce w c d ?cur (h2 @ map (apply_call False) objects))))"
    using del one b1 b2 u quiet
    by (auto simp: ApplyAll_def newMultiErrorBuilder_def split_beta single_attempt_def applyObjects_history
        applyObjects_objects simp flip: h1_def split: if_splits)
  with u quiet(1) that show thesis by blast
qed

text \<open>What a later run reads, as long as nothing else has written the record in between.\<close>

lemma record_data_kept:
  assumes store: "configmap_store w key" and "of_key key cm" "snd (sv_apply w g cm False) = None"
    and "cm_Data cm = Some data" "gm_wf data" "list_all (\<lambda>c. \<not> writes_key key c) tr"
  shows "record_data w key (g @ CApply cm False # tr) = Some data"
proof -
  obtain cm' where "sv_get w (g @ CApply cm False # tr) gvk_ConfigMap key = (cm', None)" "cm_Data cm' = cm_Data cm"
    using configmap_storeD(2) [OF store assms(2,3,6)] by blast
  with assms(4,5) show ?thesis by (simp add: record_data_def)
qed

lemma reapply_keeps:
  assumes one: "single_attempt w c d ou" and id: "keeps_identity w" and store: "configmap_store w (lifecycleKey d)"
    and b1: "buildObjects ou builders s = (Ret dryObjects, s1)" and b2: "buildObjects ou builders s1 = (Ret objects, s2)"
    and others: "\<forall>obj\<in>set objects. \<not> of_key (lifecycleKey d) obj"
    and data: "record_data w (lifecycleKey d) (h @ map (apply_call True) dryObjects) = Some data"
    and old: "remembered c data \<subseteq> set (map asUnstructured objects)" and dec: "decodes c objects"
  shows "CDelete x \<notin> set (drop (length h) (snd (ApplyAll w ou builders s h)))"
proof
  assume "CDelete x \<in> set (drop (length h) (snd (ApplyAll w ou builders s h)))"
  from one b1 b2 this obtain h2 cur where
    upd: "applyDependentsRecord w c d objects (h @ map (apply_call True) dryObjects) = (None, h2)" and
    cur: "cur = map (\<lambda>i. fst (apply_response w objects False h2 i)) [0..<length objects]" and
    del: "CDelete x \<in> set (drop (length h) (snd (cleanupOnce w c d cur (h2 @ map (apply_call False) objects))))"
      "CDelete x \<notin> set (drop (length h) (h2 @ map (apply_call False) objects))"
    by (rule ApplyAll_deletes_in_cleanup)
  let ?h3 = "h2 @ map (apply_call False) objects"
  obtain cm where cm: "sv_get w ?h3 gvk_ConfigMap (lifecycleKey d) = (cm, None)"
    "cm_Data cm = Some (recordDependents c d objects data)" "prefix (h @ map (apply_call True) dryObjects) h2"
    using record_read_back [OF store data upd others] by blast
  have wf: "gm_wf (recordDependents c d objects data)"
    using data by (intro recordDependents_distinct) (auto simp: record_data_def Let_def split: prod.splits if_splits)
  have "set (fst (cd_unmarshal c json)) \<subseteq> set (map asUnstructured cur)"
    if "(k, json) \<in> set (recordDependents c d objects data)" for k json
  proof -
    from that wf have "gm_get (recordDependents c d objects data) k = Some json" by simp
    from recordDependents_entry [OF this] have "set (fst (cd_unmarshal c json)) \<subseteq> set (map asUnstructured objects)"
      using old dec by (fastforce simp: decodes_def remembered_def)
    then show ?thesis unfolding cur responses_identity [OF id] .
  qed
  then obtain tr where "snd (cleanupOnce w c d cur ?h3) = ?h3 @ tr" "CDelete x \<notin> set tr"
    using cleanupOnce_deletes_nothing [of w ?h3 d c cur x] cm by auto
  moreover have "length h \<le> length ?h3" using cm(3) by (auto simp: prefix_def)
  ultimately show False using del by simp
qed

text \<open>
  C10: a run after a run that returned \<open>nil\<close> deletes nothing when it builds at least the references of
  that run: also when the generation of the agent or the version of the operator has changed,
  whatever the second run's own result is, and whatever calls lie in between. This is under the
  conditions that no answer of the server is a conflict (with conflicts the first run may return
  \<open>nil\<close> without having stored the record); that a read of the record sees its last accepted write, and
  nothing writes it in between; that the first run read the record or found none; that both runs are
  for an agent of the same name and namespace; that the codec decodes what it encoded and the server's
  answers keep an object's identity; and that no built object is the record itself.
\<close>

theorem reapply_deletes_nothing:
  fixes w c ver ver' agent agent'
  defines "d \<equiv> newDependentLifecycleManager ver agent"
    and "ou \<equiv> newOperatorUtils w c ver agent" and "ou' \<equiv> newOperatorUtils w c ver' agent'"
  assumes "conflict_free w" "keeps_identity w" "configmap_store w (lifecycleKey d)"
    and same: "ag_Name agent' = ag_Name agent" "ag_Namespace agent' = ag_Namespace agent"
    and "ApplyAll w ou builders s h = ((Ret None, s'), h')"
    and "buildObjects ou builders s = (Ret dryObjects, s1)" "buildObjects ou builders s1 = (Ret objects, s2)"
    and "\<forall>obj\<in>set objects. \<not> of_key (lifecycleKey d) obj"
    and "record_data w (lifecycleKey d) (h @ map (apply_call True) dryObjects) = Some data"
    and tr: "list_all (\<lambda>c. \<not> writes_key (lifecycleKey d) c) tr"
    and b': "buildObjects ou' builders' t = (Ret dryObjects', t1)" "buildObjects ou' builders' t1 = (Ret objects', t2)"
    and others': "\<forall>obj\<in>set objects'. \<not> of_key (lifecycleKey d) obj"
    and dec: "decodes c objects" "decodes c objects'"
    and sub: "set (map asUnstructured objects) \<subseteq> set (map asUnstructured objects')"
  shows "CDelete x \<notin> set (drop (length (h' @ tr)) (snd (ApplyAll w ou' builders' t (h' @ tr))))"
proof -
  let ?d' = "newDependentLifecycleManager ver' agent'"
  have key: "lifecycleKey ?d' = lifecycleKey d"
    using same by (simp add: d_def lifecycleKey_def getConfigMapName_def newDependentLifecycleManager_def)
  let ?data = "[(getCurrentGenKey d, fst (cd_marshal c (map asUnstructured objects)))]"
  have one: "single_attempt w c d ou" unfolding d_def ou_def by (rule single_attempt_agent) fact
  obtain g cm where g: "h' = g @ [CApply cm False]" "snd (sv_apply w g cm False) = None"
    "of_key (lifecycleKey d) cm" "cm_Data cm = Some ?data"
    using stored_after_run [OF one assms(6,9-13)] by blast
  have "record_data w (lifecycleKey d) (g @ CApply cm False # (tr @ map (apply_call True) dryObjects')) = Some ?data"
    using record_data_kept [OF assms(6) g(3,2,4)] tr applies_write_nothing(1) by simp
  then have read: "record_data w (lifecycleKey ?d') ((h' @ tr) @ map (apply_call True) dryObjects') = Some ?data"
    by (simp add: g(1) key)
  have "remembered c ?data \<subseteq> set (map asUnstructured objects')"
    using dec(1) sub by (auto simp: remembered_def decodes_def split: if_splits)
  then show ?thesis
    using reapply_keeps [OF single_attempt_agent [OF assms(4)] assms(5) _ b' [unfolded ou'_def] _ read _ dec(2)]
      assms(6) others' by (simp add: key ou'_def)
qed

text \<open>An agent with one Secret, reconciled again in its second generation.\<close>

definition secretBuilder :: "unit objectBuilder" where
  "secretBuilder = \<lparr>ob_Build = (\<lambda>s. (Ret (Some exampleSecret), s)), ob_ComponentName = '''', ob_IsNamespaced = True\<rparr>"

definition nextAgent :: instanaAgent where
  "nextAgent = exampleAgent\<lparr>ag_Meta := exampleMeta\<lparr>om_Generation := 2\<rparr>\<rparr>"

abbreviation exampleUtils1 :: operatorUtils where
  "exampleUtils1 \<equiv> newOperatorUtils exampleWorld oneEntryCodec ''v1'' exampleAgent"

abbreviation exampleUtils2 :: operatorUtils where
  "exampleUtils2 \<equiv> newOperatorUtils exampleWorld oneEntryCodec ''v1'' nextAgent"

lemma secretBuilder_builds:
  obtains obj where "buildObjects ou [secretBuilder] s = (Ret [obj], s)" "asUnstructured obj = secretRef"
    "\<not> of_key key obj"
proof -
  obtain obj where obj: "builderTransformer_Apply (ou_Version ou) (ou_Transformations ou) secretBuilder s = (Ret (Some obj), s)"
    "get_gvk obj = gvk_Secret" "get_name obj = ''agent''" "get_namespace obj = ''ns''"
    by (simp add: builderTransformer_Apply_def secretBuilder_def)
      (simp add: exampleSecret_def get_name_def get_namespace_def named_def mkObject_def)
  then show thesis
    by (intro that [of obj]) (simp_all add: buildObjects_def asUnstructured_def secretRef_def of_key_def
        gvk_Secret_def gvk_ConfigMap_def)
qed

lemma example_cleanup:
  assumes "sv_get exampleWorld h gvk_ConfigMap (lifecycleKey exampleManager) = (cm, None)"
    and "cm_Data cm = Some [(''v1_1'', '''')]" "map asUnstructured cur = [secretRef]"
  shows "fst (cleanupOnce exampleWorld oneEntryCodec exampleManager cur h) = None"
  using assms
  by (simp add: cleanupOnce_def getLifecycleConfigMap_def client_Get_def flip: lifecycleKey_def)
    (simp add: oneEntryCodec_def deleteDependents_def client_DeleteAllInTimeLimit_def
      list_Diff_def newDeepChecker_def simWorld_delete_nothing result_defs client_Apply_def
      newMultiErrorBuilder_def Let_def split_beta)

lemma example_run:
  assumes b: "buildObjects exampleUtils1 [secretBuilder] () = (Ret [obj], ())" and obj: "asUnstructured obj = secretRef"
    and other: "\<not> of_key (lifecycleKey exampleManager) obj"
  shows "record_data exampleWorld (lifecycleKey exampleManager) [apply_call True obj] = Some [] \<and>
    (\<exists>h'. ApplyAll exampleWorld exampleUtils1 [secretBuilder] () [] = ((Ret None, ()), h'))"
proof
  show data: "record_data exampleWorld (lifecycleKey exampleManager) [apply_call True obj] = Some []"
    by (simp add: record_data_def simWorld_get notFoundErr_def)
  have one: "single_attempt exampleWorld oneEntryCodec exampleManager exampleUtils1"
    by (simp add: exampleManager_def single_attempt_agent)
  show "\<exists>h'. ApplyAll exampleWorld exampleUtils1 [secretBuilder] () [] = ((Ret None, ()), h')"
  proof (rule simWorld_run [OF one b b])
    fix g cm cur
    assume "cm_Data cm = Some (recordDependents oneEntryCodec exampleManager [obj] [])"
    then have "cm_Data cm = Some [(''v1_1'', '''')]" by (simp add: recordDependents_def Let_def oneEntryCodec_def)
    moreover assume "sv_get exampleWorld g gvk_ConfigMap (lifecycleKey exampleManager) = (cm, None)"
      "map asUnstructured cur = map asUnstructured [obj]"
    ultimately show "fst (cleanupOnce exampleWorld oneEntryCodec exampleManager cur g) = None"
      using obj by (intro example_cleanup) simp_all
  qed (use data other in simp_all)
qed

theorem reapply_deletes_nothing_witness:
  "\<exists>h'. ApplyAll exampleWorld exampleUtils1 [secretBuilder] () [] = ((Ret None, ()), h') \<and>
     CDelete exampleSecret \<notin> set (drop (length h') (snd (ApplyAll exampleWorld exampleUtils2 [secretBuilder] () h')))"
proof -
  let ?key = "lifecycleKey (newDependentLifecycleManager ''v1'' exampleAgent)"
  obtain obj where b: "buildObjects exampleUtils1 [secretBuilder] () = (Ret [obj], ())"
    and obj: "asUnstructured obj = secretRef" "\<not> of_key ?key obj" by (rule secretBuilder_builds)
  obtain obj' where b': "buildObjects exampleUtils2 [secretBuilder] () = (Ret [obj'], ())"
    and obj': "asUnstructured obj' = secretRef" "\<not> of_key ?key obj'" by (rule secretBuilder_builds)
  obtain h' where run: "ApplyAll exampleWorld exampleUtils1 [secretBuilder] () [] = ((Ret None, ()), h')"
    and data: "record_data exampleWorld ?key ([] @ map (apply_call True) [obj]) = Some []"
    using example_run [OF b obj [folded exampleManager_def]] by (auto simp: exampleManager_def)
  have "CDelete exampleSecret \<notin>
      set (drop (length (h' @ [])) (snd (ApplyAll exampleWorld exampleUtils2 [secretBuilder] () (h' @ []))))"
    by (rule reapply_deletes_nothing [OF _ _ configmap_store_simWorld _ _ run b b _ data _ b' b'])
      (use obj obj' in \<open>simp_all add: decodes_def oneEntryCodec_def nextAgent_def exampleAgent_def\<close>)
  with run show ?thesis by auto
qed

end
