(* ===== verification/Uninstall.thy ===== *)
theory Uninstall
  imports Generations
begin

text \<open>
  The deletion of an agent from the finalizer down to the single deletions: what has happened to the
  recorded dependents when a reconciliation drops the finalizer of the operator. This theory adds no
  model of its own; it composes \<open>Controller\<close>, \<open>Operator_Utils\<close>, \<open>Lifecycle\<close> and \<open>Client\<close>.
\<close>

subsection \<open>The clean-up before the finalizer is dropped\<close>

lemma phase_release:
  assumes "finalizer_phase w ou a h h1 continues" "CPatchAgent old new \<in> set (drop (length h) h1)"
    and quiet: "emits no_patch (DeleteAll ou)"
    and dropped: "finalizerV3 \<in> ag_FinalizerSet old - ag_FinalizerSet new"
  shows "\<exists>h2. DeleteAll ou h = (None, h2) \<and> h1 = h2 @ [CPatchAgent old new] \<and> old = a \<and> ag_deleting a \<and> \<not> continues"
  using assms(1)
proof cases
  case (released h2 fs)
  obtain tr where "h2 = h @ tr" "list_all no_patch tr" using quiet released by (metis emitsE snd_conv)
  with released assms(2) show ?thesis by (auto simp: no_patch_notin)
next
  case (cleanup_fails e)
  obtain tr where "h1 = h @ tr" "list_all no_patch tr" using quiet cleanup_fails by (metis emitsE snd_conv)
  with assms(2) show ?thesis by (simp add: no_patch_notin)
qed (use assms(2) dropped in auto)

lemma DeleteAll_attempt:
  assumes "DeleteAll (newOperatorUtils w c ver a) h = (None, h')"
  defines "d \<equiv> newDependentLifecycleManager ver a"
  obtains g e where "prefix h g" "cleanupOnce w c d [] g = (e, h')" "e = None \<or> isConflictError e"
proof -
  have run: "retryFrom 5 (ms 100) (cleanupAttempt w c d []) (Suc 4) h = (None, h')"
    using assms(1) by (simp only: DeleteAll_def newOperatorUtils_def Let_def d_def cleanupDependents_def retry_5
        operatorUtils.simps)
  have pre: "prefix g (snd (cleanupAttempt w c d [] g))" for g
    using emits_prefix [OF emits_cleanupOnce, of g w c d "[]"] by (simp add: cleanupAttempt_def split_beta)
  obtain g finished e where "prefix h g" "cleanupAttempt w c d [] g = ((finished, e), h')"
    "if finished then None = e else True"
    using retryFrom_last [OF run, of 4, OF _ order.refl pre] by auto
  then show thesis by (intro that [of g e]) (auto simp: cleanupAttempt_def split: prod.splits if_splits)
qed

text \<open>The references that the ConfigMap holds at a moment.\<close>

definition recorded_at :: "world \<Rightarrow> codec \<Rightarrow> lifecycleManager \<Rightarrow> history \<Rightarrow> unstructured set" where
  "recorded_at w c d h =
     (\<Union>(k, json)\<in>set (derefOrEmpty [] (cm_Data (fst (sv_get w h gvk_ConfigMap (lifecycleKey d))))).
        set (fst (cd_unmarshal c json)))"

text \<open>
  C5: when a reconciliation drops the finalizer of the operator, the last attempt of the clean-up
  just before read the record and saw every recorded reference absent; unless that attempt ended
  with a conflict, which \<open>retry\<close> does not report.
\<close>

theorem released_after_cleanup:
  assumes laws: "finalizer_laws oe" and run: "Reconcile w oe req h = (out, h')"
    and patch: "CPatchAgent old new \<in> set (drop (length h) h')"
    and dropped: "finalizerV3 \<in> ag_FinalizerSet old - ag_FinalizerSet new"
  defines "d \<equiv> newDependentLifecycleManager (oe_version oe) old"
  shows "\<exists>pre post g. h' = h @ pre @ [CPatchAgent old new] @ post \<and> ag_deleting old \<and>
    prefix h g \<and> snd (cleanupOnce w (oe_codec oe) d [] g) = h @ pre \<and>
    ((\<forall>u\<in>recorded_at w (oe_codec oe) d g. seen_absent w g (h @ pre) (asObject u)) \<or>
     isConflictError (fst (cleanupOnce w (oe_codec oe) d [] g)))"
proof -
  let ?h0 = "h @ [getAgentCall req]"
  have "CPatchAgent old new \<notin> set (drop (length h) h')"
    if "h' = ?h0 \<or> h' = ?h0 @ [getAgentCall req]" using that by auto
  with Reconcile_phase [OF laws run] patch obtain a0 h1 h2 continues tr where
    ph: "finalizer_phase w (agentUtils w oe (agent_Default a0)) (agent_Default a0)
         (?h0 @ [getAgentCall req, CRunCommand cleanup_command]) h1 continues" and
    rest: "if continues then h2 = snd (reconcileResources w oe (agent_Default a0)
      (agentUtils w oe (agent_Default a0)) (setAgentOld a0 newAgentStatusManager) h1) else h2 = h1" and
    tr: "h' = h2 @ tr" "list_all status_update_call tr" by blast
  let ?g0 = "?h0 @ [getAgentCall req, CRunCommand cleanup_command]" and ?a = "agent_Default a0"
  obtain tr1 where tr1: "h2 = h1 @ tr1" "list_all no_patch tr1" "continues \<or> tr1 = []"
    using emits_reconcileResources [of w oe ?a "oe_codec oe" "oe_version oe" "setAgentOld a0 newAgentStatusManager"]
      rest by (cases continues) (auto elim!: emitsE [of _ _ h1])
  obtain tr0 where h1: "h1 = ?g0 @ tr0" using phase_patch [OF ph] by auto
  have "CPatchAgent old new \<in> set (drop (length ?g0) h1)"
    using patch tr tr1 by (auto simp: h1 no_patch_notin list_all_no_patch)
  from phase_release [OF ph this agent_ou.emits_DeleteAll dropped] obtain h3 where
    del: "DeleteAll (agentUtils w oe ?a) ?g0 = (None, h3)" and h3: "h1 = h3 @ [CPatchAgent old new]" "old = ?a"
      "ag_deleting ?a" "\<not> continues" by blast
  obtain g e where g: "prefix ?g0 g" "cleanupOnce w (oe_codec oe) d [] g = (e, h3)" "e = None \<or> isConflictError e"
    using DeleteAll_attempt [OF del] h3(2) unfolding d_def by blast
  have absent: "\<forall>u\<in>recorded_at w (oe_codec oe) d g. seen_absent w g h3 (asObject u)" if "e = None"
    using g(2) unfolding that
    by (rule cleanupOnce_success) (auto simp: recorded_at_def deprecated_def deep_checker.diff_set)
  have "prefix g h3" using emits_prefix [OF emits_cleanupOnce, of g w "oe_codec oe" d "[]"] g(2) by simp
  with g(1) obtain pre where pre: "h3 = h @ pre" by (auto simp: prefix_def)
  from g(1) have "prefix h g" by (auto simp: prefix_def)
  with pre h3 tr tr1 absent g(2,3) show ?thesis
    by (intro exI [of _ pre] exI [of _ tr] exI [of _ g]) auto
qed

text \<open>A reconciliation of a deleted agent whose clean-up returns no error.\<close>

lemma release_run:
  assumes laws: "finalizer_laws oe" and run: "Reconcile w oe req h = (out, h')"
    and found: "snd (sv_getAgent w h req) = None" and got: "sv_getAgent w (h @ [getAgentCall req]) req = (a0, None)"
    and fin: "ag_deleting a0" "finalizerV1 \<notin> ag_FinalizerSet a0" "finalizerV3 \<in> ag_FinalizerSet a0"
    and del: "DeleteAll (agentUtils w oe (agent_Default a0))
      (h @ [getAgentCall req, getAgentCall req, CRunCommand cleanup_command]) = (None, h1)"
  shows "\<exists>new post. h' = h1 @ [CPatchAgent (agent_Default a0) new] @ post \<and>
    ag_FinalizerSet new = ag_FinalizerSet a0 - {finalizerV3}"
proof -
  let ?a = "agent_Default a0" and ?g0 = "h @ [getAgentCall req, getAgentCall req, CRunCommand cleanup_command]"
  from Reconcile_phase [OF laws run] found got obtain h2 h3 continues tr where
    ph: "finalizer_phase w (agentUtils w oe ?a) ?a ?g0 h2 continues" and
    rest: "\<not> continues \<longrightarrow> h3 = h2" and h': "h' = h3 @ tr" by (fastforce split: if_splits)
  from ph have "\<not> continues \<and> (\<exists>fs. h2 = h1 @ [CPatchAgent ?a (set_finalizers fs ?a)] \<and> set fs = ag_FinalizerSet a0 - {finalizerV3})"
    by (rule finalizer_phaseE) (use fin del in auto)
  with rest h' show ?thesis by fastforce
qed

text \<open>A deleted agent whose record holds a Secret of an older version.\<close>

abbreviation deletionWorld :: world where
  "deletionWorld \<equiv> simWorld [oldRecord, exampleSecret] uninstalledAgent exampleRemote"

abbreviation deletionManager :: lifecycleManager where
  "deletionManager \<equiv> newDependentLifecycleManager ''v1'' (agent_Default uninstalledAgent)"

lemma deletionManager_simps [simp]:
  "lifecycleKey deletionManager = lifecycleKey exampleManager" "getCurrentGenKey deletionManager = ''v1_1''"
proof -
  have "ag_Meta (agent_Default uninstalledAgent) = (ag_Meta exampleAgent)\<lparr>om_Finalizers := [finalizerV3], om_DeletionTimestamp := Some 0\<rparr>"
    by (simp add: agentWith_def exampleAgent_def)
  then show "lifecycleKey deletionManager = lifecycleKey exampleManager" "getCurrentGenKey deletionManager = ''v1_1''"
    using oldRecord_simps(4)
    by (simp_all add: exampleManager_def newDependentLifecycleManager_def lifecycleKey_def getConfigMapName_def getCurrentGenKey_def)
qed

lemma deletion_cleanup:
  assumes "sv_get deletionWorld h gvk_ConfigMap (lifecycleKey exampleManager) = (oldRecord, None)"
  shows "fst (cleanupOnce deletionWorld oneEntryCodec deletionManager [] h) = None"
  using assms
  by (simp add: cleanupOnce_def getLifecycleConfigMap_def client_Get_def flip: lifecycleKey_def)
    (simp add: oneEntryCodec_def deleteDependents_def client_DeleteAllInTimeLimit_def
      list_Diff_def newDeepChecker_def simWorld_delete result_defs client_Apply_def
      newMultiErrorBuilder_def Let_def split_beta)

lemma deletion_DeleteAll:
  assumes "sv_get deletionWorld h gvk_ConfigMap (lifecycleKey exampleManager) = (oldRecord, None)"
  shows "\<exists>h1. DeleteAll (agentUtils deletionWorld exampleEnv (agent_Default uninstalledAgent)) h = (None, h1)"
proof -
  have "fst (cleanupDependents deletionWorld oneEntryCodec deletionManager [] h) = None"
    using deletion_cleanup [OF assms] by (simp add: cleanup_without_conflicts remote_cleanupDependents_def)
  then show ?thesis by (simp add: DeleteAll_def newOperatorUtils_def Let_def exampleEnv_def prod_eq_iff)
qed

theorem released_after_cleanup_witness:
  "\<exists>out h' pre post new g. Reconcile deletionWorld exampleEnv exampleKey [] = (out, h') \<and>
     h' = pre @ [CPatchAgent (agent_Default uninstalledAgent) new] @ post \<and>
     asObject ` recorded_at deletionWorld oneEntryCodec deletionManager g \<subseteq> {x. seen_absent deletionWorld g pre x}"
proof -
  let ?g0 = "[getAgentCall exampleKey, getAgentCall exampleKey, CRunCommand cleanup_command]"
  let ?old = "agent_Default uninstalledAgent"
  obtain out h' where run: "Reconcile deletionWorld exampleEnv exampleKey [] = (out, h')" by (rule prod.exhaust)
  have "sv_get deletionWorld ?g0 gvk_ConfigMap (lifecycleKey exampleManager) = (oldRecord, None)"
    by (simp add: simWorld_get)
  from deletion_DeleteAll [OF this] obtain h1 where
    "DeleteAll (agentUtils deletionWorld exampleEnv ?old) ([] @ ?g0) = (None, h1)" by auto
  from release_run [OF exampleEnv_laws run _ _ _ _ _ this] obtain new post where
    "h' = h1 @ [CPatchAgent ?old new] @ post" "ag_FinalizerSet new = {}" by (auto simp: simWorld_def)
  then have new: "CPatchAgent ?old new \<in> set (drop (length ([] :: history)) h')" "ag_FinalizerSet new = {}" by simp_all
  have "finalizerV3 \<in> ag_FinalizerSet ?old - ag_FinalizerSet new" using new(2) by simp
  from released_after_cleanup [OF exampleEnv_laws run new(1) this] obtain pre post g where
    "h' = pre @ [CPatchAgent ?old new] @ post"
    "(\<forall>u\<in>recorded_at deletionWorld oneEntryCodec deletionManager g. seen_absent deletionWorld g pre (asObject u)) \<or>
     isConflictError (fst (cleanupOnce deletionWorld oneEntryCodec deletionManager [] g))"
    by (auto simp: exampleEnv_def)
  moreover have "\<not> isConflictError (fst (cleanupOnce deletionWorld oneEntryCodec deletionManager [] g))"
    by (rule conflict_free_cleanup) simp
  ultimately show ?thesis using run by blast
qed

subsection \<open>The same for a remote agent\<close>

text \<open>
  C37: when a reconciliation of a remote agent drops the finalizer of the operator, the remote agent
  is being deleted and the clean-up just before, a single pass without retries that started in this
  reconciliation, read the record, saw every recorded reference absent, and stored a record that
  keeps at most the entry of the current generation. No conflict is hidden here.
\<close>

theorem remote_released_after_cleanup:
  assumes laws: "finalizer_laws oe" and run: "remote_Reconcile w oe req h = (out, h')"
    and patch: "CPatchRemote old new \<in> set (drop (length h) h')"
    and dropped: "finalizerV3 \<in> ra_FinalizerSet old - ra_FinalizerSet new"
  defines "d \<equiv> newRemoteDependentLifecycleManager (oe_version oe) old"
    and "g \<equiv> h @ [getRemoteCall req, CRunCommand cleanup_command]"
  shows "\<exists>pre post cm'. h' = h @ pre @ [CApply cm' False, CPatchRemote old new] @ post \<and> ra_deleting old \<and>
    (\<forall>u\<in>recorded_at w (oe_codec oe) d g. seen_absent w g (h @ pre @ [CApply cm' False]) (asObject u)) \<and>
    snd (sv_apply w (h @ pre) cm' False) = None \<and>
    cm_Data cm' = map_option (filter (\<lambda>(k, _). k = getCurrentGenKey d))
      (cm_Data (fst (sv_get w g gvk_ConfigMap (lifecycleKey d))))"
proof -
  from remote_patch_placed [OF laws run patch] obtain pre0 post where
    h': "h' = h @ pre0 @ [CPatchRemote old new] @ post" and
    guard: "remote_guarded_patch (remoteUtils w oe old) old new (h @ pre0)" and
    del: "ra_deleting old \<longrightarrow> DeleteAll (remoteUtils w oe old) g = (None, h @ pre0)"
    unfolding g_def by blast
  from guard dropped have deleting: "ra_deleting old" by (auto simp: remote_guarded_patch_def split: if_splits)
  with del have once: "cleanupOnce w (oe_codec oe) d [] g = (None, h @ pre0)"
    by (simp add: DeleteAll_def newRemoteOperatorUtils_def remote_cleanupDependents_def Let_def d_def)
  from once obtain g1 cm' where
    last: "h @ pre0 = g1 @ [CApply cm' False]" "snd (sv_apply w g1 cm' False) = None" and
    data: "cm_Data cm' = map_option (filter (\<lambda>(k, _). k = getCurrentGenKey d))
      (cm_Data (fst (sv_get w g gvk_ConfigMap (lifecycleKey d))))" and
    absent: "\<forall>u\<in>recorded_at w (oe_codec oe) d g. seen_absent w g (h @ pre0) (asObject u)"
    by (rule cleanupOnce_success) (fastforce simp: recorded_at_def deprecated_def deep_checker.diff_set)
  have "prefix g (h @ pre0)" using emits_prefix [OF emits_cleanupOnce, of g w "oe_codec oe" d "[]"] once by simp
  then have "pre0 \<noteq> []" by (auto simp: g_def prefix_def)
  then obtain pre x where pre: "pre0 = pre @ [x]" by (cases pre0 rule: rev_cases) auto
  with last(1) have "(h @ pre) @ [x] = g1 @ [CApply cm' False]" by simp
  then have g1: "g1 = h @ pre" "x = CApply cm' False" by (simp_all only: append1_eq_conv)
  show ?thesis
    using h' deleting data absent last(2) unfolding pre g1
    by (intro exI [of _ pre] exI [of _ post] exI [of _ cm']) simp
qed

text \<open>A deleted remote agent whose record holds a Secret of an older version.\<close>

abbreviation deletedRemote :: instanaAgentRemote where
  "deletedRemote \<equiv> exampleRemote\<lparr>ra_Meta := exampleMeta\<lparr>om_Finalizers := [finalizerV3], om_DeletionTimestamp := Some 0\<rparr>\<rparr>"

abbreviation remoteDeletionWorld :: world where
  "remoteDeletionWorld \<equiv> simWorld [oldRecord, exampleSecret] exampleAgent deletedRemote"

abbreviation remoteDeletionManager :: lifecycleManager where
  "remoteDeletionManager \<equiv> newRemoteDependentLifecycleManager ''v1'' (remote_Default deletedRemote)"

lemma remoteDeletionManager_simps [simp]:
  "lifecycleKey remoteDeletionManager = lifecycleKey exampleManager" "getCurrentGenKey remoteDeletionManager = ''v1_1''"
proof -
  have meta: "ra_Meta (remote_Default deletedRemote) = (ag_Meta exampleAgent)\<lparr>om_Finalizers := [finalizerV3], om_DeletionTimestamp := Some 0\<rparr>"
    by (simp add: remote_Default_def Let_def exampleAgent_def)
  then show "lifecycleKey remoteDeletionManager = lifecycleKey exampleManager" "getCurrentGenKey remoteDeletionManager = ''v1_1''"
    using oldRecord_simps(4)
    by (simp_all add: exampleManager_def newDependentLifecycleManager_def newRemoteDependentLifecycleManager_def
        lifecycleKey_def getConfigMapName_def getCurrentGenKey_def)
qed

lemma remote_deletion_cleanup:
  assumes "sv_get remoteDeletionWorld h gvk_ConfigMap (lifecycleKey exampleManager) = (oldRecord, None)"
  shows "fst (cleanupOnce remoteDeletionWorld oneEntryCodec remoteDeletionManager [] h) = None"
  using assms
  by (simp add: cleanupOnce_def getLifecycleConfigMap_def client_Get_def flip: lifecycleKey_def)
    (simp add: oneEntryCodec_def deleteDependents_def client_DeleteAllInTimeLimit_def
      list_Diff_def newDeepChecker_def simWorld_delete result_defs client_Apply_def
      newMultiErrorBuilder_def Let_def split_beta)

theorem remote_released_after_cleanup_witness:
  "\<exists>out h' pre post new g cm'. remote_Reconcile remoteDeletionWorld exampleEnv exampleKey [] = (out, h') \<and>
     h' = pre @ [CApply cm' False, CPatchRemote (remote_Default deletedRemote) new] @ post \<and>
     secretRef \<in> recorded_at remoteDeletionWorld oneEntryCodec remoteDeletionManager g \<and>
     seen_absent remoteDeletionWorld g (pre @ [CApply cm' False]) (asObject secretRef)"
proof -
  let ?w = remoteDeletionWorld and ?old = "remote_Default deletedRemote"
  let ?new = "remote_set_finalizers [] ?old"
  let ?g = "[getRemoteCall exampleKey, CRunCommand cleanup_command]"
  have w: "sv_getRemote ?w h req = (deletedRemote, None)" "sv_patchRemote ?w h old new = None" for h req old new
    by (simp_all add: simWorld_def)
  have meta: "ra_Finalizers ?old = [finalizerV3]" "ra_deleting ?old"
    by (simp_all add: remote_Default_def Let_def)
  have read: "sv_get ?w ?g gvk_ConfigMap (lifecycleKey exampleManager) = (oldRecord, None)" by (simp add: simWorld_get)
  obtain h1 where del: "DeleteAll (remoteUtils ?w exampleEnv ?old) ?g = (None, h1)"
    using remote_deletion_cleanup [OF read]
    by (simp add: DeleteAll_def newRemoteOperatorUtils_def remote_cleanupDependents_def Let_def exampleEnv_def prod_eq_iff)
  have ga: "getInstanaAgentRemote ?w exampleKey [] = ((Some deletedRemote, reconcileContinue), [getRemoteCall exampleKey])"
    by (simp add: getInstanaAgentRemote_def w isNotFound_def)
  have "oe_removeFinalizer exampleEnv finalizerV3 [finalizerV3] = ([], True)" by (simp add: exampleEnv_def)
  then have "remote_handleDeletion ?w exampleEnv ?old (remoteUtils ?w exampleEnv ?old) [getRemoteCall exampleKey] =
      (reconcileSuccess \<lparr>cr_Requeue = True\<rparr>, h1 @ [CPatchRemote ?old ?new])"
    using meta del by (simp add: remote_handleDeletion_def remote_ctrl_cleanupDependents_def remote_cleanupNodeLabels_def
        remote_updateAgent_def w Let_def)
  then have rec: "snd (remote_reconcile ?w exampleEnv exampleKey s []) = h1 @ [CPatchRemote ?old ?new]" for s
    unfolding remote_reconcile_def ga by (simp add: Let_def)
  obtain out h' where run: "remote_Reconcile ?w exampleEnv exampleKey [] = (out, h')" by (rule prod.exhaust)
  obtain r s h2 where rec2: "remote_reconcile ?w exampleEnv exampleKey newRemoteStatusManager [] = ((r, s), h2)"
    by (metis surj_pair)
  have "\<exists>e. h' = snd (remote_deferStatusUpdate ?w exampleEnv s e h2)"
    using run rec2
    by (auto simp: remote_Reconcile_def Let_def split: prod.splits outcome.splits) (metis snd_conv)+
  then obtain tr where "h' = h2 @ tr" using emits_remote_status by (metis emitsE)
  with rec [of newRemoteStatusManager] rec2 have "CPatchRemote ?old ?new \<in> set (drop (length ([] :: history)) h')" by simp
  moreover have "finalizerV3 \<in> ra_FinalizerSet ?old - ra_FinalizerSet ?new" using meta by simp
  ultimately obtain pre post cm' where h': "h' = [] @ pre @ [CApply cm' False, CPatchRemote ?old ?new] @ post" and
    absent: "\<forall>u\<in>recorded_at ?w (oe_codec exampleEnv) (newRemoteDependentLifecycleManager (oe_version exampleEnv) ?old) ([] @ ?g).
      seen_absent ?w ([] @ ?g) ([] @ pre @ [CApply cm' False]) (asObject u)"
    using remote_released_after_cleanup [OF exampleEnv_laws run] by blast
  have mem: "secretRef \<in> recorded_at ?w oneEntryCodec remoteDeletionManager ?g"
    using read by (simp add: recorded_at_def oneEntryCodec_def)
  have "oe_codec exampleEnv = oneEntryCodec" "oe_version exampleEnv = ''v1''" by (simp_all add: exampleEnv_def)
  with absent mem have "seen_absent ?w ?g (pre @ [CApply cm' False]) (asObject secretRef)" by simp
  with run h' mem show ?thesis
    by (intro exI [of _ out] exI [of _ h'] exI [of _ pre] exI [of _ post] exI [of _ ?new] exI [of _ ?g] exI [of _ cm'])
      (simp only: append_Nil simp_thms)
qed

subsection \<open>Conflicts hide dependents that are left\<close>

lemma reason_for_error_after_plain:
  assumes "\<forall>e\<in>set es. e = DeadlineExceeded"
  shows "reason_for_error (EMulti (es @ [x])) = reason_for_error x"
proof -
  have "filter is_status (concat (map err_tree es)) = []"
    using assms by (induction es) (auto simp: DeadlineExceeded_def)
  then show ?thesis by (simp add: reason_for_error_def)
qed

lemma meb_build_conflict:
  assumes "\<forall>e\<in>set m. e = None \<or> e = Some DeadlineExceeded" "isConflict (Some x)"
  shows "isConflictError (meb_build (m @ [Some x]))"
proof -
  have "reason_for_error (EMulti (map the (filter (\<lambda>e. e \<noteq> None) m) @ [x])) = reason_for_error x"
    using assms(1) by (intro reason_for_error_after_plain) auto
  with assms(2) have "isConflict (meb_build (m @ [Some x]))" by (simp add: meb_build_eq isConflict_def)
  then show ?thesis by (cases "meb_build (m @ [Some x])") (simp_all add: isConflictError_def)
qed

text \<open>
  A server that accepts deletions, within a context that is not cancelled: the only error of
  a deletion is the deadline.
\<close>

definition accepts_deletions :: "world \<Rightarrow> bool" where
  "accepts_deletions w \<longleftrightarrow> (\<forall>h obj. ignoreNotFound (sv_delete w h obj) = None) \<and> (\<forall>h. sv_ctxErr w h = None)"

lemma deletion_deadline:
  assumes "accepts_deletions w"
  shows "fst (deleteAllInTimeLimit w objects timeout waitTime h) \<in> {None, Some DeadlineExceeded}"
proof -
  have "fst (verifyDeletion w deadline objects waitTime g) \<in> {None, Some DeadlineExceeded}" for deadline g
    using verifyDeletion_trace [of w deadline objects waitTime g, OF prod.collapse [symmetric]] assms
    by (auto simp: accepts_deletions_def ctx_Err_def split: if_splits)
  then show ?thesis
    using assms by (auto simp: deleteAllInTimeLimit_def deleteAll_eq newMultiErrorBuilder_def Let_def
        delete_response_def accepts_deletions_def)
qed

lemma cleanupLoop_deadlines:
  assumes "accepts_deletions w" "\<forall>e\<in>set m. e = None \<or> e = Some DeadlineExceeded"
  shows "\<forall>e\<in>set (snd (fst (cleanupLoop w c d cur entries data m h))). e = None \<or> e = Some DeadlineExceeded"
  using assms(2)
proof (induction entries arbitrary: data m h)
  case (Cons kv entries)
  obtain key json where kv: "kv = (key, json)" by (cases kv)
  have "snd (fst (deleteDependents w us h)) \<in> {None, Some DeadlineExceeded}" for us
    using deletion_deadline [OF assms(1)]
    by (simp add: deleteDependents_def client_DeleteAllInTimeLimit_def result_defs split_beta)
  with Cons.prems have "\<forall>e\<in>set (if e1 \<noteq> None then meb_addSingle e1 m else m). e = None \<or> e = Some DeadlineExceeded"
    if "e1 = snd (fst (deleteDependents w us h))" for us e1 using that by (auto simp: meb_defs)
  from Cons.IH [OF this [OF refl]] show ?case by (simp add: kv Let_def split_beta)
qed simp

lemma cleanup_conflict:
  assumes "accepts_deletions w" and conflict: "\<And>g cm. isConflict (snd (sv_apply w g cm False))"
  shows "isConflictError (fst (cleanupOnce w c d cur h))"
proof -
  let ?cm = "fst (sv_get w h gvk_ConfigMap (lifecycleKey d))"
  let ?data = "derefOrEmpty [] (cm_Data ?cm)"
  let ?loop = "cleanupLoop w c d (asUnstructureds cur) ?data ?data [] (h @ [CGet gvk_ConfigMap (lifecycleKey d)])"
  let ?r = "client_Apply w (if cm_Data ?cm = None then ?cm else set_cm_Data (fst (fst ?loop)) ?cm) False (snd ?loop)"
  have once: "cleanupOnce w c d cur h = (meb_build (onFailure (fst ?r) meb_addSingle (snd (fst ?loop))), snd ?r)"
    by (simp only: cleanupOnce_def getLifecycleConfigMap_def client_Get_def lifecycleKey_def
        newMultiErrorBuilder_def Let_def split_beta fst_conv snd_conv)
  have "\<exists>x. err (fst (client_Apply w cm False g)) = Some x \<and> isConflict (Some x)" for cm g
    using conflict [of g "set_managedFields [] cm"]
    by (cases "snd (sv_apply w g (set_managedFields [] cm) False)")
      (simp_all add: client_Apply_def Let_def split_beta result_Of_def)
  then obtain x where x: "err (fst ?r) = Some x" "isConflict (Some x)" by blast
  have "onFailure (fst ?r) meb_addSingle m = m @ [Some x]" for m
    using x by (simp add: onFailure_def isFailure_def isSuccess_def meb_defs)
  then show ?thesis
    unfolding once fst_conv using meb_build_conflict [OF cleanupLoop_deadlines [OF assms(1)] x(2)] by simp
qed

lemma DeleteAll_hides_conflicts:
  assumes "accepts_deletions w" "\<And>g cm. isConflict (snd (sv_apply w g cm False))"
  shows "fst (DeleteAll (newOperatorUtils w c ver a) h) = None"
proof -
  have "\<not> fst (fst (cleanupAttempt w c d cur g))" for d cur g
    using cleanup_conflict [OF assms, of c d cur g]
    by (cases "fst (cleanupOnce w c d cur g)") (auto simp: cleanupAttempt_def split_beta)
  then show ?thesis
    by (simp add: DeleteAll_def newOperatorUtils_def Let_def cleanupDependents_def retry_def retryFrom_unfinished)
qed


text \<open>A Secret that something else keeps from being deleted, and a record that cannot be written.\<close>

definition stuckWorld :: world where
  "stuckWorld = deletionWorld
     \<lparr>sv_get := (\<lambda>h gvk key. if gvk = gvk_ConfigMap then (oldRecord, None) else (exampleSecret, None)),
      sv_apply := (\<lambda>h obj dryRun. (obj, Some (EStatus Conflict ''conflict''))), sv_delete := (\<lambda>h obj. None)\<rparr>"


end
