(* ===== verification/Spec2Isabelle.thy ===== *)
theory Spec2Isabelle
  imports Uninstall
begin

text \<open>
  A verification development of the Instana agent operator.

  \<^bold>\<open>The program.\<close> The operator watches two custom resources, \<open>InstanaAgent\<close> and
  \<open>InstanaAgentRemote\<close>. A controller of each (\<open>src/controllers\<close>) is called with the key of a
  resource: it reads the resource, applies defaults (\<open>src/api/v1\<close>), looks after the finalizers,
  runs a list of builders (\<open>src/pkg/k8s/object/builders\<close>) that turn the spec into Kubernetes
  objects, hands them to \<open>ApplyAll\<close> (\<open>src/pkg/k8s/operator/operator_utils\<close>), which applies them
  as a dry run, records them with the lifecycle manager (\<open>src/pkg/k8s/operator/lifecycle\<close>), applies
  them and deletes what older generations left behind, and finally writes the status
  (\<open>src/pkg/k8s/operator/status\<close>). All access to the cluster goes through
  \<open>src/pkg/k8s/client\<close>. \<open>Add\<close> and \<open>AddRemote\<close> register what is watched, and \<open>event_filter.go\<close> decides
  which watch events start a reconciliation. \<open>src/main.go\<close> configures the cache and the manager,
  registers both controllers, removes the objects of older releases and starts the manager.

  \<^bold>\<open>How it is modelled.\<close> Structs are records, tagged values are datatypes, Go maps are
  association lists with the operations \<open>gm_get\<close>, \<open>gm_put\<close> and \<open>gm_del\<close>, where a \<open>nil\<close> map is
  \<open>None\<close>; \<open>nil\<close> pointers are \<open>None\<close>; an \<open>error\<close> is an option of the datatype \<open>goerr\<close>, which
  keeps what \<open>errors.Is\<close> and \<open>errors.As\<close> can see. A function that can panic returns \<open>Ret\<close> or
  \<open>Panic\<close> (type \<open>go\<close>), and every dereference of a pointer that may be \<open>nil\<close> and every
  \<open>or_die\<close> is such a branch. Integers are \<open>int\<close>: the code copies,
  compares and prints them; its conversions of replica counts and delays to \<open>int32\<close> are \<open>toInt32\<close>, which wraps.

  Everything outside the source is the parameter \<open>world\<close>: a record of response functions that see
  the history of all calls made so far. An operation takes a history and returns its result and
  the longer history, so a theorem about every \<open>world\<close> covers every behaviour of the API server and
  of other writers, and statements about the order of effects are statements about the calls an
  operation appends. Encoders (YAML, JSON, base64, digests), version comparison, Helm, the stack
  trace and the finalizer functions of \<open>controllerutil\<close> are fields of parameter records; what is
  assumed of them are the named predicates \<open>keeps_identity\<close>, \<open>finalizer_laws\<close>, \<open>encoders_total\<close>,
  \<open>serves_agent\<close>, \<open>cleanup_works\<close>, \<open>decodes\<close>, \<open>configmap_store\<close>,
  \<open>conflict_free\<close>, \<open>accepts_deletions\<close> and \<open>answers_match\<close>. Two of them idealise: \<open>configmap_store\<close> and
  \<open>serves_agent\<close> say that a read sees the last accepted write, whereas the operator reads through a
  cache, which may lag behind; only the theorems that name them depend on it. The event handlers and
  predicates of controller-runtime are the parameter \<open>runtime\<close> with the law \<open>runtime_laws\<close>;
  \<open>sources\<close>, \<open>deliver\<close> and \<open>requestsFor\<close> write out the documented meaning of its builder, that an event
  which passes the filter goes to the handlers of all sources of its kind. The functions of the
  standard library that the code uses, among them the escaping of \<open>net/url\<close>, are written out byte by
  byte (\<open>url_escape\<close>, \<open>sanitizeHostname\<close>). The
  environment of \<open>main\<close> is the parameter \<open>process\<close>, its label parser has the law \<open>parse_law\<close>. Witnesses run the model in the in-memory server of
  \<open>Sim_World\<close> and in variants of it. Iterating over a Go map is modelled in the order of the list that
  represents it; where the order could matter the theorems are about sets, or the code sorts.

  \<^bold>\<open>The theories.\<close>

  \<^item> \<open>Prelude\<close>: collections of simplification rules and lemmas on lists and strings.
  \<^item> \<open>Go_Util\<close>: \<open>pkg/optional\<close>, \<open>result\<close>, \<open>multierror\<close>, \<open>recovery\<close>, \<open>or_die\<close>, \<open>pointer\<close>,
    \<open>map_defaulter\<close>, \<open>collections\<close>, \<open>env\<close>, \<open>hash\<close>.
  \<^item> \<open>K8s_Types\<close>, \<open>Api_Types\<close>: the Kubernetes objects that are built or read; specs, status and
    \<open>Default\<close> of both custom resources.
  \<^item> \<open>Transform\<close>: \<open>object/transformations\<close>, the builder transformer, helpers and ports.
  \<^item> \<open>World\<close>, \<open>Sim_World\<close>: the parameter, the predicate \<open>emits\<close> on the calls an operation can make
    with its rules, and the in-memory server.
  \<^item> \<open>Client\<close>: the client wrapper. Deleting within a time limit ends, and \<open>nil\<close> means that every
    object was seen absent. The recursion is justified by the clock, which every call advances.
  \<^item> \<open>Status\<close>: both status managers: one patch per update, exact meaning of the conditions.
  \<^item> \<open>Env_Builder\<close>, \<open>Volume_Builder\<close>: the environment and volume builders of both agents.
  \<^item> \<open>Daemon_Set\<close>, \<open>K8s_Sensor\<close>, \<open>Agent_Objects\<close>, \<open>Secrets\<close>, \<open>Remote_Agent\<close>: the object builders:
    selectors match templates, exactly when volume names differ and mounts have volumes and keys,
    credentials stay in secrets and the proxy address can be taken apart again, names agree.
  \<^item> \<open>Lifecycle\<close>: the record of dependents, its retries and the clean-up; the locale
    \<open>lifecycle_manager\<close> is what \<open>ApplyAll\<close> relies on, interpreted for both managers.
  \<^item> \<open>Operator_Utils\<close>: \<open>ApplyAll\<close> and \<open>DeleteAll\<close>; the locale \<open>operator_utils\<close> proves the order of
    the phases and what may be deleted once for both kinds of agents.
  \<^item> \<open>Reconcile_Util\<close>, \<open>Etcd\<close>: \<open>reconcile_result.go\<close>, \<open>util.go\<close>, the discovery of etcd endpoints and
    the deployment context of \<open>apply.go\<close>: what is discovered is stated over the server's answers, and
    when there is a context is stated completely.
  \<^item> \<open>Controller\<close>: the handlers of the agent's controller and \<open>Reconcile\<close>. The inductive relations
    \<open>finalizer_step\<close> and \<open>finalizer_phase\<close> are the abstract state machine of the finalizers, which
    the code is shown to refine.
  \<^item> \<open>Agent_Reconcile\<close>: a whole reconciliation of an agent: its panics and its success.
  \<^item> \<open>Remote_Controller\<close>: the controller of the remote agent.
  \<^item> \<open>Event_Filter\<close>: the predicates on watch events; for objects that are not custom resources they are
    shown equal to a reference over the managed fields, \<open>dependentPasses\<close>.
  \<^item> \<open>Watch\<close>: what both controllers register, and which requests an event then gives.
  \<^item> \<open>Startup\<close>: \<open>main.go\<close> and \<open>warnings.go\<close>: the cache options, the order of the start-up steps, the
    removal of older releases, the filter of API warnings.
  \<^item> \<open>Ownership\<close>: what the builders, the transformer, the cache and the watches make of each other:
    every object built is visible in the cache, and its events find the agent it was built for. The
    locale \<open>watched_dependents\<close> proves this once for a list of builders and a registration; it is
    interpreted for both controllers.
  \<^item> \<open>Remote_Copies\<close>: the files of the remote agent that repeat those of the agent, transcribed one
    by one and shown equal to the shared definitions the other theories use; these lemmas only
    justify the sharing.
  \<^item> \<open>Composition\<close>: what the record of dependents remembers from one reconciliation to the next, and
    what two custom resources of one name do to each other.
  \<^item> \<open>Generations\<close>: several runs of \<open>ApplyAll\<close>: without conflicts the two lifecycle managers are one, a
    success removes what earlier runs left behind, and building the same objects again deletes nothing.
  \<^item> \<open>Uninstall\<close>: the deletion of an agent and of a remote agent down to the single deletions: what has
    happened to the dependents when the finalizer is dropped, and, for the agent, the conflicts that
    hide what is left of them.

  \<^bold>\<open>Bounds.\<close> No definition has fuel. \<open>retry\<close> counts down its attempts; the polling loop of a
  deletion is a \<open>function\<close> whose measure is the time left to its deadline; all other loops are
  structural.

  \<^bold>\<open>Not modelled.\<close> Log output (the \<open>loggerFor\<close> helpers, \<open>printVersion\<close>, the bridge of the Helm logger); the
  registration of Go types with the scheme (\<open>init\<close>); interface declarations and constructors that only
  store their arguments; the mocks and the end-to-end tests, which are not part of the operator; deep
  copies, which are the identity on values. Where builders share
  and write the label map of the spec, \<open>podTemplateLabels_alias\<close> in \<open>Daemon_Set\<close> shows that the write is
  not observable. The code of controller-runtime, Helm and the API machinery is not part of
  the repository and enters through the parameters above.
\<close>

end
